(* ===== verification/Go_Prelude.thy ===== *)
theory Go_Prelude
  imports Main "HOL-Library.Char_ord" "HOL-Library.Sublist" "HOL-Library.Signed_Division"
begin

text \<open>
  The parts of the Go language and of its standard library that the download queue relies on,
  shared by every component: byte strings and the functions of the package strings, 64-bit
  integers and strconv, and errors with their sentinel values.

  A Go string is a sequence of bytes, so it is a list of \<^typ>\<open>char\<close> (a character of HOL is one
  byte). Case mapping and white space are those of the ASCII range: a byte above 127 is never
  white space and has no case. This is exactly what Go does on ASCII text; the program compares
  host names, site names, file extensions and status words only, all of them ASCII.
\<close>

named_theorems go_defs \<open>definitions of the Go library functions, for evaluation\<close>
named_theorems go_dest \<open>inversion rules of the component operations\<close>

section \<open>Characters and white space\<close>

definition is_space :: "char \<Rightarrow> bool" where
  "is_space c \<longleftrightarrow> c \<in> {CHR 0x09, CHR 0x0A, CHR 0x0B, CHR 0x0C, CHR 0x0D, CHR '' ''}"

definition is_digit :: "char \<Rightarrow> bool" where
  "is_digit c \<longleftrightarrow> CHR ''0'' \<le> c \<and> c \<le> CHR ''9''"

definition is_lower :: "char \<Rightarrow> bool" where
  "is_lower c \<longleftrightarrow> CHR ''a'' \<le> c \<and> c \<le> CHR ''z''"

definition is_upper :: "char \<Rightarrow> bool" where
  "is_upper c \<longleftrightarrow> CHR ''A'' \<le> c \<and> c \<le> CHR ''Z''"

definition lower_char :: "char \<Rightarrow> char" where
  "lower_char c = (if is_upper c then char_of (of_char c + 32 :: nat) else c)"

definition upper_char :: "char \<Rightarrow> char" where
  "upper_char c = (if is_lower c then char_of (of_char c - 32 :: nat) else c)"

definition digit_val :: "char \<Rightarrow> nat" where
  "digit_val c = of_char c - 48"

definition digit_char :: "nat \<Rightarrow> char" where
  "digit_char n = char_of (48 + n)"

section \<open>The package strings\<close>

definition ToLower :: "string \<Rightarrow> string" where
  "ToLower s = map lower_char s"

definition ToUpper :: "string \<Rightarrow> string" where
  "ToUpper s = map upper_char s"

definition EqualFold :: "string \<Rightarrow> string \<Rightarrow> bool" where
  "EqualFold s t \<longleftrightarrow> ToLower s = ToLower t"

definition TrimLeftFunc :: "(char \<Rightarrow> bool) \<Rightarrow> string \<Rightarrow> string" where
  "TrimLeftFunc p s = dropWhile p s"

definition TrimRightFunc :: "(char \<Rightarrow> bool) \<Rightarrow> string \<Rightarrow> string" where
  "TrimRightFunc p s = rev (dropWhile p (rev s))"

definition TrimFunc :: "(char \<Rightarrow> bool) \<Rightarrow> string \<Rightarrow> string" where
  "TrimFunc p s = TrimRightFunc p (TrimLeftFunc p s)"

definition TrimSpace :: "string \<Rightarrow> string" where
  "TrimSpace s = TrimFunc is_space s"

definition HasPrefix :: "string \<Rightarrow> string \<Rightarrow> bool" where
  "HasPrefix s p \<longleftrightarrow> prefix p s"

definition HasSuffix :: "string \<Rightarrow> string \<Rightarrow> bool" where
  "HasSuffix s p \<longleftrightarrow> suffix p s"

definition Contains :: "string \<Rightarrow> string \<Rightarrow> bool" where
  "Contains s sub \<longleftrightarrow> sublist sub s"

definition ContainsAny :: "string \<Rightarrow> string \<Rightarrow> bool" where
  "ContainsAny s cs \<longleftrightarrow> list_ex (\<lambda>c. List.member cs c) s"

definition TrimPrefix :: "string \<Rightarrow> string \<Rightarrow> string" where
  "TrimPrefix s p = (if HasPrefix s p then drop (length p) s else s)"

definition TrimSuffix :: "string \<Rightarrow> string \<Rightarrow> string" where
  "TrimSuffix s p = (if HasSuffix s p then take (length s - length p) s else s)"

text \<open>\<open>strings.Split\<close> at a one-byte separator: always at least one piece.\<close>

fun split_on :: "char \<Rightarrow> string \<Rightarrow> string list" where
  "split_on c [] = [[]]"
| "split_on c (x # xs) =
     (if x = c then [] # split_on c xs
      else (case split_on c xs of [] \<Rightarrow> [[x]] | y # ys \<Rightarrow> (x # y) # ys))"

text \<open>\<open>strings.Join\<close> with a one-byte separator.\<close>

fun join_with :: "char \<Rightarrow> string list \<Rightarrow> string" where
  "join_with c [] = []"
| "join_with c [x] = x"
| "join_with c (x # y # ys) = x @ c # join_with c (y # ys)"

text \<open>\<open>strings.Cut\<close> at a one-byte separator; the third component says whether it was found.\<close>

definition Cut :: "string \<Rightarrow> char \<Rightarrow> string \<times> string \<times> bool" where
  "Cut s c = (takeWhile (\<lambda>x. x \<noteq> c) s,
     (case dropWhile (\<lambda>x. x \<noteq> c) s of [] \<Rightarrow> [] | _ # r \<Rightarrow> r),
     List.member s c)"

text \<open>\<open>strings.LastIndex\<close>: \<open>None\<close> is Go's \<open>-1\<close>.\<close>

fun Index_from :: "nat \<Rightarrow> string \<Rightarrow> string \<Rightarrow> nat option" where
  "Index_from i [] sub = (if sub = [] then Some i else None)"
| "Index_from i (x # xs) sub =
     (if prefix sub (x # xs) then Some i else Index_from (Suc i) xs sub)"

fun LastIndex_from :: "nat \<Rightarrow> string \<Rightarrow> string \<Rightarrow> nat option" where
  "LastIndex_from i [] sub = (if sub = [] then Some i else None)"
| "LastIndex_from i (x # xs) sub =
     (case LastIndex_from (Suc i) xs sub of
        Some j \<Rightarrow> Some j
      | None \<Rightarrow> if prefix sub (x # xs) then Some i else None)"

definition LastIndex :: "string \<Rightarrow> string \<Rightarrow> nat option" where
  "LastIndex s sub = LastIndex_from 0 s sub"

section \<open>Integers and the package strconv\<close>

text \<open>A value of type int64 (and of type int, 64 bits wide here) is an \<^typ>\<open>int\<close> kept in range
  by \<open>wrap64\<close> where an operation of the program can leave the range.\<close>

definition wrap64 :: "int \<Rightarrow> int" where
  "wrap64 x = (x + 2 ^ 63) mod 2 ^ 64 - 2 ^ 63"

definition in_int64 :: "int \<Rightarrow> bool" where
  "in_int64 x \<longleftrightarrow> - (2 ^ 63) \<le> x \<and> x < 2 ^ 63"

fun itoa_nat :: "nat \<Rightarrow> string" where
  "itoa_nat n = (if n < 10 then [digit_char n] else itoa_nat (n div 10) @ [digit_char (n mod 10)])"

declare itoa_nat.simps [simp del]

definition Itoa :: "int \<Rightarrow> string" where
  "Itoa x = (if x < 0 then CHR ''-'' # itoa_nat (nat (- x)) else itoa_nat (nat x))"

definition atoi_nat :: "string \<Rightarrow> nat" where
  "atoi_nat s = foldl (\<lambda>n c. 10 * n + digit_val c) 0 s"

text \<open>\<open>strconv.ParseInt(s, 10, 64)\<close> and, on a 64-bit machine, \<open>strconv.Atoi\<close>: the value and
  whether there was an error. On a syntax error the value is 0; a number out of range gives the
  nearest bound and an error.\<close>

datatype num_error = ErrSyntax | ErrRange

definition parse_digits :: "bool \<Rightarrow> string \<Rightarrow> int \<times> num_error option" where
  "parse_digits neg ds =
     (if ds = [] \<or> \<not> list_all is_digit ds then (0, Some ErrSyntax)
      else let n = int (atoi_nat ds) in
        if neg then (if n > 2 ^ 63 then (- (2 ^ 63), Some ErrRange) else (- n, None))
        else (if n \<ge> 2 ^ 63 then (2 ^ 63 - 1, Some ErrRange) else (n, None)))"

definition ParseInt :: "string \<Rightarrow> int \<times> num_error option" where
  "ParseInt s =
     (case s of
        [] \<Rightarrow> (0, Some ErrSyntax)
      | c # r \<Rightarrow> if c = CHR ''-'' then parse_digits True r
                 else if c = CHR ''+'' then parse_digits False r
                 else parse_digits False s)"

section \<open>Errors\<close>

text \<open>
  An error value is a sentinel of the program (or of the standard library: \<open>sql.ErrNoRows\<close>,
  \<open>os.ErrNotExist\<close>, \<open>exec.ErrNotFound\<close>), an error made by
  \<open>errors.New\<close> or \<open>fmt.Errorf\<close> with its text, or a sentinel wrapped by \<open>fmt.Errorf\<close> with
  \<open>%w: %v\<close>. The function \<open>errors.Is\<close> looks through the wrapping.
\<close>

datatype error =
    ErrNoRows
  | ErrGIDNotFound
  | Aria2ErrActionNotAllowed
  | ErrDownloaderNotConfigured
  | ErrMissingEngineGID
  | ErrActionNotAllowed
  | ErrLoginRequired
  | ErrQuotaExceeded
  | ErrCaptchaNeeded
  | ErrTemporarilyOff
  | ErrUnknownSite
  | OsErrNotExist
  | ExecErrNotFound
  | ErrNew string
  | ErrWrap error string

fun Error :: "error \<Rightarrow> string" where
  "Error ErrNoRows = ''sql: no rows in result set''"
| "Error ErrGIDNotFound = ''aria2_gid_not_found''"
| "Error Aria2ErrActionNotAllowed = ''aria2_action_not_allowed''"
| "Error ErrDownloaderNotConfigured = ''downloader_not_configured''"
| "Error ErrMissingEngineGID = ''missing_engine_gid''"
| "Error ErrActionNotAllowed = ''action_not_allowed''"
| "Error ErrLoginRequired = ''login_required''"
| "Error ErrQuotaExceeded = ''quota_exceeded''"
| "Error ErrCaptchaNeeded = ''captcha_needed''"
| "Error ErrTemporarilyOff = ''temporarily_unavailable''"
| "Error ErrUnknownSite = ''unknown_site''"
| "Error OsErrNotExist = ''file does not exist''"
| "Error ExecErrNotFound = ''executable file not found in $PATH''"
| "Error (ErrNew m) = m"
| "Error (ErrWrap e m) = Error e @ '': '' @ m"

fun errors_Is :: "error \<Rightarrow> error \<Rightarrow> bool" where
  "errors_Is (ErrWrap e m) t \<longleftrightarrow> ErrWrap e m = t \<or> errors_Is e t"
| "errors_Is e t \<longleftrightarrow> e = t"

lemma errors_Is_refl [simp]: "errors_Is e e"
  by (cases e) auto

section \<open>Lemmas on strings\<close>

lemma TrimLeftFunc_idem: "TrimLeftFunc p (TrimLeftFunc p s) = TrimLeftFunc p s"
  by (simp add: TrimLeftFunc_def)

lemma dropWhile_append_notin:
  "dropWhile p s \<noteq> [] \<Longrightarrow> dropWhile p (s @ t) = dropWhile p s @ t"
  by (induction s) auto

lemma TrimFunc_eq_Nil_iff: "TrimFunc p s = [] \<longleftrightarrow> (\<forall>c\<in>set s. p c)"
proof -
  have "dropWhile p s = [] \<longleftrightarrow> (\<forall>c\<in>set (dropWhile p s). p c)"
    by (metis dropWhile_eq_Nil_conv dropWhile_idem)
  then show ?thesis
    by (simp add: TrimFunc_def TrimLeftFunc_def TrimRightFunc_def)
qed

lemma TrimSpace_eq_Nil_iff: "TrimSpace s = [] \<longleftrightarrow> (\<forall>c\<in>set s. is_space c)"
  by (simp add: TrimSpace_def TrimFunc_eq_Nil_iff)

lemma TrimSpace_Nil [simp]: "TrimSpace [] = []"
  by (simp add: TrimSpace_eq_Nil_iff)

lemma set_TrimFunc: "set (TrimFunc p s) \<subseteq> set s"
  by (auto simp: TrimFunc_def TrimLeftFunc_def TrimRightFunc_def)
    (metis set_dropWhileD set_rev)

lemma set_TrimSpace: "set (TrimSpace s) \<subseteq> set s"
  by (simp add: TrimSpace_def set_TrimFunc)

lemma TrimRightFunc_no_trailing:
  "TrimRightFunc p s = [] \<or> \<not> p (last (TrimRightFunc p s))"
  by (metis TrimRightFunc_def hd_dropWhile hd_rev rev_is_Nil_conv rev_rev_ident)

lemma TrimRightFunc_prefix: "prefix (TrimRightFunc p s) s"
  by (metis TrimRightFunc_def rev_rev_ident suffix_dropWhile suffix_to_prefix)

lemma TrimFunc_ends:
  assumes "TrimFunc p s \<noteq> []"
  shows "\<not> p (hd (TrimFunc p s)) \<and> \<not> p (last (TrimFunc p s))"
proof -
  let ?l = "TrimLeftFunc p s"
  obtain r where r: "?l = TrimFunc p s @ r"
    using TrimRightFunc_prefix [of p ?l] by (auto simp: TrimFunc_def prefix_def)
  with assms have "?l \<noteq> []" and "hd ?l = hd (TrimFunc p s)" by auto
  then have "\<not> p (hd (TrimFunc p s))"
    by (metis TrimLeftFunc_def hd_dropWhile)
  moreover have "\<not> p (last (TrimFunc p s))"
    using TrimRightFunc_no_trailing assms by (metis TrimFunc_def)
  ultimately show ?thesis by simp
qed

lemma dropWhile_id: "s = [] \<or> \<not> p (hd s) \<Longrightarrow> dropWhile p s = s"
  by (cases s) auto

lemma TrimFunc_id:
  "s = [] \<or> \<not> p (hd s) \<and> \<not> p (last s) \<Longrightarrow> TrimFunc p s = s"
  by (auto simp: TrimFunc_def TrimLeftFunc_def TrimRightFunc_def dropWhile_id hd_rev)

lemma TrimFunc_idem: "TrimFunc p (TrimFunc p s) = TrimFunc p s"
  using TrimFunc_ends TrimFunc_id by blast

lemma TrimSpace_idem [simp]: "TrimSpace (TrimSpace s) = TrimSpace s"
  by (simp add: TrimSpace_def TrimFunc_idem)

subsection \<open>Splitting and joining\<close>

lemma split_on_not_Nil [simp]: "split_on c s \<noteq> []"
  by (induction s) (auto split: list.splits)

lemma split_on_no_sep: "x \<in> set (split_on c s) \<Longrightarrow> c \<notin> set x"
  by (induction s arbitrary: x) (auto split: if_splits list.splits)

lemma split_on_id: "c \<notin> set s \<Longrightarrow> split_on c s = [s]"
  by (induction s) auto

lemma split_on_append_sep:
  "c \<notin> set s \<Longrightarrow> split_on c (s @ c # t) = s # split_on c t"
  by (induction s) auto

lemma split_on_snoc_sep: "split_on c (s @ [c]) = split_on c s @ [[]]"
  by (induction s) (auto split: list.split)

lemma split_on_join_with:
  "xs \<noteq> [] \<Longrightarrow> (\<And>x. x \<in> set xs \<Longrightarrow> c \<notin> set x) \<Longrightarrow> split_on c (join_with c xs) = xs"
  by (induction c xs rule: join_with.induct) (auto simp: split_on_id split_on_append_sep)

lemma join_with_split_on [simp]: "join_with c (split_on c s) = s"
proof (induction s)
  case (Cons x s)
  then show ?case
    by (cases "split_on c s"; cases "tl (split_on c s)") auto
qed simp

lemma set_join_with: "set (join_with c xs) \<subseteq> insert c (\<Union>x\<in>set xs. set x)"
  by (induction c xs rule: join_with.induct) auto

lemma join_with_Cons: "ys \<noteq> [] \<Longrightarrow> join_with c (x # ys) = x @ c # join_with c ys"
  by (cases ys) auto

lemma join_with_append:
  "xs \<noteq> [] \<Longrightarrow> ys \<noteq> [] \<Longrightarrow> join_with c (xs @ ys) = join_with c xs @ c # join_with c ys"
  by (induction c xs rule: join_with.induct) (auto simp: join_with_Cons)

lemma join_with_eq_Nil_iff: "join_with c xs = [] \<longleftrightarrow> xs = [] \<or> xs = [[]]"
  by (induction c xs rule: join_with.induct) auto

subsection \<open>Decimal numbers\<close>

lemma less_10_cases:
  "(n::nat) < 10 \<Longrightarrow> n \<in> {0, 1, 2, 3, 4, 5, 6, 7, 8, 9}"
  by auto

lemma of_char_digit_char: "n < 10 \<Longrightarrow> of_char (digit_char n) = (48 + n :: nat)"
  by (simp add: digit_char_def)

lemma digit_val_digit_char [simp]: "n < 10 \<Longrightarrow> digit_val (digit_char n) = n"
  by (simp add: digit_val_def of_char_digit_char)

lemma is_digit_iff: "is_digit c \<longleftrightarrow> 48 \<le> (of_char c :: nat) \<and> (of_char c :: nat) \<le> 57"
  by (simp add: is_digit_def less_eq_char_def)

lemma is_digit_digit_char [simp]: "n < 10 \<Longrightarrow> is_digit (digit_char n)"
  by (simp add: is_digit_iff of_char_digit_char)

lemma itoa_nat_digits: "list_all is_digit (itoa_nat n)"
proof (induction n rule: itoa_nat.induct)
  case (1 n)
  then show ?case
    by (cases "n < 10") (simp_all add: itoa_nat.simps [of n])
qed

lemma itoa_nat_not_Nil [simp]: "itoa_nat n \<noteq> []"
  by (simp add: itoa_nat.simps [of n])

lemma atoi_nat_snoc: "atoi_nat (s @ [c]) = 10 * atoi_nat s + digit_val c"
  by (simp add: atoi_nat_def)

lemma atoi_itoa_nat [simp]: "atoi_nat (itoa_nat n) = n"
proof (induction n rule: itoa_nat.induct)
  case (1 n)
  show ?case
  proof (cases "n < 10")
    case True
    then show ?thesis
      by (simp add: itoa_nat.simps [of n]) (simp add: atoi_nat_def)
  next
    case False
    with 1 show ?thesis
      by (simp add: itoa_nat.simps [of n] atoi_nat_snoc)
  qed
qed

lemma itoa_nat_hd_digit: "is_digit (hd (itoa_nat n))"
  using itoa_nat_digits [of n] by (cases "itoa_nat n") (auto)

lemma is_digit_not_sign: "is_digit c \<Longrightarrow> c \<noteq> CHR ''-'' \<and> c \<noteq> CHR ''+''"
  by (auto simp: is_digit_def)

lemma ParseInt_Itoa: "in_int64 x \<Longrightarrow> ParseInt (Itoa x) = (x, None)"
proof (cases "x < 0")
  case True
  assume "in_int64 x"
  with True show ?thesis
    by (simp add: Itoa_def ParseInt_def parse_digits_def itoa_nat_digits in_int64_def Let_def)
next
  case False
  assume range: "in_int64 x"
  obtain c r where cr: "itoa_nat (nat x) = c # r"
    by (cases "itoa_nat (nat x)") auto
  then have "is_digit c"
    using itoa_nat_hd_digit [of "nat x"] by simp
  then have "ParseInt (Itoa x) = parse_digits False (itoa_nat (nat x))"
    using False cr is_digit_not_sign by (simp add: Itoa_def ParseInt_def)
  with False range show ?thesis
    by (simp add: parse_digits_def itoa_nat_digits in_int64_def Let_def)
qed

lemma wrap64_id [simp]: "in_int64 x \<Longrightarrow> wrap64 x = x"
  by (simp add: wrap64_def in_int64_def)

lemma wrap64_range: "in_int64 (wrap64 x)"
proof -
  have "0 \<le> (x + 2 ^ 63) mod 2 ^ 64" "(x + 2 ^ 63) mod 2 ^ 64 < (2 ^ 64 :: int)"
    by simp_all
  then show ?thesis by (simp add: wrap64_def in_int64_def)
qed

lemma parse_digits_range: "in_int64 (fst (parse_digits neg ds))"
  by (auto simp: parse_digits_def Let_def in_int64_def)

lemma ParseInt_range: "in_int64 (fst (ParseInt s))"
  by (auto simp: ParseInt_def parse_digits_range split: list.splits)
     (simp add: in_int64_def)

lemmas [go_defs] = ToLower_def ToUpper_def EqualFold_def TrimSpace_def TrimFunc_def
  TrimLeftFunc_def TrimRightFunc_def HasPrefix_def HasSuffix_def Contains_def ContainsAny_def
  TrimPrefix_def TrimSuffix_def Cut_def LastIndex_def

end
