(* ===== verification/Go_Filepath.thy ===== *)
theory Go_Filepath
  imports Go_Prelude
begin

text \<open>
  The package path/filepath on a Unix system: \<open>Clean\<close>, \<open>IsAbs\<close>, \<open>Base\<close>, \<open>Dir\<close>, \<open>Join\<close> and
  \<open>Rel\<close>. Go writes \<open>Clean\<close> as one pass over the bytes with a buffer it can back up in; here the
  pass is over the path elements, with the buffer as a stack of elements. The lemmas give the
  normal form of a cleaned absolute path and characterise \<open>Rel\<close> on such paths.
\<close>

section \<open>Definitions\<close>

definition IsAbs :: "string \<Rightarrow> bool" where
  "IsAbs p \<longleftrightarrow> HasPrefix p ''/''"

text \<open>One path element against the stack of elements kept so far (last element first).\<close>

fun clean_step :: "bool \<Rightarrow> string list \<Rightarrow> string \<Rightarrow> string list" where
  "clean_step rooted st e =
     (if e = '''' \<or> e = ''.'' then st
      else if e = ''..'' then
        (case st of
           [] \<Rightarrow> if rooted then [] else [''..'']
         | x # st' \<Rightarrow> if x = ''..'' then ''..'' # st else st')
      else e # st)"

declare clean_step.simps [simp del]

definition clean_elems :: "bool \<Rightarrow> string list \<Rightarrow> string list" where
  "clean_elems rooted es = rev (foldl (clean_step rooted) [] es)"

definition Clean :: "string \<Rightarrow> string" where
  "Clean p =
     (if p = '''' then ''.''
      else let rooted = IsAbs p; cs = clean_elems rooted (split_on CHR ''/'' p) in
        if rooted then CHR ''/'' # join_with CHR ''/'' cs
        else if cs = [] then ''.'' else join_with CHR ''/'' cs)"

definition Base :: "string \<Rightarrow> string" where
  "Base p =
     (if p = '''' then ''.''
      else let q = TrimRightFunc (\<lambda>c. c = CHR ''/'') p;
               b = rev (takeWhile (\<lambda>c. c \<noteq> CHR ''/'') (rev q)) in
        if b = '''' then ''/'' else b)"

definition Dir :: "string \<Rightarrow> string" where
  "Dir p = Clean (rev (dropWhile (\<lambda>c. c \<noteq> CHR ''/'') (rev p)))"

definition Join :: "string list \<Rightarrow> string" where
  "Join es =
     (case dropWhile (\<lambda>e. e = '''') es of
        [] \<Rightarrow> ''''
      | ds \<Rightarrow> Clean (join_with CHR ''/'' ds))"

definition elems :: "string \<Rightarrow> string list" where
  "elems p = filter (\<lambda>e. e \<noteq> '''') (split_on CHR ''/'' p)"

fun strip_common :: "string list \<Rightarrow> string list \<Rightarrow> string list \<times> string list" where
  "strip_common (x # xs) (y # ys) = (if x = y then strip_common xs ys else (x # xs, y # ys))"
| "strip_common xs ys = (xs, ys)"

definition Rel :: "string \<Rightarrow> string \<Rightarrow> error + string" where
  "Rel basepath targpath =
     (let base = Clean basepath; targ = Clean targpath;
          cannot = Inl (ErrNew (''Rel: can't make '' @ targpath @ '' relative to '' @ basepath)) in
        if targ = base then Inr ''.''
        else let base' = (if base = ''.'' then '''' else base) in
          if IsAbs base' \<noteq> IsAbs targ then cannot
          else (case strip_common (elems base') (elems targ) of (bs, ts) \<Rightarrow>
            if bs \<noteq> [] \<and> hd bs = ''..'' then cannot
            else Inr (join_with CHR ''/'' (replicate (length bs) ''..'' @ ts))))"

lemmas [go_defs] = IsAbs_def clean_elems_def Clean_def Base_def Dir_def Join_def elems_def Rel_def

section \<open>The elements of a cleaned path\<close>

definition proper_elem :: "string \<Rightarrow> bool" where
  "proper_elem e \<longleftrightarrow> e \<noteq> '''' \<and> e \<noteq> ''.'' \<and> e \<noteq> ''..'' \<and> CHR ''/'' \<notin> set e"

lemma proper_elemD:
  assumes "proper_elem e"
  shows "e \<noteq> ''''" "e \<noteq> ''.''" "e \<noteq> ''..''" "CHR ''/'' \<notin> set e"
  using assms by (simp_all add: proper_elem_def)

lemma clean_step_proper:
  assumes "list_all proper_elem st" and "CHR ''/'' \<notin> set e"
  shows "list_all proper_elem (clean_step True st e)"
  using assms by (auto simp: clean_step.simps proper_elem_def split: list.splits)

lemma foldl_clean_step_proper:
  "list_all proper_elem st \<Longrightarrow> \<forall>e\<in>set es. CHR ''/'' \<notin> set e \<Longrightarrow>
   list_all proper_elem (foldl (clean_step True) st es)"
  by (induction es arbitrary: st) (auto intro: clean_step_proper)

lemma clean_elems_proper:
  "list_all proper_elem (clean_elems True (split_on CHR ''/'' p))"
  using foldl_clean_step_proper [of "[]" "split_on CHR ''/'' p"] split_on_no_sep
  by (fastforce simp: clean_elems_def list_all_iff)

lemma clean_step_proper_elem: "proper_elem e \<Longrightarrow> clean_step r st e = e # st"
  by (simp add: clean_step.simps proper_elem_def)

lemma foldl_clean_step_id:
  "list_all proper_elem es \<Longrightarrow> foldl (clean_step r) st es = rev es @ st"
  by (induction es arbitrary: st) (auto simp: clean_step_proper_elem)

lemma clean_elems_id: "list_all proper_elem es \<Longrightarrow> clean_elems r es = es"
  by (simp add: clean_elems_def foldl_clean_step_id)

lemma clean_elems_Nil_elem: "clean_elems r ([] # es) = clean_elems r es"
  by (simp add: clean_elems_def clean_step.simps)

text \<open>The string of an absolute cleaned path and its elements determine each other.\<close>

definition abs_path :: "string list \<Rightarrow> string" where
  "abs_path es = CHR ''/'' # join_with CHR ''/'' es"

lemma split_abs_path:
  "es \<noteq> [] \<Longrightarrow> list_all proper_elem es \<Longrightarrow> split_on CHR ''/'' (abs_path es) = [] # es"
  by (auto simp: abs_path_def split_on_join_with list_all_iff proper_elem_def)

lemma split_abs_path_Nil: "split_on CHR ''/'' (abs_path []) = [[], []]"
  by (simp add: abs_path_def)

lemma elems_abs_path: "list_all proper_elem es \<Longrightarrow> elems (abs_path es) = es"
  by (cases "es = []")
    (auto simp: elems_def split_abs_path split_abs_path_Nil list_all_iff proper_elem_def
       filter_id_conv)

lemma IsAbs_abs_path [simp]: "IsAbs (abs_path es)"
  by (simp add: IsAbs_def abs_path_def HasPrefix_def)

lemma abs_path_not_Nil [simp]: "abs_path es \<noteq> []" "abs_path es \<noteq> ''.''"
  by (simp_all add: abs_path_def)

lemma Clean_abs:
  assumes "IsAbs p"
  shows "Clean p = abs_path (clean_elems True (split_on CHR ''/'' p))"
proof -
  from assms have "p \<noteq> []" by (auto simp: IsAbs_def HasPrefix_def)
  with assms show ?thesis by (simp add: Clean_def abs_path_def Let_def)
qed

lemma Clean_abs_path: "list_all proper_elem es \<Longrightarrow> Clean (abs_path es) = abs_path es"
  by (cases "es = []")
    (auto simp: Clean_abs split_abs_path split_abs_path_Nil clean_elems_Nil_elem clean_elems_id)

definition plain_elem :: "string \<Rightarrow> bool" where
  "plain_elem e \<longleftrightarrow> e \<noteq> '''' \<and> CHR ''/'' \<notin> set e"

lemma clean_step_plain:
  "list_all plain_elem st \<Longrightarrow> CHR ''/'' \<notin> set e \<Longrightarrow> list_all plain_elem (clean_step r st e)"
  by (auto simp: clean_step.simps plain_elem_def split: list.splits)

lemma foldl_clean_step_plain:
  "list_all plain_elem st \<Longrightarrow> \<forall>e\<in>set es. CHR ''/'' \<notin> set e \<Longrightarrow>
   list_all plain_elem (foldl (clean_step r) st es)"
  by (induction es arbitrary: st) (auto intro: clean_step_plain)

lemma clean_elems_plain: "list_all plain_elem (clean_elems r (split_on CHR ''/'' p))"
  using foldl_clean_step_plain [of "[]" "split_on CHR ''/'' p" r] split_on_no_sep
  by (fastforce simp: clean_elems_def list_all_iff)

lemma not_IsAbs_join:
  "list_all plain_elem es \<Longrightarrow> \<not> IsAbs (join_with CHR ''/'' es)"
proof (cases es)
  case (Cons x xs)
  assume "list_all plain_elem es"
  with Cons obtain c x' where "x = c # x'" "c \<noteq> CHR ''/''"
    by (cases x) (auto simp: plain_elem_def)
  with Cons show ?thesis
    by (cases xs) (simp_all add: IsAbs_def HasPrefix_def)
qed (simp add: IsAbs_def HasPrefix_def)

lemma IsAbs_Clean [simp]: "IsAbs (Clean p) \<longleftrightarrow> IsAbs p"
proof (cases "IsAbs p")
  case True
  then show ?thesis by (simp add: Clean_abs)
next
  case False
  then have "Clean p = ''.'' \<or> Clean p = join_with CHR ''/'' (clean_elems False (split_on CHR ''/'' p))"
    by (simp add: Clean_def Let_def)
  with False show ?thesis
    using not_IsAbs_join [OF clean_elems_plain]
    by (auto simp: IsAbs_def HasPrefix_def)
qed

lemma Clean_abs_obtain:
  assumes "IsAbs p"
  obtains es where "Clean p = abs_path es" "list_all proper_elem es"
  using Clean_abs [OF assms] clean_elems_proper by blast

lemma Clean_Clean_abs: "IsAbs p \<Longrightarrow> Clean (Clean p) = Clean p"
  by (metis Clean_abs_obtain Clean_abs_path)

lemma abs_path_eq_iff:
  "list_all proper_elem es \<Longrightarrow> list_all proper_elem fs \<Longrightarrow> abs_path es = abs_path fs \<longleftrightarrow> es = fs"
  by (metis elems_abs_path)

section \<open>Relative paths\<close>

lemma strip_common_append:
  "strip_common xs ys = (bs, ts) \<Longrightarrow> \<exists>cs. xs = cs @ bs \<and> ys = cs @ ts"
proof (induction xs ys rule: strip_common.induct)
  case (1 x xs y ys)
  then show ?case
    by (cases "x = y") (auto intro: exI [of _ "x # _"])
qed auto

lemma strip_common_prefix:
  "prefix xs ys \<longleftrightarrow> fst (strip_common xs ys) = []"
  by (induction xs ys rule: strip_common.induct) auto

text \<open>The check of the program on a relative path: it leaves the base directory.\<close>

definition goes_up :: "string \<Rightarrow> bool" where
  "goes_up rel \<longleftrightarrow> rel = ''..'' \<or> HasPrefix rel ''../''"

lemma goes_up_join:
  assumes "xs \<noteq> []" and "\<forall>x\<in>set xs. CHR ''/'' \<notin> set x"
  shows "goes_up (join_with CHR ''/'' xs) \<longleftrightarrow> hd xs = ''..''"
proof -
  obtain x ys where xs: "xs = x # ys" using assms(1) by (cases xs) auto
  have hd_eq: "x = ''..''" if "x @ CHR ''/'' # r = ''../'' @ r'" for r r' :: string
  proof -
    from that have "split_on CHR ''/'' (x @ CHR ''/'' # r) = split_on CHR ''/'' (''../'' @ r')"
      by simp
    then show ?thesis
      using assms(2) xs by (auto simp: split_on_append_sep)
  qed
  show ?thesis
  proof (cases ys)
    case Nil
    with assms xs show ?thesis by (auto simp: goes_up_def HasPrefix_def prefix_def)
  next
    case (Cons y zs)
    then have "join_with CHR ''/'' xs = x @ CHR ''/'' # join_with CHR ''/'' ys"
      using xs by simp
    moreover have "x @ CHR ''/'' # r \<noteq> ''..''" for r :: string
      by (cases x; cases "tl x") auto
    ultimately show ?thesis
      using xs hd_eq by (auto simp: goes_up_def HasPrefix_def prefix_def)
  qed
qed

lemma Rel_abs_path:
  assumes b: "list_all proper_elem bs" and t: "list_all proper_elem ts"
  shows "\<exists>r. Rel (abs_path bs) (abs_path ts) = Inr r \<and> (\<not> goes_up r \<longleftrightarrow> prefix bs ts)"
proof (cases "bs = ts")
  case True
  with t show ?thesis
    by (auto simp: Rel_def Clean_abs_path goes_up_def HasPrefix_def Let_def)
next
  case False
  obtain bs' ts' where st: "strip_common bs ts = (bs', ts')" by fastforce
  then obtain cs where split: "bs = cs @ bs'" "ts = cs @ ts'"
    using strip_common_append by blast
  let ?xs = "replicate (length bs') ''..'' @ ts'"
  have hd_bs: "\<not> (bs' \<noteq> [] \<and> hd bs' = ''..'')"
    using b split by (cases bs') (auto simp: proper_elem_def)
  with False st b t have eq: "Rel (abs_path bs) (abs_path ts) = Inr (join_with CHR ''/'' ?xs)"
    by (simp add: Rel_def Clean_abs_path elems_abs_path abs_path_eq_iff Let_def)
  from False split have "?xs \<noteq> []" by auto
  moreover have "\<forall>x\<in>set ?xs. CHR ''/'' \<notin> set x"
    using t unfolding split(2) by (auto simp: list_all_iff dest: proper_elemD(4))
  ultimately have "goes_up (join_with CHR ''/'' ?xs) \<longleftrightarrow> hd ?xs = ''..''"
    by (rule goes_up_join)
  also have "\<dots> \<longleftrightarrow> bs' \<noteq> []"
  proof (cases bs')
    case Nil
    with \<open>?xs \<noteq> []\<close> have "ts' \<noteq> []" by simp
    then have "hd ts' \<in> set ts" using split by simp
    with t have "hd ts' \<noteq> ''..''" by (auto simp: list_all_iff dest: proper_elemD(3))
    with Nil show ?thesis by simp
  qed simp
  also have "\<dots> \<longleftrightarrow> \<not> prefix bs ts"
    using strip_common_prefix [of bs ts] st by simp
  finally show ?thesis using eq by blast
qed

lemma Rel_not_abs:
  assumes "IsAbs p" and "\<not> IsAbs base"
  shows "\<exists>e. Rel base p = Inl e"
proof -
  have "Clean p \<noteq> Clean base" using assms IsAbs_Clean by metis
  moreover have "\<not> IsAbs (if Clean base = ''.'' then '''' else Clean base)"
    using assms(2) IsAbs_Clean [of base] by (simp add: IsAbs_def HasPrefix_def)
  ultimately show ?thesis using assms by (simp add: Rel_def Let_def)
qed

section \<open>Base names and joins\<close>

lemma Base_no_slash: "Base p \<noteq> ''/'' \<Longrightarrow> CHR ''/'' \<notin> set (Base p)"
  by (auto simp: Base_def Let_def dest: set_takeWhileD split: if_splits)

lemma Base_not_Nil [simp]: "Base p \<noteq> []"
  by (simp add: Base_def Let_def)

lemma Base_id:
  assumes "s \<noteq> []" and "CHR ''/'' \<notin> set s"
  shows "Base s = s"
proof -
  have "hd (rev s) \<noteq> CHR ''/''" using assms by (metis hd_in_set rev_is_Nil_conv set_rev)
  then have "TrimRightFunc (\<lambda>c. c = CHR ''/'') s = s"
    using assms by (simp add: TrimRightFunc_def dropWhile_id)
  moreover have "takeWhile (\<lambda>c. c \<noteq> CHR ''/'') (rev s) = rev s"
    using assms by (auto simp: takeWhile_eq_all_conv)
  ultimately show ?thesis
    using assms by (simp add: Base_def del: takeWhile_eq_all_conv)
qed

lemma Join_abs_path:
  assumes "list_all proper_elem es" and "proper_elem e"
  shows "Join [abs_path es, e] = abs_path (es @ [e])"
proof -
  have ne: "CHR ''/'' \<notin> set e" using assms(2) by (simp add: proper_elem_def)
  have "split_on CHR ''/'' (abs_path es @ CHR ''/'' # e) = [] # (if es = [] then [[]] else es) @ [e]"
  proof (cases "es = []")
    case True
    with ne show ?thesis by (simp add: abs_path_def split_on_id)
  next
    case False
    have "abs_path es @ CHR ''/'' # e = CHR ''/'' # join_with CHR ''/'' (es @ [e])"
      using False by (simp add: abs_path_def join_with_append)
    moreover have "split_on CHR ''/'' (join_with CHR ''/'' (es @ [e])) = es @ [e]"
      using assms by (intro split_on_join_with) (auto simp: list_all_iff proper_elem_def)
    ultimately show ?thesis using False by simp
  qed
  moreover have "IsAbs (abs_path es @ CHR ''/'' # e)"
    by (simp add: IsAbs_def abs_path_def HasPrefix_def)
  ultimately show ?thesis
    using assms by (simp add: Join_def Clean_abs clean_elems_Nil_elem clean_elems_id)
qed

lemma abs_path_snoc:
  "abs_path (es @ [e]) = (if es = [] then CHR ''/'' # e else abs_path es @ CHR ''/'' # e)"
  by (simp add: abs_path_def join_with_append)

lemma rev_dropWhile_last_slash:
  "CHR ''/'' \<notin> set e \<Longrightarrow> rev (dropWhile (\<lambda>c. c \<noteq> CHR ''/'') (rev (p @ CHR ''/'' # e))) = p @ ''/''"
  by (induction e rule: rev_induct) auto

lemma Dir_abs_path:
  assumes "list_all proper_elem es" and "proper_elem e"
  shows "Dir (abs_path (es @ [e])) = abs_path es"
proof (cases "es = []")
  case True
  have "rev (dropWhile (\<lambda>c. c \<noteq> CHR ''/'') (rev ([] @ CHR ''/'' # e))) = ''/''"
    using assms(2) rev_dropWhile_last_slash [of e "[]"] by (simp add: proper_elem_def)
  moreover have "Clean ''/'' = abs_path []"
    by (simp add: Clean_def IsAbs_def HasPrefix_def abs_path_def clean_elems_def Let_def
        clean_step.simps)
  ultimately show ?thesis using True by (simp add: Dir_def abs_path_def)
next
  case False
  have "split_on CHR ''/'' (abs_path es @ ''/'') = ([] # es) @ [[]]"
    using split_on_snoc_sep split_abs_path [OF False assms(1)] by metis
  moreover have "clean_elems True (([] # es) @ [[]]) = es"
    using clean_elems_id [OF assms(1), of True]
    by (simp add: clean_elems_def clean_step.simps)
  moreover have "IsAbs (abs_path es @ ''/'')" by (simp add: IsAbs_def HasPrefix_def abs_path_def)
  ultimately have "Clean (abs_path es @ ''/'') = abs_path es" by (simp add: Clean_abs)
  with False assms(2) show ?thesis
    by (simp add: Dir_def abs_path_snoc rev_dropWhile_last_slash proper_elem_def del: rev_append)
qed

lemma rev_takeWhile_last_slash:
  "CHR ''/'' \<notin> set e \<Longrightarrow> rev (takeWhile (\<lambda>c. c \<noteq> CHR ''/'') (rev (p @ CHR ''/'' # e))) = e"
  by (induction e rule: rev_induct) auto

lemma Base_abs_path:
  assumes "proper_elem e"
  shows "Base (abs_path (es @ [e])) = e"
proof -
  define p where "p = (if es = [] then [] else abs_path es)"
  have path: "abs_path (es @ [e]) = p @ CHR ''/'' # e" by (simp add: p_def abs_path_snoc)
  have e: "e \<noteq> []" "CHR ''/'' \<notin> set e" using assms by (simp_all add: proper_elem_def)
  then have "hd (rev e) \<noteq> CHR ''/''" by (metis hd_in_set rev_is_Nil_conv set_rev)
  then have "TrimRightFunc (\<lambda>c. c = CHR ''/'') (p @ CHR ''/'' # e) = p @ CHR ''/'' # e"
    using e(1) by (simp add: TrimRightFunc_def dropWhile_id)
  moreover have "takeWhile (\<lambda>c. c \<noteq> CHR ''/'') (rev (p @ CHR ''/'' # e)) = rev e"
    using rev_takeWhile_last_slash [OF e(2), of p] by (metis rev_rev_ident)
  ultimately show ?thesis
    using e(1) by (simp add: Base_def path Let_def del: rev_append)
qed

lemma Dir_IsAbs_obtain:
  assumes "IsAbs p"
  obtains es where "Dir p = abs_path es" and "list_all proper_elem es"
proof -
  have "CHR ''/'' \<in> set p" using assms by (cases p) (auto simp: IsAbs_def HasPrefix_def)
  then obtain q e where p: "p = q @ CHR ''/'' # e" and e: "CHR ''/'' \<notin> set e"
    by (metis split_list_last)
  have "IsAbs (q @ ''/'')"
    using assms p by (cases q) (auto simp: IsAbs_def HasPrefix_def)
  then obtain es where "Clean (q @ ''/'') = abs_path es" "list_all proper_elem es"
    by (rule Clean_abs_obtain)
  then show thesis
    using that p rev_dropWhile_last_slash [OF e, of q] by (simp add: Dir_def del: rev_append)
qed

end
