(* ===== verification/Paths.thy ===== *)
theory Paths
  imports Go_Filepath
begin

text \<open>
  internal/queue/paths.go: the checks on the output directory and on the file names of a job.
  The lemmas show that an accepted output directory is a cleaned absolute path inside one of the
  configured data volumes (no path traversal), that exactly those directories are accepted, and
  what a sanitised file name can be.
\<close>

section \<open>Definitions\<close>

definition errMissingOutDir :: error where
  "errMissingOutDir = ErrNew ''missing out_dir''"

definition errNoVolumes :: error where
  "errNoVolumes = ErrNew ''no DATA_* volumes configured''"

definition errNotAbsolute :: error where
  "errNotAbsolute = ErrNew ''out_dir must be absolute''"

definition errNotAllowed :: error where
  "errNotAllowed = ErrNew ''out_dir is not within an allowed DATA_* volume''"

definition errNameSeparators :: error where
  "errNameSeparators = ErrNew ''name must not contain path separators''"

definition errInvalidName :: error where
  "errInvalidName = ErrNew ''invalid name''"

text \<open>One round of the loop over the allowed roots; the loop stops at the first root that
  allows the directory.\<close>

definition root_allows :: "string \<Rightarrow> string \<Rightarrow> bool" where
  "root_allows clean root =
     (let rootClean = Clean root in
        case Rel rootClean clean of
          Inl err \<Rightarrow> False
        | Inr rel \<Rightarrow> \<not> (rel = ''..'' \<or> HasPrefix rel ''../''))"

definition cleanOutDir :: "string \<Rightarrow> string list \<Rightarrow> error + string" where
  "cleanOutDir outDir allowedRoots =
     (if outDir = '''' then Inl errMissingOutDir
      else if length allowedRoots = 0 then Inl errNoVolumes
      else let clean = Clean outDir in
        if \<not> IsAbs clean then Inl errNotAbsolute
        else if \<not> list_ex (root_allows clean) allowedRoots then Inl errNotAllowed
        else Inr clean)"

definition cleanUserFilename :: "string \<Rightarrow> error + string" where
  "cleanUserFilename name =
     (if name = '''' then Inr ''''
      else if IsAbs name \<or> ContainsAny name [CHR ''/'', CHR 0x5C] then Inl errNameSeparators
      else let clean = Clean name in
        if clean = ''.'' \<or> clean = ''..'' \<or> clean = ''/'' then Inl errInvalidName
        else Inr clean)"

definition sanitizeFilename :: "string \<Rightarrow> string" where
  "sanitizeFilename name =
     (if name = '''' then ''''
      else let base = Base (TrimSpace name) in
        if base = '''' \<or> base = ''.'' \<or> base = ''/'' then ''''
        else if ContainsAny base [CHR ''/'', CHR 0x5C] then ''''
        else base)"

lemmas [go_defs] = root_allows_def cleanOutDir_def cleanUserFilename_def sanitizeFilename_def

section \<open>Output directories\<close>

text \<open>The directory is the root or lies below it: its elements extend those of the root.\<close>

definition inside :: "string \<Rightarrow> string \<Rightarrow> bool" where
  "inside root p \<longleftrightarrow> IsAbs root \<and> IsAbs p \<and> prefix (elems (Clean root)) (elems p)"

lemma root_allows_iff:
  assumes "IsAbs p"
  shows "root_allows (Clean p) root \<longleftrightarrow> inside root (Clean p)"
proof (cases "IsAbs root")
  case True
  obtain ts where t: "Clean p = abs_path ts" "list_all proper_elem ts"
    using Clean_abs_obtain [OF assms] .
  obtain bs where b: "Clean root = abs_path bs" "list_all proper_elem bs"
    using Clean_abs_obtain [OF True] .
  obtain r where "Rel (abs_path bs) (abs_path ts) = Inr r" "\<not> goes_up r \<longleftrightarrow> prefix bs ts"
    using Rel_abs_path [OF b(2) t(2)] by blast
  then show ?thesis
    using True b t by (simp add: root_allows_def inside_def elems_abs_path goes_up_def)
next
  case False
  then obtain e where "Rel (Clean root) (Clean p) = Inl e"
    using Rel_not_abs [of "Clean p" "Clean root"] assms by auto
  with False show ?thesis by (simp add: root_allows_def inside_def)
qed

lemma cleanOutDir_Inr_iff:
  "cleanOutDir outDir roots = Inr c \<longleftrightarrow>
     IsAbs outDir \<and> c = Clean outDir \<and> (\<exists>root\<in>set roots. inside root c)"
proof (cases "IsAbs outDir")
  case True
  then have "outDir \<noteq> []" by (auto simp: IsAbs_def HasPrefix_def)
  with True show ?thesis
    by (auto simp: cleanOutDir_def Let_def root_allows_iff list_ex_iff)
next
  case False
  then show ?thesis by (simp add: cleanOutDir_def Let_def)
qed

lemma cleanOutDir_no_traversal:
  assumes "cleanOutDir outDir roots = Inr c"
  shows "list_all proper_elem (elems c)" and "c = abs_path (elems c)"
proof -
  from assms have "IsAbs outDir" "c = Clean outDir" by (simp_all add: cleanOutDir_Inr_iff)
  then obtain es where "c = abs_path es" "list_all proper_elem es"
    using Clean_abs_obtain by blast
  then show "list_all proper_elem (elems c)" "c = abs_path (elems c)"
    by (simp_all add: elems_abs_path)
qed

text \<open>
  C21. Path containment of output directories. The function accepts a directory exactly when it
  is absolute and its cleaned form lies inside one of the configured volumes; it then returns
  the cleaned form, an absolute path without empty, dot or dot-dot elements.
\<close>

theorem cleanOutDir_contained:
  "cleanOutDir outDir roots = Inr c \<longleftrightarrow>
     IsAbs outDir \<and> c = Clean outDir \<and> list_all proper_elem (elems c) \<and>
     (\<exists>root\<in>set roots. inside root c)"
  using cleanOutDir_Inr_iff [of outDir roots c] cleanOutDir_no_traversal(1) by blast

text \<open>The returned directory is a fixed point of the check.\<close>

lemma cleanOutDir_idem:
  "cleanOutDir outDir roots = Inr c \<Longrightarrow> cleanOutDir c roots = Inr c"
  by (auto simp: cleanOutDir_Inr_iff Clean_Clean_abs)

lemma cleanOutDir_errors:
  "cleanOutDir outDir roots = Inl e \<Longrightarrow>
     e \<in> {errMissingOutDir, errNoVolumes, errNotAbsolute, errNotAllowed}"
  by (auto simp: cleanOutDir_def Let_def split: if_splits)

section \<open>File names\<close>

lemma Clean_no_slash:
  assumes "name \<noteq> []" and "CHR ''/'' \<notin> set name"
  shows "Clean name = name"
proof -
  have "\<not> IsAbs name"
    using assms by (cases name) (auto simp: IsAbs_def HasPrefix_def)
  with assms show ?thesis
    by (auto simp: Clean_def Let_def split_on_id clean_elems_def clean_step.simps)
qed

lemma ContainsAny_seps:
  "ContainsAny s [CHR ''/'', CHR 0x5C] \<longleftrightarrow> CHR ''/'' \<in> set s \<or> CHR 0x5C \<in> set s"
  by (auto simp: ContainsAny_def list_ex_iff)

lemma IsAbs_has_slash: "IsAbs s \<Longrightarrow> CHR ''/'' \<in> set s"
  by (auto simp: IsAbs_def HasPrefix_def prefix_def)

lemma cleanUserFilename_same: "cleanUserFilename name = Inr c \<Longrightarrow> c = name"
  using Clean_no_slash [of name]
  by (auto simp: cleanUserFilename_def ContainsAny_seps Let_def split: if_splits)

text \<open>
  A user-supplied file name is accepted unchanged exactly when it is empty or a single
  proper path element without a backslash; no other name is accepted.
\<close>

theorem cleanUserFilename_accepts:
  "cleanUserFilename name = Inr c \<longleftrightarrow>
     c = name \<and> (name = [] \<or> proper_elem name \<and> CHR 0x5C \<notin> set name)"
proof (cases "name = [] \<or> CHR ''/'' \<in> set name")
  case True
  then show ?thesis
    by (auto simp: cleanUserFilename_def ContainsAny_seps proper_elem_def)
next
  case False
  then have clean: "Clean name = name" by (simp add: Clean_no_slash)
  have "\<not> IsAbs name" and "name \<noteq> ''/''" using False IsAbs_has_slash by auto
  with False show ?thesis
    by (auto simp: cleanUserFilename_def ContainsAny_seps proper_elem_def clean)
qed

lemma cleanUserFilename_errors:
  "cleanUserFilename name = Inl e \<Longrightarrow> e \<in> {errNameSeparators, errInvalidName}"
  by (auto simp: cleanUserFilename_def Let_def split: if_splits)

lemma sanitizeFilename_shape:
  "sanitizeFilename name = [] \<or> sanitizeFilename name = ''..'' \<or>
   proper_elem (sanitizeFilename name) \<and> CHR 0x5C \<notin> set (sanitizeFilename name)"
  by (auto simp: sanitizeFilename_def Let_def ContainsAny_seps proper_elem_def)

lemma sanitizeFilename_Nil [simp]: "sanitizeFilename [] = []"
  by (simp add: sanitizeFilename_def)

lemma sanitizeFilename_id:
  assumes "proper_elem s" and "CHR 0x5C \<notin> set s" and "TrimSpace s = s"
  shows "sanitizeFilename s = s"
  using assms by (auto simp: sanitizeFilename_def Let_def proper_elem_def Base_id ContainsAny_seps)

text \<open>
  A sanitised name other than the dot-dot element, joined to an accepted output directory,
  is a file directly inside that directory: the join adds exactly one element.
\<close>

theorem sanitized_output_inside:
  assumes "cleanOutDir outDir roots = Inr dir"
    and "sanitizeFilename name \<noteq> []" and "sanitizeFilename name \<noteq> ''..''"
  shows "elems (Join [dir, sanitizeFilename name]) = elems dir @ [sanitizeFilename name]"
proof -
  from sanitizeFilename_shape [of name] assms have n: "proper_elem (sanitizeFilename name)" by auto
  note d = cleanOutDir_no_traversal [OF assms(1)]
  have "Join [dir, sanitizeFilename name] = abs_path (elems dir @ [sanitizeFilename name])"
    using Join_abs_path [OF d(1) n] d(2) by simp
  with d n show ?thesis by (simp add: elems_abs_path)
qed

theorem sanitized_output_inside_witness:
  "elems (Join [''/data/tv'', sanitizeFilename ''a/b.mkv'']) = elems ''/data/tv'' @ [sanitizeFilename ''a/b.mkv'']"
proof -
  have "cleanOutDir ''/data/x/../tv/'' [''/data''] = Inr ''/data/tv''" by code_simp
  moreover have "sanitizeFilename ''a/b.mkv'' \<noteq> []" by code_simp
  moreover have "sanitizeFilename ''a/b.mkv'' \<noteq> ''..''" by code_simp
  ultimately show ?thesis by (rule sanitized_output_inside)
qed

text \<open>
  The dot-dot element does get through. A user name with a leading space passes
  \<open>cleanUserFilename\<close>, which does not trim, and \<open>sanitizeFilename\<close>, which trims, turns it into
  dot-dot; so does a resolver's file name that ends in a dot-dot element. Joined to the output
  directory it names the parent directory, outside the volume.
\<close>

theorem sanitizeFilename_dotdot_escapes:
  "cleanUserFilename '' ..'' = Inr '' ..'' \<and>
   sanitizeFilename '' ..'' = ''..'' \<and>
   sanitizeFilename ''film/..'' = ''..'' \<and>
   cleanOutDir ''/data'' [''/data''] = Inr ''/data'' \<and>
   \<not> inside ''/data'' (Join [''/data'', sanitizeFilename '' ..''])"
  by (intro conjI; code_simp)

text \<open>
  Sanitising twice is not the same as sanitising once: the name given to the downloader is
  sanitised once, the name under which the post-processing looks for the file twice, and the two
  differ when the last path element starts with a space.
\<close>

theorem sanitizeFilename_not_idempotent:
  "sanitizeFilename ''a/ b.zip'' = '' b.zip'' \<and>
   sanitizeFilename (sanitizeFilename ''a/ b.zip'') = ''b.zip''"
  by (intro conjI; code_simp)

end
