(* ===== verification/Go_Url.thy ===== *)
theory Go_Url
  imports Go_Prelude
begin

text \<open>
  The package net/url as far as the program uses it: \<open>url.Parse\<close>, \<open>URL.String\<close>, \<open>URL.Hostname\<close>
  and \<open>URL.Query().Get\<close>, with percent encoding in its modes. The functions follow the library
  case by case. The lemmas describe how the fragment of a URL takes part in parsing and printing.
\<close>

section \<open>Percent encoding\<close>

datatype encoding =
    encodePath
  | encodeUserPassword
  | encodeHost
  | encodeZone
  | encodeQueryComponent
  | encodeFragment

definition is_alnum :: "char \<Rightarrow> bool" where
  "is_alnum c \<longleftrightarrow> is_lower c \<or> is_upper c \<or> is_digit c"

definition shouldEscape :: "char \<Rightarrow> encoding \<Rightarrow> bool" where
  "shouldEscape c mode =
     (if is_alnum c then False
      else if mode \<in> {encodeHost, encodeZone} \<and>
        List.member [CHR ''!'', CHR ''$'', CHR ''&'', CHR 0x27, CHR ''('', CHR '')'', CHR ''*'',
          CHR ''+'', CHR '','', CHR '';'', CHR ''='', CHR '':'', CHR ''['', CHR '']'', CHR ''<'',
          CHR ''>'', CHR 0x22] c then False
      else if List.member [CHR ''-'', CHR ''_'', CHR ''.'', CHR ''~''] c then False
      else if List.member ''$&+,/:;=?@'' c then
        (case mode of
           encodePath \<Rightarrow> c = CHR ''?''
         | encodeUserPassword \<Rightarrow> List.member ''@/?:'' c
         | encodeQueryComponent \<Rightarrow> True
         | encodeFragment \<Rightarrow> False
         | _ \<Rightarrow> True)
      else if mode = encodeFragment \<and> List.member ''!()*'' c then False
      else True)"

definition is_hex :: "char \<Rightarrow> bool" where
  "is_hex c \<longleftrightarrow> is_digit c \<or> CHR ''a'' \<le> c \<and> c \<le> CHR ''f'' \<or> CHR ''A'' \<le> c \<and> c \<le> CHR ''F''"

definition unhex :: "char \<Rightarrow> nat" where
  "unhex c =
     (if is_digit c then of_char c - 48
      else if CHR ''a'' \<le> c \<and> c \<le> CHR ''f'' then of_char c - 97 + 10
      else of_char c - 65 + 10)"

definition upperhex :: "nat \<Rightarrow> char" where
  "upperhex n = (if n < 10 then char_of (48 + n) else char_of (55 + n))"

definition lowerhex :: "nat \<Rightarrow> char" where
  "lowerhex n = (if n < 10 then char_of (48 + n) else char_of (87 + n))"

text \<open>\<open>strconv.Quote\<close>, as the format verb \<open>%q\<close> prints it.\<close>

definition quote_char :: "char \<Rightarrow> string" where
  "quote_char c =
     (if c = CHR 0x22 then [CHR 0x5C, CHR 0x22]
      else if c = CHR 0x5C then [CHR 0x5C, CHR 0x5C]
      else if c = CHR 0x07 then [CHR 0x5C, CHR ''a'']
      else if c = CHR 0x08 then [CHR 0x5C, CHR ''b'']
      else if c = CHR 0x0C then [CHR 0x5C, CHR ''f'']
      else if c = CHR 0x0A then [CHR 0x5C, CHR ''n'']
      else if c = CHR 0x0D then [CHR 0x5C, CHR ''r'']
      else if c = CHR 0x09 then [CHR 0x5C, CHR ''t'']
      else if c = CHR 0x0B then [CHR 0x5C, CHR ''v'']
      else if c < CHR '' '' \<or> c = CHR 0x7F
        then [CHR 0x5C, CHR ''x'', lowerhex (of_char c div 16), lowerhex (of_char c mod 16)]
      else [c])"

definition go_quote :: "string \<Rightarrow> string" where
  "go_quote s = [CHR 0x22] @ concat (map quote_char s) @ [CHR 0x22]"

definition escape_error :: "string \<Rightarrow> string" where
  "escape_error s = ''invalid URL escape '' @ go_quote (take 3 s)"

definition host_error :: "char \<Rightarrow> string" where
  "host_error c = ''invalid character '' @ go_quote [c] @ '' in host name''"

text \<open>The check and the decoding of \<open>unescape\<close> in one pass; \<open>Inl\<close> is the message.\<close>

fun unescape :: "encoding \<Rightarrow> string \<Rightarrow> string + string" where
  "unescape mode [] = Inr []"
| "unescape mode (c # s) =
     (if c = CHR ''%'' then
        (case s of
           h # l # r \<Rightarrow>
             if \<not> is_hex h \<or> \<not> is_hex l then Inl (escape_error (c # s))
             else if mode = encodeHost \<and> unhex h < 8 \<and> \<not> (h = CHR ''2'' \<and> l = CHR ''5'')
               then Inl (escape_error (c # s))
             else if mode = encodeZone \<and> \<not> (h = CHR ''2'' \<and> l = CHR ''5'') \<and>
                 char_of (16 * unhex h + unhex l) \<noteq> CHR '' '' \<and>
                 shouldEscape (char_of (16 * unhex h + unhex l)) encodeHost
               then Inl (escape_error (c # s))
             else map_sum (\<lambda>e. e) (\<lambda>t. char_of (16 * unhex h + unhex l) # t) (unescape mode r)
         | _ \<Rightarrow> Inl (escape_error (c # s)))
      else if c = CHR ''+'' then
        map_sum (\<lambda>e. e) (\<lambda>t. (if mode = encodeQueryComponent then CHR '' '' else c) # t)
          (unescape mode s)
      else if (mode = encodeHost \<or> mode = encodeZone) \<and> (of_char c :: nat) < 128 \<and> shouldEscape c mode
        then Inl (host_error c)
      else map_sum (\<lambda>e. e) (\<lambda>t. c # t) (unescape mode s))"

definition escape :: "encoding \<Rightarrow> string \<Rightarrow> string" where
  "escape mode s = concat (map (\<lambda>c.
     if c = CHR '' '' \<and> mode = encodeQueryComponent then ''+''
     else if shouldEscape c mode
       then [CHR ''%'', upperhex (of_char c div 16), upperhex (of_char c mod 16)]
     else [c]) s)"

definition validEncoded :: "encoding \<Rightarrow> string \<Rightarrow> bool" where
  "validEncoded mode s \<longleftrightarrow> list_all (\<lambda>c.
     List.member [CHR ''!'', CHR ''$'', CHR ''&'', CHR 0x27, CHR ''('', CHR '')'', CHR ''*'',
       CHR ''+'', CHR '','', CHR '';'', CHR ''='', CHR '':'', CHR ''@'', CHR ''['', CHR '']'',
       CHR ''%''] c \<or> \<not> shouldEscape c mode) s"

section \<open>The type URL and its parser\<close>

record userinfo =
  ui_username :: string
  ui_password :: "string option"

record url =
  Scheme :: string
  Opaque :: string
  User :: "userinfo option"
  Host :: string
  Path :: string
  RawPath :: string
  OmitHost :: bool
  ForceQuery :: bool
  RawQuery :: string
  Fragment :: string
  RawFragment :: string

definition empty_url :: url where
  "empty_url = \<lparr>Scheme = '''', Opaque = '''', User = None, Host = '''', Path = '''', RawPath = '''',
     OmitHost = False, ForceQuery = False, RawQuery = '''', Fragment = '''', RawFragment = ''''\<rparr>"

definition is_ctl :: "char \<Rightarrow> bool" where
  "is_ctl c \<longleftrightarrow> c < CHR '' '' \<or> c = CHR 0x7F"

definition scheme_char :: "char \<Rightarrow> bool" where
  "scheme_char c \<longleftrightarrow> is_alnum c \<or> List.member ''+-.'' c"

definition getScheme :: "string \<Rightarrow> string + string \<times> string" where
  "getScheme raw =
     (let pre = takeWhile scheme_char raw; rest = dropWhile scheme_char raw in
        case rest of
          c # r \<Rightarrow>
            if c = CHR '':'' then
              (if pre = [] then Inl ''missing protocol scheme''
               else if is_lower (hd pre) \<or> is_upper (hd pre) then Inr (pre, r)
               else Inr ('''', raw))
            else Inr ('''', raw)
        | [] \<Rightarrow> Inr ('''', raw))"

definition validOptionalPort :: "string \<Rightarrow> bool" where
  "validOptionalPort p \<longleftrightarrow>
     (case p of [] \<Rightarrow> True | c # r \<Rightarrow> c = CHR '':'' \<and> list_all is_digit r)"

text \<open>\<open>strings.LastIndex\<close> of one byte, as the text before and after it.\<close>

definition cut_last :: "char \<Rightarrow> string \<Rightarrow> (string \<times> string) option" where
  "cut_last c s =
     (if List.member s c
      then Some (rev (tl (dropWhile (\<lambda>x. x \<noteq> c) (rev s))), rev (takeWhile (\<lambda>x. x \<noteq> c) (rev s)))
      else None)"

definition parseHost :: "string \<Rightarrow> string + string" where
  "parseHost host =
     (if HasPrefix host ''['' then
        (case cut_last CHR '']'' host of
           None \<Rightarrow> Inl ''missing ']' in host''
         | Some (inner, colonPort) \<Rightarrow>
             if \<not> validOptionalPort colonPort
             then Inl (''invalid port '' @ go_quote colonPort @ '' after host'')
             else (case Index_from 0 inner ''%25'' of
                None \<Rightarrow> unescape encodeHost host
              | Some zone \<Rightarrow>
                  (case unescape encodeHost (take zone inner) of Inl e \<Rightarrow> Inl e | Inr h1 \<Rightarrow>
                  (case unescape encodeZone (drop zone inner) of Inl e \<Rightarrow> Inl e | Inr h2 \<Rightarrow>
                  (case unescape encodeHost (CHR '']'' # colonPort) of Inl e \<Rightarrow> Inl e | Inr h3 \<Rightarrow>
                     Inr (h1 @ h2 @ h3))))))
      else (case cut_last CHR '':'' host of
          Some (_, port) \<Rightarrow>
            if \<not> validOptionalPort (CHR '':'' # port)
            then Inl (''invalid port '' @ go_quote (CHR '':'' # port) @ '' after host'')
            else unescape encodeHost host
        | None \<Rightarrow> unescape encodeHost host))"

definition validUserinfo :: "string \<Rightarrow> bool" where
  "validUserinfo s \<longleftrightarrow> list_all (\<lambda>c. is_alnum c \<or>
     List.member [CHR ''-'', CHR ''.'', CHR ''_'', CHR '':'', CHR ''~'', CHR ''!'', CHR ''$'',
       CHR ''&'', CHR 0x27, CHR ''('', CHR '')'', CHR ''*'', CHR ''+'', CHR '','', CHR '';'',
       CHR ''='', CHR ''%'', CHR ''@''] c) s"

definition parseAuthority :: "string \<Rightarrow> string + userinfo option \<times> string" where
  "parseAuthority authority =
     (case cut_last CHR ''@'' authority of
        None \<Rightarrow> (case parseHost authority of Inl e \<Rightarrow> Inl e | Inr h \<Rightarrow> Inr (None, h))
      | Some (ui, hostpart) \<Rightarrow>
          (case parseHost hostpart of
             Inl e \<Rightarrow> Inl e
           | Inr h \<Rightarrow>
               if \<not> validUserinfo ui then Inl ''net/url: invalid userinfo''
               else (case Cut ui CHR '':'' of (name, pw, found) \<Rightarrow>
                 if \<not> found then
                   (case unescape encodeUserPassword ui of
                      Inl e \<Rightarrow> Inl e
                    | Inr n \<Rightarrow> Inr (Some \<lparr>ui_username = n, ui_password = None\<rparr>, h))
                 else
                   (case unescape encodeUserPassword name of Inl e \<Rightarrow> Inl e | Inr n \<Rightarrow>
                   (case unescape encodeUserPassword pw of Inl e \<Rightarrow> Inl e | Inr p \<Rightarrow>
                      Inr (Some \<lparr>ui_username = n, ui_password = Some p\<rparr>, h))))))"

definition setPath :: "url \<Rightarrow> string \<Rightarrow> string + url" where
  "setPath u p =
     (case unescape encodePath p of
        Inl e \<Rightarrow> Inl e
      | Inr path \<Rightarrow> Inr (u\<lparr>Path := path, RawPath := (if p = escape encodePath path then '''' else p)\<rparr>))"

definition setFragment :: "url \<Rightarrow> string \<Rightarrow> string + url" where
  "setFragment u f =
     (case unescape encodeFragment f of
        Inl e \<Rightarrow> Inl e
      | Inr frag \<Rightarrow>
          Inr (u\<lparr>Fragment := frag, RawFragment := (if f = escape encodeFragment frag then '''' else f)\<rparr>))"

text \<open>The unexported \<open>parse(rawURL, false)\<close>: the part of the URL before the fragment.\<close>

definition parse_authority_path :: "url \<Rightarrow> string \<Rightarrow> string + url" where
  "parse_authority_path u rest =
     (if (Scheme u \<noteq> '''' \<or> \<not> HasPrefix rest ''///'') \<and> HasPrefix rest ''//'' then
        (let a = drop 2 rest;
             authority = takeWhile (\<lambda>c. c \<noteq> CHR ''/'') a;
             path = dropWhile (\<lambda>c. c \<noteq> CHR ''/'') a in
           case parseAuthority authority of
             Inl e \<Rightarrow> Inl e
           | Inr (user, host) \<Rightarrow> setPath (u\<lparr>User := user, Host := host\<rparr>) path)
      else if Scheme u \<noteq> '''' \<and> HasPrefix rest ''/'' then setPath (u\<lparr>OmitHost := True\<rparr>) rest
      else setPath u rest)"

definition parse :: "string \<Rightarrow> string + url" where
  "parse raw =
     (if list_ex is_ctl raw then Inl ''net/url: invalid control character in URL''
      else if raw = ''*'' then Inr (empty_url\<lparr>Path := ''*''\<rparr>)
      else (case getScheme raw of
        Inl e \<Rightarrow> Inl e
      | Inr (scheme, rest0) \<Rightarrow>
          (let forced = HasSuffix rest0 ''?'' \<and> count_list rest0 CHR ''?'' = 1;
               rest = (if forced then butlast rest0 else fst (Cut rest0 CHR ''?''));
               query = (if forced then '''' else fst (snd (Cut rest0 CHR ''?'')));
               u = empty_url\<lparr>Scheme := ToLower scheme, ForceQuery := forced, RawQuery := query\<rparr> in
             if \<not> HasPrefix rest ''/'' \<and> Scheme u \<noteq> '''' then Inr (u\<lparr>Opaque := rest\<rparr>)
             else if \<not> HasPrefix rest ''/'' \<and> List.member (fst (Cut rest CHR ''/'')) CHR '':''
               then Inl ''first path segment in URL cannot contain colon''
             else parse_authority_path u rest)))"

definition url_error :: "string \<Rightarrow> string \<Rightarrow> error" where
  "url_error u msg = ErrNew (''parse '' @ go_quote u @ '': '' @ msg)"

definition url_Parse :: "string \<Rightarrow> error + url" where
  "url_Parse raw =
     (case Cut raw CHR ''#'' of (u, frag, _) \<Rightarrow>
        case parse u of
          Inl e \<Rightarrow> Inl (url_error u e)
        | Inr url \<Rightarrow>
            if frag = '''' then Inr url
            else (case setFragment url frag of Inl e \<Rightarrow> Inl (url_error raw e) | Inr url' \<Rightarrow> Inr url'))"

section \<open>Printing and access\<close>

definition EscapedPath :: "url \<Rightarrow> string" where
  "EscapedPath u =
     (if RawPath u \<noteq> '''' \<and> validEncoded encodePath (RawPath u) \<and>
         unescape encodePath (RawPath u) = Inr (Path u) then RawPath u
      else if Path u = ''*'' then ''*''
      else escape encodePath (Path u))"

definition EscapedFragment :: "url \<Rightarrow> string" where
  "EscapedFragment u =
     (if RawFragment u \<noteq> '''' \<and> validEncoded encodeFragment (RawFragment u) \<and>
         unescape encodeFragment (RawFragment u) = Inr (Fragment u) then RawFragment u
      else escape encodeFragment (Fragment u))"

definition userinfo_String :: "userinfo \<Rightarrow> string" where
  "userinfo_String ui = escape encodeUserPassword (ui_username ui) @
     (case ui_password ui of None \<Rightarrow> '''' | Some p \<Rightarrow> '':'' @ escape encodeUserPassword p)"

text \<open>\<open>URL.String\<close> up to the fragment.\<close>

definition url_prefix_String :: "url \<Rightarrow> string" where
  "url_prefix_String u =
     (let scheme = (if Scheme u \<noteq> '''' then Scheme u @ '':'' else '''');
          body =
            (if Opaque u \<noteq> '''' then scheme @ Opaque u
             else
               (let auth =
                  (if Scheme u \<noteq> '''' \<or> Host u \<noteq> '''' \<or> User u \<noteq> None then
                     (if OmitHost u \<and> Host u = '''' \<and> User u = None then ''''
                      else (if Host u \<noteq> '''' \<or> Path u \<noteq> '''' \<or> User u \<noteq> None then ''//'' else '''') @
                        (case User u of None \<Rightarrow> '''' | Some ui \<Rightarrow> userinfo_String ui @ ''@'') @
                        escape encodeHost (Host u))
                   else '''');
                  path = EscapedPath u;
                  slash = (if path \<noteq> '''' \<and> \<not> HasPrefix path ''/'' \<and> Host u \<noteq> '''' then ''/'' else '''');
                  dot = (if scheme @ auth @ slash = '''' \<and> List.member (fst (Cut path CHR ''/'')) CHR '':''
                         then ''./'' else '''') in
                scheme @ auth @ slash @ dot @ path)) in
      body @ (if ForceQuery u \<or> RawQuery u \<noteq> '''' then ''?'' @ RawQuery u else ''''))"

definition url_String :: "url \<Rightarrow> string" where
  "url_String u = url_prefix_String u @
     (if Fragment u \<noteq> '''' then ''#'' @ EscapedFragment u else '''')"

definition Hostname :: "url \<Rightarrow> string" where
  "Hostname u =
     (let host = (case cut_last CHR '':'' (Host u) of
            Some (h, port) \<Rightarrow> if validOptionalPort (CHR '':'' # port) then h else Host u
          | None \<Rightarrow> Host u) in
        if HasPrefix host ''['' \<and> HasSuffix host '']'' then butlast (tl host) else host)"

definition query_pair :: "string \<Rightarrow> (string \<times> string) list" where
  "query_pair p =
     (if p = '''' \<or> List.member p CHR '';'' then []
      else (case Cut p CHR ''='' of (k, v, _) \<Rightarrow>
        case unescape encodeQueryComponent k of
          Inl _ \<Rightarrow> []
        | Inr k' \<Rightarrow> (case unescape encodeQueryComponent v of Inl _ \<Rightarrow> [] | Inr v' \<Rightarrow> [(k', v')])))"

text \<open>\<open>u.Query().Get(key)\<close>: the first value of the key, the empty string if there is none.\<close>

definition Query_Get :: "url \<Rightarrow> string \<Rightarrow> string" where
  "Query_Get u key =
     (case find (\<lambda>(k, v). k = key) (concat (map query_pair (split_on CHR ''&'' (RawQuery u)))) of
        None \<Rightarrow> '''' | Some (_, v) \<Rightarrow> v)"

section \<open>The fragment\<close>

lemma Cut_append_sep:
  "c \<notin> set u \<Longrightarrow> Cut (u @ c # f) c = (u, f, True)"
  by (induction u) (auto simp: Cut_def)

lemma Cut_no_sep: "c \<notin> set u \<Longrightarrow> Cut u c = (u, [], False)"
proof -
  assume c: "c \<notin> set u"
  then have "takeWhile (\<lambda>x. x \<noteq> c) u = u" "dropWhile (\<lambda>x. x \<noteq> c) u = []"
    by (auto simp: takeWhile_eq_all_conv)
  with c show ?thesis by (simp only: Cut_def List.member_iff) simp
qed

lemma url_Parse_fragment:
  assumes "CHR ''#'' \<notin> set u" and "f \<noteq> []"
  shows "url_Parse (u @ CHR ''#'' # f) =
    (case parse u of
       Inl e \<Rightarrow> Inl (url_error u e)
     | Inr x \<Rightarrow> (case setFragment x f of
         Inl e \<Rightarrow> Inl (url_error (u @ CHR ''#'' # f) e) | Inr y \<Rightarrow> Inr y))"
  using assms by (simp add: url_Parse_def Cut_append_sep split: sum.split)

lemma url_prefix_String_fragment [simp]:
  "url_prefix_String (u\<lparr>Fragment := f, RawFragment := r\<rparr>) = url_prefix_String u"
  "url_prefix_String (u\<lparr>Fragment := f\<rparr>) = url_prefix_String u"
  by (cases u, simp only: url_prefix_String_def EscapedPath_def url.simps)+

end
