(* ===== verification/Effects.thy ===== *)
theory Effects
  imports Go_Prelude "HOL-Library.State_Monad" "HOL-Library.Monad_Syntax"
begin

text \<open>
  Stateful Go code as programs of the state monad, and what such programs keep. A method of the
  program is a value of type \<^typ>\<open>('s, 'a) state\<close>: the sequence of its calls in the order of the
  source. The locale \<open>effect_contract\<close> is the interface through which the components are
  related: a reflexive and transitive relation between the state before and after, closed under
  the control structures. Every invariant and every frame condition of the development is an
  instance of it, so that it is proved for a whole handler from the calls the handler makes.
\<close>

section \<open>Programs\<close>

abbreviation return :: "'a \<Rightarrow> ('s, 'a) state" where
  "return \<equiv> State_Monad.return"

definition gets :: "('s \<Rightarrow> 'a) \<Rightarrow> ('s, 'a) state" where
  "gets f = State (\<lambda>s. (f s, s))"

lemma run_state_gets [simp]: "run_state (gets f) s = (f s, s)"
  by (simp add: gets_def)

text \<open>A \<open>for range\<close> loop whose body neither breaks nor returns.\<close>

fun for_each :: "('a \<Rightarrow> ('s, unit) state) \<Rightarrow> 'a list \<Rightarrow> ('s, unit) state" where
  "for_each f [] = return ()"
| "for_each f (x # xs) = do { f x; for_each f xs }"

text \<open>The result and the final state of a run.\<close>

abbreviation result :: "('s, 'a) state \<Rightarrow> 's \<Rightarrow> 'a" where
  "result m s \<equiv> fst (run_state m s)"

abbreviation final :: "('s, 'a) state \<Rightarrow> 's \<Rightarrow> 's" where
  "final m s \<equiv> snd (run_state m s)"

lemma final_bind: "final (State_Monad.bind m f) s = final (f (result m s)) (final m s)"
  by (simp add: case_prod_beta)

lemma result_bind: "result (State_Monad.bind m f) s = result (f (result m s)) (final m s)"
  by (simp add: case_prod_beta)

lemma run_state_bind_beta:
  "run_state (State_Monad.bind m f) s = run_state (f (result m s)) (final m s)"
  by (simp add: case_prod_beta)

lemma state_io_relE: "state_io_rel R m \<Longrightarrow> R s (final m s)"
  by (simp add: state_io_rel_def)

lemma state_io_rel_final: "(\<And>s. R s (final m s)) \<Longrightarrow> state_io_rel R m"
  by (simp add: state_io_rel_def)

section \<open>Contracts on effects\<close>

locale effect_contract =
  fixes R :: "'s \<Rightarrow> 's \<Rightarrow> bool"
  assumes refl: "R s s"
    and trans: "R s t \<Longrightarrow> R t u \<Longrightarrow> R s u"
begin

lemma keeps_return: "state_io_rel R (return x)"
  by (rule state_io_rel_final) (simp add: refl)

lemma keeps_gets: "state_io_rel R (gets f)"
  by (rule state_io_rel_final) (simp add: refl)

lemma keeps_bind:
  assumes "state_io_rel R m" and "\<And>x. state_io_rel R (f x)"
  shows "state_io_rel R (State_Monad.bind m f)"
proof (rule state_io_rel_final)
  fix s
  have "R s (final m s)" using assms(1) by (rule state_io_relE)
  moreover have "R (final m s) (final (f (result m s)) (final m s))"
    using assms(2) by (rule state_io_relE)
  ultimately show "R s (final (State_Monad.bind m f) s)"
    using trans by (simp only: final_bind)
qed

lemma keeps_if:
  assumes "b \<Longrightarrow> state_io_rel R m" and "\<not> b \<Longrightarrow> state_io_rel R n"
  shows "state_io_rel R (if b then m else n)"
  using assms by simp

lemma keeps_case_option:
  assumes "v = None \<Longrightarrow> state_io_rel R m" and "\<And>x. v = Some x \<Longrightarrow> state_io_rel R (f x)"
  shows "state_io_rel R (case v of None \<Rightarrow> m | Some x \<Rightarrow> f x)"
  using assms by (cases v) auto

lemma keeps_case_sum:
  assumes "\<And>e. v = Inl e \<Longrightarrow> state_io_rel R (f e)" and "\<And>x. v = Inr x \<Longrightarrow> state_io_rel R (g x)"
  shows "state_io_rel R (case v of Inl e \<Rightarrow> f e | Inr x \<Rightarrow> g x)"
  using assms by (cases v) auto

lemma keeps_case_prod:
  assumes "\<And>x y. v = (x, y) \<Longrightarrow> state_io_rel R (f x y)"
  shows "state_io_rel R (case v of (x, y) \<Rightarrow> f x y)"
  using assms by (cases v) auto

lemma keeps_let:
  assumes "\<And>x. x = v \<Longrightarrow> state_io_rel R (f x)"
  shows "state_io_rel R (let x = v in f x)"
  using assms by simp

lemma keeps_for_each:
  assumes "\<And>x. x \<in> set xs \<Longrightarrow> state_io_rel R (f x)"
  shows "state_io_rel R (for_each f xs)"
  using assms by (induction xs) (auto intro: keeps_return keeps_bind)

lemmas keeps_control = keeps_return keeps_gets keeps_bind keeps_if keeps_case_option
  keeps_case_sum keeps_case_prod keeps_let keeps_for_each

end

end
