(* ===== verification/Store.thy ===== *)
theory Store
  imports Effects
begin

text \<open>
  internal/queue/store.go over the schema of internal/db/db.go: the tables \<open>jobs\<close> and
  \<open>job_events\<close> and every statement the store runs on them.

  The database is the record \<open>db\<close>: the two tables as lists of rows in insertion order, the two
  \<open>AUTOINCREMENT\<close> counters of \<open>sqlite_sequence\<close>, and the environment of the statements. Time is
  in seconds of the UTC clock: the store writes time stamps with \<open>time.RFC3339\<close>, which drops the
  fraction of a second and whose texts in UTC compare as the times do (years 0 to 9999), so a
  stamp is the \<^typ>\<open>int\<close> it stands for. The statements are numbered by \<open>Step\<close>; statement \<open>n\<close> sees
  the clock \<open>ClockAt n\<close> and fails in the driver with the message \<open>m\<close> when \<open>FaultAt n = Some m\<close>,
  leaving the tables as they are. Clock and faults are arbitrary, so every theorem below holds
  for any clock and, unless it assumes \<open>quiet\<close>, for any pattern of database failures.

  Rows are changed by functions on rows, one per \<open>UPDATE\<close> of the source (\<open>row_Requeue\<close> and so
  on). The interface to the clients is the locale \<open>store_contract\<close>; \<open>row_contract\<close> gives it from a
  relation on single rows.
\<close>

section \<open>Rows and tables\<close>

datatype status =
    StatusQueued
  | StatusResolving
  | StatusDownloading
  | StatusPaused
  | StatusDecrypting
  | StatusDecryptFail
  | StatusCompleted
  | StatusFailed
  | StatusDeleted

fun status_text :: "status \<Rightarrow> string" where
  "status_text StatusQueued = ''queued''"
| "status_text StatusResolving = ''resolving''"
| "status_text StatusDownloading = ''downloading''"
| "status_text StatusPaused = ''paused''"
| "status_text StatusDecrypting = ''decrypting''"
| "status_text StatusDecryptFail = ''decrypt_failed''"
| "status_text StatusCompleted = ''completed''"
| "status_text StatusFailed = ''failed''"
| "status_text StatusDeleted = ''deleted''"

type_synonym timestamp = int

record job =
  ID :: int
  URL :: string
  Site :: string
  OutDir :: string
  Name :: string
  ArchivePassword :: "string option"
  ResolvedURL :: "string option"
  Filename :: "string option"
  SizeBytes :: "int option"
  BytesDone :: int
  DownloadSpeed :: "int option"
  EtaSeconds :: "int option"
  Status :: status
  ErrorText :: "string option"
  ErrorCode :: "string option"
  Engine :: string
  EngineGID :: "string option"
  Attempts :: int
  MaxAttempts :: int
  NextRetryAt :: "timestamp option"
  CreatedAt :: timestamp
  UpdatedAt :: timestamp
  StartedAt :: "timestamp option"
  CompletedAt :: "timestamp option"
  DeletedAt :: "timestamp option"

record event =
  EventID :: int
  EventJob :: int
  Level :: string
  Message :: string
  EventTime :: timestamp

record db =
  Jobs :: "job list"
  Events :: "event list"
  JobSeq :: int
  EventSeq :: int
  Step :: nat
  ClockAt :: "nat \<Rightarrow> timestamp"
  FaultAt :: "nat \<Rightarrow> string option"

section \<open>Statements\<close>

definition time_now :: "('z db_scheme, timestamp) state" where
  "time_now = gets (\<lambda>s. ClockAt s (Step s))"

definition sql_exec :: "('z db_scheme \<Rightarrow> 'z db_scheme) \<Rightarrow> ('z db_scheme, error option) state" where
  "sql_exec upd = State (\<lambda>s. let s' = s\<lparr>Step := Suc (Step s)\<rparr> in
     case FaultAt s (Step s) of Some m \<Rightarrow> (Some (ErrNew m), s') | None \<Rightarrow> (None, upd s'))"

definition sql_query :: "('z db_scheme \<Rightarrow> 'a) \<Rightarrow> ('z db_scheme, error + 'a) state" where
  "sql_query q = State (\<lambda>s. let s' = s\<lparr>Step := Suc (Step s)\<rparr> in
     case FaultAt s (Step s) of Some m \<Rightarrow> (Inl (ErrNew m), s') | None \<Rightarrow> (Inr (q s'), s'))"

definition update_job :: "int \<Rightarrow> (job \<Rightarrow> job) \<Rightarrow> 'z db_scheme \<Rightarrow> 'z db_scheme" where
  "update_job jid f s = s\<lparr>Jobs := map (\<lambda>j. if ID j = jid then f j else j) (Jobs s)\<rparr>"

definition lookup_job :: "int \<Rightarrow> 'z db_scheme \<Rightarrow> job option" where
  "lookup_job jid s = find (\<lambda>j. ID j = jid) (Jobs s)"

definition order_by_id :: "job list \<Rightarrow> job list" where
  "order_by_id js = sort_key ID js"

text \<open>SQL's \<open>TRIM\<close> strips spaces only, unlike \<open>strings.TrimSpace\<close>.\<close>

definition sql_trim :: "string \<Rightarrow> string" where
  "sql_trim s = TrimFunc (\<lambda>c. c = CHR '' '') s"

section \<open>Creating and reading\<close>

text \<open>The row that \<open>INSERT\<close> makes: the columns it does not name get their schema defaults.\<close>

definition new_row :: "int \<Rightarrow> job \<Rightarrow> timestamp \<Rightarrow> job" where
  "new_row jid j now =
     \<lparr>ID = jid, URL = URL j, Site = Site j, OutDir = OutDir j, Name = Name j,
      ArchivePassword = ArchivePassword j, ResolvedURL = None, Filename = None, SizeBytes = None,
      BytesDone = 0, DownloadSpeed = Some 0, EtaSeconds = None, Status = StatusQueued,
      ErrorText = None, ErrorCode = None, Engine = ''aria2'', EngineGID = None, Attempts = 0,
      MaxAttempts = MaxAttempts j, NextRetryAt = None, CreatedAt = now, UpdatedAt = now,
      StartedAt = None, CompletedAt = None, DeletedAt = None\<rparr>"

definition insert_job :: "job \<Rightarrow> timestamp \<Rightarrow> 'z db_scheme \<Rightarrow> 'z db_scheme" where
  "insert_job j now s =
     s\<lparr>Jobs := Jobs s @ [new_row (JobSeq s + 1) j now], JobSeq := JobSeq s + 1\<rparr>"

definition store_CreateJob :: "job \<Rightarrow> ('z db_scheme, error + int) state" where
  "store_CreateJob j = do {
     now \<leftarrow> time_now;
     err \<leftarrow> sql_exec (insert_job j now);
     case err of
       Some e \<Rightarrow> return (Inl e)
     | None \<Rightarrow> do { jid \<leftarrow> gets JobSeq; return (Inr jid) }
   }"

definition store_GetJob :: "int \<Rightarrow> ('z db_scheme, error + job) state" where
  "store_GetJob jid = do {
     row \<leftarrow> sql_query (lookup_job jid);
     return (case row of
       Inl e \<Rightarrow> Inl e
     | Inr None \<Rightarrow> Inl ErrNoRows
     | Inr (Some j) \<Rightarrow> Inr j)
   }"

definition list_filter :: "string \<Rightarrow> bool \<Rightarrow> job \<Rightarrow> bool" where
  "list_filter status includeDeleted j \<longleftrightarrow>
     (includeDeleted \<or> DeletedAt j = None) \<and> (status = '''' \<or> status_text (Status j) = status)"

definition store_ListJobs :: "string \<Rightarrow> bool \<Rightarrow> ('z db_scheme, error + job list) state" where
  "store_ListJobs status includeDeleted =
     sql_query (\<lambda>s. rev (order_by_id (filter (list_filter status includeDeleted) (Jobs s))))"

definition pending_filter :: "job \<Rightarrow> bool" where
  "pending_filter j \<longleftrightarrow> DeletedAt j = None \<and>
     (Status j = StatusDecrypting \<or>
      Status j = StatusCompleted \<and>
        (case ArchivePassword j of None \<Rightarrow> False | Some p \<Rightarrow> sql_trim p \<noteq> ''''))"

definition sql_limit :: "int \<Rightarrow> 'a list \<Rightarrow> 'a list" where
  "sql_limit limit xs = (if limit > 0 then take (nat limit) xs else xs)"

definition ListPendingPostprocess :: "int \<Rightarrow> ('z db_scheme, error + job list) state" where
  "ListPendingPostprocess limit =
     sql_query (\<lambda>s. sql_limit limit (order_by_id (filter pending_filter (Jobs s))))"

text \<open>The foreign key of \<open>job_events\<close> refuses an event of a job that does not exist.\<close>

definition errForeignKey :: error where
  "errForeignKey = ErrNew ''constraint failed: FOREIGN KEY constraint failed (787)''"

definition append_event :: "int \<Rightarrow> string \<Rightarrow> string \<Rightarrow> timestamp \<Rightarrow> 'z db_scheme \<Rightarrow> 'z db_scheme" where
  "append_event jobID level msg now s =
     s\<lparr>Events := Events s @
         [\<lparr>EventID = EventSeq s + 1, EventJob = jobID, Level = level, Message = msg,
           EventTime = now\<rparr>],
       EventSeq := EventSeq s + 1\<rparr>"

definition AddEvent :: "int \<Rightarrow> string \<Rightarrow> string \<Rightarrow> ('z db_scheme, error option) state" where
  "AddEvent jobID level msg = do {
     now \<leftarrow> time_now;
     found \<leftarrow> gets (\<lambda>s. lookup_job jobID s \<noteq> None);
     err \<leftarrow> sql_exec (\<lambda>s. if found then append_event jobID level msg now s else s);
     return (if err = None \<and> \<not> found then Some errForeignKey else err)
   }"

definition retryable :: "timestamp \<Rightarrow> job \<Rightarrow> bool" where
  "retryable now j \<longleftrightarrow> Status j = StatusFailed \<and> DeletedAt j = None \<and>
     (case NextRetryAt j of None \<Rightarrow> False | Some t \<Rightarrow> t \<le> now) \<and> Attempts j < MaxAttempts j"

definition ListRetryableFailed :: "int \<Rightarrow> ('z db_scheme, error + int list) state" where
  "ListRetryableFailed limit = do {
     now \<leftarrow> time_now;
     sql_query (\<lambda>s. sql_limit limit
       (map ID (sort_key (\<lambda>j. the (NextRetryAt j)) (filter (retryable now) (Jobs s)))))
   }"

section \<open>Claiming a queued job\<close>

definition claimable :: "timestamp \<Rightarrow> job \<Rightarrow> bool" where
  "claimable now j \<longleftrightarrow> Status j = StatusQueued \<and> DeletedAt j = None \<and>
     (case NextRetryAt j of None \<Rightarrow> True | Some t \<Rightarrow> t \<le> now)"

definition row_Claim :: "timestamp \<Rightarrow> job \<Rightarrow> job" where
  "row_Claim now j =
     (if Status j = StatusQueued
      then j\<lparr>Status := StatusResolving, UpdatedAt := now, StartedAt := Some now\<rparr> else j)"

text \<open>
  One turn of the \<open>for\<close> loop, a transaction: begin, select, update, commit. A failing statement
  rolls the transaction back and is returned. \<open>None\<close> is the \<open>continue\<close> of the source, taken when
  the \<open>UPDATE\<close> changed no row.
\<close>

definition claim_turn :: "timestamp \<Rightarrow> ('z db_scheme, (error + job) option) state" where
  "claim_turn now = do {
     began \<leftarrow> sql_query (\<lambda>s. ());
     case began of
       Inl e \<Rightarrow> return (Some (Inl e))
     | Inr _ \<Rightarrow> do {
         row \<leftarrow> sql_query (\<lambda>s. order_by_id (filter (claimable now) (Jobs s)));
         case row of
           Inl e \<Rightarrow> return (Some (Inl e))
         | Inr [] \<Rightarrow> return (Some (Inl ErrNoRows))
         | Inr (j # _) \<Rightarrow> do {
             affected \<leftarrow> sql_query (\<lambda>s. length (filter
               (\<lambda>k. ID k = ID j \<and> Status k = StatusQueued) (Jobs s)));
             case affected of
               Inl e \<Rightarrow> return (Some (Inl e))
             | Inr n \<Rightarrow>
                 if n = 0 then return None
                 else do {
                   err \<leftarrow> sql_exec (update_job (ID j) (row_Claim now));
                   case err of
                     Some e \<Rightarrow> return (Some (Inl e))
                   | None \<Rightarrow> return (Some (Inr (j\<lparr>Status := StatusResolving\<rparr>)))
                 }
           }
       }
   }"

text \<open>The loop, with a bound on the number of its turns. By the lemma \<open>claim_loop_one\<close> below a
  turn never asks for another one, so one turn is the loop.\<close>

fun claim_loop :: "nat \<Rightarrow> timestamp \<Rightarrow> ('z db_scheme, (error + job) option) state" where
  "claim_loop 0 now = return None"
| "claim_loop (Suc n) now = do {
     r \<leftarrow> claim_turn now;
     case r of Some x \<Rightarrow> return (Some x) | None \<Rightarrow> claim_loop n now
   }"

definition ClaimNextQueued :: "('z db_scheme, error + job) state" where
  "ClaimNextQueued = do {
     now \<leftarrow> time_now;
     r \<leftarrow> claim_loop 1 now;
     return (case r of Some x \<Rightarrow> x | None \<Rightarrow> Inl ErrNoRows)
   }"

section \<open>Updates\<close>

text \<open>Every update of one row has the shape: read the clock, run one \<open>UPDATE\<close> on the row with
  the given id, return the driver's error.\<close>

definition update_row :: "int \<Rightarrow> (timestamp \<Rightarrow> job \<Rightarrow> job) \<Rightarrow> ('z db_scheme, error option) state" where
  "update_row jid f = do { now \<leftarrow> time_now; sql_exec (update_job jid (f now)) }"

definition row_UpdateResolving :: "string \<Rightarrow> string \<Rightarrow> int \<Rightarrow> timestamp \<Rightarrow> job \<Rightarrow> job" where
  "row_UpdateResolving resolvedURL filename sizeBytes now j =
     j\<lparr>ResolvedURL := Some resolvedURL, Filename := Some filename, SizeBytes := Some sizeBytes,
       UpdatedAt := now\<rparr>"

definition UpdateResolving :: "int \<Rightarrow> string \<Rightarrow> string \<Rightarrow> int \<Rightarrow> ('z db_scheme, error option) state" where
  "UpdateResolving jid resolvedURL filename sizeBytes =
     update_row jid (row_UpdateResolving resolvedURL filename sizeBytes)"

definition row_MarkDownloading :: "string \<Rightarrow> string \<Rightarrow> timestamp \<Rightarrow> job \<Rightarrow> job" where
  "row_MarkDownloading engine gid now j =
     j\<lparr>Status := StatusDownloading, Engine := engine, EngineGID := Some gid, UpdatedAt := now\<rparr>"

definition MarkDownloading :: "int \<Rightarrow> string \<Rightarrow> string \<Rightarrow> ('z db_scheme, error option) state" where
  "MarkDownloading jid engine gid = update_row jid (row_MarkDownloading engine gid)"

definition row_MarkPaused :: "timestamp \<Rightarrow> job \<Rightarrow> job" where
  "row_MarkPaused now j = j\<lparr>Status := StatusPaused, UpdatedAt := now\<rparr>"

definition MarkPaused :: "int \<Rightarrow> ('z db_scheme, error option) state" where
  "MarkPaused jid = update_row jid row_MarkPaused"

definition row_MarkDownloadingStatus :: "timestamp \<Rightarrow> job \<Rightarrow> job" where
  "row_MarkDownloadingStatus now j = j\<lparr>Status := StatusDownloading, UpdatedAt := now\<rparr>"

definition MarkDownloadingStatus :: "int \<Rightarrow> ('z db_scheme, error option) state" where
  "MarkDownloadingStatus jid = update_row jid row_MarkDownloadingStatus"

text \<open>The callers pass \<open>UpdateProgress\<close> the status \<open>downloading\<close> or \<open>completed\<close> only.\<close>

definition row_UpdateProgress :: "int \<Rightarrow> status \<Rightarrow> int \<Rightarrow> int \<Rightarrow> timestamp \<Rightarrow> job \<Rightarrow> job" where
  "row_UpdateProgress bytesDone status speed etaSeconds now j =
     j\<lparr>BytesDone := bytesDone, Status := status, DownloadSpeed := Some speed,
       EtaSeconds := Some etaSeconds, UpdatedAt := now\<rparr>"

definition UpdateProgress :: "int \<Rightarrow> int \<Rightarrow> status \<Rightarrow> int \<Rightarrow> int \<Rightarrow> ('z db_scheme, error option) state" where
  "UpdateProgress jid bytesDone status speed etaSeconds =
     update_row jid (row_UpdateProgress bytesDone status speed etaSeconds)"

definition row_MarkCompleted :: "timestamp \<Rightarrow> job \<Rightarrow> job" where
  "row_MarkCompleted now j =
     j\<lparr>Status := StatusCompleted,
       BytesDone := (case SizeBytes j of
          Some n \<Rightarrow> if BytesDone j = 0 then n else BytesDone j
        | None \<Rightarrow> BytesDone j),
       DownloadSpeed := Some 0, EtaSeconds := None, ErrorText := None, ErrorCode := None,
       UpdatedAt := now, CompletedAt := Some now\<rparr>"

definition MarkCompleted :: "int \<Rightarrow> ('z db_scheme, error option) state" where
  "MarkCompleted jid = update_row jid row_MarkCompleted"

definition row_MarkDecrypting :: "int \<Rightarrow> timestamp \<Rightarrow> job \<Rightarrow> job" where
  "row_MarkDecrypting bytesDone now j =
     j\<lparr>Status := StatusDecrypting,
       BytesDone := (if bytesDone > 0 then bytesDone else BytesDone j),
       DownloadSpeed := Some 0, EtaSeconds := None, ErrorText := None, ErrorCode := None,
       UpdatedAt := now\<rparr>"

definition MarkDecrypting :: "int \<Rightarrow> int \<Rightarrow> ('z db_scheme, error option) state" where
  "MarkDecrypting jid bytesDone = update_row jid (row_MarkDecrypting bytesDone)"

definition row_MarkDecryptingRetry :: "int \<Rightarrow> timestamp \<Rightarrow> job \<Rightarrow> job" where
  "row_MarkDecryptingRetry bytesDone now j =
     j\<lparr>Status := StatusDecrypting,
       BytesDone := (if bytesDone > 0 then bytesDone else BytesDone j),
       DownloadSpeed := Some 0, EtaSeconds := None, UpdatedAt := now\<rparr>"

definition MarkDecryptingRetry :: "int \<Rightarrow> int \<Rightarrow> ('z db_scheme, error option) state" where
  "MarkDecryptingRetry jid bytesDone = update_row jid (row_MarkDecryptingRetry bytesDone)"

definition row_MarkPostprocessFailed :: "string \<Rightarrow> string \<Rightarrow> timestamp \<Rightarrow> job \<Rightarrow> job" where
  "row_MarkPostprocessFailed msg code now j =
     j\<lparr>Status := StatusDecryptFail, ErrorText := Some msg, ErrorCode := Some code,
       DownloadSpeed := Some 0, EtaSeconds := None, UpdatedAt := now,
       CompletedAt := (case CompletedAt j of None \<Rightarrow> Some now | Some t \<Rightarrow> Some t)\<rparr>"

definition MarkPostprocessFailed :: "int \<Rightarrow> string \<Rightarrow> string \<Rightarrow> ('z db_scheme, error option) state" where
  "MarkPostprocessFailed jid msg code =
     (let code' = (if TrimSpace code = '''' then ''archive_decrypt_failed'' else code) in
        update_row jid (row_MarkPostprocessFailed msg code'))"

definition MarkDecryptFailed :: "int \<Rightarrow> string \<Rightarrow> ('z db_scheme, error option) state" where
  "MarkDecryptFailed jid msg = MarkPostprocessFailed jid msg ''archive_decrypt_failed''"

definition row_ClearArchivePassword :: "timestamp \<Rightarrow> job \<Rightarrow> job" where
  "row_ClearArchivePassword now j = j\<lparr>ArchivePassword := None, UpdatedAt := now\<rparr>"

definition ClearArchivePassword :: "int \<Rightarrow> ('z db_scheme, error option) state" where
  "ClearArchivePassword jid = update_row jid row_ClearArchivePassword"

definition row_MarkFailed :: "string \<Rightarrow> string \<Rightarrow> timestamp option \<Rightarrow> timestamp \<Rightarrow> job \<Rightarrow> job" where
  "row_MarkFailed code msg nextRetry now j =
     j\<lparr>Status := StatusFailed, ErrorText := Some msg, ErrorCode := Some code,
       DownloadSpeed := Some 0, EtaSeconds := None, UpdatedAt := now, NextRetryAt := nextRetry,
       Attempts := Attempts j + 1\<rparr>"

definition max_attempts_message :: "int \<Rightarrow> int \<Rightarrow> string" where
  "max_attempts_message attempts maxAttempts =
     (if attempts > maxAttempts
      then ''attempts exceeded max ('' @ Itoa maxAttempts @ ''); no further retries''
      else ''max attempts reached ('' @ Itoa maxAttempts @ ''); no further retries'')"

text \<open>The zero time of Go, no further retry, is \<open>None\<close>.\<close>

definition MarkFailed :: "int \<Rightarrow> string \<Rightarrow> string \<Rightarrow> timestamp option \<Rightarrow> ('z db_scheme, error option) state" where
  "MarkFailed jid code msg nextRetry = do {
     err \<leftarrow> update_row jid (row_MarkFailed code msg nextRetry);
     case err of
       Some e \<Rightarrow> return (Some e)
     | None \<Rightarrow> do {
         row \<leftarrow> store_GetJob jid;
         case row of
           Inl e \<Rightarrow> return (Some e)
         | Inr j \<Rightarrow>
             if MaxAttempts j > 0 \<and> Attempts j \<ge> MaxAttempts j
             then do {
               _ \<leftarrow> AddEvent jid ''error'' (max_attempts_message (Attempts j) (MaxAttempts j));
               return None
             }
             else return None
       }
   }"

definition row_Requeue :: "timestamp \<Rightarrow> job \<Rightarrow> job" where
  "row_Requeue now j =
     j\<lparr>Status := StatusQueued, ErrorText := None, ErrorCode := None, NextRetryAt := None,
       DeletedAt := None, ResolvedURL := None, Filename := None, SizeBytes := None,
       BytesDone := 0, DownloadSpeed := Some 0, EtaSeconds := None, Engine := ''aria2'',
       EngineGID := None, StartedAt := None, CompletedAt := None, UpdatedAt := now\<rparr>"

definition Requeue :: "int \<Rightarrow> ('z db_scheme, error option) state" where
  "Requeue jid = update_row jid row_Requeue"

definition row_Remove :: "timestamp \<Rightarrow> job \<Rightarrow> job" where
  "row_Remove now j = j\<lparr>Status := StatusDeleted, DeletedAt := Some now, UpdatedAt := now\<rparr>"

definition store_Remove :: "int \<Rightarrow> ('z db_scheme, error option) state" where
  "store_Remove jid = update_row jid row_Remove"

definition row_ClearCompleted :: "timestamp \<Rightarrow> job \<Rightarrow> job" where
  "row_ClearCompleted now j = (if Status j = StatusCompleted then row_Remove now j else j)"

definition ClearCompleted :: "('z db_scheme, error option) state" where
  "ClearCompleted = do {
     now \<leftarrow> time_now;
     sql_exec (\<lambda>s. s\<lparr>Jobs := map (row_ClearCompleted now) (Jobs s)\<rparr>)
   }"

text \<open>
  \<open>ClearAll\<close> is one transaction: begin, delete the events, delete the jobs, look for
  \<open>sqlite_sequence\<close> (which exists, as both tables are \<open>AUTOINCREMENT\<close>; if the lookup fails the
  counters are kept), delete the counters, commit. Any other failure rolls everything back.
\<close>

definition ClearAll :: "('z db_scheme, error option) state" where
  "ClearAll = do {
     began \<leftarrow> sql_exec (\<lambda>s. s);
     case began of Some e \<Rightarrow> return (Some e) | None \<Rightarrow> do {
     ev \<leftarrow> sql_exec (\<lambda>s. s);
     case ev of Some e \<Rightarrow> return (Some e) | None \<Rightarrow> do {
     js \<leftarrow> sql_exec (\<lambda>s. s);
     case js of Some e \<Rightarrow> return (Some e) | None \<Rightarrow> do {
     sq \<leftarrow> sql_exec (\<lambda>s. s);
     case sq of
       Some _ \<Rightarrow> sql_exec (\<lambda>s. s\<lparr>Jobs := [], Events := []\<rparr>)
     | None \<Rightarrow> do {
         del \<leftarrow> sql_exec (\<lambda>s. s);
         case del of
           Some e \<Rightarrow> return (Some e)
         | None \<Rightarrow> sql_exec (\<lambda>s. s\<lparr>Jobs := [], Events := [], JobSeq := 0, EventSeq := 0\<rparr>)
       } } } }
   }"

section \<open>Running statements\<close>

lemma run_time_now [simp]: "run_state time_now s = (ClockAt s (Step s), s)"
  by (simp add: time_now_def)

text \<open>No statement from the current one on fails.\<close>

definition quiet :: "'z db_scheme \<Rightarrow> bool" where
  "quiet s \<longleftrightarrow> (\<forall>n\<ge>Step s. FaultAt s n = None)"

definition tick_step :: "'z db_scheme \<Rightarrow> 'z db_scheme" where
  "tick_step s = s\<lparr>Step := Suc (Step s)\<rparr>"

lemma tick_step_simps [simp]:
  "Jobs (tick_step s) = Jobs s" "Events (tick_step s) = Events s"
  "JobSeq (tick_step s) = JobSeq s" "EventSeq (tick_step s) = EventSeq s"
  "ClockAt (tick_step s) = ClockAt s" "FaultAt (tick_step s) = FaultAt s"
  "Step (tick_step s) = Suc (Step s)" "db.more (tick_step s) = db.more s"
  by (simp_all add: tick_step_def)

lemma run_sql_exec:
  "run_state (sql_exec upd) s =
     (case FaultAt s (Step s) of
        Some m \<Rightarrow> (Some (ErrNew m), tick_step s) | None \<Rightarrow> (None, upd (tick_step s)))"
  by (simp add: sql_exec_def Let_def tick_step_def split: option.split)

lemma run_sql_query:
  "run_state (sql_query q) s =
     (case FaultAt s (Step s) of
        Some m \<Rightarrow> (Inl (ErrNew m), tick_step s) | None \<Rightarrow> (Inr (q (tick_step s)), tick_step s))"
  by (simp add: sql_query_def Let_def tick_step_def split: option.split)

lemma quiet_now: "quiet s \<Longrightarrow> FaultAt s (Step s) = None"
  by (simp add: quiet_def)

lemma quiet_tick_step [simp]: "quiet s \<Longrightarrow> quiet (tick_step s)"
  by (simp add: quiet_def)

lemma update_job_simps [simp]:
  "Jobs (update_job i f s) = map (\<lambda>j. if ID j = i then f j else j) (Jobs s)"
  "Events (update_job i f s) = Events s"
  "JobSeq (update_job i f s) = JobSeq s" "EventSeq (update_job i f s) = EventSeq s"
  "ClockAt (update_job i f s) = ClockAt s" "FaultAt (update_job i f s) = FaultAt s"
  "Step (update_job i f s) = Step s" "db.more (update_job i f s) = db.more s"
  "quiet (update_job i f s) = quiet s"
  by (simp_all add: update_job_def quiet_def)

lemma append_event_simps [simp]:
  "Jobs (append_event i l m t s) = Jobs s"
  "JobSeq (append_event i l m t s) = JobSeq s"
  "EventSeq (append_event i l m t s) = EventSeq s + 1"
  "ClockAt (append_event i l m t s) = ClockAt s" "FaultAt (append_event i l m t s) = FaultAt s"
  "Step (append_event i l m t s) = Step s" "db.more (append_event i l m t s) = db.more s"
  "quiet (append_event i l m t s) = quiet s"
  by (simp_all add: append_event_def quiet_def)

lemma run_sql_exec_quiet:
  "quiet s \<Longrightarrow> run_state (sql_exec upd) s = (None, upd (tick_step s))"
  by (simp add: run_sql_exec quiet_now)

lemma run_sql_query_quiet:
  "quiet s \<Longrightarrow> run_state (sql_query q) s = (Inr (q (tick_step s)), tick_step s)"
  by (simp add: run_sql_query quiet_now)

lemma run_update_row_quiet:
  "quiet s \<Longrightarrow> run_state (update_row i f) s =
     (None, update_job i (f (ClockAt s (Step s))) (tick_step s))"
  by (simp add: update_row_def run_sql_exec_quiet)

lemmas update_ops = UpdateResolving_def MarkDownloading_def MarkPaused_def
  MarkDownloadingStatus_def UpdateProgress_def MarkCompleted_def MarkDecrypting_def
  MarkDecryptingRetry_def MarkPostprocessFailed_def ClearArchivePassword_def Requeue_def
  store_Remove_def

lemmas row_ops = row_UpdateResolving_def row_MarkDownloading_def row_MarkPaused_def
  row_MarkDownloadingStatus_def row_UpdateProgress_def row_MarkCompleted_def
  row_MarkDecrypting_def row_MarkDecryptingRetry_def row_MarkPostprocessFailed_def
  row_ClearArchivePassword_def row_MarkFailed_def row_Requeue_def row_Remove_def
  row_ClearCompleted_def row_Claim_def

lemma lookup_tick_step [simp]: "lookup_job i (tick_step s) = lookup_job i s"
  by (simp add: lookup_job_def)

lemma lookup_append_event [simp]: "lookup_job k (append_event i l m t s) = lookup_job k s"
  by (simp add: lookup_job_def)

lemma lookup_job_SomeD: "lookup_job i s = Some j \<Longrightarrow> j \<in> set (Jobs s) \<and> ID j = i"
  by (auto simp: lookup_job_def find_Some_iff)

lemma lookup_job_None_iff: "lookup_job i s = None \<longleftrightarrow> i \<notin> ID ` set (Jobs s)"
  by (auto simp: lookup_job_def find_None_iff)

lemma find_map_ID:
  assumes "\<And>j. ID (f j) = ID j"
  shows "find (\<lambda>j. ID j = i) (map f js) = map_option f (find (\<lambda>j. ID j = i) js)"
  by (induction js) (auto simp: assms)

lemma lookup_update_job:
  assumes "\<And>j. ID (f j) = ID j"
  shows "lookup_job k (update_job i f s) =
     (if k = i then map_option f (lookup_job i s) else lookup_job k s)"
proof -
  let ?g = "\<lambda>j. if ID j = i then f j else j"
  have g: "lookup_job k (update_job i f s) = map_option ?g (lookup_job k s)"
    using find_map_ID [of ?g k "Jobs s"] assms by (simp add: lookup_job_def)
  show ?thesis
  proof (cases "lookup_job k s")
    case (Some j)
    then have "ID j = k" using lookup_job_SomeD by blast
    with Some g show ?thesis by auto
  qed (use g in auto)
qed

lemma row_ops_ID [simp]:
  "ID (row_UpdateResolving u f n t j) = ID j" "ID (row_MarkDownloading e g t j) = ID j"
  "ID (row_MarkPaused t j) = ID j" "ID (row_MarkDownloadingStatus t j) = ID j"
  "ID (row_UpdateProgress b st sp eta t j) = ID j" "ID (row_MarkCompleted t j) = ID j"
  "ID (row_MarkDecrypting b t j) = ID j" "ID (row_MarkDecryptingRetry b t j) = ID j"
  "ID (row_MarkPostprocessFailed m c t j) = ID j" "ID (row_ClearArchivePassword t j) = ID j"
  "ID (row_MarkFailed c m r t j) = ID j" "ID (row_Requeue t j) = ID j"
  "ID (row_Remove t j) = ID j" "ID (row_ClearCompleted t j) = ID j" "ID (row_Claim t j) = ID j"
  by (simp_all add: row_ops)

section \<open>The life cycle of a row\<close>

text \<open>What the statements of the store can do to a single row: one rule per \<open>UPDATE\<close>.\<close>

inductive row_step :: "job \<Rightarrow> job \<Rightarrow> bool" where
  claim: "row_step j (row_Claim t j)"
| resolved: "row_step j (row_UpdateResolving u f n t j)"
| downloading: "row_step j (row_MarkDownloading e g t j)"
| paused: "row_step j (row_MarkPaused t j)"
| resumed: "row_step j (row_MarkDownloadingStatus t j)"
| progress: "st = StatusDownloading \<or> st = StatusCompleted \<Longrightarrow>
    row_step j (row_UpdateProgress b st sp eta t j)"
| completed: "row_step j (row_MarkCompleted t j)"
| decrypting: "row_step j (row_MarkDecrypting b t j)"
| decrypt_retry: "row_step j (row_MarkDecryptingRetry b t j)"
| post_failed: "row_step j (row_MarkPostprocessFailed m c t j)"
| clear_password: "row_step j (row_ClearArchivePassword t j)"
| failed: "row_step j (row_MarkFailed c m r t j)"
| requeued: "row_step j (row_Requeue t j)"
| removed: "row_step j (row_Remove t j)"

text \<open>The steps of a job that is being worked on by the runner: not claimed, paused, resumed, requeued
  or removed. They never make a job \<open>queued\<close> and never touch its deletion mark.\<close>

inductive work_step :: "job \<Rightarrow> job \<Rightarrow> bool" where
  "work_step j (row_UpdateResolving u f n t j)"
| "work_step j (row_MarkDownloading e g t j)"
| "st = StatusDownloading \<or> st = StatusCompleted \<Longrightarrow> work_step j (row_UpdateProgress b st sp eta t j)"
| "work_step j (row_MarkCompleted t j)"
| "work_step j (row_MarkDecrypting b t j)"
| "work_step j (row_MarkPostprocessFailed m c t j)"
| "work_step j (row_ClearArchivePassword t j)"
| "work_step j (row_MarkFailed c m r t j)"

lemma work_step_row_step: "work_step j k \<Longrightarrow> row_step j k"
  by (induction rule: work_step.induct) (auto intro: row_step.intros)

definition rows_step :: "job list \<Rightarrow> job list \<Rightarrow> bool" where
  "rows_step js js' \<longleftrightarrow> list_all2 (\<lambda>j j'. j' = j \<or> row_step j j') js js'"

lemma rows_step_map:
  "(\<And>j. j \<in> set js \<Longrightarrow> f j = j \<or> row_step j (f j)) \<Longrightarrow> rows_step js (map f js)"
  by (auto simp: rows_step_def list_all2_conv_all_nth)

section \<open>The interface of the store\<close>

text \<open>
  What it takes for a relation on databases to be kept by the work on jobs: it allows the numbering
  of the statements, and on the jobs in \<open>Own\<close> the steps of \<open>work_step\<close> and events.
\<close>

locale work_contract = effect_contract R
  for R :: "'z db_scheme \<Rightarrow> 'z db_scheme \<Rightarrow> bool" +
  fixes Own :: "int \<Rightarrow> bool"
  assumes stmt: "R s (tick_step s)"
    and work: "Own i \<Longrightarrow> (\<And>j. work_step j (f j)) \<Longrightarrow> R s (update_job i f s)"
    and event: "Own i \<Longrightarrow> lookup_job i s \<noteq> None \<Longrightarrow> R s (append_event i l m t s)"
begin

lemma keeps_time_now: "state_io_rel R time_now"
  by (simp add: time_now_def keeps_gets)

lemma keeps_sql_query: "state_io_rel R (sql_query q)"
  by (rule state_io_rel_final) (simp add: run_sql_query stmt split: option.split)

lemma keeps_sql_exec:
  "(\<And>s. R s (upd s)) \<Longrightarrow> state_io_rel R (sql_exec upd)"
  by (rule state_io_rel_final)
    (auto simp: run_sql_exec intro: stmt trans split: option.split)

lemma keeps_work_row:
  "Own i \<Longrightarrow> (\<And>t j. work_step j (f t j)) \<Longrightarrow> state_io_rel R (update_row i f)"
  unfolding update_row_def by (intro keeps_bind keeps_time_now keeps_sql_exec work) auto

lemma keeps_work:
  assumes "Own i"
  shows "state_io_rel R (UpdateResolving i u f n)" "state_io_rel R (MarkDownloading i e g)"
  "state_io_rel R (MarkCompleted i)" "state_io_rel R (MarkDecrypting i b)"
  "state_io_rel R (MarkPostprocessFailed i m c)" "state_io_rel R (ClearArchivePassword i)"
  "state_io_rel R (UpdateProgress i b StatusDownloading sp eta)"
  "state_io_rel R (UpdateProgress i b StatusCompleted sp eta)"
  by (simp_all add: assms update_ops Let_def keeps_work_row work_step.intros)

lemma keeps_reads:
  "state_io_rel R (store_GetJob i)" "state_io_rel R (store_ListJobs st d)"
  "state_io_rel R (ListPendingPostprocess n)" "state_io_rel R (ListRetryableFailed n)"
  unfolding store_GetJob_def store_ListJobs_def ListPendingPostprocess_def ListRetryableFailed_def
  by (intro keeps_control keeps_sql_query keeps_time_now)+

lemma keeps_AddEvent:
  assumes "Own i"
  shows "state_io_rel R (AddEvent i l m)"
proof (rule state_io_rel_final)
  fix s
  have "R s (append_event i l m (ClockAt s (Step s)) (tick_step s))" if "lookup_job i s \<noteq> None"
    using that by (intro trans [OF stmt event [OF assms]]) simp
  then show "R s (final (AddEvent i l m) s)"
    by (auto simp: AddEvent_def run_sql_exec stmt split: option.split)
qed

lemma keeps_MarkFailed: "Own i \<Longrightarrow> state_io_rel R (MarkFailed i c m r)"
  unfolding MarkFailed_def
  by (intro keeps_control keeps_work_row work_step.intros keeps_reads keeps_AddEvent)

lemmas keeps_own = keeps_work keeps_AddEvent keeps_MarkFailed

end

text \<open>
  A relation on databases that every statement of the store keeps: the numbering of the
  statements, any steps of rows, an event of an existing job. The clients' methods keep it too
  (theories Service and Runner_Loop). Creating a job and clearing the tables are outside the
  contract, since they change the set of rows.
\<close>

locale store_contract = effect_contract R
  for R :: "'z db_scheme \<Rightarrow> 'z db_scheme \<Rightarrow> bool" +
  assumes stmt: "R s (tick_step s)"
    and rows: "rows_step (Jobs s) js \<Longrightarrow> R s (s\<lparr>Jobs := js\<rparr>)"
    and event: "lookup_job i s \<noteq> None \<Longrightarrow> R s (append_event i l m t s)"
begin

lemma update: "(\<And>j. row_step j (f j)) \<Longrightarrow> R s (update_job i f s)"
  unfolding update_job_def by (intro rows rows_step_map) auto

end

sublocale store_contract \<subseteq> work: work_contract R "\<lambda>_. True"
  by unfold_locales (auto intro: stmt update event work_step_row_step)

context store_contract
begin

lemma keeps_update_row: "(\<And>t j. row_step j (f t j)) \<Longrightarrow> state_io_rel R (update_row i f)"
  unfolding update_row_def
  by (intro keeps_bind work.keeps_time_now work.keeps_sql_exec update) auto

lemma keeps_updates:
  "state_io_rel R (MarkPaused i)" "state_io_rel R (MarkDownloadingStatus i)"
  "state_io_rel R (MarkDecryptingRetry i b)" "state_io_rel R (Requeue i)"
  "state_io_rel R (store_Remove i)"
  by (simp_all add: update_ops keeps_update_row row_step.intros)

lemma keeps_ClearCompleted: "state_io_rel R ClearCompleted"
  unfolding ClearCompleted_def
  by (intro keeps_bind work.keeps_time_now work.keeps_sql_exec rows rows_step_map)
    (auto simp: row_ClearCompleted_def intro: row_step.removed)

lemma keeps_claim_turn: "state_io_rel R (claim_turn now)"
  unfolding claim_turn_def
  by (intro keeps_control work.keeps_sql_query work.keeps_sql_exec update row_step.claim
      | split list.split, intro allI conjI impI)+

lemma keeps_claim_loop: "state_io_rel R (claim_loop n now)"
  by (induction n) (auto intro!: keeps_control keeps_claim_turn)

lemma keeps_ClaimNextQueued: "state_io_rel R ClaimNextQueued"
  unfolding ClaimNextQueued_def by (intro keeps_control work.keeps_time_now keeps_claim_loop)

lemmas keeps_store = keeps_updates keeps_ClearCompleted keeps_ClaimNextQueued
  work.keeps_own [OF TrueI]
  work.keeps_time_now work.keeps_reads

end

text \<open>A contract on single rows gives one on the table: the rows correspond one to one.\<close>

locale row_contract =
  fixes rowR :: "job \<Rightarrow> job \<Rightarrow> bool"
  assumes row_refl: "rowR j j"
    and row_trans: "rowR j k \<Longrightarrow> rowR k l \<Longrightarrow> rowR j l"
    and row: "row_step j k \<Longrightarrow> rowR j k"
begin

lemma rows_rel_step: "rows_step js js' \<Longrightarrow> list_all2 rowR js js'"
  unfolding rows_step_def by (erule list_all2_mono) (auto intro: row_refl row)

lemma rows_rel_in:
  "list_all2 rowR js js' \<Longrightarrow> j' \<in> set js' \<Longrightarrow> \<exists>j\<in>set js. rowR j j'"
  by (metis in_set_conv_nth list_all2_conv_all_nth)

end

sublocale row_contract \<subseteq> table: store_contract "\<lambda>s s'. list_all2 rowR (Jobs s) (Jobs s')"
proof unfold_locales
  show "list_all2 rowR (Jobs s) (Jobs s)" for s :: "'z db_scheme"
    by (simp add: list_all2_same row_refl)
  show "list_all2 rowR (Jobs s) (Jobs t) \<Longrightarrow> list_all2 rowR (Jobs t) (Jobs u) \<Longrightarrow>
      list_all2 rowR (Jobs s) (Jobs u)" for s t u :: "'z db_scheme"
    by (rule list_all2_trans [OF row_trans])
qed (simp_all add: rows_rel_step list_all2_same row_refl)

end
