(* ===== verification/Status.thy ===== *)
theory Status
  imports Go_Url Store
begin

text \<open>
  internal/queue/status.go: which jobs are webshare or MEGA jobs, and the status word shown to
  the user.
\<close>

definition IsWebshareJob :: "string \<Rightarrow> string \<Rightarrow> bool" where
  "IsWebshareJob site rawURL =
     (if EqualFold (TrimSpace site) ''webshare'' then True
      else let raw = TrimSpace rawURL in
        if raw = '''' then False
        else if (case url_Parse raw of
            Inr u \<Rightarrow> Contains (ToLower (TrimSpace (Hostname u))) ''webshare.cz''
          | Inl _ \<Rightarrow> False) then True
        else Contains (ToLower raw) ''webshare.cz'')"

definition IsMegaJob :: "string \<Rightarrow> string \<Rightarrow> bool" where
  "IsMegaJob site rawURL =
     (if EqualFold (TrimSpace site) ''mega'' then True
      else let raw = TrimSpace rawURL in
        if raw = '''' then False
        else if (case url_Parse raw of
            Inr u \<Rightarrow> (let host = ToLower (TrimSpace (Hostname u)) in
              Contains host ''mega.nz'' \<or> Contains host ''mega.co.nz'')
          | Inl _ \<Rightarrow> False) then True
        else let lower = ToLower raw in Contains lower ''mega.nz'' \<or> Contains lower ''mega.co.nz'')"

definition DisplayStatus :: "string \<Rightarrow> string \<Rightarrow> string \<Rightarrow> string" where
  "DisplayStatus st site rawURL =
     (if st = status_text StatusPaused \<and> IsWebshareJob site rawURL then ''stopped'' else st)"

end
