(* ===== verification/Store_Laws.thy ===== *)
theory Store_Laws
  imports Store
begin

text \<open>
  The laws of the store of theory Store: the invariant of its database (\<open>wf_db\<close>), the frame
  conditions its statements keep (interpretations of \<open>store_contract\<close> and \<open>row_contract\<close>), and the
  behaviour of claiming, creating, failing, requeueing and deleting jobs.
\<close>

section \<open>Well-formed databases\<close>

definition wf_job :: "job \<Rightarrow> bool" where
  "wf_job j \<longleftrightarrow> 0 < ID j \<and> 0 \<le> Attempts j \<and>
     (Status j = StatusDeleted \<longrightarrow> DeletedAt j \<noteq> None) \<and>
     (Status j = StatusResolving \<longrightarrow> StartedAt j \<noteq> None) \<and>
     (Status j = StatusFailed \<longrightarrow> ErrorText j \<noteq> None \<and> ErrorCode j \<noteq> None \<and> 0 < Attempts j) \<and>
     (Status j = StatusDecryptFail \<longrightarrow>
        ErrorText j \<noteq> None \<and> ErrorCode j \<noteq> None \<and> CompletedAt j \<noteq> None)"

lemma row_step_wf: "row_step j k \<Longrightarrow> wf_job j \<Longrightarrow> wf_job k"
  by (induction rule: row_step.induct) (auto simp: wf_job_def row_ops split: option.splits)

definition wf_db :: "'z db_scheme \<Rightarrow> bool" where
  "wf_db s \<longleftrightarrow>
     sorted_wrt (<) (map ID (Jobs s)) \<and> list_all wf_job (Jobs s) \<and>
     (\<forall>j\<in>set (Jobs s). ID j \<le> JobSeq s) \<and> 0 \<le> JobSeq s \<and>
     sorted_wrt (<) (map EventID (Events s)) \<and>
     (\<forall>e\<in>set (Events s). EventID e \<le> EventSeq s \<and> EventJob e \<in> ID ` set (Jobs s)) \<and>
     0 \<le> EventSeq s"

lemma row_step_ID: "row_step j k \<Longrightarrow> ID k = ID j"
  by (induction rule: row_step.induct) auto

lemma rows_step_ID: "rows_step js js' \<Longrightarrow> map ID js' = map ID js"
  by (auto simp: rows_step_def list_all2_conv_all_nth row_step_ID intro!: nth_equalityI)

lemma rows_step_wf: "rows_step js js' \<Longrightarrow> list_all wf_job js \<Longrightarrow> list_all wf_job js'"
  unfolding rows_step_def by (induction rule: list_all2_induct) (auto intro: row_step_wf)

lemma wf_db_alt:
  "wf_db s \<longleftrightarrow>
     sorted_wrt (<) (map ID (Jobs s)) \<and> list_all wf_job (Jobs s) \<and>
     (\<forall>i\<in>set (map ID (Jobs s)). i \<le> JobSeq s) \<and> 0 \<le> JobSeq s \<and>
     sorted_wrt (<) (map EventID (Events s)) \<and>
     (\<forall>e\<in>set (Events s). EventID e \<le> EventSeq s \<and> EventJob e \<in> set (map ID (Jobs s))) \<and>
     0 \<le> EventSeq s"
  by (simp add: wf_db_def)

lemma wf_db_rows:
  assumes "rows_step (Jobs s) js" and "wf_db s"
  shows "wf_db (s\<lparr>Jobs := js\<rparr>)"
  using assms(2) rows_step_ID [OF assms(1)] rows_step_wf [OF assms(1)]
  by (simp add: wf_db_alt del: list.set_map)

lemma wf_db_event:
  "lookup_job i s \<noteq> None \<Longrightarrow> wf_db s \<Longrightarrow> wf_db (append_event i l m t s)"
proof -
  assume "lookup_job i s \<noteq> None" and wf: "wf_db s"
  then have "i \<in> ID ` set (Jobs s)" by (simp add: lookup_job_None_iff)
  moreover have "\<forall>e\<in>set (Events s). EventID e < EventSeq s + 1"
    using wf by (auto simp: wf_db_def)
  ultimately show ?thesis
    using wf by (auto simp: wf_db_def append_event_def sorted_wrt_append)
qed

interpretation wf: store_contract "\<lambda>s s'. wf_db s \<longrightarrow> wf_db s'"
proof unfold_locales
  show "wf_db s \<longrightarrow> wf_db (tick_step s)" for s :: "'z db_scheme"
    by (simp add: wf_db_def)
qed (auto intro: wf_db_rows wf_db_event)

text \<open>The environment of the statements is not changed, the numbering only grows.\<close>

definition env_step :: "'z db_scheme \<Rightarrow> 'z db_scheme \<Rightarrow> bool" where
  "env_step s s' \<longleftrightarrow> ClockAt s' = ClockAt s \<and> FaultAt s' = FaultAt s \<and> Step s \<le> Step s' \<and>
     JobSeq s' = JobSeq s \<and> prefix (Events s) (Events s')"

interpretation env: store_contract env_step
  by unfold_locales (auto simp: env_step_def append_event_def intro: prefix_order.trans)

lemma env_step_quiet: "env_step s s' \<Longrightarrow> quiet s \<Longrightarrow> quiet s'"
  by (auto simp: env_step_def quiet_def)

text \<open>The columns written when the job is created are never written again.\<close>

definition static_same :: "job \<Rightarrow> job \<Rightarrow> bool" where
  "static_same j k \<longleftrightarrow> ID k = ID j \<and> URL k = URL j \<and> Site k = Site j \<and> OutDir k = OutDir j \<and>
     Name k = Name j \<and> MaxAttempts k = MaxAttempts j \<and> CreatedAt k = CreatedAt j \<and>
     Attempts j \<le> Attempts k"

lemma row_step_static: "row_step j k \<Longrightarrow> static_same j k"
  by (induction rule: row_step.induct) (auto simp: static_same_def row_ops)

interpretation static: row_contract static_same
  by unfold_locales (auto simp: static_same_def dest: row_step_static)

text \<open>A stored archive password is only ever erased, never replaced.\<close>

definition password_kept :: "job \<Rightarrow> job \<Rightarrow> bool" where
  "password_kept j k \<longleftrightarrow> ArchivePassword k = ArchivePassword j \<or> ArchivePassword k = None"

lemma row_step_password: "row_step j k \<Longrightarrow> password_kept j k"
  by (induction rule: row_step.induct) (auto simp: password_kept_def row_ops)

interpretation password: row_contract password_kept
  by unfold_locales (auto simp: password_kept_def dest: row_step_password)

section \<open>Creating and clearing\<close>

lemma run_store_CreateJob:
  "run_state (store_CreateJob j) s =
     (case FaultAt s (Step s) of
        Some m \<Rightarrow> (Inl (ErrNew m), tick_step s)
      | None \<Rightarrow> (Inr (JobSeq s + 1), insert_job j (ClockAt s (Step s)) (tick_step s)))"
  by (simp add: store_CreateJob_def run_sql_exec insert_job_def split: option.split)

lemma insert_job_simps [simp]:
  "Jobs (insert_job j t s) = Jobs s @ [new_row (JobSeq s + 1) j t]"
  "Events (insert_job j t s) = Events s" "EventSeq (insert_job j t s) = EventSeq s"
  "JobSeq (insert_job j t s) = JobSeq s + 1"
  "ClockAt (insert_job j t s) = ClockAt s" "FaultAt (insert_job j t s) = FaultAt s"
  "Step (insert_job j t s) = Step s" "quiet (insert_job j t s) = quiet s"
  by (simp_all add: insert_job_def quiet_def)

lemma wf_db_new_id: "wf_db s \<Longrightarrow> lookup_job (JobSeq s + 1) s = None"
  by (fastforce simp: wf_db_def lookup_job_None_iff)

lemma wf_job_new_row: "0 < i \<Longrightarrow> wf_job (new_row i j t)"
  by (simp add: wf_job_def new_row_def)

lemma wf_insert_job: "wf_db s \<Longrightarrow> wf_db (insert_job j t s)"
proof -
  assume wf: "wf_db s"
  have "ID (new_row i j t) = i" for i by (simp add: new_row_def)
  with wf show ?thesis
    by (fastforce simp: wf_db_def sorted_wrt_append wf_job_new_row)
qed

lemma wf_store_CreateJob: "wf_db s \<Longrightarrow> wf_db (final (store_CreateJob j) s)"
  by (simp add: run_store_CreateJob wf_insert_job wf.stmt [rule_format] split: option.split)

lemma lookup_insert_job:
  "lookup_job k (insert_job j t s) =
     (case lookup_job k s of Some r \<Rightarrow> Some r
      | None \<Rightarrow> if k = JobSeq s + 1 then Some (new_row k j t) else None)"
proof -
  have "find P (xs @ [x]) = (case find P xs of Some r \<Rightarrow> Some r | None \<Rightarrow> if P x then Some x else None)"
    for P and xs :: "job list" and x
    by (induction xs) auto
  then show ?thesis
    by (auto simp: lookup_job_def new_row_def split: option.split)
qed

lemma wf_ClearAll: "wf_db s \<Longrightarrow> wf_db (final ClearAll s)"
  by (auto simp: ClearAll_def run_sql_exec wf_db_def tick_step_def split: option.split)

section \<open>Claims\<close>

lemma set_order_by_id [simp]: "set (order_by_id js) = set js"
  by (simp add: order_by_id_def)

lemma order_by_id_least:
  assumes "order_by_id js = j # r" and "k \<in> set js"
  shows "ID j \<le> ID k"
proof -
  have "sorted (map ID (j # r))" using assms(1) by (metis order_by_id_def sorted_sort_key)
  moreover have "k \<in> set (j # r)" using assms by (metis set_order_by_id)
  ultimately show ?thesis by auto
qed

text \<open>What one turn does: it fails and changes no row, or it moves the claimable row with the
  least id to \<open>resolving\<close>.\<close>

definition claimed :: "timestamp \<Rightarrow> job list \<Rightarrow> job \<Rightarrow> job list \<Rightarrow> bool" where
  "claimed now js j js' \<longleftrightarrow>
     (\<exists>k\<in>set js. claimable now k \<and> (\<forall>l\<in>set js. claimable now l \<longrightarrow> ID k \<le> ID l) \<and>
        j = k\<lparr>Status := StatusResolving\<rparr> \<and>
        js' = map (\<lambda>l. if ID l = ID k then row_Claim now l else l) js)"

lemma claim_turn_outcome:
  "\<exists>r. result (claim_turn now) s = Some r \<and>
     (case r of
        Inl e \<Rightarrow> Jobs (final (claim_turn now) s) = Jobs s
      | Inr j \<Rightarrow> claimed now (Jobs s) j (Jobs (final (claim_turn now) s)))"
proof (cases "order_by_id (filter (claimable now) (Jobs s))")
  case Nil
  then show ?thesis
    by (auto simp: claim_turn_def run_sql_query split: option.split)
next
  case (Cons j r)
  have j: "j \<in> set (Jobs s)" "claimable now j"
    using set_order_by_id [of "filter (claimable now) (Jobs s)"] Cons by auto
  have least: "\<forall>l\<in>set (Jobs s). claimable now l \<longrightarrow> ID j \<le> ID l"
    using order_by_id_least [OF Cons] by auto
  have "filter (\<lambda>k. ID k = ID j \<and> Status k = StatusQueued) (Jobs s) \<noteq> []"
    using j by (auto simp: filter_empty_conv claimable_def)
  moreover have "claimed now (Jobs s) (j\<lparr>Status := StatusResolving\<rparr>)
      (map (\<lambda>l. if ID l = ID j then row_Claim now l else l) (Jobs s))"
    using j least unfolding claimed_def by blast
  ultimately show ?thesis
    using Cons by (auto simp: claim_turn_def run_sql_query run_sql_exec split: option.split)
qed

lemma claim_loop_one: "claim_loop (Suc n) now = claim_loop 1 now"
proof (rule state_ext)
  fix s :: "'z db_scheme"
  obtain x where "result (claim_turn now) s = Some x" using claim_turn_outcome by blast
  then show "run_state (claim_loop (Suc n) now) s = run_state (claim_loop 1 now) s"
    by (simp add: case_prod_beta)
qed

lemma run_ClaimNextQueued:
  "run_state ClaimNextQueued s =
     (the (result (claim_turn (ClockAt s (Step s))) s), final (claim_turn (ClockAt s (Step s))) s)"
proof -
  obtain x where "result (claim_turn (ClockAt s (Step s))) s = Some x"
    using claim_turn_outcome by blast
  then show ?thesis by (simp add: ClaimNextQueued_def case_prod_beta)
qed

lemma ClaimNextQueued_outcome:
  "case result ClaimNextQueued s of
     Inl e \<Rightarrow> Jobs (final ClaimNextQueued s) = Jobs s
   | Inr j \<Rightarrow> claimed (ClockAt s (Step s)) (Jobs s) j (Jobs (final ClaimNextQueued s))"
proof -
  obtain r where "result (claim_turn (ClockAt s (Step s))) s = Some r"
      "case r of Inl e \<Rightarrow> Jobs (final (claim_turn (ClockAt s (Step s))) s) = Jobs s
       | Inr j \<Rightarrow> claimed (ClockAt s (Step s)) (Jobs s) j
           (Jobs (final (claim_turn (ClockAt s (Step s))) s))"
    using claim_turn_outcome by blast
  then show ?thesis by (cases r) (simp_all add: run_ClaimNextQueued)
qed

lemma ClaimNextQueued_quiet:
  assumes "quiet s"
  shows "result ClaimNextQueued s = Inl ErrNoRows \<longleftrightarrow>
    (\<forall>j\<in>set (Jobs s). \<not> claimable (ClockAt s (Step s)) j)"
proof (cases "order_by_id (filter (claimable (ClockAt s (Step s))) (Jobs s))")
  case Nil
  then have "filter (claimable (ClockAt s (Step s))) (Jobs s) = []"
    by (metis empty_set set_empty set_order_by_id)
  then show ?thesis
    using assms Nil by (simp add: run_ClaimNextQueued claim_turn_def run_sql_query_quiet filter_empty_conv)
next
  case (Cons j r)
  then have j: "j \<in> set (Jobs s)" "claimable (ClockAt s (Step s)) j"
    using set_order_by_id [of "filter (claimable (ClockAt s (Step s))) (Jobs s)"] by auto
  then have "filter (\<lambda>k. ID k = ID j \<and> Status k = StatusQueued) (Jobs s) \<noteq> []"
    by (auto simp: filter_empty_conv claimable_def)
  then show ?thesis
    using assms Cons j
    by (auto simp: run_ClaimNextQueued claim_turn_def run_sql_query_quiet run_sql_exec_quiet)
qed

lemma ClaimNextQueued_Inl_quiet:
  assumes "quiet s" and "result ClaimNextQueued s = Inl e"
  shows "e = ErrNoRows"
proof (cases "order_by_id (filter (claimable (ClockAt s (Step s))) (Jobs s))")
  case Nil
  then show ?thesis
    using assms by (simp add: run_ClaimNextQueued claim_turn_def run_sql_query_quiet)
next
  case (Cons j r)
  then have "j \<in> set (Jobs s)" "claimable (ClockAt s (Step s)) j"
    using set_order_by_id [of "filter (claimable (ClockAt s (Step s))) (Jobs s)"] by auto
  then show ?thesis
    using assms Cons
    by (auto simp: run_ClaimNextQueued claim_turn_def run_sql_query_quiet run_sql_exec_quiet
        filter_empty_conv claimable_def split: if_splits)
qed


definition sample_job :: "int \<Rightarrow> job" where
  "sample_job i = new_row i
     \<lparr>ID = 0, URL = ''https://x.org/f.zip'', Site = '''', OutDir = ''/data'', Name = '''',
      ArchivePassword = None, ResolvedURL = None, Filename = None, SizeBytes = None,
      BytesDone = 0, DownloadSpeed = None, EtaSeconds = None, Status = StatusQueued,
      ErrorText = None, ErrorCode = None, Engine = '''', EngineGID = None, Attempts = 0,
      MaxAttempts = 5, NextRetryAt = None, CreatedAt = 0, UpdatedAt = 0,
      StartedAt = None, CompletedAt = None, DeletedAt = None\<rparr> 0"

definition sample_db :: "job list \<Rightarrow> db" where
  "sample_db js = \<lparr>Jobs = js, Events = [], JobSeq = int (length js), EventSeq = 0, Step = 0,
     ClockAt = (\<lambda>_. 100), FaultAt = (\<lambda>_. None)\<rparr>"

lemma quiet_sample_db [simp]: "quiet (sample_db js)"
  by (simp add: quiet_def sample_db_def)


text \<open>
  Two claims in a row never return the same job, whatever fails and however the clock moves.
\<close>

theorem ClaimNextQueued_exclusive:
  assumes "result ClaimNextQueued s = Inr j"
    and "result ClaimNextQueued (final ClaimNextQueued s) = Inr k"
  shows "ID j \<noteq> ID k"
proof -
  let ?s = "final ClaimNextQueued s"
  have "claimed (ClockAt s (Step s)) (Jobs s) j (Jobs ?s)"
    using ClaimNextQueued_outcome [of s] assms(1) by simp
  then obtain j0 where j0: "j = j0\<lparr>Status := StatusResolving\<rparr>"
      "Jobs ?s = map (\<lambda>l. if ID l = ID j0 then row_Claim (ClockAt s (Step s)) l else l) (Jobs s)"
    unfolding claimed_def by blast
  have "claimed (ClockAt ?s (Step ?s)) (Jobs ?s) k (Jobs (final ClaimNextQueued ?s))"
    using ClaimNextQueued_outcome [of ?s] assms(2) by simp
  then obtain k0 where k0: "k0 \<in> set (Jobs ?s)" "claimable (ClockAt ?s (Step ?s)) k0"
      "k = k0\<lparr>Status := StatusResolving\<rparr>"
    unfolding claimed_def by blast
  have "ID k0 \<noteq> ID j0"
    using k0(1,2) unfolding j0(2) by (auto simp: claimable_def row_Claim_def split: if_splits)
  with j0(1) k0(3) show ?thesis by simp
qed

theorem ClaimNextQueued_exclusive_witness:
  "ID (sample_job 1\<lparr>Status := StatusResolving\<rparr>) \<noteq> ID (sample_job 2\<lparr>Status := StatusResolving\<rparr>)"
proof (rule ClaimNextQueued_exclusive)
  let ?s = "sample_db [sample_job 1, sample_job 2]"
  show "result ClaimNextQueued ?s = Inr (sample_job 1\<lparr>Status := StatusResolving\<rparr>)"
    by code_simp
  show "result ClaimNextQueued (final ClaimNextQueued ?s)
      = Inr (sample_job 2\<lparr>Status := StatusResolving\<rparr>)"
    by code_simp
qed

section \<open>Requeueing, failing and deleting\<close>

lemma lookup_final_update_row:
  assumes "quiet s" and "\<And>t j. ID (f t j) = ID j"
  shows "lookup_job k (final (update_row i f) s) =
    (if k = i then map_option (f (ClockAt s (Step s))) (lookup_job i s) else lookup_job k s)"
  using assms by (simp add: run_update_row_quiet lookup_update_job)

lemma run_GetJob_quiet:
  "quiet s \<Longrightarrow> run_state (store_GetJob i) s =
     (case lookup_job i s of None \<Rightarrow> Inl ErrNoRows | Some j \<Rightarrow> Inr j, tick_step s)"
  by (simp add: store_GetJob_def run_sql_query_quiet)

lemma run_AddEvent_quiet:
  "quiet s \<Longrightarrow> lookup_job i s \<noteq> None \<Longrightarrow>
     run_state (AddEvent i l m) s = (None, append_event i l m (ClockAt s (Step s)) (tick_step s))"
  by (simp add: AddEvent_def run_sql_exec_quiet)

lemma run_AddEvent_missing:
  "quiet s \<Longrightarrow> lookup_job i s = None \<Longrightarrow>
     run_state (AddEvent i l m) s = (Some errForeignKey, tick_step s)"
  by (simp add: AddEvent_def run_sql_exec_quiet)

text \<open>
  Requeueing undoes everything that happened to a job: the row is again the row that
  \<open>CreateJob\<close> inserted for it, except for the count of failed attempts, an archive password erased
  meanwhile, and the time of the update. In particular a removed job is back.
\<close>

theorem Requeue_restores_new_row:
  assumes "quiet s" and "lookup_job i s = Some j"
  shows "lookup_job i (final (Requeue i) s) =
    Some ((new_row i j (CreatedAt j))\<lparr>Attempts := Attempts j, UpdatedAt := ClockAt s (Step s)\<rparr>)"
proof -
  have "ID j = i" using assms(2) lookup_job_SomeD by blast
  then show ?thesis
    using assms
    by (simp add: Requeue_def lookup_final_update_row row_Requeue_def new_row_def)
qed

theorem Requeue_restores_new_row_witness:
  "lookup_job 1 (final (Requeue 1) (sample_db [row_Remove 7 (sample_job 1)])) =
    Some ((new_row 1 (row_Remove 7 (sample_job 1)) 0)\<lparr>Attempts := 0, UpdatedAt := 100\<rparr>)"
proof -
  have "lookup_job 1 (sample_db [row_Remove 7 (sample_job 1)]) = Some (row_Remove 7 (sample_job 1))"
    by code_simp
  from Requeue_restores_new_row [OF quiet_sample_db this] show ?thesis
    by (simp add: sample_db_def sample_job_def new_row_def row_Remove_def)
qed

lemma run_MarkFailed_quiet:
  fixes s :: "'z db_scheme" and c m :: string and r :: "timestamp option"
  assumes "quiet s" and "lookup_job i s = Some j"
  defines "j' \<equiv> row_MarkFailed c m r (ClockAt s (Step s)) j"
    and "s' \<equiv> tick_step (update_job i (row_MarkFailed c m r (ClockAt s (Step s))) (tick_step s))"
  shows "run_state (MarkFailed i c m r) s = (None,
    if MaxAttempts j' > 0 \<and> Attempts j' \<ge> MaxAttempts j'
    then append_event i ''error'' (max_attempts_message (Attempts j') (MaxAttempts j'))
      (ClockAt s (Step s + 2)) (tick_step s') else s')"
  using assms
  by (simp add: MarkFailed_def run_update_row_quiet run_GetJob_quiet run_AddEvent_quiet
      lookup_update_job)

text \<open>
  A failure is counted, and an exhausted job is not retried. \<open>MarkFailed\<close> adds one to the
  attempts and records the cause and the time of the next retry; when the attempts have reached
  the maximum it appends an error event that says so, and from then on the job is not
  among the retryable ones at any time.
\<close>

theorem MarkFailed_counts:
  assumes "quiet s" and "lookup_job i s = Some j"
  shows "\<exists>j'. lookup_job i (final (MarkFailed i c m r) s) = Some j' \<and>
     Status j' = StatusFailed \<and> ErrorCode j' = Some c \<and> ErrorText j' = Some m \<and>
     NextRetryAt j' = r \<and> Attempts j' = Attempts j + 1 \<and>
     (0 < MaxAttempts j \<and> MaxAttempts j \<le> Attempts j + 1 \<longrightarrow>
        (\<forall>t. \<not> retryable t j') \<and>
        Message (last (Events (final (MarkFailed i c m r) s))) =
          max_attempts_message (Attempts j + 1) (MaxAttempts j))"
proof (intro exI conjI)
  let ?j' = "row_MarkFailed c m r (ClockAt s (Step s)) j"
  note run = run_MarkFailed_quiet [OF assms, of c m r]
  show "lookup_job i (final (MarkFailed i c m r) s) = Some ?j'"
    using assms(2) unfolding run by (simp add: lookup_update_job)
  show "0 < MaxAttempts j \<and> MaxAttempts j \<le> Attempts j + 1 \<longrightarrow>
      (\<forall>t. \<not> retryable t ?j') \<and>
      Message (last (Events (final (MarkFailed i c m r) s))) =
        max_attempts_message (Attempts j + 1) (MaxAttempts j)"
    unfolding run by (auto simp: row_MarkFailed_def retryable_def append_event_def)
qed (simp_all add: row_MarkFailed_def)

theorem MarkFailed_counts_witness:
  "\<exists>j'. lookup_job 1 (final (MarkFailed 1 ''download_error'' ''boom'' (Some 700))
           (sample_db [sample_job 1\<lparr>Attempts := 4\<rparr>])) = Some j' \<and>
     Attempts j' = 5 \<and> (\<forall>t. \<not> retryable t j')"
proof -
  have "lookup_job 1 (sample_db [sample_job 1\<lparr>Attempts := 4\<rparr>]) = Some (sample_job 1\<lparr>Attempts := 4\<rparr>)"
    by code_simp
  moreover have "MaxAttempts (sample_job 1\<lparr>Attempts := 4\<rparr>) = 5"
    by code_simp
  ultimately show ?thesis
    using MarkFailed_counts [OF quiet_sample_db, of 1 _ _ "''download_error''" "''boom''" "Some 700"]
    by fastforce
qed

text \<open>
  The automatic retry picks exactly the failed, undeleted jobs whose retry time has come and
  whose attempts are not used up, in the order of their retry times.
\<close>

theorem ListRetryableFailed_due:
  assumes "quiet s"
  shows "\<exists>js. result (ListRetryableFailed 0) s = Inr (map ID js) \<and>
     set js = {j \<in> set (Jobs s). Status j = StatusFailed \<and> DeletedAt j = None \<and>
       Attempts j < MaxAttempts j \<and> (\<exists>t. NextRetryAt j = Some t \<and> t \<le> ClockAt s (Step s))} \<and>
     sorted (map (\<lambda>j. the (NextRetryAt j)) js)"
proof -
  let ?js = "sort_key (\<lambda>j. the (NextRetryAt j)) (filter (retryable (ClockAt s (Step s))) (Jobs s))"
  have "result (ListRetryableFailed 0) s = Inr (map ID ?js)"
    using assms by (simp add: ListRetryableFailed_def run_sql_query_quiet sql_limit_def)
  moreover have "retryable t j \<longleftrightarrow> Status j = StatusFailed \<and> DeletedAt j = None \<and>
       Attempts j < MaxAttempts j \<and> (\<exists>u. NextRetryAt j = Some u \<and> u \<le> t)" for t j
    by (auto simp: retryable_def split: option.split)
  ultimately show ?thesis by (intro exI [of _ ?js]) auto
qed

theorem ListRetryableFailed_due_witness:
  "result (ListRetryableFailed 0)
     (sample_db [row_MarkFailed ''c'' ''m'' (Some 90) 1 (sample_job 1),
                 row_MarkFailed ''c'' ''m'' (Some 50) 1 (sample_job 2),
                 row_MarkFailed ''c'' ''m'' (Some 101) 1 (sample_job 3)]) = Inr [2, 1] \<and>
   (\<exists>js :: job list. result (ListRetryableFailed 0) (sample_db []) = Inr (map ID js))"
proof
  show "\<exists>js :: job list. result (ListRetryableFailed 0) (sample_db []) = Inr (map ID js)"
    using ListRetryableFailed_due [OF quiet_sample_db, of "[]"] by blast
qed code_simp

lemma removed_hidden:
  "i \<notin> ID ` set (filter (list_filter st False) (map (\<lambda>j. if ID j = i then row_Remove t j else j) js))"
  by (induction js) (simp_all add: list_filter_def row_Remove_def)

lemma in_set_mapI: "x \<in> set xs \<Longrightarrow> f x \<in> set (map f xs)"
  by simp

lemma removed_listed:
  "j \<in> set js \<and> ID j = i \<Longrightarrow>
   i \<in> ID ` set (filter (list_filter ''deleted'' True) (map (\<lambda>j. if ID j = i then row_Remove t j else j) js))"
proof (rule image_eqI)
  let ?f = "\<lambda>j. if ID j = i then row_Remove t j else j"
  assume j: "j \<in> set js \<and> ID j = i"
  then have "?f j \<in> set (map ?f js)" by (intro in_set_mapI) simp
  moreover have "list_filter ''deleted'' True (row_Remove t j)"
    by (simp add: list_filter_def row_Remove_def)
  ultimately show "row_Remove t j \<in> set (filter (list_filter ''deleted'' True) (map ?f js))"
    using j by (simp only: set_filter mem_Collect_eq) simp
  show "i = ID (row_Remove t j)" using j by simp
qed

text \<open>
  Soft deletion. After \<open>Remove\<close> the job no longer shows in the list of undeleted jobs under
  any status filter, but the list with deleted jobs still has it, as \<open>deleted\<close>.
\<close>

theorem Remove_hides:
  assumes "quiet s" and "lookup_job i s = Some j"
  shows "\<exists>js ds. result (store_ListJobs st False) (final (store_Remove i) s) = Inr js \<and>
     i \<notin> ID ` set js \<and>
     result (store_ListJobs ''deleted'' True) (final (store_Remove i) s) = Inr ds \<and> i \<in> ID ` set ds"
proof -
  let ?s = "final (store_Remove i) s"
  have s: "?s = update_job i (row_Remove (ClockAt s (Step s))) (tick_step s)"
    using assms(1) by (simp add: store_Remove_def run_update_row_quiet)
  then have "quiet ?s" using assms(1) by simp
  then have list: "result (store_ListJobs f d) ?s =
      Inr (rev (order_by_id (filter (list_filter f d) (Jobs ?s))))" for f d
    by (simp add: store_ListJobs_def run_sql_query_quiet)
  have "i \<notin> ID ` set (filter (list_filter st False) (Jobs ?s))"
    unfolding s update_job_simps tick_step_simps by (rule removed_hidden)
  moreover have "i \<in> ID ` set (filter (list_filter ''deleted'' True) (Jobs ?s))"
    unfolding s update_job_simps tick_step_simps
    using lookup_job_SomeD [OF assms(2)] by (rule removed_listed)
  ultimately show ?thesis unfolding list by auto
qed

theorem Remove_hides_witness:
  "\<exists>js ds. result (store_ListJobs '''' False) (final (store_Remove 1) (sample_db [sample_job 1])) = Inr js \<and>
     1 \<notin> ID ` set js \<and>
     result (store_ListJobs ''deleted'' True) (final (store_Remove 1) (sample_db [sample_job 1])) = Inr ds \<and>
     1 \<in> ID ` set ds"
proof -
  have "lookup_job 1 (sample_db [sample_job 1]) = Some (sample_job 1)" by code_simp
  from Remove_hides [OF quiet_sample_db this] show ?thesis .
qed

text \<open>
  Identifiers are fresh until the tables are cleared, and start again at 1 afterwards: a new
  job gets the next number, which no job has, and after \<open>ClearAll\<close> the first new job is number 1.
\<close>

theorem CreateJob_ids:
  assumes "wf_db s" and "quiet s"
  shows "result (store_CreateJob j) s = Inr (JobSeq s + 1) \<and>
    lookup_job (JobSeq s + 1) s = None \<and>
    lookup_job (JobSeq s + 1) (final (store_CreateJob j) s) =
      Some (new_row (JobSeq s + 1) j (ClockAt s (Step s))) \<and>
    result (store_CreateJob j) (final ClearAll s) = Inr 1"
proof -
  have none: "lookup_job (JobSeq s + 1) s = None"
    using assms(1) by (rule wf_db_new_id)
  have "JobSeq (final ClearAll s) = 0 \<and> quiet (final ClearAll s)"
    using assms(2) by (simp add: ClearAll_def run_sql_exec_quiet quiet_def)
  then have "result (store_CreateJob j) (final ClearAll s) = Inr 1"
    by (simp add: run_store_CreateJob quiet_now)
  with none assms(2) show ?thesis
    by (simp add: run_store_CreateJob quiet_now lookup_insert_job)
qed

lemma wf_sample_db: "wf_db (sample_db [])"
  by (simp add: wf_db_def sample_db_def)

theorem CreateJob_ids_witness:
  "result (store_CreateJob (sample_job 9)) (sample_db []) = Inr 1 \<and>
   lookup_job 1 (final (store_CreateJob (sample_job 9)) (sample_db [])) =
     Some (new_row 1 (sample_job 9) 100)"
  using CreateJob_ids [OF wf_sample_db quiet_sample_db, of "sample_job 9"]
  by (simp add: sample_db_def)

end
