(* ===== verification/Go_Json.thy ===== *)
theory Go_Json
  imports Go_Prelude
begin

text \<open>
  The package encoding/json as far as the program uses it: the values of JSON, the parser behind
  \<open>json.Unmarshal\<close> (whole text) and \<open>json.Decoder.Decode\<close> (first value of a stream), the decoding
  into the fields of a Go struct, and the printer behind \<open>json.Marshal\<close> and \<open>json.MarshalIndent\<close>.

  A number is kept as its literal, as the scanner of the library does; it is converted when a
  field is decoded. The library allows 10000 nested brackets. The parser counts them (\<open>d\<close>) and has
  a fuel \<open>n\<close> besides; every round of it uses up a byte of the text or is followed by one that does,
  so that the fuel \<open>2 * length s + 2\<close> which \<open>json_value\<close> starts with is enough. A failure is
  \<open>None\<close>: the texts of the library's syntax and type errors are left out. Keys are matched as in the
  library, exactly first and then without regard to (ASCII) case.

  The lemmas show that what the printer prints is read back, for flat objects.
\<close>

section \<open>Values\<close>

datatype json =
    JNull
  | JBool bool
  | JNum string
  | JStr string
  | JArr "json list"
  | JObj "(string \<times> json) list"

definition is_ws :: "char \<Rightarrow> bool" where
  "is_ws c \<longleftrightarrow> c \<in> {CHR '' '', CHR 0x09, CHR 0x0A, CHR 0x0D}"

definition skip_ws :: "string \<Rightarrow> string" where
  "skip_ws s = dropWhile is_ws s"

section \<open>Text\<close>

text \<open>\<open>utf8.AppendRune\<close>.\<close>

definition utf8_encode :: "nat \<Rightarrow> string" where
  "utf8_encode r =
     (if r < 0x80 then [char_of r]
      else if r < 0x800 then [char_of (0xC0 + r div 0x40), char_of (0x80 + r mod 0x40)]
      else if r > 0x10FFFF \<or> 0xD800 \<le> r \<and> r < 0xE000 then [char_of (0xEF :: nat), char_of (0xBF :: nat), char_of (0xBD :: nat)]
      else if r < 0x10000 then
        [char_of (0xE0 + r div 0x1000), char_of (0x80 + r div 0x40 mod 0x40), char_of (0x80 + r mod 0x40)]
      else [char_of (0xF0 + r div 0x40000), char_of (0x80 + r div 0x1000 mod 0x40),
            char_of (0x80 + r div 0x40 mod 0x40), char_of (0x80 + r mod 0x40)])"

text \<open>The length of the valid encoding a text starts with, 0 if it does not start with one.\<close>

definition cont_byte :: "nat \<Rightarrow> nat \<Rightarrow> nat \<Rightarrow> bool" where
  "cont_byte lo hi b \<longleftrightarrow> lo \<le> b \<and> b \<le> hi"

definition utf8_len :: "nat list \<Rightarrow> nat" where
  "utf8_len bs =
     (case bs of
        [] \<Rightarrow> 0
      | b # r \<Rightarrow>
          if b < 0x80 then 1
          else if cont_byte 0xC2 0xDF b then (if list_all (cont_byte 0x80 0xBF) (take 1 r) \<and> length r \<ge> 1 then 2 else 0)
          else if cont_byte 0xE0 0xEF b then
            (if length r \<ge> 2 \<and> list_all (cont_byte 0x80 0xBF) (take 2 r) \<and>
                (b = 0xE0 \<longrightarrow> 0xA0 \<le> r ! 0) \<and> (b = 0xED \<longrightarrow> r ! 0 \<le> 0x9F) then 3 else 0)
          else if cont_byte 0xF0 0xF4 b then
            (if length r \<ge> 3 \<and> list_all (cont_byte 0x80 0xBF) (take 3 r) \<and>
                (b = 0xF0 \<longrightarrow> 0x90 \<le> r ! 0) \<and> (b = 0xF4 \<longrightarrow> r ! 0 \<le> 0x8F) then 4 else 0)
          else 0)"

text \<open>The contents of a string literal: plain bytes and the code units of \<open>\\u\<close> escapes.\<close>

datatype text_unit = Byte char | Code nat

definition hex4 :: "string \<Rightarrow> nat option" where
  "hex4 s =
     (let val = (\<lambda>c. if is_digit c then Some (of_char c - 48)
           else if CHR ''a'' \<le> c \<and> c \<le> CHR ''f'' then Some (of_char c - 87)
           else if CHR ''A'' \<le> c \<and> c \<le> CHR ''F'' then Some (of_char c - 55) else None) in
      if length s < 4 then None
      else (case (val (s ! 0), val (s ! 1), val (s ! 2), val (s ! 3)) of
          (Some a, Some b, Some c, Some d) \<Rightarrow> Some (4096 * a + 256 * b + 16 * c + d)
        | _ \<Rightarrow> None))"

definition simple_escape :: "char \<Rightarrow> char option" where
  "simple_escape c =
     (if c = CHR 0x22 \<or> c = CHR 0x5C \<or> c = CHR ''/'' then Some c
      else if c = CHR ''b'' then Some (CHR 0x08)
      else if c = CHR ''f'' then Some (CHR 0x0C)
      else if c = CHR ''n'' then Some (CHR 0x0A)
      else if c = CHR ''r'' then Some (CHR 0x0D)
      else if c = CHR ''t'' then Some (CHR 0x09)
      else None)"

text \<open>From behind the opening quote to the closing one.\<close>

function scan_string :: "string \<Rightarrow> (text_unit list \<times> string) option" where
  "scan_string s =
     (case s of
        [] \<Rightarrow> None
      | c # r \<Rightarrow>
          if c = CHR 0x22 then Some ([], r)
          else if c < CHR '' '' then None
          else if c \<noteq> CHR 0x5C then map_option (\<lambda>(us, r'). (Byte c # us, r')) (scan_string r)
          else (case r of
              [] \<Rightarrow> None
            | e # r1 \<Rightarrow>
                if e = CHR ''u'' then
                  (case hex4 r1 of
                     None \<Rightarrow> None
                   | Some u \<Rightarrow> map_option (\<lambda>(us, r'). (Code u # us, r')) (scan_string (drop 4 r1)))
                else (case simple_escape e of
                    None \<Rightarrow> None
                  | Some b \<Rightarrow> map_option (\<lambda>(us, r'). (Byte b # us, r')) (scan_string r1))))"
  by pat_completeness auto
termination scan_string
  by (relation "measure length") auto

declare scan_string.simps [simp del]

definition surrogate :: "nat \<Rightarrow> nat \<Rightarrow> nat \<Rightarrow> bool" where
  "surrogate lo hi u \<longleftrightarrow> lo \<le> u \<and> u < hi"

fun lead_bytes :: "text_unit list \<Rightarrow> nat list" where
  "lead_bytes (Byte b # us) = of_char b # lead_bytes us"
| "lead_bytes _ = []"

definition replacement :: string where
  "replacement = utf8_encode 0xFFFD"

text \<open>The text of a literal: surrogate pairs are joined, lone surrogates and invalid bytes replaced.\<close>

function units_text :: "text_unit list \<Rightarrow> string" where
  "units_text us =
     (case us of
        [] \<Rightarrow> []
      | Code u # r \<Rightarrow>
          if surrogate 0xD800 0xE000 u then
            (case r of
               Code v # r' \<Rightarrow>
                 if surrogate 0xD800 0xDC00 u \<and> surrogate 0xDC00 0xE000 v
                 then utf8_encode (0x10000 + (u - 0xD800) * 0x400 + (v - 0xDC00)) @ units_text r'
                 else replacement @ units_text r
             | _ \<Rightarrow> replacement @ units_text r)
          else utf8_encode u @ units_text r
      | Byte b # r \<Rightarrow>
          (let k = utf8_len (lead_bytes us) in
           if k = 0 then replacement @ units_text r
           else map char_of (take k (lead_bytes us)) @ units_text (drop (k - 1) r)))"
  by pat_completeness auto
termination units_text
  by (relation "measure length") auto

declare units_text.simps [simp del]

definition json_string :: "string \<Rightarrow> (string \<times> string) option" where
  "json_string s = map_option (\<lambda>(us, r). (units_text us, r)) (scan_string s)"

section \<open>Numbers\<close>

definition scan_digits :: "string \<Rightarrow> (string \<times> string) option" where
  "scan_digits s = (let ds = takeWhile is_digit s in if ds = [] then None else Some (ds, dropWhile is_digit s))"

definition scan_whole :: "string \<Rightarrow> (string \<times> string) option" where
  "scan_whole s =
     (case s of
        [] \<Rightarrow> None
      | c # r \<Rightarrow> if c = CHR ''0'' then Some ([c], r) else scan_digits s)"

definition scan_frac :: "string \<Rightarrow> (string \<times> string) option" where
  "scan_frac s =
     (case s of
        c # r \<Rightarrow> if c = CHR ''.'' then map_option (\<lambda>(ds, r'). (c # ds, r')) (scan_digits r) else Some ([], s)
      | [] \<Rightarrow> Some ([], s))"

definition scan_exp :: "string \<Rightarrow> (string \<times> string) option" where
  "scan_exp s =
     (case s of
        c # r \<Rightarrow>
          if c = CHR ''e'' \<or> c = CHR ''E'' then
            (case r of
               g # r1 \<Rightarrow>
                 if g = CHR ''+'' \<or> g = CHR ''-'' then map_option (\<lambda>(ds, r'). (c # g # ds, r')) (scan_digits r1)
                 else map_option (\<lambda>(ds, r'). (c # ds, r')) (scan_digits r)
             | [] \<Rightarrow> None)
          else Some ([], s)
      | [] \<Rightarrow> Some ([], s))"

definition json_number :: "string \<Rightarrow> (string \<times> string) option" where
  "json_number s =
     (let neg = (if HasPrefix s ''-'' then ''-'' else ''''); s1 = drop (length neg) s in
      case scan_whole s1 of None \<Rightarrow> None | Some (w, s2) \<Rightarrow>
      (case scan_frac s2 of None \<Rightarrow> None | Some (f, s3) \<Rightarrow>
      (case scan_exp s3 of None \<Rightarrow> None | Some (x, s4) \<Rightarrow> Some (neg @ w @ f @ x, s4))))"

section \<open>The parser\<close>

fun p_value :: "nat \<Rightarrow> nat \<Rightarrow> string \<Rightarrow> (json \<times> string) option"
  and p_elems :: "nat \<Rightarrow> nat \<Rightarrow> string \<Rightarrow> (json list \<times> string) option"
  and p_members :: "nat \<Rightarrow> nat \<Rightarrow> string \<Rightarrow> ((string \<times> json) list \<times> string) option" where
  "p_value 0 d s = None"
| "p_value (Suc n) d s =
     (case skip_ws s of
        [] \<Rightarrow> None
      | c # r \<Rightarrow>
          if c = CHR ''{'' then
            (if d = 0 then None
             else if HasPrefix (skip_ws r) ''}'' then Some (JObj [], tl (skip_ws r))
             else map_option (\<lambda>(ms, r'). (JObj ms, r')) (p_members n (d - 1) r))
          else if c = CHR ''['' then
            (if d = 0 then None
             else if HasPrefix (skip_ws r) '']'' then Some (JArr [], tl (skip_ws r))
             else map_option (\<lambda>(vs, r'). (JArr vs, r')) (p_elems n (d - 1) r))
          else if c = CHR 0x22 then map_option (\<lambda>(t, r'). (JStr t, r')) (json_string r)
          else if HasPrefix (c # r) ''true'' then Some (JBool True, drop 4 (c # r))
          else if HasPrefix (c # r) ''false'' then Some (JBool False, drop 5 (c # r))
          else if HasPrefix (c # r) ''null'' then Some (JNull, drop 4 (c # r))
          else map_option (\<lambda>(l, r'). (JNum l, r')) (json_number (c # r)))"
| "p_elems 0 d s = None"
| "p_elems (Suc n) d s =
     (case p_value n d s of
        None \<Rightarrow> None
      | Some (v, r) \<Rightarrow>
          (case skip_ws r of
             [] \<Rightarrow> None
           | c # r1 \<Rightarrow>
               if c = CHR '','' then map_option (\<lambda>(vs, r'). (v # vs, r')) (p_elems n d r1)
               else if c = CHR '']'' then Some ([v], r1)
               else None))"
| "p_members 0 d s = None"
| "p_members (Suc n) d s =
     (case skip_ws s of
        [] \<Rightarrow> None
      | q # s1 \<Rightarrow>
          if q \<noteq> CHR 0x22 then None
          else (case json_string s1 of
              None \<Rightarrow> None
            | Some (k, s2) \<Rightarrow>
                (if \<not> HasPrefix (skip_ws s2) '':'' then None
                 else (case p_value n d (tl (skip_ws s2)) of
                     None \<Rightarrow> None
                   | Some (v, r) \<Rightarrow>
                       (case skip_ws r of
                          [] \<Rightarrow> None
                        | c # r1 \<Rightarrow>
                            if c = CHR '','' then map_option (\<lambda>(ms, r'). ((k, v) # ms, r')) (p_members n d r1)
                            else if c = CHR ''}'' then Some ([(k, v)], r1)
                            else None)))))"

definition json_value :: "string \<Rightarrow> (json \<times> string) option" where
  "json_value s = p_value (2 * length s + 2) 10000 s"

definition json_Decode :: "string \<Rightarrow> json option" where
  "json_Decode s = map_option fst (json_value s)"

definition json_Unmarshal :: "string \<Rightarrow> json option" where
  "json_Unmarshal s =
     (case json_value s of
        None \<Rightarrow> None
      | Some (v, r) \<Rightarrow> if skip_ws r = [] then Some v else None)"

section \<open>Decoding into Go values\<close>

text \<open>A field decoder changes a value, or fails when the JSON value has another type; \<open>null\<close> leaves
  the Go value as it is.\<close>

type_synonym 's field = "json \<Rightarrow> 's \<Rightarrow> 's option"

definition string_field :: "(string \<Rightarrow> 's \<Rightarrow> 's) \<Rightarrow> 's field" where
  "string_field upd j s = (case j of JNull \<Rightarrow> Some s | JStr t \<Rightarrow> Some (upd t s) | _ \<Rightarrow> None)"

definition int_field :: "(int \<Rightarrow> 's \<Rightarrow> 's) \<Rightarrow> 's field" where
  "int_field upd j s =
     (case j of
        JNull \<Rightarrow> Some s
      | JNum l \<Rightarrow> (case ParseInt l of (v, None) \<Rightarrow> Some (upd v s) | (_, Some _) \<Rightarrow> None)
      | _ \<Rightarrow> None)"

definition bool_field :: "(bool \<Rightarrow> 's \<Rightarrow> 's) \<Rightarrow> 's field" where
  "bool_field upd j s = (case j of JNull \<Rightarrow> Some s | JBool b \<Rightarrow> Some (upd b s) | _ \<Rightarrow> None)"

definition field_of :: "(string \<times> 's field) list \<Rightarrow> string \<Rightarrow> 's field option" where
  "field_of fields k =
     (case map_of fields k of
        Some f \<Rightarrow> Some f
      | None \<Rightarrow> map_option snd (find (\<lambda>(n, _). EqualFold n k) fields))"

text \<open>The members in their order; a key without a field is skipped. The library goes on after a
  mismatch and reports the first one at the end; here the value is given up at once.\<close>

fun decode_members :: "(string \<times> 's field) list \<Rightarrow> (string \<times> json) list \<Rightarrow> 's \<Rightarrow> 's option" where
  "decode_members fields [] s = Some s"
| "decode_members fields ((k, j) # ms) s =
     (case field_of fields k of
        None \<Rightarrow> decode_members fields ms s
      | Some f \<Rightarrow> (case f j s of None \<Rightarrow> None | Some s' \<Rightarrow> decode_members fields ms s'))"

definition decode_struct :: "(string \<times> 's field) list \<Rightarrow> json \<Rightarrow> 's \<Rightarrow> 's option" where
  "decode_struct fields j s =
     (case j of JNull \<Rightarrow> Some s | JObj ms \<Rightarrow> decode_members fields ms s | _ \<Rightarrow> None)"

section \<open>Printing\<close>

definition hex_digit :: "nat \<Rightarrow> char" where
  "hex_digit n = (if n < 10 then char_of (48 + n) else char_of (87 + n))"

definition quote_byte :: "char \<Rightarrow> string" where
  "quote_byte c =
     (if c = CHR 0x22 \<or> c = CHR 0x5C then [CHR 0x5C, c]
      else if c = CHR 0x08 then [CHR 0x5C, CHR ''b'']
      else if c = CHR 0x0C then [CHR 0x5C, CHR ''f'']
      else if c = CHR 0x0A then [CHR 0x5C, CHR ''n'']
      else if c = CHR 0x0D then [CHR 0x5C, CHR ''r'']
      else if c = CHR 0x09 then [CHR 0x5C, CHR ''t'']
      else if c < CHR '' '' \<or> c = CHR ''<'' \<or> c = CHR ''>'' \<or> c = CHR ''&''
        then [CHR 0x5C, CHR ''u'', CHR ''0'', CHR ''0'', hex_digit (of_char c div 16), hex_digit (of_char c mod 16)]
      else [c])"

text \<open>The bytes of a string as \<open>json.Marshal\<close> writes them: HTML characters and the line separators
  U+2028 and U+2029 are escaped, invalid UTF-8 becomes the escape of U+FFFD.\<close>

function quote_text :: "string \<Rightarrow> string" where
  "quote_text s =
     (case s of
        [] \<Rightarrow> []
      | c # r \<Rightarrow>
          if (of_char c :: nat) < 0x80 then quote_byte c @ quote_text r
          else (let k = utf8_len (map of_char s); run = take k s in
            if k = 0 then CHR 0x5C # ''ufffd'' @ quote_text r
            else (if run = utf8_encode 0x2028 then CHR 0x5C # ''u2028''
                  else if run = utf8_encode 0x2029 then CHR 0x5C # ''u2029''
                  else run) @ quote_text (drop (k - 1) r)))"
  by pat_completeness auto
termination quote_text
  by (relation "measure length") auto

declare quote_text.simps [simp del]

definition json_quote :: "string \<Rightarrow> string" where
  "json_quote s = [CHR 0x22] @ quote_text s @ [CHR 0x22]"

text \<open>The values of flat objects, and \<open>json.MarshalIndent\<close> with an indentation of two blanks.\<close>

fun scalar_text :: "json \<Rightarrow> string" where
  "scalar_text JNull = ''null''"
| "scalar_text (JBool b) = (if b then ''true'' else ''false'')"
| "scalar_text (JNum l) = l"
| "scalar_text (JStr t) = json_quote t"
| "scalar_text _ = ''''"

fun indent_members :: "(string \<times> json) list \<Rightarrow> string" where
  "indent_members [] = ''''"
| "indent_members ((k, v) # ms) =
     [CHR 0x0A] @ ''  '' @ json_quote k @ '': '' @ scalar_text v @
     (if ms = [] then [CHR 0x0A] else '','' @ indent_members ms)"

definition MarshalIndent :: "(string \<times> json) list \<Rightarrow> string" where
  "MarshalIndent ms = (if ms = [] then ''{}'' else ''{'' @ indent_members ms @ ''}'')"

section \<open>Reading back what was printed\<close>

text \<open>Keys of which every byte stands for itself.\<close>

definition plain_char :: "char \<Rightarrow> bool" where
  "plain_char c \<longleftrightarrow> CHR '' '' \<le> c \<and> (of_char c :: nat) < 0x80 \<and> c \<notin> {CHR 0x22, CHR 0x5C, CHR ''<'', CHR ''>'', CHR ''&''}"

lemma plain_char_bytes:
  assumes "plain_char c"
  shows "(of_char c :: nat) < 128" "\<not> c < CHR '' ''" "c \<noteq> CHR 0x22" "c \<noteq> CHR 0x5C" "quote_byte c = [c]"
proof -
  have ge: "32 \<le> (of_char c :: nat)" using assms by (simp add: plain_char_def less_eq_char_def)
  then have ctl: "c \<noteq> CHR 0x08" "c \<noteq> CHR 0x0C" "c \<noteq> CHR 0x0A" "c \<noteq> CHR 0x0D" "c \<noteq> CHR 0x09" by auto
  show "\<not> c < CHR '' ''" using ge by (simp add: less_char_def)
  then show "quote_byte c = [c]" using assms ctl by (simp add: plain_char_def quote_byte_def)
qed (use assms in \<open>simp_all add: plain_char_def\<close>)

lemma quote_text_plain: "list_all plain_char s \<Longrightarrow> quote_text s = s"
  by (induction s) (subst quote_text.simps, simp add: plain_char_bytes)+

lemma scan_string_plain:
  "list_all plain_char s \<Longrightarrow> scan_string (s @ CHR 0x22 # r) = Some (map Byte s, r)"
  by (induction s) (subst scan_string.simps, simp add: plain_char_bytes)+

lemma units_text_plain: "list_all plain_char s \<Longrightarrow> units_text (map Byte s) = s"
  by (induction s) (subst units_text.simps, simp add: utf8_len_def plain_char_bytes)+

lemma json_string_plain:
  "list_all plain_char s \<Longrightarrow> json_string (s @ CHR 0x22 # r) = Some (s, r)"
  by (simp add: json_string_def scan_string_plain units_text_plain)

text \<open>Numbers.\<close>

definition ends_number :: "string \<Rightarrow> bool" where
  "ends_number r \<longleftrightarrow> (case r of [] \<Rightarrow> True | c # _ \<Rightarrow> \<not> is_digit c \<and> c \<notin> {CHR ''.'', CHR ''e'', CHR ''E''})"

lemma itoa_nat_no_leading_zero: "n \<noteq> 0 \<Longrightarrow> hd (itoa_nat n) \<noteq> CHR ''0''"
proof (induction n rule: itoa_nat.induct)
  case (1 n)
  show ?case
  proof (cases "n < 10")
    case True
    with \<open>n \<noteq> 0\<close> have "of_char (digit_char n) \<noteq> (48 :: nat)" by (simp add: of_char_digit_char)
    then have "digit_char n \<noteq> CHR ''0''" by auto
    with True show ?thesis by (simp add: itoa_nat.simps [of n])
  next
    case False
    with 1 show ?thesis by (simp add: itoa_nat.simps [of n])
  qed
qed

lemma scan_digits_append:
  assumes "ds \<noteq> []" and "list_all is_digit ds" and "ends_number r"
  shows "scan_digits (ds @ r) = Some (ds, r)"
proof -
  have "takeWhile is_digit r = []" "dropWhile is_digit r = r"
    using assms(3) by (cases r; simp add: ends_number_def)+
  moreover have "takeWhile is_digit (ds @ r) = ds @ takeWhile is_digit r"
      "dropWhile is_digit (ds @ r) = dropWhile is_digit r"
    using assms(2) by (induction ds) auto
  ultimately show ?thesis using assms(1) by (simp add: scan_digits_def)
qed

lemma scan_whole_itoa: "ends_number r \<Longrightarrow> scan_whole (itoa_nat n @ r) = Some (itoa_nat n, r)"
proof (cases "n = 0")
  case True
  have "itoa_nat 0 = ''0''" by code_simp
  with True show ?thesis by (simp add: scan_whole_def)
next
  case False
  assume "ends_number r"
  moreover obtain c cs where c: "itoa_nat n = c # cs" by (cases "itoa_nat n") auto
  moreover from this False have "c \<noteq> CHR ''0''" using itoa_nat_no_leading_zero [of n] by simp
  ultimately show ?thesis
    using scan_digits_append [of "itoa_nat n" r] itoa_nat_digits [of n] by (simp add: scan_whole_def)
qed

lemma json_number_Itoa:
  assumes "ends_number r"
  shows "json_number (Itoa x @ r) = Some (Itoa x, r)"
proof -
  have rest: "scan_frac r = Some ([], r)" "scan_exp r = Some ([], r)"
    using assms by (cases r; simp add: ends_number_def scan_frac_def scan_exp_def)+
  obtain c cs where c: "itoa_nat (nat x) = c # cs" by (cases "itoa_nat (nat x)") auto
  then have "c \<noteq> CHR ''-''" using itoa_nat_hd_digit [of "nat x"] is_digit_not_sign by force
  with c have no_sign: "\<not> HasPrefix (itoa_nat (nat x) @ r) ''-''" by (simp add: HasPrefix_def)
  have sign: "HasPrefix (CHR ''-'' # t) ''-''" for t by (simp add: HasPrefix_def)
  show ?thesis
    using scan_whole_itoa [OF assms, of "nat x"] scan_whole_itoa [OF assms, of "nat (- x)"] rest no_sign sign
    by (simp add: json_number_def Itoa_def)
qed

text \<open>Scalars and flat objects.\<close>

definition flat_value :: "json \<Rightarrow> bool" where
  "flat_value v \<longleftrightarrow> v = JNull \<or> (\<exists>b. v = JBool b) \<or> (\<exists>x. v = JNum (Itoa x)) \<or> (\<exists>t. v = JStr t \<and> list_all plain_char t)"

lemma Itoa_hd: "\<exists>c cs. Itoa x = c # cs \<and> (is_digit c \<or> c = CHR ''-'')"
proof (cases "x < 0")
  case False
  then show ?thesis using itoa_nat_hd_digit [of "nat x"] by (cases "itoa_nat (nat x)") (auto simp: Itoa_def)
qed (simp add: Itoa_def)

lemma skip_ws_stop: "\<not> is_ws c \<Longrightarrow> skip_ws (c # t) = c # t"
  by (simp add: skip_ws_def)

lemma p_value_flat:
  assumes "flat_value v" and "ends_number r" and "list_all is_ws w"
  shows "p_value (Suc n) d (w @ scalar_text v @ r) = Some (v, r)"
proof -
  have ws: "skip_ws (w @ t) = skip_ws t" for t
    using assms(3) by (induction w) (simp_all add: skip_ws_def)
  consider "v = JNull" | b where "v = JBool b" | x where "v = JNum (Itoa x)" | t where "v = JStr t" "list_all plain_char t"
    using assms(1) by (auto simp: flat_value_def)
  then show ?thesis
  proof cases
    case (3 x)
    obtain c cs where c: "Itoa x = c # cs" "is_digit c \<or> c = CHR ''-''" using Itoa_hd by blast
    then have plain: "c \<noteq> CHR ''{''" "c \<noteq> CHR ''[''" "c \<noteq> CHR 0x22" "c \<noteq> CHR ''t''" "c \<noteq> CHR ''f''" "c \<noteq> CHR ''n''" "\<not> is_ws c"
      by (auto simp: is_digit_def is_ws_def)
    with c have "skip_ws (Itoa x @ r) = Itoa x @ r" by (simp add: skip_ws_def)
    with 3 c plain json_number_Itoa [OF assms(2), of x] show ?thesis by (simp add: ws HasPrefix_def)
  next
    case (4 t)
    then show ?thesis
      using json_string_plain [of t r] by (simp add: ws skip_ws_stop is_ws_def json_quote_def quote_text_plain)
  qed (simp_all add: ws skip_ws_stop is_ws_def HasPrefix_def)
qed

lemma p_members_flat:
  assumes "ms \<noteq> []" and "\<forall>(k, v)\<in>set ms. list_all plain_char k \<and> flat_value v" and "length ms < n"
  shows "p_members n d (indent_members ms @ CHR ''}'' # r) = Some (ms, r)"
  using assms
proof (induction ms arbitrary: n)
  case (Cons m ms)
  obtain k v where m: "m = (k, v)" by (cases m)
  obtain n' where n: "n = Suc n'" "length ms < n'" "n' \<noteq> 0" using Cons.prems(3) by (cases n) auto
  then obtain n2 where n2: "n' = Suc n2" by (cases n') auto
  have kv: "list_all plain_char k" "flat_value v" using Cons.prems(2) m by auto
  define rest where "rest = (if ms = [] then [CHR 0x0A] else '','' @ indent_members ms) @ CHR ''}'' # r"
  have "ends_number rest" by (simp add: rest_def ends_number_def is_digit_def)
  then have val: "p_value n' d (CHR '' '' # scalar_text v @ rest) = Some (v, rest)"
    using p_value_flat [OF kv(2), of rest "'' ''" n2 d] n2 by (simp add: is_ws_def)
  have key: "json_string (k @ CHR 0x22 # t) = Some (k, t)" for t using json_string_plain kv(1) .
  have whole: "skip_ws (indent_members (m # ms) @ CHR ''}'' # r) = CHR 0x22 # k @ CHR 0x22 # CHR '':'' # CHR '' '' # scalar_text v @ rest"
    by (simp add: m rest_def skip_ws_def is_ws_def json_quote_def quote_text_plain kv(1))
  have colon: "skip_ws (CHR '':'' # t) = CHR '':'' # t" "HasPrefix (CHR '':'' # t) '':''" for t
    by (simp_all add: skip_ws_def is_ws_def HasPrefix_def)
  show ?case
  proof (cases "ms = []")
    case True
    then have "skip_ws rest = CHR ''}'' # r" by (simp add: rest_def skip_ws_def is_ws_def)
    with True show ?thesis
      unfolding n(1) p_members.simps whole using val by (simp add: key colon m)
  next
    case False
    then have "skip_ws rest = CHR '','' # indent_members ms @ CHR ''}'' # r" by (simp add: rest_def skip_ws_def is_ws_def)
    moreover have "p_members n' d (indent_members ms @ CHR ''}'' # r) = Some (ms, r)"
      using Cons.IH [OF False _ n(2)] Cons.prems(2) by simp
    ultimately show ?thesis
      unfolding n(1) p_members.simps whole using val by (simp add: key colon m)
  qed
qed simp

lemma length_indent_members: "length ms \<le> length (indent_members ms)"
  by (induction ms rule: indent_members.induct) auto

lemma Unmarshal_MarshalIndent:
  assumes "\<forall>(k, v)\<in>set ms. list_all plain_char k \<and> flat_value v"
  shows "json_Unmarshal (MarshalIndent ms) = Some (JObj ms)"
proof (cases "ms = []")
  case True
  have "json_Unmarshal ''{}'' = Some (JObj [])" by code_simp
  with True show ?thesis by (simp add: MarshalIndent_def)
next
  case False
  let ?t = "indent_members ms @ ''}''"
  have "length ms < 2 * length (MarshalIndent ms) + 1"
    using length_indent_members [of ms] False by (simp add: MarshalIndent_def)
  from p_members_flat [OF False assms this, of 9999 "[]"]
  have members: "p_members (2 * length (MarshalIndent ms) + 1) 9999 ?t = Some (ms, [])" by simp
  obtain k v ms' where ms: "ms = (k, v) # ms'" using False by (cases ms) auto
  have open_brace: "skip_ws (CHR ''{'' # t) = CHR ''{'' # t" for t by (simp add: skip_ws_def is_ws_def)
  have no_brace: "\<not> HasPrefix (skip_ws ?t) ''}''"
    by (simp add: ms skip_ws_def is_ws_def json_quote_def HasPrefix_def)
  have "p_value (Suc (2 * length (MarshalIndent ms) + 1)) 10000 (CHR ''{'' # ?t) = Some (JObj ms, [])"
    unfolding p_value.simps open_brace using members no_brace by simp
  moreover have "MarshalIndent ms = CHR ''{'' # ?t" using False by (simp add: MarshalIndent_def)
  ultimately have "json_value (MarshalIndent ms) = Some (JObj ms, [])" by (simp add: json_value_def)
  then show ?thesis by (simp add: json_Unmarshal_def skip_ws_def)
qed

end
