(* ===== verification/Go_Json_Print.thy ===== *)
theory Go_Json_Print
  imports Go_Json
begin

text \<open>
  \<open>json.Marshal\<close> on whole values: the compact text of nested arrays and objects. The lemmas show
  that \<open>json.Decoder.Decode\<close> reads it back, for values whose texts are ASCII (the characters that
  \<open>Marshal\<close> escapes included) and whose numbers are integers, nested up to the limit of the library.
\<close>

section \<open>Printing\<close>

fun json_text :: "json \<Rightarrow> string"
  and elems_text :: "json list \<Rightarrow> string"
  and members_text :: "(string \<times> json) list \<Rightarrow> string" where
  "json_text (JArr vs) = ''['' @ (if vs = [] then '']'' else elems_text vs)"
| "json_text (JObj ms) = ''{'' @ (if ms = [] then ''}'' else members_text ms)"
| "json_text JNull = ''null''"
| "json_text (JBool b) = (if b then ''true'' else ''false'')"
| "json_text (JNum l) = l"
| "json_text (JStr t) = json_quote t"
| "elems_text [] = ''''"
| "elems_text (v # vs) = json_text v @ (if vs = [] then '']'' else '','' @ elems_text vs)"
| "members_text [] = ''''"
| "members_text ((k, v) # ms) =
     json_quote k @ '':'' @ json_text v @ (if ms = [] then ''}'' else '','' @ members_text ms)"

section \<open>ASCII texts\<close>

definition ascii :: "string \<Rightarrow> bool" where
  "ascii s \<longleftrightarrow> list_all (\<lambda>c. (of_char c :: nat) < 0x80) s"

lemma ascii_simps [simp]: "ascii []" "ascii (c # s) \<longleftrightarrow> (of_char c :: nat) < 0x80 \<and> ascii s" "ascii (s @ t) \<longleftrightarrow> ascii s \<and> ascii t"
  by (auto simp: ascii_def)

text \<open>What the scanner makes of a printed byte.\<close>

definition unit_of :: "char \<Rightarrow> text_unit" where
  "unit_of c = (if length (quote_byte c) = 6 then Code (of_char c) else Byte c)"

lemma hex_digit_code: "n < 16 \<Longrightarrow> of_char (hex_digit n) = (if n < 10 then 48 + n else 87 + n)"
  by (simp add: hex_digit_def)

lemma hex4_byte:
  assumes "n < 128"
  shows "hex4 (CHR ''0'' # CHR ''0'' # hex_digit (n div 16) # hex_digit (n mod 16) # r) = Some n"
proof -
  have zero: "is_digit (CHR ''0'')" by (simp add: is_digit_def)
  have parts: "n div 16 < 8" "n mod 16 < 16" "16 * (n div 16) + n mod 16 = n" using assms by auto
  then have hi: "is_digit (hex_digit (n div 16))" "of_char (hex_digit (n div 16)) - 48 = n div 16"
    by (simp_all add: is_digit_def less_eq_char_def hex_digit_code)
  show ?thesis
  proof (cases "n mod 16 < 10")
    case True
    then have "is_digit (hex_digit (n mod 16))" "of_char (hex_digit (n mod 16)) - 48 = n mod 16"
      using parts by (simp_all add: is_digit_def less_eq_char_def hex_digit_code)
    then show ?thesis using hi zero by (simp add: hex4_def)
  next
    case False
    then have "\<not> is_digit (hex_digit (n mod 16))" "CHR ''a'' \<le> hex_digit (n mod 16)" "hex_digit (n mod 16) \<le> CHR ''f''"
        "of_char (hex_digit (n mod 16)) - 87 = n mod 16"
      using parts by (simp_all add: is_digit_def less_eq_char_def hex_digit_code)
    then show ?thesis using hi zero by (simp add: hex4_def)
  qed
qed

lemma scan_string_quote_byte:
  assumes "(of_char c :: nat) < 0x80"
  shows "scan_string (quote_byte c @ r) = map_option (\<lambda>(us, r'). (unit_of c # us, r')) (scan_string r)"
proof (cases "length (quote_byte c) = 6")
  case True
  then have q: "quote_byte c = [CHR 0x5C, CHR ''u'', CHR ''0'', CHR ''0'', hex_digit (of_char c div 16), hex_digit (of_char c mod 16)]"
    by (auto simp: quote_byte_def split: if_splits)
  show ?thesis
    unfolding q by (subst scan_string.simps) (use assms True in \<open>simp add: hex4_byte unit_of_def\<close>)
next
  case False
  then consider "c \<in> {CHR 0x22, CHR 0x5C, CHR 0x08, CHR 0x0C, CHR 0x0A, CHR 0x0D, CHR 0x09}"
    | "quote_byte c = [c]" "\<not> c < CHR '' ''" "c \<noteq> CHR 0x22" "c \<noteq> CHR 0x5C"
    by (auto simp: quote_byte_def split: if_splits)
  then show ?thesis
    by cases (auto simp: quote_byte_def unit_of_def simple_escape_def scan_string.simps [of "CHR 0x5C # _"] scan_string.simps [of "c # _"])
qed

lemma units_text_unit:
  assumes "(of_char c :: nat) < 0x80"
  shows "units_text (unit_of c # us) = c # units_text us"
proof (cases "length (quote_byte c) = 6")
  case True
  then show ?thesis
    using assms by (subst units_text.simps) (simp add: unit_of_def surrogate_def utf8_encode_def)
next
  case False
  then show ?thesis
    using assms by (subst units_text.simps) (simp add: unit_of_def utf8_len_def)
qed

lemma quote_text_ascii: "(of_char c :: nat) < 0x80 \<Longrightarrow> quote_text (c # s) = quote_byte c @ quote_text s"
  by (subst quote_text.simps) simp

lemma quote_text_Nil [simp]: "quote_text [] = []"
  by (subst quote_text.simps) simp

lemma scan_string_quote:
  "ascii s \<Longrightarrow> scan_string (quote_text s @ CHR 0x22 # r) = Some (map unit_of s, r)"
  by (induction s) (simp_all add: quote_text_ascii scan_string_quote_byte scan_string.simps [of "CHR 0x22 # _"])

lemma units_text_Nil [simp]: "units_text [] = []"
  by (subst units_text.simps) simp

lemma units_text_units: "ascii s \<Longrightarrow> units_text (map unit_of s) = s"
  by (induction s) (simp_all add: units_text_unit)

lemma json_string_quote: "ascii s \<Longrightarrow> json_string (quote_text s @ CHR 0x22 # r) = Some (s, r)"
  by (simp add: json_string_def scan_string_quote units_text_units)

section \<open>Reading back\<close>

fun printable :: "json \<Rightarrow> bool"
  and printables :: "json list \<Rightarrow> bool"
  and printable_members :: "(string \<times> json) list \<Rightarrow> bool" where
  "printable (JArr vs) = printables vs"
| "printable (JObj ms) = printable_members ms"
| "printable (JNum l) = (\<exists>x. l = Itoa x)"
| "printable (JStr t) = ascii t"
| "printable _ = True"
| "printables [] = True"
| "printables (v # vs) = (printable v \<and> printables vs)"
| "printable_members [] = True"
| "printable_members ((k, v) # ms) = (ascii k \<and> printable v \<and> printable_members ms)"

fun depth :: "json \<Rightarrow> nat"
  and depths :: "json list \<Rightarrow> nat"
  and member_depths :: "(string \<times> json) list \<Rightarrow> nat" where
  "depth (JArr vs) = Suc (depths vs)"
| "depth (JObj ms) = Suc (member_depths ms)"
| "depth _ = 0"
| "depths [] = 0"
| "depths (v # vs) = max (depth v) (depths vs)"
| "member_depths [] = 0"
| "member_depths ((k, v) # ms) = max (depth v) (member_depths ms)"

text \<open>How a printed value begins: never with white space or a closing bracket.\<close>

lemma json_text_hd:
  assumes "printable v"
  obtains c t where "json_text v = c # t" and "\<not> is_ws c" and "c \<noteq> CHR '']''"
proof (cases v)
  case (JNum l)
  then obtain x where "l = Itoa x" using assms by auto
  moreover obtain c cs where "Itoa x = c # cs" "is_digit c \<or> c = CHR ''-''" using Itoa_hd by blast
  moreover from this have "\<not> is_ws c" "c \<noteq> CHR '']''" by (auto simp: is_digit_def is_ws_def)
  ultimately show ?thesis using that JNum by simp
next
  case (JBool b)
  then show ?thesis using that by (cases b) (auto simp: is_ws_def)
qed (use that in \<open>auto simp: is_ws_def json_quote_def\<close>)

lemma skip_ws_json_text: "printable v \<Longrightarrow> skip_ws (json_text v @ r) = json_text v @ r"
  by (rule json_text_hd) (auto simp: skip_ws_def)

lemma skip_ws_punct [simp]:
  "skip_ws (CHR '','' # r) = CHR '','' # r" "skip_ws (CHR '']'' # r) = CHR '']'' # r" "skip_ws (CHR ''}'' # r) = CHR ''}'' # r"
  "skip_ws (CHR '':'' # r) = CHR '':'' # r" "skip_ws (CHR 0x22 # r) = CHR 0x22 # r"
  "skip_ws (CHR ''['' # r) = CHR ''['' # r" "skip_ws (CHR ''{'' # r) = CHR ''{'' # r"
  by (simp_all add: skip_ws_def is_ws_def)

lemma p_value_scalar:
  assumes "printable v" and "depth v = 0" and "ends_number r"
  shows "p_value (Suc n) d (json_text v @ r) = Some (v, r)"
proof (cases v)
  case (JStr t)
  then show ?thesis using assms(1) json_string_quote [of t r] by (simp add: json_quote_def HasPrefix_def)
next
  case (JNum l)
  then obtain x where "l = Itoa x" using assms(1) by auto
  then show ?thesis
    using p_value_flat [of v r "[]" n d] assms(3) JNum by (auto simp: flat_value_def simp del: p_value.simps)
next
  case (JBool b)
  then show ?thesis using p_value_flat [of v r "[]" n d] assms(3) by (simp add: flat_value_def del: p_value.simps)
next
  case JNull
  then show ?thesis using p_value_flat [of v r "[]" n d] assms(3) by (simp add: flat_value_def del: p_value.simps)
qed (use assms(2) in auto)

lemma ends_number_punct [simp]: "ends_number (CHR '','' # r)" "ends_number (CHR '']'' # r)" "ends_number (CHR ''}'' # r)" "ends_number []"
  by (simp_all add: ends_number_def is_digit_def)

text \<open>Every round of the parser uses up a byte, so that fuel for every byte is enough.\<close>

lemma parse_scalar:
  assumes "printable v" and "depth v = 0" and "length (json_text v) \<le> n" and "ends_number r"
  shows "p_value n d (json_text v @ r) = Some (v, r)"
proof -
  obtain c t where "json_text v = c # t" using json_text_hd [OF assms(1)] by metis
  then obtain n' where "n = Suc n'" using assms(3) by (cases n) auto
  then show ?thesis using p_value_scalar [OF assms(1,2,4)] by simp
qed

lemma parse_printed:
  "printable v \<Longrightarrow> depth v \<le> d \<Longrightarrow> length (json_text v) \<le> n \<Longrightarrow> ends_number r \<Longrightarrow>
     p_value n d (json_text v @ r) = Some (v, r)"
  "vs \<noteq> [] \<Longrightarrow> printables vs \<Longrightarrow> depths vs \<le> d \<Longrightarrow> length (elems_text vs) \<le> n \<Longrightarrow>
     p_elems n d (elems_text vs @ r) = Some (vs, r)"
  "ms \<noteq> [] \<Longrightarrow> printable_members ms \<Longrightarrow> member_depths ms \<le> d \<Longrightarrow> length (members_text ms) \<le> n \<Longrightarrow>
     p_members n d (members_text ms @ r) = Some (ms, r)"
proof (induction v and vs and ms arbitrary: n d r and n d r and n d r rule: json_text_elems_text_members_text.induct)
  case (1 vs)
  then obtain n' d' where n: "n = Suc n'" "d = Suc d'" by (cases n; cases d) auto
  show ?case
  proof (cases "vs = []")
    case False
    then obtain v vs' where v: "vs = v # vs'" "printable v" using 1 by (cases vs) auto
    obtain c t where "json_text v = c # t" "\<not> is_ws c" "c \<noteq> CHR '']''" using json_text_hd [OF v(2)] .
    with v have "\<not> HasPrefix (skip_ws (elems_text vs @ r)) '']''"
      by (simp add: skip_ws_stop HasPrefix_def)
    then show ?thesis using 1 False n by simp
  qed (use n in \<open>simp add: HasPrefix_def\<close>)
next
  case (2 ms)
  then obtain n' d' where n: "n = Suc n'" "d = Suc d'" by (cases n; cases d) auto
  show ?case
  proof (cases "ms = []")
    case False
    then obtain k v ms' where "ms = (k, v) # ms'" by (cases ms) auto
    then have "\<not> HasPrefix (skip_ws (members_text ms @ r)) ''}''" by (simp add: json_quote_def HasPrefix_def)
    then show ?thesis using 2 False n by simp
  qed (use n in \<open>simp add: HasPrefix_def\<close>)
next
  case (8 v vs)
  then obtain n' where n: "n = Suc n'" by (cases n) (auto split: if_splits)
  show ?case
  proof (cases "vs = []")
    case True
    then show ?thesis using 8(1) [of d n' "CHR '']'' # r"] 8(3-) n by simp
  next
    case False
    then show ?thesis using 8(1) [of d n' "CHR '','' # elems_text vs @ r"] 8(2) [of d n' r] 8(3-) n by simp
  qed
next
  case (10 k v ms)
  then obtain n' where n: "n = Suc n'" by (cases n) (auto simp: json_quote_def)
  have key: "json_string (quote_text k @ CHR 0x22 # t) = Some (k, t)" for t using 10(4) by (simp add: json_string_quote)
  have colon: "HasPrefix (CHR '':'' # t) '':''" for t by (simp add: HasPrefix_def)
  show ?case
  proof (cases "ms = []")
    case True
    then show ?thesis using 10(1) [of d n' "CHR ''}'' # r"] 10(3-) n by (simp add: json_quote_def key colon)
  next
    case False
    then show ?thesis
      using 10(1) [of d n' "CHR '','' # members_text ms @ r"] 10(2) [of d n' r] 10(3-) n by (simp add: json_quote_def key colon)
  qed
qed (simp_all add: parse_scalar [of JNull, simplified] parse_scalar [of "JBool b" for b, simplified] parse_scalar [of "JNum l" for l, simplified]
    parse_scalar [of "JStr t" for t, simplified])

text \<open>What \<open>Marshal\<close> (or an \<open>Encoder\<close>, which adds a newline) writes, \<open>Decode\<close> reads.\<close>

theorem Decode_json_text:
  assumes "printable v" and "depth v \<le> 10000" and "ends_number r"
  shows "json_Decode (json_text v @ r) = Some v"
  using parse_printed(1) [OF assms(1,2) _ assms(3), of "2 * length (json_text v @ r) + 2"]
  by (simp add: json_Decode_def json_value_def)

end
