(* ===== verification/Downloader.thy ===== *)
theory Downloader
  imports Effects Go_Json_Print "HOL-Library.List_Lexorder"
begin

text \<open>
  internal/downloader/aria2.go, the JSON-RPC client of the download engine, and the interface
  \<open>Downloader\<close> of internal/queue/downloader.go through which the queue uses it.

  aria2 itself and the HTTP exchange with it are a parameter: a value of type \<open>'e transport\<close>, which
  posts a text and gives back the text of the response or an error, changing the state \<open>'e\<close> of the
  engine. What the client adds is modelled here: the JSON of requests and responses, the secret
  token, the classification of error messages, and the sequence of calls of \<open>Remove\<close>.
\<close>

section \<open>Requests and responses\<close>

datatype param =
    PString string
  | PStrings "string list"
  | POptions "string \<rightharpoonup> string"
  | PInt int

record rpcRequest =
  Method :: string
  Params :: "param list"

text \<open>A Go map is written with its keys in order.\<close>

fun param_json :: "param \<Rightarrow> json" where
  "param_json (PString s) = JStr s"
| "param_json (PStrings ss) = JArr (map JStr ss)"
| "param_json (POptions m) = JObj (map (\<lambda>k. (k, JStr (the (m k)))) (sorted_list_of_set (dom m)))"
| "param_json (PInt n) = JNum (Itoa n)"

definition request_text :: "rpcRequest \<Rightarrow> string" where
  "request_text rq = json_text (JObj [(''jsonrpc'', JStr ''2.0''), (''id'', JStr ''dlq''), (''method'', JStr (Method rq)),
     (''params'', JArr (map param_json (Params rq)))])"

record rpcError =
  re_Code :: int
  re_Message :: string

text \<open>The result is kept as it came (\<open>json.RawMessage\<close>), \<open>None\<close> if there is none; a \<open>null\<close> error is a nil
  pointer.\<close>

record rpcResponse =
  Result :: "json option"
  RpcError :: "rpcError option"

definition error_fields :: "(string \<times> rpcError field) list" where
  "error_fields = [(''code'', int_field (\<lambda>v. re_Code_update (\<lambda>_. v))), (''message'', string_field (\<lambda>v. re_Message_update (\<lambda>_. v)))]"

definition error_field :: "rpcResponse field" where
  "error_field j r =
     (case j of
        JNull \<Rightarrow> Some (r\<lparr>RpcError := None\<rparr>)
      | _ \<Rightarrow> map_option (\<lambda>e. r\<lparr>RpcError := Some e\<rparr>)
          (decode_struct error_fields j (case RpcError r of None \<Rightarrow> \<lparr>re_Code = 0, re_Message = ''''\<rparr> | Some e \<Rightarrow> e)))"

definition response_fields :: "(string \<times> rpcResponse field) list" where
  "response_fields = [(''result'', \<lambda>j r. Some (r\<lparr>Result := Some j\<rparr>)), (''error'', error_field)]"

definition decode_reply :: "string \<Rightarrow> rpcResponse option" where
  "decode_reply body = Option.bind (json_Decode body) (\<lambda>j. decode_struct response_fields j \<lparr>Result = None, RpcError = None\<rparr>)"

record aria2_status =
  GID :: string
  aria2_Status :: string
  TotalLength :: string
  CompletedLen :: string
  Speed :: string
  aria2_ErrorCode :: string
  ErrorMessage :: string
  Files :: "string list"

definition file_path_field :: "json \<Rightarrow> string option" where
  "file_path_field j = decode_struct [(''path'', string_field (\<lambda>v _. v))] j ''''"

definition files_field :: "aria2_status field" where
  "files_field j st =
     (case j of
        JNull \<Rightarrow> Some (st\<lparr>Files := []\<rparr>)
      | JArr vs \<Rightarrow> map_option (\<lambda>ps. st\<lparr>Files := ps\<rparr>) (those (map file_path_field vs))
      | _ \<Rightarrow> None)"

definition status_fields :: "(string \<times> aria2_status field) list" where
  "status_fields =
     [(''gid'', string_field (\<lambda>v. GID_update (\<lambda>_. v))), (''status'', string_field (\<lambda>v. aria2_Status_update (\<lambda>_. v))),
      (''totalLength'', string_field (\<lambda>v. TotalLength_update (\<lambda>_. v))),
      (''completedLength'', string_field (\<lambda>v. CompletedLen_update (\<lambda>_. v))),
      (''downloadSpeed'', string_field (\<lambda>v. Speed_update (\<lambda>_. v))),
      (''errorCode'', string_field (\<lambda>v. aria2_ErrorCode_update (\<lambda>_. v))),
      (''errorMessage'', string_field (\<lambda>v. ErrorMessage_update (\<lambda>_. v))), (''files'', files_field)]"

definition decode_status :: "json \<Rightarrow> aria2_status option" where
  "decode_status j = decode_struct status_fields j \<lparr>GID = '''', aria2_Status = '''', TotalLength = '''', CompletedLen = '''',
     Speed = '''', aria2_ErrorCode = '''', ErrorMessage = '''', Files = []\<rparr>"

definition decode_gid :: "json \<Rightarrow> string option" where
  "decode_gid j = string_field (\<lambda>v _. v) j ''''"

definition decode_statuses :: "json \<Rightarrow> aria2_status list option" where
  "decode_statuses j = (case j of JNull \<Rightarrow> Some [] | JArr vs \<Rightarrow> those (map decode_status vs) | _ \<Rightarrow> None)"

record 'e transport =
  tr_Post :: "string \<Rightarrow> ('e, error + string) state"
  tr_json_error :: "string \<Rightarrow> error"

section \<open>The client\<close>

definition isGIDNotFoundMessage :: "string \<Rightarrow> bool" where
  "isGIDNotFoundMessage msg =
     (if msg = '''' then False
      else let lower = ToLower msg in
        Contains lower ''not found'' \<or> Contains lower ''no such download'' \<or>
        Contains lower ''cannot be found'')"

definition isActionNotAllowedMessage :: "string \<Rightarrow> bool" where
  "isActionNotAllowedMessage msg =
     (if msg = '''' then False
      else let lower = ToLower msg in
        Contains lower ''cannot be paused now'' \<or> Contains lower ''cannot be unpaused now'' \<or>
        Contains lower ''cannot be resumed now'' \<or> Contains lower ''cannot be removed now'')"

definition rpc_error :: "int \<Rightarrow> string \<Rightarrow> error" where
  "rpc_error code msg =
     (let baseErr = ''aria2_rpc_error:'' @ Itoa code @ '':'' @ msg in
        if isGIDNotFoundMessage msg then ErrWrap ErrGIDNotFound baseErr
        else if isActionNotAllowedMessage msg then ErrWrap Aria2ErrActionNotAllowed baseErr
        else ErrNew baseErr)"

text \<open>The part of \<open>call\<close> up to the error of the response.\<close>

definition send :: "'e transport \<Rightarrow> string \<Rightarrow> string \<Rightarrow> param list \<Rightarrow> ('e, error + string \<times> json option) state" where
  "send t secret method params = do {
     let p = (if secret \<noteq> '''' then PString (''token:'' @ secret) # params else params);
     resp \<leftarrow> tr_Post t (request_text \<lparr>Method = method, Params = p\<rparr>);
     return (case resp of
       Inl e \<Rightarrow> Inl e
     | Inr body \<Rightarrow> (case decode_reply body of
         None \<Rightarrow> Inl (tr_json_error t body)
       | Some r \<Rightarrow> (case RpcError r of
           Some e \<Rightarrow> Inl (rpc_error (re_Code e) (re_Message e))
         | None \<Rightarrow> Inr (body, Result r))))
   }"

text \<open>Decoding a result that is missing is an error, as decoding an empty text is.\<close>

definition call :: "'e transport \<Rightarrow> (json \<Rightarrow> 'r option) \<Rightarrow> string \<Rightarrow> string \<Rightarrow> param list \<Rightarrow> ('e, error + 'r) state" where
  "call t decode secret method params = do {
     r \<leftarrow> send t secret method params;
     return (case r of
       Inl e \<Rightarrow> Inl e
     | Inr (body, res) \<Rightarrow> (case Option.bind res decode of
         None \<Rightarrow> Inl (tr_json_error t body)
       | Some x \<Rightarrow> Inr x))
   }"

text \<open>A call whose result is not looked at (\<open>out == nil\<close>): only a response error counts.\<close>

definition call_nil :: "'e transport \<Rightarrow> string \<Rightarrow> string \<Rightarrow> param list \<Rightarrow> ('e, error option) state" where
  "call_nil t secret method params = do {
     r \<leftarrow> send t secret method params;
     return (case r of Inl e \<Rightarrow> Some e | Inr _ \<Rightarrow> None)
   }"

definition status_keys :: "string list" where
  "status_keys = [''gid'', ''status'', ''totalLength'', ''completedLength'', ''downloadSpeed'',
     ''errorCode'', ''errorMessage'', ''files'']"

definition aria2_AddURI :: "'e transport \<Rightarrow> string \<Rightarrow> string \<Rightarrow> (string \<rightharpoonup> string) \<Rightarrow> ('e, error + string) state" where
  "aria2_AddURI t secret uri options =
     call t decode_gid secret ''aria2.addUri'' [PStrings [uri], POptions options]"

definition aria2_TellStatus :: "'e transport \<Rightarrow> string \<Rightarrow> string \<Rightarrow> ('e, error + aria2_status) state" where
  "aria2_TellStatus t secret gid = do {
     r \<leftarrow> call t decode_status secret ''aria2.tellStatus'' [PString gid, PStrings status_keys];
     return (case r of
       Inl e \<Rightarrow> Inl e
     | Inr st \<Rightarrow> if GID st = '''' then Inl (ErrNew ''aria2_empty_status'') else Inr st)
   }"

definition list_keys :: "string list" where
  "list_keys = [''gid'', ''status'', ''totalLength'', ''completedLength'', ''errorCode'', ''errorMessage'']"

definition aria2_TellActive :: "'e transport \<Rightarrow> string \<Rightarrow> ('e, error + aria2_status list) state" where
  "aria2_TellActive t secret = call t decode_statuses secret ''aria2.tellActive'' [PStrings list_keys]"

definition aria2_TellWaiting :: "'e transport \<Rightarrow> string \<Rightarrow> int \<Rightarrow> int \<Rightarrow> ('e, error + aria2_status list) state" where
  "aria2_TellWaiting t secret offset num =
     call t decode_statuses secret ''aria2.tellWaiting'' [PInt offset, PInt num, PStrings list_keys]"

definition aria2_TellStopped :: "'e transport \<Rightarrow> string \<Rightarrow> int \<Rightarrow> int \<Rightarrow> ('e, error + aria2_status list) state" where
  "aria2_TellStopped t secret offset num =
     call t decode_statuses secret ''aria2.tellStopped'' [PInt offset, PInt num, PStrings list_keys]"

definition aria2_Pause :: "'e transport \<Rightarrow> string \<Rightarrow> string \<Rightarrow> ('e, error option) state" where
  "aria2_Pause t secret gid = call_nil t secret ''aria2.pause'' [PString gid]"

definition aria2_Unpause :: "'e transport \<Rightarrow> string \<Rightarrow> string \<Rightarrow> ('e, error option) state" where
  "aria2_Unpause t secret gid = call_nil t secret ''aria2.unpause'' [PString gid]"

definition aria2_cleanup :: "'e transport \<Rightarrow> string \<Rightarrow> string \<Rightarrow> ('e, error option) state" where
  "aria2_cleanup t secret gid = do {
     c \<leftarrow> call_nil t secret ''aria2.removeDownloadResult'' [PString gid];
     return (case c of
       None \<Rightarrow> None
     | Some cleanupErr \<Rightarrow> if errors_Is cleanupErr ErrGIDNotFound then None else Some cleanupErr)
   }"

definition aria2_Remove :: "'e transport \<Rightarrow> string \<Rightarrow> string \<Rightarrow> ('e, error option) state" where
  "aria2_Remove t secret gid = do {
     r \<leftarrow> call_nil t secret ''aria2.remove'' [PString gid];
     case r of
       None \<Rightarrow> aria2_cleanup t secret gid
     | Some err \<Rightarrow>
         if errors_Is err Aria2ErrActionNotAllowed then do {
           f \<leftarrow> call_nil t secret ''aria2.forceRemove'' [PString gid];
           case f of
             None \<Rightarrow> aria2_cleanup t secret gid
           | Some forceErr \<Rightarrow>
               if errors_Is forceErr ErrGIDNotFound then aria2_cleanup t secret gid
               else return (Some forceErr)
         }
         else if errors_Is err ErrGIDNotFound then aria2_cleanup t secret gid
         else return (Some err)
   }"

section \<open>The interface of the queue\<close>

record 'e downloader =
  dl_AddURI :: "string \<Rightarrow> (string \<rightharpoonup> string) \<Rightarrow> ('e, error + string) state"
  dl_TellStatus :: "string \<Rightarrow> ('e, error + aria2_status) state"
  dl_Pause :: "string \<Rightarrow> ('e, error option) state"
  dl_Unpause :: "string \<Rightarrow> ('e, error option) state"
  dl_Remove :: "string \<Rightarrow> ('e, error option) state"

definition aria2_client :: "'e transport \<Rightarrow> string \<Rightarrow> 'e downloader" where
  "aria2_client t secret =
     \<lparr>dl_AddURI = aria2_AddURI t secret, dl_TellStatus = aria2_TellStatus t secret,
      dl_Pause = aria2_Pause t secret, dl_Unpause = aria2_Unpause t secret,
      dl_Remove = aria2_Remove t secret\<rparr>"

section \<open>Errors of the client\<close>

lemma rpc_error_not_queue:
  "\<not> errors_Is (rpc_error c m) ErrActionNotAllowed"
  by (simp add: rpc_error_def Let_def)

lemma rpc_error_GIDNotFound:
  "errors_Is (rpc_error c m) ErrGIDNotFound \<longleftrightarrow> isGIDNotFoundMessage m"
  by (simp add: rpc_error_def Let_def)

lemma aria2_cleanup_not_found:
  "result (aria2_cleanup t secret gid) e = Some err \<Longrightarrow> \<not> errors_Is err ErrGIDNotFound"
  by (auto simp: aria2_cleanup_def case_prod_beta split: option.splits if_splits)

text \<open>
  Removing a download that the engine no longer knows is not an error: whatever the engine
  answers, the error of \<open>Remove\<close> is never one that means \<open>GID not found\<close>.
\<close>

theorem aria2_Remove_tolerates_missing:
  "result (aria2_Remove t secret gid) e = Some err \<Longrightarrow> \<not> errors_Is err ErrGIDNotFound"
  by (auto simp: aria2_Remove_def case_prod_beta split: option.splits if_splits
      dest: aria2_cleanup_not_found)

section \<open>Replies\<close>

text \<open>What an engine writes when it refuses a request, and what the client makes of it.\<close>

definition error_reply :: "int \<Rightarrow> string \<Rightarrow> string" where
  "error_reply code msg = json_text (JObj [(''id'', JStr ''dlq''), (''jsonrpc'', JStr ''2.0''),
     (''error'', JObj [(''code'', JNum (Itoa code)), (''message'', JStr msg)])])"

lemma decode_error_reply:
  assumes "in_int64 code" and "ascii msg"
  shows "decode_reply (error_reply code msg) = Some \<lparr>Result = None, RpcError = Some \<lparr>re_Code = code, re_Message = msg\<rparr>\<rparr>"
proof -
  let ?j = "JObj [(''id'', JStr ''dlq''), (''jsonrpc'', JStr ''2.0''), (''error'', JObj [(''code'', JNum (Itoa code)), (''message'', JStr msg)])]"
  have "json_Decode (json_text ?j @ []) = Some ?j"
    by (rule Decode_json_text) (use assms(2) in auto)
  moreover have skip: "field_of response_fields ''id'' = None" "field_of response_fields ''jsonrpc'' = None"
      "field_of response_fields ''error'' = Some error_field"
      "field_of error_fields ''code'' = Some (int_field (\<lambda>v. re_Code_update (\<lambda>_. v)))"
      "field_of error_fields ''message'' = Some (string_field (\<lambda>v. re_Message_update (\<lambda>_. v)))"
    by (simp_all add: field_of_def response_fields_def error_fields_def EqualFold_def ToLower_def lower_char_def is_upper_def)
  ultimately show ?thesis
    using ParseInt_Itoa [OF assms(1)]
    by (simp add: decode_reply_def error_reply_def decode_struct_def error_field_def int_field_def string_field_def)
qed

text \<open>An engine that answers every request of a client with the same error message.\<close>

definition erring_transport :: "string \<Rightarrow> unit transport" where
  "erring_transport msg = \<lparr>tr_Post = (\<lambda>_. return (Inr (error_reply 1 msg))), tr_json_error = ErrNew\<rparr>"

lemma erring_call_nil: "ascii msg \<Longrightarrow> run_state (call_nil (erring_transport msg) secret m ps) e = (Some (rpc_error 1 msg), e)"
  using decode_error_reply [of 1 msg] by (simp add: call_nil_def send_def erring_transport_def in_int64_def Let_def)

theorem aria2_Remove_tolerates_missing_witness:
  "\<not> errors_Is (ErrWrap Aria2ErrActionNotAllowed ''aria2_rpc_error:1:GID#7 cannot be removed now'')
     ErrGIDNotFound \<and>
   result (aria2_Remove (erring_transport ''GID#7 is not found'') '''' ''7'') () = None"
proof
  have ascii: "ascii ''GID#7 cannot be removed now''" "ascii ''GID#7 is not found''" by simp_all
  have err: "rpc_error 1 ''GID#7 cannot be removed now'' = ErrWrap Aria2ErrActionNotAllowed ''aria2_rpc_error:1:GID#7 cannot be removed now''"
      "isGIDNotFoundMessage ''GID#7 is not found''" by code_simp+
  have "result (aria2_Remove (erring_transport ''GID#7 cannot be removed now'') '''' ''7'') () =
      Some (ErrWrap Aria2ErrActionNotAllowed ''aria2_rpc_error:1:GID#7 cannot be removed now'')"
    by (simp add: aria2_Remove_def erring_call_nil [OF ascii(1)] err)
  then show "\<not> errors_Is (ErrWrap Aria2ErrActionNotAllowed
      ''aria2_rpc_error:1:GID#7 cannot be removed now'') ErrGIDNotFound"
    by (rule aria2_Remove_tolerates_missing)
  have "errors_Is (rpc_error 1 ''GID#7 is not found'') ErrGIDNotFound" "\<not> errors_Is (rpc_error 1 ''GID#7 is not found'') Aria2ErrActionNotAllowed"
    using err(2) by (simp_all add: rpc_error_def Let_def)
  then show "result (aria2_Remove (erring_transport ''GID#7 is not found'') '''' ''7'') () = None"
    by (simp add: aria2_Remove_def aria2_cleanup_def erring_call_nil [OF ascii(2)])
qed

text \<open>What an engine writes when it is asked for a status, members of no interest to the client included.\<close>

definition status_json :: "aria2_status \<Rightarrow> json" where
  "status_json st = JObj [(''gid'', JStr (GID st)), (''status'', JStr (aria2_Status st)), (''totalLength'', JStr (TotalLength st)),
     (''completedLength'', JStr (CompletedLen st)), (''downloadSpeed'', JStr (Speed st)), (''errorCode'', JStr (aria2_ErrorCode st)),
     (''errorMessage'', JStr (ErrorMessage st)), (''files'', JArr (map (\<lambda>p. JObj [(''index'', JStr ''1''), (''path'', JStr p)]) (Files st)))]"

definition result_reply :: "json \<Rightarrow> string" where
  "result_reply j = json_text (JObj [(''id'', JStr ''dlq''), (''jsonrpc'', JStr ''2.0''), (''result'', j)])"

definition ascii_status :: "aria2_status \<Rightarrow> bool" where
  "ascii_status st = (ascii (GID st) \<and> ascii (aria2_Status st) \<and> ascii (TotalLength st) \<and> ascii (CompletedLen st) \<and> ascii (Speed st) \<and>
     ascii (aria2_ErrorCode st) \<and> ascii (ErrorMessage st) \<and> list_all ascii (Files st))"

lemmas field_names = field_of_def EqualFold_def ToLower_def lower_char_def is_upper_def

lemma decode_result_reply:
  assumes "printable j" and "depth j < 100"
  shows "decode_reply (result_reply j) = Some \<lparr>Result = Some j, RpcError = None\<rparr>"
proof -
  let ?j = "JObj [(''id'', JStr ''dlq''), (''jsonrpc'', JStr ''2.0''), (''result'', j)]"
  have "json_Decode (json_text ?j @ []) = Some ?j"
    by (rule Decode_json_text) (use assms in auto)
  moreover have "field_of response_fields ''id'' = None" "field_of response_fields ''jsonrpc'' = None"
      "field_of response_fields ''result'' = Some (\<lambda>j r. Some (r\<lparr>Result := Some j\<rparr>))"
    by (simp_all add: field_names response_fields_def)
  ultimately show ?thesis by (simp add: decode_reply_def result_reply_def decode_struct_def)
qed

lemma decode_paths: "those (map file_path_field (map (\<lambda>p. JObj [(''index'', JStr ''1''), (''path'', JStr p)]) ps)) = Some ps"
  by (induction ps) (simp_all add: file_path_field_def decode_struct_def field_names string_field_def)

lemma paths_printable:
  "list_all ascii ps \<Longrightarrow> printables (map (\<lambda>p. JObj [(''index'', JStr ''1''), (''path'', JStr p)]) ps)"
  "depths (map (\<lambda>p. JObj [(''index'', JStr ''1''), (''path'', JStr p)]) ps) \<le> 1"
  by (induction ps) simp_all

lemma decode_status_json: "decode_status (status_json st) = Some st"
  using decode_paths [of "Files st"]
  by (simp add: decode_status_def status_json_def decode_struct_def status_fields_def field_names string_field_def files_field_def)


definition done_status :: aria2_status where
  "done_status = \<lparr>GID = ''2089b0'', aria2_Status = ''complete'', TotalLength = ''34896138'', CompletedLen = ''34896138'', Speed = ''0'',
     aria2_ErrorCode = ''0'', ErrorMessage = '''', Files = [''/data/a b.iso'']\<rparr>"

definition answering_transport :: "json \<Rightarrow> unit transport" where
  "answering_transport j = \<lparr>tr_Post = (\<lambda>_. return (Inr (result_reply j))), tr_json_error = ErrNew\<rparr>"


end
