(* ===== verification/Service.thy ===== *)
theory Service
  imports Paths Status Store_Laws Downloader
begin

text \<open>
  internal/queue/service.go: the operations the HTTP API offers on jobs. The state is the
  database together with the state \<open>Ext\<close> of everything outside the process that the queue talks
  to; the downloader works on \<open>Ext\<close> only. A nil downloader is \<open>None\<close>.

  The locale \<open>queue_contract\<close> extends the store's contract by the outside world; every operation
  of the service on an existing job keeps every such contract.
\<close>

section \<open>State and views\<close>

record 'e world = db +
  Ext :: 'e

definition on_ext :: "('e, 'a) state \<Rightarrow> (('e, 'z) world_scheme, 'a) state" where
  "on_ext m = State (\<lambda>w. case run_state m (Ext w) of (x, e) \<Rightarrow> (x, w\<lparr>Ext := e\<rparr>))"

record 'e service =
  sv_downloader :: "'e downloader option"
  sv_allowedRoots :: "string list"

record JobView =
  v_ID :: int
  v_URL :: string
  v_Site :: string
  v_OutDir :: string
  v_Name :: string
  v_Status :: string
  v_Filename :: string
  v_SizeBytes :: int
  v_BytesDone :: int
  v_DownloadSpeed :: int
  v_EtaSeconds :: int
  v_Error :: string
  v_ErrorCode :: string
  v_CreatedAt :: timestamp
  v_UpdatedAt :: timestamp

definition nullString :: "string option \<Rightarrow> string" where
  "nullString v = (case v of None \<Rightarrow> '''' | Some s \<Rightarrow> s)"

definition null_int :: "int option \<Rightarrow> int" where
  "null_int v = (case v of None \<Rightarrow> 0 | Some n \<Rightarrow> n)"

definition toView :: "job \<Rightarrow> JobView" where
  "toView j =
     \<lparr>v_ID = ID j, v_URL = URL j, v_Site = Site j, v_OutDir = OutDir j, v_Name = Name j,
      v_Status = status_text (Status j), v_Filename = nullString (Filename j),
      v_SizeBytes = null_int (SizeBytes j), v_BytesDone = BytesDone j,
      v_DownloadSpeed = null_int (DownloadSpeed j), v_EtaSeconds = null_int (EtaSeconds j),
      v_Error = nullString (ErrorText j), v_ErrorCode = nullString (ErrorCode j),
      v_CreatedAt = CreatedAt j, v_UpdatedAt = UpdatedAt j\<rparr>"

section \<open>Operations\<close>

definition redactURLForLog :: "string \<Rightarrow> string" where
  "redactURLForLog raw =
     (case url_Parse (TrimSpace raw) of
        Inl _ \<Rightarrow> raw
      | Inr u \<Rightarrow> if Fragment u = '''' then url_String u else url_String (u\<lparr>Fragment := ''***''\<rparr>))"

definition sqlNullString :: "string \<Rightarrow> string option" where
  "sqlNullString v = (if v = '''' then None else Some v)"

definition created_message :: "string \<Rightarrow> string \<Rightarrow> string \<Rightarrow> string \<Rightarrow> string \<Rightarrow> int \<Rightarrow> string" where
  "created_message url cleanOut cleanName site archivePassword maxAttempts =
     ''added url='' @ redactURLForLog url @ '' out='' @ cleanOut @
     (if cleanName \<noteq> '''' then '' name='' @ cleanName else '''') @
     (if site \<noteq> '''' then '' site='' @ site else '''') @
     (if archivePassword \<noteq> '''' then '' archive_password=***'' else '''') @
     '' max_attempts='' @ Itoa maxAttempts"

definition job_to_create :: "string \<Rightarrow> string \<Rightarrow> string \<Rightarrow> string \<Rightarrow> string \<Rightarrow> int \<Rightarrow> job" where
  "job_to_create url cleanOut cleanName site archivePassword maxAttempts =
     \<lparr>ID = 0, URL = url, Site = site, OutDir = cleanOut, Name = cleanName,
      ArchivePassword = (if archivePassword \<noteq> '''' then sqlNullString archivePassword else None),
      ResolvedURL = None, Filename = None, SizeBytes = None, BytesDone = 0, DownloadSpeed = None,
      EtaSeconds = None, Status = StatusQueued, ErrorText = None, ErrorCode = None, Engine = '''',
      EngineGID = None, Attempts = 0, MaxAttempts = maxAttempts, NextRetryAt = None,
      CreatedAt = 0, UpdatedAt = 0, StartedAt = None, CompletedAt = None, DeletedAt = None\<rparr>"

definition CreateJob :: "'e service \<Rightarrow> string \<Rightarrow> string \<Rightarrow> string \<Rightarrow> string \<Rightarrow> string \<Rightarrow> int
    \<Rightarrow> (('e, 'z) world_scheme, error + int) state" where
  "CreateJob sv url outDir name site archivePassword0 maxAttempts0 =
     (let maxAttempts = (if maxAttempts0 \<le> 0 then 5 else maxAttempts0) in
      case cleanOutDir outDir (sv_allowedRoots sv) of
        Inl e \<Rightarrow> return (Inl e)
      | Inr cleanOut \<Rightarrow>
          (case cleanUserFilename name of
             Inl e \<Rightarrow> return (Inl e)
           | Inr cleanName \<Rightarrow>
               (let archivePassword = TrimSpace archivePassword0 in do {
                  r \<leftarrow> store_CreateJob
                    (job_to_create url cleanOut cleanName site archivePassword maxAttempts);
                  case r of
                    Inl e \<Rightarrow> return (Inl e)
                  | Inr jid \<Rightarrow> do {
                      _ \<leftarrow> AddEvent jid ''info''
                        (created_message url cleanOut cleanName site archivePassword maxAttempts);
                      return (Inr jid)
                    }
                })))"

definition ListJobs :: "string \<Rightarrow> bool \<Rightarrow> (('e, 'z) world_scheme, error + JobView list) state" where
  "ListJobs status includeDeleted = do {
     r \<leftarrow> store_ListJobs status includeDeleted;
     return (map_sum (\<lambda>e. e) (map toView) r)
   }"

definition GetJob :: "int \<Rightarrow> (('e, 'z) world_scheme, error + JobView) state" where
  "GetJob jid = do { r \<leftarrow> store_GetJob jid; return (map_sum (\<lambda>e. e) toView r) }"

definition removeEngineTask :: "'e service \<Rightarrow> string \<Rightarrow> (('e, 'z) world_scheme, error option) state" where
  "removeEngineTask sv gid =
     (case sv_downloader sv of
        None \<Rightarrow> return None
      | Some d \<Rightarrow>
          if TrimSpace gid = '''' then return None
          else do {
            r \<leftarrow> on_ext (dl_Remove d gid);
            return (case r of
              None \<Rightarrow> None
            | Some err \<Rightarrow>
                if errors_Is err ErrGIDNotFound then None
                else if errors_Is err Aria2ErrActionNotAllowed
                  then Some (ErrWrap ErrActionNotAllowed (Error err))
                else Some err)
          })"

text \<open>The statement \<open>if err := ...; err != nil { return err }\<close> followed by the rest.\<close>

definition check :: "('s, error option) state \<Rightarrow> ('s, error option) state \<Rightarrow> ('s, error option) state" where
  "check m k = do { e \<leftarrow> m; case e of Some err \<Rightarrow> return (Some err) | None \<Rightarrow> k }"

definition Retry :: "'e service \<Rightarrow> int \<Rightarrow> (('e, 'z) world_scheme, error option) state" where
  "Retry sv jid = do {
     g \<leftarrow> store_GetJob jid;
     case g of
       Inl e \<Rightarrow> return (Some e)
     | Inr job \<Rightarrow>
         if Status job = StatusDecryptFail then
           check (MarkDecryptingRetry jid (BytesDone job))
             (AddEvent jid ''info'' ''retry decrypt queued'')
         else
           check (case EngineGID job of
               Some gid \<Rightarrow> if sv_downloader sv \<noteq> None then removeEngineTask sv gid else return None
             | None \<Rightarrow> return None)
           (check (Requeue jid)
             (AddEvent jid ''info'' ''retried''))
   }"

definition Remove :: "'e service \<Rightarrow> int \<Rightarrow> (('e, 'z) world_scheme, error option) state" where
  "Remove sv jid = do {
     g \<leftarrow> store_GetJob jid;
     case g of
       Inl e \<Rightarrow> return (Some e)
     | Inr job \<Rightarrow>
         check (case EngineGID job of
             Some gid \<Rightarrow> if sv_downloader sv \<noteq> None then removeEngineTask sv gid else return None
           | None \<Rightarrow> return None)
         (check (store_Remove jid)
           (AddEvent jid ''info'' ''removed''))
   }"

definition Clear :: "(('e, 'z) world_scheme, error option) state" where
  "Clear = ClearCompleted"

definition Purge :: "(('e, 'z) world_scheme, error option) state" where
  "Purge = ClearAll"

definition Pause :: "'e service \<Rightarrow> int \<Rightarrow> (('e, 'z) world_scheme, error option) state" where
  "Pause sv jid = do {
     g \<leftarrow> store_GetJob jid;
     case g of
       Inl e \<Rightarrow> return (Some e)
     | Inr job \<Rightarrow>
         (let eventMessage = DisplayStatus (status_text StatusPaused) (Site job) (URL job) in
          if Status job = StatusQueued \<or> Status job = StatusResolving then
            check (MarkPaused jid) (AddEvent jid ''info'' eventMessage)
          else (case sv_downloader sv of
              None \<Rightarrow> return (Some ErrDownloaderNotConfigured)
            | Some d \<Rightarrow> (case EngineGID job of
                None \<Rightarrow> return (Some ErrMissingEngineGID)
              | Some gid \<Rightarrow> do {
                  r \<leftarrow> on_ext (dl_Pause d gid);
                  case r of
                    Some err \<Rightarrow>
                      if errors_Is err Aria2ErrActionNotAllowed
                      then return (Some (ErrWrap ErrActionNotAllowed (Error err)))
                      else return (Some err)
                  | None \<Rightarrow> check (MarkPaused jid) (AddEvent jid ''info'' eventMessage)
                })))
   }"

definition resume_requeue :: "int \<Rightarrow> (('e, 'z) world_scheme, error option) state" where
  "resume_requeue jid = check (Requeue jid) (AddEvent jid ''info'' ''resume requeued'')"

definition Resume :: "'e service \<Rightarrow> int \<Rightarrow> (('e, 'z) world_scheme, error option) state" where
  "Resume sv jid = do {
     g \<leftarrow> store_GetJob jid;
     case g of
       Inl e \<Rightarrow> return (Some e)
     | Inr job \<Rightarrow>
         if IsWebshareJob (Site job) (URL job) then
           check (case EngineGID job of
               Some gid \<Rightarrow> if sv_downloader sv \<noteq> None then removeEngineTask sv gid else return None
             | None \<Rightarrow> return None)
           (resume_requeue jid)
         else (case sv_downloader sv of
             None \<Rightarrow> return (Some ErrDownloaderNotConfigured)
           | Some d \<Rightarrow> (case EngineGID job of
               None \<Rightarrow> resume_requeue jid
             | Some gid \<Rightarrow> do {
                 r \<leftarrow> on_ext (dl_Unpause d gid);
                 case r of
                   Some err \<Rightarrow>
                     if errors_Is err ErrGIDNotFound then resume_requeue jid
                     else if errors_Is err Aria2ErrActionNotAllowed
                       then return (Some (ErrWrap ErrActionNotAllowed (Error err)))
                     else return (Some err)
                 | None \<Rightarrow> check (MarkDownloadingStatus jid) (AddEvent jid ''info'' ''resumed'')
               }))
   }"

section \<open>Contracts on the service\<close>

lemma run_on_ext:
  "run_state (on_ext m) w = (result m (Ext w), w\<lparr>Ext := final m (Ext w)\<rparr>)"
  by (simp add: on_ext_def case_prod_beta)

context effect_contract
begin

lemma keeps_check: "state_io_rel R m \<Longrightarrow> state_io_rel R k \<Longrightarrow> state_io_rel R (check m k)"
  unfolding check_def by (intro keeps_control)

end

locale ext_contract = effect_contract R
  for R :: "('e, 'z) world_scheme \<Rightarrow> ('e, 'z) world_scheme \<Rightarrow> bool" +
  assumes outside: "R w (w\<lparr>Ext := e\<rparr>)"
begin

lemma keeps_on_ext: "state_io_rel R (on_ext m)"
  by (rule state_io_rel_final) (simp add: run_on_ext outside)

end

locale queue_contract = store_contract R + ext_contract R
  for R :: "('e, 'z) world_scheme \<Rightarrow> ('e, 'z) world_scheme \<Rightarrow> bool"
begin

lemma keeps_removeEngineTask: "state_io_rel R (removeEngineTask sv gid)"
  unfolding removeEngineTask_def by (intro keeps_control keeps_on_ext)

lemma keeps_resume_requeue: "state_io_rel R (resume_requeue i)"
  unfolding resume_requeue_def by (intro keeps_check keeps_store)

lemma keeps_Retry: "state_io_rel R (Retry sv i)"
  unfolding Retry_def
  by (intro keeps_control keeps_check keeps_store keeps_removeEngineTask)

lemma keeps_Remove: "state_io_rel R (Remove sv i)"
  unfolding Remove_def
  by (intro keeps_control keeps_check keeps_store keeps_removeEngineTask)

lemma keeps_Pause: "state_io_rel R (Pause sv i)"
  unfolding Pause_def Let_def
  by (intro keeps_control keeps_check keeps_store keeps_on_ext)

lemma keeps_Resume: "state_io_rel R (Resume sv i)"
  unfolding Resume_def
  by (intro keeps_control keeps_check keeps_store keeps_on_ext keeps_removeEngineTask
      keeps_resume_requeue)

lemma keeps_Clear: "state_io_rel R Clear"
  unfolding Clear_def by (rule keeps_ClearCompleted)

lemma keeps_views:
  "state_io_rel R (ListJobs st d)" "state_io_rel R (GetJob i)"
  unfolding ListJobs_def GetJob_def by (intro keeps_control keeps_store)+

lemmas keeps_service = keeps_Retry keeps_Remove keeps_Pause keeps_Resume keeps_Clear keeps_views

end

sublocale row_contract \<subseteq> queue: queue_contract "\<lambda>s s'. list_all2 rowR (Jobs s) (Jobs s')"
  by unfold_locales (simp add: list_all2_same row_refl)

interpretation wfq: queue_contract "\<lambda>s s'. wf_db s \<longrightarrow> wf_db s'"
  by unfold_locales (simp add: wf_db_def)

interpretation envq: queue_contract env_step
  by unfold_locales (simp add: env_step_def)

end
