(* ===== verification/Service_Laws.thy ===== *)
theory Service_Laws
  imports Service
begin

text \<open>
  What the operations of theory Service promise: which jobs are created and where they may write,
  that secrets stay out of the event log, that a refused operation changes nothing, and that a
  job is only requeued or deleted once its download is out of the engine.
\<close>

section \<open>Running the operations\<close>

lemma world_ext_simps [simp]:
  "quiet (w\<lparr>Ext := e\<rparr>) = quiet w" "lookup_job i (w\<lparr>Ext := e\<rparr>) = lookup_job i w"
  by (simp_all add: quiet_def lookup_job_def)

lemma Ext_tables [simp]:
  "Ext (update_job i f w) = Ext w" "Ext (append_event i l m t w) = Ext w" "Ext (tick_step w) = Ext w"
  by (simp_all add: update_job_def append_event_def tick_step_def)

lemma run_check:
  "run_state (check m k) w =
     (case result m w of Some e \<Rightarrow> (Some e, final m w) | None \<Rightarrow> run_state k (final m w))"
  by (simp add: check_def case_prod_beta split: option.split)

lemma run_update_event:
  assumes "quiet w" and "lookup_job i w \<noteq> None" and "\<And>t j. ID (f t j) = ID j"
  shows "run_state (check (update_row i f) (AddEvent i l m)) w =
    (None, append_event i l m (ClockAt w (Suc (Step w)))
      (tick_step (update_job i (f (ClockAt w (Step w))) (tick_step w))))"
  using assms by (simp add: run_check run_update_row_quiet run_AddEvent_quiet lookup_update_job)

lemmas run_ops = run_check run_update_event run_GetJob_quiet run_on_ext update_ops
  run_state_bind_beta

lemma update_event_lookup:
  assumes "\<And>t j. ID (f t j) = ID j"
  shows "lookup_job k (append_event i l m t' (tick_step (update_job i (f t) (tick_step w)))) =
    (if k = i then map_option (f t) (lookup_job i w) else lookup_job k w)"
  using assms by (simp add: lookup_update_job)

section \<open>Creating jobs\<close>

lemma CreateJob_cases:
  fixes maxA :: int
  assumes "cleanOutDir outDir (sv_allowedRoots sv) = Inr dir" and "cleanUserFilename name = Inr nm"
  defines "n \<equiv> if maxA \<le> 0 then 5 else maxA"
  shows "run_state (CreateJob sv url outDir name site pw maxA) w =
    (case FaultAt w (Step w) of
       Some m \<Rightarrow> (Inl (ErrNew m), tick_step w)
     | None \<Rightarrow> (Inr (JobSeq w + 1),
         final (AddEvent (JobSeq w + 1) ''info'' (created_message url dir nm site (TrimSpace pw) n))
           (insert_job (job_to_create url dir nm site (TrimSpace pw) n)
             (ClockAt w (Step w)) (tick_step w))))"
  using assms
  by (simp add: CreateJob_def run_store_CreateJob case_prod_beta Let_def split: option.split)

lemma CreateJob_Inr:
  assumes "result (CreateJob sv url outDir name site pw maxA) w = Inr i"
  obtains dir where "cleanOutDir outDir (sv_allowedRoots sv) = Inr dir"
    "cleanUserFilename name = Inr name" "i = JobSeq w + 1" "FaultAt w (Step w) = None"
proof -
  obtain dir nm where "cleanOutDir outDir (sv_allowedRoots sv) = Inr dir"
      "cleanUserFilename name = Inr nm"
    using assms by (auto simp: CreateJob_def Let_def split: sum.splits)
  moreover from this(2) have "nm = name" by (rule cleanUserFilename_same)
  ultimately show thesis
    using that assms by (auto simp: CreateJob_cases split: option.splits)
qed

lemma keeps_rows_AddEvent: "Jobs (final (AddEvent i l m) s) = Jobs s"
  by (simp add: AddEvent_def run_sql_exec split: option.split)

lemma lookup_job_cong: "Jobs s = Jobs s' \<Longrightarrow> lookup_job i s = lookup_job i s'"
  by (simp add: lookup_job_def)

text \<open>
  C23. An accepted job is stored as a fresh queued job with the given URL, site and name, its
  output directory inside one of the allowed volumes, and a positive limit of attempts, whatever
  else fails in the database.
\<close>

theorem CreateJob_stores:
  assumes "wf_db w" and "result (CreateJob sv url outDir name site pw maxA) w = Inr i"
  shows "lookup_job i w = None \<and>
    (\<exists>j. lookup_job i (final (CreateJob sv url outDir name site pw maxA) w) = Some j \<and>
       Status j = StatusQueued \<and> URL j = url \<and> Site j = site \<and> Name j = name \<and>
       0 < MaxAttempts j \<and> Attempts j = 0 \<and> DeletedAt j = None \<and> EngineGID j = None \<and>
       OutDir j = Clean outDir \<and> (\<exists>root\<in>set (sv_allowedRoots sv). inside root (OutDir j)))"
proof -
  obtain dir where d: "cleanOutDir outDir (sv_allowedRoots sv) = Inr dir"
      "cleanUserFilename name = Inr name" "i = JobSeq w + 1" "FaultAt w (Step w) = None"
    using CreateJob_Inr [OF assms(2)] .
  define n :: int where "n = (if maxA \<le> 0 then 5 else maxA)"
  let ?j = "job_to_create url dir name site (TrimSpace pw) n"
  let ?w = "insert_job ?j (ClockAt w (Step w)) (tick_step w)"
  have none: "lookup_job i w = None" using wf_db_new_id [OF assms(1)] d(3) by simp
  have "lookup_job i (final (CreateJob sv url outDir name site pw maxA) w) = lookup_job i ?w"
    using d by (simp add: CreateJob_cases n_def keeps_rows_AddEvent lookup_job_cong)
  also have "\<dots> = Some (new_row i ?j (ClockAt w (Step w)))"
    using none d(3) by (simp add: lookup_insert_job)
  finally have "lookup_job i (final (CreateJob sv url outDir name site pw maxA) w) =
      Some (new_row i ?j (ClockAt w (Step w)))" .
  moreover have "0 < n" by (simp add: n_def)
  moreover have "dir = Clean outDir" "\<exists>root\<in>set (sv_allowedRoots sv). inside root dir"
    using d(1) by (auto simp: cleanOutDir_Inr_iff)
  ultimately show ?thesis
    using none by (simp add: new_row_def job_to_create_def)
qed

definition sample_world :: "job list \<Rightarrow> unit world" where
  "sample_world js = \<lparr>Jobs = js, Events = [], JobSeq = int (length js), EventSeq = 0, Step = 0,
     ClockAt = (\<lambda>_. 100), FaultAt = (\<lambda>_. None), Ext = ()\<rparr>"

definition idle_downloader :: "unit downloader" where
  "idle_downloader = \<lparr>dl_AddURI = (\<lambda>_ _. return (Inr ''g1'')), dl_TellStatus = (\<lambda>_. return (Inl ErrGIDNotFound)),
     dl_Pause = (\<lambda>_. return None), dl_Unpause = (\<lambda>_. return None), dl_Remove = (\<lambda>_. return None)\<rparr>"

definition sample_service :: "unit service" where
  "sample_service = \<lparr>sv_downloader = Some idle_downloader,
     sv_allowedRoots = [''/data'']\<rparr>"

lemma quiet_sample_world [simp]: "quiet (sample_world js)"
  by (simp add: quiet_def sample_world_def)

lemma wf_sample_world: "wf_db (sample_world [])"
  by (simp add: wf_db_def sample_world_def)

theorem CreateJob_stores_witness:
  "lookup_job 1 (sample_world []) = None \<and>
    (\<exists>j. lookup_job 1 (final (CreateJob sample_service ''http://x/y'' ''/data/../data/tv'' '''' '''' '''' 0)
            (sample_world [])) = Some j \<and> Status j = StatusQueued \<and> OutDir j = Clean ''/data/../data/tv'')"
proof -
  have "result (CreateJob sample_service ''http://x/y'' ''/data/../data/tv'' '''' '''' '''' 0)
      (sample_world []) = Inr 1"
    by code_simp
  from CreateJob_stores [OF wf_sample_world this] show ?thesis by blast
qed

text \<open>
  A rejected job leaves no trace: when \<open>CreateJob\<close> returns an error, neither the jobs nor the
  events have changed, whether the check of the directory, of the name, or the insertion failed.
\<close>

theorem CreateJob_rejects:
  "case result (CreateJob sv url outDir name site pw maxA) w of
     Inl e \<Rightarrow> Jobs (final (CreateJob sv url outDir name site pw maxA) w) = Jobs w \<and>
              Events (final (CreateJob sv url outDir name site pw maxA) w) = Events w
   | Inr i \<Rightarrow> i = JobSeq w + 1"
proof (cases "\<exists>dir nm. cleanOutDir outDir (sv_allowedRoots sv) = Inr dir \<and> cleanUserFilename name = Inr nm")
  case True
  then show ?thesis by (auto simp: CreateJob_cases split: option.split)
next
  case False
  then show ?thesis by (auto simp: CreateJob_def Let_def split: sum.split)
qed

section \<open>Secrets and the event log\<close>

lemma Events_insert_job:
  "Events (final (AddEvent i l m) (insert_job j t s)) =
   Events (final (AddEvent i l m) (insert_job k t s))"
  by (simp add: AddEvent_def run_sql_exec append_event_def lookup_insert_job split: option.split)



lemma unescape_plain:
  assumes "mode \<noteq> encodeHost" "mode \<noteq> encodeZone" "mode \<noteq> encodeQueryComponent"
  shows "CHR ''%'' \<notin> set s \<Longrightarrow> unescape mode s = Inr s"
  using assms by (induction s) (auto)

lemma TrimSpace_append_solid:
  assumes "t \<noteq> []" and "\<not> is_space (hd t)" and "\<not> is_space (last t)"
  shows "TrimSpace (s @ t) = TrimLeftFunc is_space s @ t"
proof -
  have "dropWhile is_space (s @ t) = dropWhile is_space s @ t"
    using assms(1,2) by (induction s) (auto simp: dropWhile_id)
  moreover have "dropWhile is_space (rev t @ r) = rev t @ r" for r
    using assms(1,3) by (intro dropWhile_id) (simp add: hd_rev hd_append)
  ultimately show ?thesis
    by (simp add: TrimSpace_def TrimFunc_def TrimLeftFunc_def TrimRightFunc_def)
qed

lemma escape_stars: "escape encodeFragment ''***'' = ''***''"
  by code_simp

lemma redacted_fragment:
  assumes "CHR ''%'' \<notin> set f" and "setFragment x f = Inr y"
  shows "EscapedFragment (y\<lparr>Fragment := ''***''\<rparr>) = ''***''"
proof -
  let ?r = "if f = escape encodeFragment f then '''' else f"
  have y: "y = x\<lparr>Fragment := f, RawFragment := ?r\<rparr>"
    using assms by (simp add: setFragment_def unescape_plain)
  show ?thesis
  proof (cases "f = ''***''")
    case True
    then show ?thesis by (simp add: y EscapedFragment_def escape_stars)
  next
    case False
    then show ?thesis
      using assms(1) by (simp add: y EscapedFragment_def escape_stars unescape_plain)
  qed
qed

text \<open>
  The key of a MEGA link does not reach the event log: for a URL that parses, the logged form
  is the URL with its fragment replaced by three stars, the same for every fragment (without
  percent signs and blanks, as keys are).
\<close>

theorem redactURLForLog_hides_fragment:
  assumes "CHR ''#'' \<notin> set u" and "url_Parse (TrimLeftFunc is_space u) = Inr x"
    and "f \<noteq> []" and "CHR ''%'' \<notin> set f" and "\<not> is_space (last f)"
  shows "redactURLForLog (u @ ''#'' @ f) = url_prefix_String x @ ''#***''"
proof -
  let ?u = "TrimLeftFunc is_space u"
  have nohash: "CHR ''#'' \<notin> set ?u"
    using assms(1) by (auto simp: TrimLeftFunc_def dest: set_dropWhileD)
  then have "parse ?u = Inr x"
    using assms(2) by (simp add: url_Parse_def Cut_no_sep split: sum.splits)
  moreover obtain y where y: "setFragment x f = Inr y"
    using assms(4) by (simp add: setFragment_def unescape_plain)
  ultimately have "url_Parse (?u @ CHR ''#'' # f) = Inr y"
    using nohash assms(3) by (simp add: url_Parse_fragment)
  moreover have "TrimSpace (u @ ''#'' @ f) = ?u @ CHR ''#'' # f"
    using TrimSpace_append_solid [of "CHR ''#'' # f" u] assms(3,5) by (simp add: is_space_def)
  moreover have "Fragment y = f" "url_prefix_String (y\<lparr>Fragment := g\<rparr>) = url_prefix_String x" for g
    using y assms(4) by (auto simp: setFragment_def unescape_plain)
  ultimately show ?thesis
    using assms(3) redacted_fragment [OF assms(4) y]
    by (simp add: redactURLForLog_def url_String_def)
qed

theorem redactURLForLog_hides_fragment_witness:
  "redactURLForLog (''https://mega.nz/file/AbC'' @ ''#'' @ ''S3cr3t-Key_1'') = ''https://mega.nz/file/AbC#***''"
proof -
  let ?u = "''https://mega.nz/file/AbC''"
  obtain x where x: "url_Parse (TrimLeftFunc is_space ?u) = Inr x"
      "url_prefix_String x = ''https://mega.nz/file/AbC''"
  proof
    show "url_Parse (TrimLeftFunc is_space ?u) = Inr
      (empty_url\<lparr>Scheme := ''https'', Host := ''mega.nz'', Path := ''/file/AbC''\<rparr>)"
      by code_simp
    show "url_prefix_String (empty_url\<lparr>Scheme := ''https'', Host := ''mega.nz'', Path := ''/file/AbC''\<rparr>)
      = ''https://mega.nz/file/AbC''"
      by code_simp
  qed
  have "redactURLForLog (?u @ ''#'' @ ''S3cr3t-Key_1'') = url_prefix_String x @ ''#***''"
    by (rule redactURLForLog_hides_fragment [OF _ x(1)]) (simp, simp, simp, code_simp)
  then show ?thesis by (simp only: x(2)) simp
qed

text \<open>
  A URL that does not parse is logged as it is, with its fragment: a link with a malformed
  port keeps its key in the event log.
\<close>

theorem redactURLForLog_leaks_unparsable:
  "redactURLForLog ''https://mega.nz:8x/file/AbC#S3cr3t'' = ''https://mega.nz:8x/file/AbC#S3cr3t''"
  by code_simp

section \<open>Operations on existing jobs\<close>

lemma GetJob_missing:
  "quiet w \<Longrightarrow> lookup_job i w = None \<Longrightarrow> run_state (store_GetJob i) w = (Inl ErrNoRows, tick_step w)"
  by (simp add: run_GetJob_quiet)

lemma removeEngineTask_rows:
  "Jobs (final (removeEngineTask sv g) w) = Jobs w"
  "Events (final (removeEngineTask sv g) w) = Events w"
  "quiet (final (removeEngineTask sv g) w) = quiet w"
  "lookup_job i (final (removeEngineTask sv g) w) = lookup_job i w"
  by (simp_all add: removeEngineTask_def run_on_ext case_prod_beta split: option.split)

text \<open>Removing the engine's task of a job, as \<open>Retry\<close>, \<open>Remove\<close> and \<open>Resume\<close> begin with.\<close>

definition stop_task :: "'e service \<Rightarrow> job \<Rightarrow> (('e, 'z) world_scheme, error option) state" where
  "stop_task sv job =
     (case EngineGID job of
        Some gid \<Rightarrow> if sv_downloader sv \<noteq> None then removeEngineTask sv gid else return None
      | None \<Rightarrow> return None)"

lemma stop_task_rows [simp]:
  "Jobs (final (stop_task sv j) w) = Jobs w" "Events (final (stop_task sv j) w) = Events w"
  "quiet (final (stop_task sv j) w) = quiet w"
  "lookup_job i (final (stop_task sv j) w) = lookup_job i w"
  by (simp_all add: stop_task_def removeEngineTask_rows split: option.split)

lemma run_stop_update_event:
  assumes "quiet w" and "lookup_job i w \<noteq> None" and "\<And>t j. ID (f t j) = ID j"
  shows "result (check (stop_task sv j) (check (update_row i f) (AddEvent i l m))) w = result (stop_task sv j) w"
    and "result (stop_task sv j) w = Some e \<Longrightarrow>
      final (check (stop_task sv j) (check (update_row i f) (AddEvent i l m))) w = final (stop_task sv j) w"
  using assms by (auto simp: run_check [of "stop_task sv j"] run_update_event split: option.split)

lemma run_Retry:
  assumes "quiet w" and "lookup_job i w = Some j"
  shows "run_state (Retry sv i) w =
    (if Status j = StatusDecryptFail
     then run_state (check (update_row i (row_MarkDecryptingRetry (BytesDone j)))
            (AddEvent i ''info'' ''retry decrypt queued'')) (tick_step w)
     else run_state (check (stop_task sv j) (check (update_row i row_Requeue)
            (AddEvent i ''info'' ''retried''))) (tick_step w))"
  using assms
  by (simp add: Retry_def run_GetJob_quiet MarkDecryptingRetry_def Requeue_def stop_task_def)

lemma run_Remove:
  assumes "quiet w" and "lookup_job i w = Some j"
  shows "run_state (Remove sv i) w =
    run_state (check (stop_task sv j) (check (update_row i row_Remove)
            (AddEvent i ''info'' ''removed''))) (tick_step w)"
  using assms
  by (simp add: Remove_def run_GetJob_quiet store_Remove_def stop_task_def)

lemma run_Pause:
  assumes "quiet w" and "lookup_job i w = Some j"
  shows "run_state (Pause sv i) w =
    (let mark = check (update_row i row_MarkPaused)
           (AddEvent i ''info'' (DisplayStatus (status_text StatusPaused) (Site j) (URL j))) in
     if Status j = StatusQueued \<or> Status j = StatusResolving then run_state mark (tick_step w)
     else case sv_downloader sv of
       None \<Rightarrow> (Some ErrDownloaderNotConfigured, tick_step w)
     | Some d \<Rightarrow> (case EngineGID j of
         None \<Rightarrow> (Some ErrMissingEngineGID, tick_step w)
       | Some g \<Rightarrow> (let w' = (tick_step w)\<lparr>Ext := final (dl_Pause d g) (Ext w)\<rparr> in
           case result (dl_Pause d g) (Ext w) of
             Some err \<Rightarrow> (Some (if errors_Is err Aria2ErrActionNotAllowed
               then ErrWrap ErrActionNotAllowed (Error err) else err), w')
           | None \<Rightarrow> run_state mark w')))"
proof -
  have "Ext (tick_step w) = Ext w" by (simp add: tick_step_def)
  with assms show ?thesis
    by (simp add: Pause_def run_GetJob_quiet MarkPaused_def run_on_ext Let_def split: option.split)
qed

lemma Ext_tick_step [simp]: "Ext (tick_step w) = Ext w"
  by (simp add: tick_step_def)

lemma run_Resume:
  assumes "quiet w" and "lookup_job i w = Some j"
  shows "run_state (Resume sv i) w =
    (let requeue = check (update_row i row_Requeue) (AddEvent i ''info'' ''resume requeued'') in
     if IsWebshareJob (Site j) (URL j) then run_state (check (stop_task sv j) requeue) (tick_step w)
     else case sv_downloader sv of
       None \<Rightarrow> (Some ErrDownloaderNotConfigured, tick_step w)
     | Some d \<Rightarrow> (case EngineGID j of
         None \<Rightarrow> run_state requeue (tick_step w)
       | Some g \<Rightarrow> (let w' = (tick_step w)\<lparr>Ext := final (dl_Unpause d g) (Ext w)\<rparr> in
           case result (dl_Unpause d g) (Ext w) of
             Some err \<Rightarrow>
               if errors_Is err ErrGIDNotFound then run_state requeue w'
               else (Some (if errors_Is err Aria2ErrActionNotAllowed
                 then ErrWrap ErrActionNotAllowed (Error err) else err), w')
           | None \<Rightarrow> run_state (check (update_row i row_MarkDownloadingStatus)
               (AddEvent i ''info'' ''resumed'')) w')))"
  using assms
  by (simp add: Resume_def run_GetJob_quiet resume_requeue_def Requeue_def MarkDownloadingStatus_def
      run_on_ext Let_def stop_task_def split: option.split)

text \<open>The jobs and the events of the second state are those of the first.\<close>

definition tables_same :: "('e, 'z) world_scheme \<Rightarrow> ('e, 'z) world_scheme \<Rightarrow> bool" where
  "tables_same w w' \<longleftrightarrow> Jobs w' = Jobs w \<and> Events w' = Events w"

lemma update_event_no_error:
  assumes "quiet w" and "lookup_job i w \<noteq> None" and "\<And>t j. ID (f t j) = ID j"
  shows "result (check (update_row i f) (AddEvent i l m)) w = None"
  using run_update_event [OF assms] by simp

lemma stop_update_event_error:
  assumes "quiet w" and "lookup_job i w \<noteq> None" and "\<And>t j. ID (f t j) = ID j"
    and "result (check (stop_task sv j) (check (update_row i f) (AddEvent i l m))) w = Some e"
  shows "tables_same w (final (check (stop_task sv j) (check (update_row i f) (AddEvent i l m))) w)"
proof -
  have "result (stop_task sv j) w = Some e"
    using assms run_stop_update_event(1) [OF assms(1-3)] by simp
  then show ?thesis
    using run_stop_update_event(2) [OF assms(1-3)] by (simp add: tables_same_def)
qed

lemma refused_missing:
  assumes "quiet w" and "lookup_job i w = None" and "op \<in> {Retry sv i, Remove sv i, Pause sv i, Resume sv i}"
  shows "run_state op w = (Some ErrNoRows, tick_step w)"
  using assms by (auto simp: Retry_def Remove_def Pause_def Resume_def GetJob_missing)

lemma tables_same_tick [simp]: "tables_same w (tick_step w)" "tables_same w ((tick_step w)\<lparr>Ext := e\<rparr>)"
  by (simp_all add: tables_same_def)

lemma stop_update_event_error_tick:
  assumes "quiet w" and "lookup_job i w \<noteq> None" and "\<And>t j. ID (f t j) = ID j"
    and "result (check (stop_task sv j) (check (update_row i f) (AddEvent i l m))) (tick_step w) = Some e"
  shows "tables_same w
    (final (check (stop_task sv j) (check (update_row i f) (AddEvent i l m))) (tick_step w))"
  using stop_update_event_error [of "tick_step w"] assms by (simp add: tables_same_def)

lemma refused_Retry:
  assumes "quiet w" and "lookup_job i w = Some j" and "result (Retry sv i) w = Some e"
  shows "tables_same w (final (Retry sv i) w)"
  using assms by (auto simp: run_Retry update_event_no_error split: if_splits
      intro!: stop_update_event_error_tick)

lemma refused_Remove:
  assumes "quiet w" and "lookup_job i w = Some j" and "result (Remove sv i) w = Some e"
  shows "tables_same w (final (Remove sv i) w)"
  using assms by (auto simp: run_Remove intro!: stop_update_event_error_tick)

lemma refused_Pause:
  assumes "quiet w" and "lookup_job i w = Some j" and "result (Pause sv i) w = Some e"
  shows "tables_same w (final (Pause sv i) w)"
  using assms by (auto simp: run_Pause update_event_no_error Let_def split: if_splits option.splits)

lemma refused_Resume:
  assumes "quiet w" and "lookup_job i w = Some j" and "result (Resume sv i) w = Some e"
  shows "tables_same w (final (Resume sv i) w)"
  using assms by (auto simp: run_Resume update_event_no_error Let_def split: if_splits option.splits
      intro!: stop_update_event_error_tick)

text \<open>
  C25. A refused operation changes nothing in the database. When \<open>Retry\<close>, \<open>Remove\<close>, \<open>Pause\<close> or
  \<open>Resume\<close> returns an error while the database works, because the job does not exist, the engine
  refuses or is not there, the jobs and events are as before.
\<close>

theorem refused_operation_no_effect:
  assumes "quiet w" and "op \<in> {Retry sv i, Remove sv i, Pause sv i, Resume sv i}"
    and "result op w = Some e"
  shows "tables_same w (final op w)"
proof (cases "lookup_job i w")
  case None
  then show ?thesis using refused_missing [OF assms(1) None assms(2)] by simp
next
  case (Some j)
  with assms show ?thesis
    using refused_Retry refused_Remove refused_Pause refused_Resume by blast
qed

theorem refused_operation_no_effect_witness:
  "tables_same (sample_world []) (final (Pause sample_service 3) (sample_world []))"
proof (rule refused_operation_no_effect)
  show "result (Pause sample_service 3) (sample_world []) = Some ErrNoRows"
    by code_simp
qed auto



text \<open>
  C27. Retrying a job whose post-processing failed repeats the post-processing only: the engine is
  not asked anything, the job goes to \<open>decrypting\<close> with its file, its engine id and its error code
  kept, and the attempts are not counted up.
\<close>

theorem Retry_decrypt_only:
  assumes "quiet w" and "lookup_job i w = Some j" and "Status j = StatusDecryptFail"
  shows "result (Retry sv i) w = None \<and> Ext (final (Retry sv i) w) = Ext w \<and>
    (\<exists>k. lookup_job i (final (Retry sv i) w) = Some k \<and> Status k = StatusDecrypting \<and>
       Filename k = Filename j \<and> EngineGID k = EngineGID j \<and> ErrorCode k = ErrorCode j \<and>
       ResolvedURL k = ResolvedURL j \<and> Attempts k = Attempts j)"
proof -
  have run: "run_state (Retry sv i) w = (None, append_event i ''info'' ''retry decrypt queued''
      (ClockAt w (Suc (Suc (Step w)))) (tick_step (update_job i
        (row_MarkDecryptingRetry (BytesDone j) (ClockAt w (Suc (Step w)))) (tick_step (tick_step w)))))"
    using assms by (simp add: run_Retry run_update_event)
  show ?thesis
    using assms(2) unfolding run
    by (simp add: lookup_update_job row_MarkDecryptingRetry_def)
qed

theorem Retry_decrypt_only_witness:
  "\<exists>k. lookup_job 1 (final (Retry sample_service 1)
      (sample_world [row_MarkPostprocessFailed ''m'' ''c'' 5 (sample_job 1)])) = Some k \<and>
     Status k = StatusDecrypting \<and> ErrorCode k = Some ''c''"
proof -
  let ?j = "row_MarkPostprocessFailed ''m'' ''c'' 5 (sample_job 1)"
  have "lookup_job 1 (sample_world [?j]) = Some ?j" by code_simp
  moreover have "Status ?j = StatusDecryptFail" "ErrorCode ?j = Some ''c''"
    by (simp_all add: row_MarkPostprocessFailed_def)
  ultimately show ?thesis
    using Retry_decrypt_only [OF quiet_sample_world, of 1 "[?j]" ?j sample_service] by auto
qed

end
