(* ===== verification/Go_Time.thy ===== *)
theory Go_Time
  imports Go_Prelude "HOL-Library.List_Lexorder"
begin

text \<open>
  Time stamps as the store writes them: \<open>time.Time.UTC().Format(time.RFC3339)\<close>. A time is its number
  of seconds since 1970 (the format drops fractions of a second); the date is that of the Gregorian
  calendar. Texts are compared byte by byte, as SQLite does.

  The lemma at the end is what lets theory Store compare numbers where the SQL statements compare
  texts: for the years 1 to 9999 the order of the texts is the order of the times.
\<close>

section \<open>Dates\<close>

text \<open>The days before the year \<open>y + 1\<close>, counted from the first of January of the year 1.\<close>

definition days_before :: "int \<Rightarrow> int" where
  "days_before y = 365 * y + y div 4 - y div 100 + y div 400"

definition is_leap :: "int \<Rightarrow> bool" where
  "is_leap year \<longleftrightarrow> year mod 4 = 0 \<and> (year mod 100 \<noteq> 0 \<or> year mod 400 = 0)"

text \<open>The number of full years before a day: a guess from the mean length of a year, which is at most
  one off.\<close>

definition years_before :: "int \<Rightarrow> int" where
  "years_before n =
     (let y = n * 400 div 146097 in
      if days_before (y + 1) \<le> n then y + 1 else if days_before y \<le> n then y else y - 1)"

definition month_starts :: "bool \<Rightarrow> int list" where
  "month_starts leap = map (\<lambda>(m, d). if leap \<and> m > 2 then d + 1 else d)
     (zip [1 :: int, 2, 3, 4, 5, 6, 7, 8, 9, 10, 11, 12] [0, 31, 59, 90, 120, 151, 181, 212, 243, 273, 304, 334])"

definition month_of :: "bool \<Rightarrow> int \<Rightarrow> nat" where
  "month_of leap yday = length (filter (\<lambda>s. s \<le> yday) (month_starts leap))"

text \<open>Year, month, day, hour, minute and second.\<close>

definition civil :: "int \<Rightarrow> int \<times> int \<times> int \<times> int \<times> int \<times> int" where
  "civil t =
     (let n = t div 86400 + 719162; s = t mod 86400;
          y = years_before n; yday = n - days_before y; leap = is_leap (y + 1);
          m = month_of leap yday
      in (y + 1, int m, yday - month_starts leap ! (m - 1) + 1, s div 3600, s mod 3600 div 60, s mod 60))"

section \<open>Texts\<close>

fun digits :: "nat \<Rightarrow> nat \<Rightarrow> string" where
  "digits 0 n = []"
| "digits (Suc w) n = digits w (n div 10) @ [digit_char (n mod 10)]"

definition pad :: "nat \<Rightarrow> int \<Rightarrow> string" where
  "pad w x = digits w (nat x)"

definition rfc3339 :: "int \<Rightarrow> string" where
  "rfc3339 t =
     (case civil t of (y, mo, d, h, mi, s) \<Rightarrow>
        pad 4 y @ ''-'' @ pad 2 mo @ ''-'' @ pad 2 d @ ''T'' @ pad 2 h @ '':'' @ pad 2 mi @ '':'' @ pad 2 s @ ''Z'')"

section \<open>The calendar\<close>

lemma days_before_bounds:
  "400 * days_before y \<le> 146097 * y + 396" "146097 * y - 699 \<le> 400 * days_before y"
proof -
  have "4 * (y div 4) \<le> y" "y \<le> 4 * (y div 4) + 3" "100 * (y div 100) \<le> y" "y \<le> 100 * (y div 100) + 99"
      "400 * (y div 400) \<le> y" "y \<le> 400 * (y div 400) + 399"
    by presburger+
  then show "400 * days_before y \<le> 146097 * y + 396" and "146097 * y - 699 \<le> 400 * days_before y"
    unfolding days_before_def by (simp_all add: algebra_simps)
qed

lemma years_before_ok:
  "days_before (years_before n) \<le> n \<and> n < days_before (years_before n + 1)"
proof -
  define y where "y = n * 400 div 146097"
  have y: "146097 * y \<le> n * 400" "n * 400 < 146097 * (y + 1)"
    unfolding y_def by (simp_all add: mult.commute)
  have "days_before (y - 1) \<le> n" using days_before_bounds(1) [of "y - 1"] y(1) by (simp add: algebra_simps)
  moreover have "n < days_before (y + 1 + 1)" using days_before_bounds(2) [of "y + 1 + 1"] y(2) by (simp add: algebra_simps)
  ultimately show ?thesis
    unfolding years_before_def Let_def y_def [symmetric] by (auto simp: not_le)
qed

lemma succ_div:
  fixes y k :: int
  assumes "0 < k"
  shows "(y + 1) div k = y div k + (if (y + 1) mod k = 0 then 1 else 0)"
proof -
  have y: "y = k * (y div k) + y mod k" "0 \<le> y mod k" "y mod k < k" using assms by simp_all
  show ?thesis
  proof (cases "y mod k + 1 = k")
    case True
    moreover have "k * (y div k + 1) = k * (y div k) + k" by (simp add: distrib_left)
    ultimately have "y + 1 = k * (y div k + 1) + 0" using y(1) by linarith
    then have "(y + 1) div k = y div k + 1" "(y + 1) mod k = 0"
      using assms int_div_pos_eq [of "y + 1" k "y div k + 1" 0] int_mod_pos_eq [of "y + 1" k "y div k + 1" 0] by simp_all
    then show ?thesis by simp
  next
    case False
    then have "y + 1 = k * (y div k) + (y mod k + 1)" "0 \<le> y mod k + 1" "y mod k + 1 < k" using y by linarith+
    then have "(y + 1) div k = y div k" "(y + 1) mod k = y mod k + 1"
      using int_div_pos_eq [of "y + 1" k "y div k" "y mod k + 1"] int_mod_pos_eq [of "y + 1" k "y div k" "y mod k + 1"] by simp_all
    with y(2) show ?thesis by simp
  qed
qed

lemma year_length: "days_before (y + 1) = days_before y + (if is_leap (y + 1) then 366 else 365)"
proof -
  define a b c where "a \<longleftrightarrow> (y + 1) mod 4 = 0" and "b \<longleftrightarrow> (y + 1) mod 100 = 0" and "c \<longleftrightarrow> (y + 1) mod 400 = 0"
  have nested: "c \<Longrightarrow> b" "b \<Longrightarrow> a"
    unfolding a_def b_def c_def using mod_mod_cancel [of 100 400 "y + 1"] mod_mod_cancel [of 4 100 "y + 1"] by simp_all
  have eqs: "(y + 1) div 4 = y div 4 + (if a then 1 else 0)" "(y + 1) div 100 = y div 100 + (if b then 1 else 0)"
      "(y + 1) div 400 = y div 400 + (if c then 1 else 0)"
    unfolding a_def b_def c_def by (rule succ_div, simp)+
  have leap: "is_leap (y + 1) \<longleftrightarrow> a \<and> (\<not> b \<or> c)" by (simp add: is_leap_def a_def b_def c_def)
  have next_year: "days_before (y + 1) = 365 * (y + 1) + (y div 4 + (if a then 1 else 0)) - (y div 100 + (if b then 1 else 0)) +
      (y div 400 + (if c then 1 else 0))"
    by (simp only: days_before_def eqs)
  show ?thesis unfolding next_year leap using nested by (simp only: days_before_def) (cases a; cases b; cases c; simp)
qed

lemma days_before_mono: "x \<le> y \<Longrightarrow> days_before x \<le> days_before y"
proof (induction rule: int_ge_induct)
  case (step k)
  then show ?case using year_length [of k] by (simp split: if_splits)
qed simp

lemma years_before_mono: "m \<le> n \<Longrightarrow> years_before m \<le> years_before n"
proof (rule ccontr)
  assume "m \<le> n" and "\<not> years_before m \<le> years_before n"
  then have "days_before (years_before n + 1) \<le> days_before (years_before m)" by (intro days_before_mono) simp
  with years_before_ok [of m] years_before_ok [of n] \<open>m \<le> n\<close> show False by linarith
qed

section \<open>Months\<close>

lemma month_starts_eq:
  "month_starts False = [0, 31, 59, 90, 120, 151, 181, 212, 243, 273, 304, 334]"
  "month_starts True = [0, 31, 60, 91, 121, 152, 182, 213, 244, 274, 305, 335]"
  by (simp_all add: month_starts_def)

lemma month_of_mono: "a \<le> b \<Longrightarrow> month_of leap a \<le> month_of leap b"
proof -
  assume "a \<le> b"
  then have "length (filter (\<lambda>s. s \<le> a) xs) \<le> length (filter (\<lambda>s. s \<le> b) xs)" for xs
    by (induction xs) auto
  then show ?thesis by (simp add: month_of_def)
qed

text \<open>The month, and the day in it, of a day of the year: there are only 366 of them.\<close>

definition month_day_ok :: "bool \<Rightarrow> int \<Rightarrow> bool" where
  "month_day_ok leap yday \<longleftrightarrow> (let m = month_of leap yday; d = yday - month_starts leap ! (m - 1) + 1 in
     1 \<le> m \<and> m \<le> 12 \<and> 1 \<le> d \<and> d \<le> 31)"

lemma month_day_range:
  assumes "0 \<le> yday" and "yday < (if leap then 366 else 365)"
  shows "month_day_ok leap yday"
proof -
  have "list_all (month_day_ok False) (upto 0 364)" "list_all (month_day_ok True) (upto 0 365)" by code_simp+
  with assms show ?thesis by (cases leap) (simp_all add: list_all_iff)
qed

section \<open>Order\<close>

lemma append_less_append:
  fixes a b c d :: string
  assumes "length a = length b"
  shows "a @ c < b @ d \<longleftrightarrow> a < b \<or> a = b \<and> c < d"
  using assms by (induction a b rule: list_induct2) auto

lemma length_digits [simp]: "length (digits w n) = w"
  by (induction w arbitrary: n) auto

lemma digit_char_less: "a < 10 \<Longrightarrow> b < 10 \<Longrightarrow> digit_char a < digit_char b \<longleftrightarrow> a < b"
  by (simp add: less_char_def of_char_digit_char)

lemma digits_less: "m < n \<Longrightarrow> n < 10 ^ w \<Longrightarrow> digits w m < digits w n"
proof (induction w arbitrary: m n)
  case (Suc w)
  consider "m div 10 < n div 10" | "m div 10 = n div 10" "m mod 10 < n mod 10"
    using Suc.prems(1) by (metis div_le_mono div_mult_mod_eq le_less less_imp_le_nat nat_add_left_cancel_less)
  then show ?case
  proof cases
    case 1
    moreover have "n div 10 < 10 ^ w" using Suc.prems(2) by (simp add: less_mult_imp_div_less)
    ultimately show ?thesis using Suc.IH by (simp add: append_less_append)
  next
    case 2
    then show ?thesis by (simp add: append_less_append digit_char_less)
  qed
qed simp

lemma pad_less: "0 \<le> x \<Longrightarrow> x < y \<Longrightarrow> y < 10 ^ w \<Longrightarrow> pad w x < pad w y"
  unfolding pad_def by (rule digits_less) (simp_all add: nat_less_iff)

lemma length_pad [simp]: "length (pad w x) = w"
  by (simp add: pad_def)

text \<open>One field of fixed width after the other: the first that differs decides.\<close>

lemma field_less:
  fixes c d :: string
  assumes "0 \<le> x" and "x < y \<or> x = y \<and> c < d" and "y < 10 ^ w"
  shows "pad w x @ c < pad w y @ d"
  using assms pad_less [of x y w] by (auto simp: append_less_append)

definition date_text :: "int \<Rightarrow> string" where
  "date_text n =
     (let y = years_before n; yday = n - days_before y; leap = is_leap (y + 1); m = month_of leap yday
      in pad 4 (y + 1) @ ''-'' @ pad 2 (int m) @ ''-'' @ pad 2 (yday - month_starts leap ! (m - 1) + 1))"

definition clock_text :: "int \<Rightarrow> string" where
  "clock_text s = pad 2 (s div 3600) @ '':'' @ pad 2 (s mod 3600 div 60) @ '':'' @ pad 2 (s mod 60)"

lemma rfc3339_parts: "rfc3339 t = date_text (t div 86400 + 719162) @ ''T'' @ clock_text (t mod 86400) @ ''Z''"
  by (simp add: rfc3339_def civil_def date_text_def clock_text_def Let_def)

lemma hms_obtain:
  obtains h m s where "x div 3600 = h" "x mod 3600 div 60 = m" "x mod 60 = s" "x = 3600 * h + (60 * m + s)"
    "0 \<le> s" "s < 60" "0 \<le> m" "m < (60 :: int)"
proof -
  define h g where "h = x div 3600" and "g = x mod 3600"
  define m s where "m = g div 60" and "s = g mod 60"
  have x: "x = 3600 * h + g" unfolding h_def g_def by (rule mult_div_mod_eq [symmetric])
  have g: "g = 60 * m + s" unfolding m_def s_def by (rule mult_div_mod_eq [symmetric])
  have s: "0 \<le> s" "s < 60" by (simp_all add: s_def)
  moreover have "0 \<le> g" "g < 3600" by (simp_all add: g_def)
  ultimately have "0 \<le> m" "m < 60" using g by linarith+
  moreover have "x mod 60 = s" unfolding s_def g_def by (rule mod_mod_cancel [symmetric]) simp
  moreover have "x = 3600 * h + (60 * m + s)" using x g by (simp only:)
  moreover have "x div 3600 = h" "x mod 3600 div 60 = m" by (simp_all only: h_def g_def m_def)
  ultimately show thesis using s by (intro that [of h m s])
qed

lemma clock_text_less:
  assumes "0 \<le> a" and "a < b" and "b < 86400"
  shows "clock_text a < clock_text b"
proof -
  obtain h m s where a: "a div 3600 = h" "a mod 3600 div 60 = m" "a mod 60 = s" "a = 3600 * h + (60 * m + s)"
      "0 \<le> s" "s < 60" "0 \<le> m" "m < 60" using hms_obtain .
  obtain h' m' s' where b: "b div 3600 = h'" "b mod 3600 div 60 = m'" "b mod 60 = s'" "b = 3600 * h' + (60 * m' + s')"
      "0 \<le> s'" "s' < 60" "0 \<le> m'" "m' < 60" using hms_obtain .
  have "h < h' \<or> h = h' \<and> (m < m' \<or> m = m' \<and> s < s')" using a(4-) b(4-) assms(2) by linarith
  moreover have "0 \<le> h" "h' < 100" using a(4-) b(4-) assms(1,3) by linarith+
  ultimately show ?thesis
    unfolding clock_text_def a(1-3) b(1-3) using a(5-) b(5-) by (auto intro!: field_less pad_less)
qed

text \<open>The years 1 to 9999 as days and as seconds.\<close>

definition in_days :: "int \<Rightarrow> bool" where
  "in_days n \<longleftrightarrow> 0 \<le> n \<and> n < 3652059"

definition in_years :: "int \<Rightarrow> bool" where
  "in_years t \<longleftrightarrow> - 62135596800 \<le> t \<and> t < 253402300800"

lemma years_before_range: "in_days n \<Longrightarrow> 0 \<le> years_before n \<and> years_before n < 9999"
proof -
  assume n: "in_days n"
  have "days_before 0 = 0" "days_before 9999 = 3652059" by (simp_all add: days_before_def)
  then have "\<not> years_before n + 1 \<le> 0" "\<not> 9999 \<le> years_before n"
    using n years_before_ok [of n] days_before_mono [of "years_before n + 1" 0] days_before_mono [of 9999 "years_before n"]
    by (auto simp: in_days_def)
  then show ?thesis by simp
qed

lemma length_date_text: "length (date_text n) = 10"
  by (simp add: date_text_def Let_def)

lemma date_text_less:
  assumes "in_days a" and "a < b" and "in_days b"
  shows "date_text a < date_text b"
proof -
  define y z where "y = years_before a" and "z = years_before b"
  have yz: "y \<le> z" "0 \<le> y" "z < 9999"
    using years_before_mono [of a b] years_before_range assms by (simp_all add: y_def z_def)
  define p q where "p = a - days_before y" and "q = b - days_before z"
  have range: "0 \<le> p" "p < (if is_leap (y + 1) then 366 else 365)" "0 \<le> q" "q < (if is_leap (z + 1) then 366 else 365)"
    using years_before_ok [of a] years_before_ok [of b] year_length [of y] year_length [of z]
    by (simp_all add: p_def q_def y_def z_def)
  define m n where "m = month_of (is_leap (y + 1)) p" and "n = month_of (is_leap (z + 1)) q"
  define d e where "d = p - month_starts (is_leap (y + 1)) ! (m - 1) + 1" and "e = q - month_starts (is_leap (z + 1)) ! (n - 1) + 1"
  have md: "1 \<le> d" "e \<le> 31" "n \<le> 12"
    using month_day_range [OF range(1,2)] month_day_range [OF range(3,4)]
    by (simp_all add: month_day_ok_def Let_def m_def n_def d_def e_def)
  have "m < n \<or> m = n \<and> d < e" if "y = z"
    using that assms(2) month_of_mono [of p q "is_leap (z + 1)"] by (auto simp: m_def n_def d_def e_def p_def q_def)
  then have "y < z \<or> y = z \<and> (int m < int n \<or> int m = int n \<and> d < e)" using yz(1) by auto
  moreover have "date_text a = pad 4 (y + 1) @ ''-'' @ pad 2 (int m) @ ''-'' @ pad 2 d"
      "date_text b = pad 4 (z + 1) @ ''-'' @ pad 2 (int n) @ ''-'' @ pad 2 e"
    by (simp_all add: date_text_def Let_def y_def z_def p_def q_def m_def n_def d_def e_def)
  ultimately show ?thesis
    using yz md by (auto intro!: field_less pad_less)
qed

text \<open>
  Time stamps compare as texts: for times in the years 1 to 9999 the byte order of the RFC 3339
  texts is the order of the times. So the statements of the store, which sort and compare the texts
  (oldest job first, due retries), sort and compare the times.
\<close>

theorem rfc3339_order:
  assumes "in_years s" and "in_years t"
  shows "rfc3339 s < rfc3339 t \<longleftrightarrow> s < t"
proof -
  have less: "rfc3339 u < rfc3339 v" if "in_years u" "in_years v" "u < v" for u v
  proof -
    define a b where "a = u div 86400 + 719162" and "b = v div 86400 + 719162"
    have u: "u = 86400 * a - 62135596800 + u mod 86400" and v: "v = 86400 * b - 62135596800 + v mod 86400"
      by (simp_all add: a_def b_def)
    have clock: "0 \<le> u mod 86400" "u mod 86400 < 86400" "0 \<le> v mod 86400" "v mod 86400 < 86400" by simp_all
    define g h where "g = u mod 86400" and "h = v mod 86400"
    note facts = u v clock that [unfolded in_years_def]
    have "a < b \<or> a = b \<and> g < h" using facts unfolding g_def [symmetric] h_def [symmetric] by linarith
    moreover have "in_days a" "in_days b"
      unfolding in_days_def by (intro conjI; use facts in \<open>unfold g_def [symmetric] h_def [symmetric], linarith\<close>)+
    ultimately show ?thesis
      using date_text_less [of a b] clock_text_less [of g h] clock
      unfolding rfc3339_parts a_def [symmetric] b_def [symmetric] g_def [symmetric] h_def [symmetric]
      by (auto simp: append_less_append length_date_text) (simp add: clock_text_def append_less_append)
  qed
  show ?thesis using less [OF assms] less [OF assms(2,1)] by (metis less_irrefl less_trans linorder_less_linear)
qed

theorem rfc3339_order_witness:
  "in_years 951782400 \<and> in_years 951868800 \<and> rfc3339 951782400 = ''2000-02-29T00:00:00Z'' \<and>
   rfc3339 951782400 < rfc3339 951868800"
proof -
  have "rfc3339 951782400 = ''2000-02-29T00:00:00Z''" by code_simp
  then show ?thesis using rfc3339_order [of 951782400 951868800] by (simp add: in_years_def)
qed

end
