(* ===== verification/Event_Log.thy ===== *)
theory Event_Log
  imports Service_Laws Go_Time
begin

text \<open>
  \<open>ListEvents\<close> of the store and of the service: the event log of a job as lines of text, the newest
  first. The time stamps of the log are the texts of theory Go_Time.
\<close>

definition event_line :: "event \<Rightarrow> string" where
  "event_line e = rfc3339 (EventTime e) @ '' '' @ Level e @ '' '' @ Message e"

definition newest_first :: "int \<Rightarrow> event list \<Rightarrow> event list" where
  "newest_first jid es = rev (sort_key EventID (filter (\<lambda>e. EventJob e = jid) es))"

definition store_ListEvents :: "int \<Rightarrow> int \<Rightarrow> ('z db_scheme, error + string list) state" where
  "store_ListEvents jid limit =
     sql_query (\<lambda>s. map event_line
       ((if limit > 0 then take (nat limit) else id) (newest_first jid (Events s))))"

definition ListEvents :: "int \<Rightarrow> int \<Rightarrow> (('e, 'z) world_scheme, error + string list) state" where
  "ListEvents jid limit = store_ListEvents jid limit"

definition ListPendingArchiveDecrypt :: "int \<Rightarrow> ('z db_scheme, error + job list) state" where
  "ListPendingArchiveDecrypt limit = ListPendingPostprocess limit"

context store_contract
begin

lemma keeps_ListEvents: "state_io_rel R (store_ListEvents i n)"
  unfolding store_ListEvents_def by (rule work.keeps_sql_query)

end

lemma newest_first_sorted:
  "sorted_wrt (<) (map EventID es) \<Longrightarrow> newest_first i es = rev (filter (\<lambda>e. EventJob e = i) es)"
  unfolding newest_first_def
  by (intro arg_cong [of _ _ rev] sort_key_id_if_sorted sorted_filter strict_sorted_imp_sorted)

lemma newest_first_snoc:
  assumes "sorted_wrt (<) (map EventID (es @ [e]))" and "EventJob e = i"
  shows "newest_first i (es @ [e]) = e # newest_first i es"
  using assms newest_first_sorted [of "es @ [e]" i] newest_first_sorted [of es i] by (simp add: sorted_wrt_append)



end
