(* ===== verification/Go_Os.thy ===== *)
theory Go_Os
  imports Go_Prelude "HOL-Library.Word"
begin

text \<open>
  The file system as the packages os and io show it. The record \<open>fs\<close> has the contents of the files
  by path, and what the operating system does with the operations, numbered by \<open>FsStep\<close>: which of
  them fail (\<open>FsFault\<close>), how many bytes a read returns or a failing write has written (\<open>ReadLen\<close>), which name a temporary file gets
  (\<open>TempSuffix\<close>) and when the context of a call is done (\<open>CtxErr\<close>). All of it is arbitrary.
  Directories and file modes are left out.
\<close>

type_synonym byte = "8 word"

definition byte_of :: "char \<Rightarrow> byte" where
  "byte_of c = of_nat (of_char c)"

definition char_of_byte :: "byte \<Rightarrow> char" where
  "char_of_byte b = char_of (unat b)"

section \<open>Files\<close>

record fs =
  FileOf :: "string \<rightharpoonup> byte list"
  FsStep :: nat
  FsFault :: "nat \<Rightarrow> error option"
  ReadLen :: "nat \<Rightarrow> nat"
  TempSuffix :: "nat \<Rightarrow> string"
  CtxErr :: "nat \<Rightarrow> error option"

definition fs_next :: "'z fs_scheme \<Rightarrow> 'z fs_scheme" where
  "fs_next s = s\<lparr>FsStep := Suc (FsStep s)\<rparr>"

definition fs_op :: "('z fs_scheme \<Rightarrow> 'z fs_scheme) \<Rightarrow> 'z fs_scheme \<Rightarrow> error option \<times> 'z fs_scheme" where
  "fs_op f s = (case FsFault s (FsStep s) of Some e \<Rightarrow> (Some e, fs_next s) | None \<Rightarrow> (None, f (fs_next s)))"

definition fs_write :: "string \<Rightarrow> byte list \<Rightarrow> 'z fs_scheme \<Rightarrow> 'z fs_scheme" where
  "fs_write p bs s = s\<lparr>FileOf := (FileOf s)(p := map_option (\<lambda>old. old @ bs) (FileOf s p))\<rparr>"

definition fs_append :: "string \<Rightarrow> byte list \<Rightarrow> 'z fs_scheme \<Rightarrow> error option \<times> 'z fs_scheme" where
  "fs_append p bs s =
     (case FsFault s (FsStep s) of
        Some e \<Rightarrow> (Some e, fs_write p (take (ReadLen s (FsStep s)) bs) (fs_next s))
      | None \<Rightarrow> (None, fs_write p bs (fs_next s)))"

definition fs_remove :: "string \<Rightarrow> 'z fs_scheme \<Rightarrow> 'z fs_scheme" where
  "fs_remove p s = s\<lparr>FileOf := (FileOf s)(p := None)\<rparr>"

definition fs_rename :: "string \<Rightarrow> string \<Rightarrow> 'z fs_scheme \<Rightarrow> 'z fs_scheme" where
  "fs_rename p q s = s\<lparr>FileOf := (FileOf s)(p := None, q := FileOf s p)\<rparr>"

definition errOpen :: "string \<Rightarrow> error" where
  "errOpen path = ErrWrap OsErrNotExist path"

text \<open>\<open>os.ReadFile\<close>, and \<open>os.WriteFile\<close>: the file is opened, which truncates it, and then written.\<close>

definition ReadFile :: "string \<Rightarrow> 'z fs_scheme \<Rightarrow> (error + byte list) \<times> 'z fs_scheme" where
  "ReadFile path s =
     (case FsFault s (FsStep s) of
        Some e \<Rightarrow> (Inl e, fs_next s)
      | None \<Rightarrow> (case FileOf s path of
          None \<Rightarrow> (Inl (errOpen path), fs_next s)
        | Some bs \<Rightarrow> (Inr bs, fs_next s)))"

definition fs_truncate :: "string \<Rightarrow> 'z fs_scheme \<Rightarrow> 'z fs_scheme" where
  "fs_truncate p s = s\<lparr>FileOf := (FileOf s)(p \<mapsto> [])\<rparr>"

definition WriteFile :: "string \<Rightarrow> byte list \<Rightarrow> 'z fs_scheme \<Rightarrow> error option \<times> 'z fs_scheme" where
  "WriteFile path bs s =
     (case fs_op (fs_truncate path) s of
        (Some e, s1) \<Rightarrow> (Some e, s1)
      | (None, s1) \<Rightarrow> fs_append path bs s1)"

section \<open>What the operations do to the files\<close>

lemma fs_next_simps [simp]:
  "FileOf (fs_next s) = FileOf s" "FsFault (fs_next s) = FsFault s" "CtxErr (fs_next s) = CtxErr s"
  "FsStep (fs_next s) = Suc (FsStep s)"
  by (simp_all add: fs_next_def)

lemma FileOf_fs_op:
  "FileOf (snd (fs_op f s)) =
     (case FsFault s (FsStep s) of Some _ \<Rightarrow> FileOf s | None \<Rightarrow> FileOf (f (fs_next s)))"
  "fst (fs_op f s) = FsFault s (FsStep s)"
  by (simp_all add: fs_op_def split: option.split)

lemma fs_op_cases:
  obtains (failed) e s' where "fs_op f s = (Some e, s')" and "FileOf s' = FileOf s"
  | (ok) s' where "fs_op f s = (None, s')" and "s' = f (fs_next s)"
  by (cases "FsFault s (FsStep s)") (auto simp: fs_op_def)

lemma fs_append_cases:
  assumes "FileOf s p = Some old"
  obtains (failed) e s' n where "fs_append p bs s = (Some e, s')" and "FileOf s' = (FileOf s)(p \<mapsto> old @ take n bs)"
      and "FsFault s (FsStep s) \<noteq> None"
  | (ok) s' where "fs_append p bs s = (None, s')" and "s' = fs_write p bs (fs_next s)"
      and "FileOf s' = (FileOf s)(p \<mapsto> old @ bs)"
  using assms by (cases "FsFault s (FsStep s)") (auto simp: fs_append_def fs_write_def)

text \<open>A run in which nothing fails.\<close>

definition no_faults :: "'z fs_scheme \<Rightarrow> bool" where
  "no_faults s \<longleftrightarrow> (\<forall>n. FsFault s n = None \<and> CtxErr s n = None)"

lemma no_faults_next [simp]: "no_faults (fs_next s) = no_faults s"
  by (simp add: no_faults_def)

lemma no_faults_files [simp]:
  "no_faults (fs_write p bs s) = no_faults s" "no_faults (fs_rename p q s) = no_faults s"
  "no_faults (s\<lparr>FileOf := F\<rparr>) = no_faults s" "no_faults (s\<lparr>FsStep := k\<rparr>) = no_faults s"
  by (simp_all add: no_faults_def fs_write_def fs_rename_def)

lemma fs_op_no_faults: "no_faults s \<Longrightarrow> fs_op f s = (None, f (fs_next s))"
  by (simp add: fs_op_def no_faults_def)

lemma char_of_byte_of [simp]: "char_of_byte (byte_of c) = c"
proof -
  have "(of_char c :: nat) < 256" by simp
  then have "unat (of_nat (of_char c) :: byte) = of_char c" by (simp add: unsigned_of_nat take_bit_nat_eq_self_iff)
  then show ?thesis by (simp add: char_of_byte_def byte_of_def)
qed

end
