(* ===== verification/Settings.thy ===== *)
theory Settings
  imports Complex_Main Go_Os Go_Json Go_Filepath
begin

text \<open>
  internal/api/settings.go: the settings of the daemon, kept in memory and in a JSON file. The lock
  of the struct makes every method a step of its own, so that it does not show. A JSON number that
  is decoded into an \<open>interface{}\<close> becomes a float64; the model of such a value is its exact rational
  value (a JSON number is never infinite or not a number).

  The lemmas show that updates keep the settings in their ranges, that saved settings are read back,
  and two ways in which a failure leaves more behind than it should.
\<close>

section \<open>Untyped values\<close>

datatype iface =
    INil
  | IBool bool
  | IFloat rat
  | IStr string
  | IArr "iface list"
  | IObj "(string \<times> iface) list"

text \<open>\<open>strconv.ParseFloat\<close> on a JSON literal: the decimal value, rounded to the nearest float64 with
  ties to even; \<open>None\<close> when it is out of range.\<close>

fun bitlen :: "nat \<Rightarrow> nat" where
  "bitlen n = (if n = 0 then 0 else Suc (bitlen (n div 2)))"

declare bitlen.simps [simp del]

definition pow2 :: "int \<Rightarrow> rat" where
  "pow2 k = (if k \<ge> 0 then 2 ^ nat k else 1 / 2 ^ nat (- k))"

definition ilog2 :: "rat \<Rightarrow> int" where
  "ilog2 a = (case quotient_of a of (n, d) \<Rightarrow>
     let k = int (bitlen (nat n)) - int (bitlen (nat d)) in if pow2 k \<le> a then k else k - 1)"

definition round_even :: "rat \<Rightarrow> int" where
  "round_even x = (let f = \<lfloor>x\<rfloor>; d = x - of_int f in
     if d < 1 / 2 then f else if d > 1 / 2 then f + 1 else if even f then f else f + 1)"

definition round64 :: "rat \<Rightarrow> rat option" where
  "round64 q =
     (if q = 0 then Some 0
      else let a = \<bar>q\<bar>; ulp = pow2 (max (ilog2 a - 52) (- 1074)); r = of_int (round_even (a / ulp)) * ulp in
        if r \<ge> pow2 1024 then None else Some (if q < 0 then - r else r))"

definition decimal_value :: "string \<Rightarrow> rat" where
  "decimal_value l =
     (let neg = HasPrefix l ''-'';
          (mant, ex, _) = Cut (map (\<lambda>c. if c = CHR ''E'' then CHR ''e'' else c) (if neg then tl l else l)) CHR ''e'';
          (whole, frac, _) = Cut mant CHR ''.'';
          m = of_nat (atoi_nat (whole @ frac));
          k = (if HasPrefix ex ''-'' then - int (atoi_nat (tl ex)) else int (atoi_nat (if HasPrefix ex ''+'' then tl ex else ex))) - int (length frac);
          v = m * (if k \<ge> 0 then 10 ^ nat k else 1 / 10 ^ nat (- k))
      in if neg then - v else v)"

definition ParseFloat :: "string \<Rightarrow> rat option" where
  "ParseFloat l = round64 (decimal_value l)"

text \<open>Decoding into \<open>interface{}\<close>; in an object the last member of a name counts (\<open>map_of\<close> of the
  reversed list).\<close>

fun to_iface :: "json \<Rightarrow> iface option" where
  "to_iface JNull = Some INil"
| "to_iface (JBool b) = Some (IBool b)"
| "to_iface (JNum l) = map_option IFloat (ParseFloat l)"
| "to_iface (JStr t) = Some (IStr t)"
| "to_iface (JArr vs) = map_option IArr (those (map to_iface vs))"
| "to_iface (JObj ms) =
     map_option IObj (those (map (\<lambda>(k, v). map_option (Pair k) (to_iface v)) ms))"

definition decode_updates :: "json \<Rightarrow> (string \<rightharpoonup> iface) option" where
  "decode_updates j =
     (case j of
        JNull \<Rightarrow> Some Map.empty
      | JObj _ \<Rightarrow> (case to_iface j of Some (IObj ms) \<Rightarrow> Some (map_of (rev ms)) | _ \<Rightarrow> None)
      | _ \<Rightarrow> None)"

section \<open>The settings\<close>

record settings =
  st_Concurrency :: int
  st_MaxAttempts :: int
  st_AutoDecrypt :: bool
  st_path :: string

definition default_settings :: "string \<Rightarrow> settings" where
  "default_settings path = \<lparr>st_Concurrency = 2, st_MaxAttempts = 5, st_AutoDecrypt = True, st_path = path\<rparr>"

definition settings_fields :: "(string \<times> settings field) list" where
  "settings_fields =
     [(''concurrency'', int_field (\<lambda>v. st_Concurrency_update (\<lambda>_. v))),
      (''max_attempts'', int_field (\<lambda>v. st_MaxAttempts_update (\<lambda>_. v))),
      (''auto_decrypt'', bool_field (\<lambda>v. st_AutoDecrypt_update (\<lambda>_. v)))]"

text \<open>\<open>json.Unmarshal(data, s)\<close>; an error is \<open>None\<close>.\<close>

definition unmarshal_settings :: "string \<Rightarrow> settings \<Rightarrow> settings option" where
  "unmarshal_settings data s =
     (case json_Unmarshal data of None \<Rightarrow> None | Some j \<Rightarrow> decode_struct settings_fields j s)"

definition settings_load :: "(string \<Rightarrow> error) \<Rightarrow> settings \<Rightarrow> 'z fs_scheme \<Rightarrow> (error + settings) \<times> 'z fs_scheme" where
  "settings_load json_error s w =
     (case ReadFile (st_path s) w of
        (Inl e, w1) \<Rightarrow> (Inl e, w1)
      | (Inr bs, w1) \<Rightarrow>
          (let data = map char_of_byte bs in
           case unmarshal_settings data s of
             None \<Rightarrow> (Inl (json_error data), w1)
           | Some s' \<Rightarrow> (Inr s', w1)))"

definition marshal_settings :: "settings \<Rightarrow> string" where
  "marshal_settings s = MarshalIndent [(''concurrency'', JNum (Itoa (st_Concurrency s))),
     (''max_attempts'', JNum (Itoa (st_MaxAttempts s))), (''auto_decrypt'', JBool (st_AutoDecrypt s))]"

text \<open>\<open>MkdirAll\<close>, then \<open>WriteFile\<close>. Marshalling these fields cannot fail.\<close>

definition settings_Save :: "settings \<Rightarrow> 'z fs_scheme \<Rightarrow> error option \<times> 'z fs_scheme" where
  "settings_Save s w =
     (case fs_op id w of
        (Some e, w1) \<Rightarrow> (Some (ErrNew (''create settings dir: '' @ Error e)), w1)
      | (None, w1) \<Rightarrow>
          (case WriteFile (st_path s) (map byte_of (marshal_settings s)) w1 of
             (Some e, w2) \<Rightarrow> (Some (ErrNew (''write settings: '' @ Error e)), w2)
           | (None, w2) \<Rightarrow> (None, w2)))"

definition NewSettings :: "(string \<Rightarrow> error) \<Rightarrow> string \<Rightarrow> 'z fs_scheme \<Rightarrow> (error + settings) \<times> 'z fs_scheme" where
  "NewSettings json_error stateDir w =
     (let s = default_settings (Join [stateDir, ''settings.json'']) in
      case settings_load json_error s w of
        (Inr s', w1) \<Rightarrow> (Inr s', w1)
      | (Inl err, w1) \<Rightarrow>
          if errors_Is err OsErrNotExist then
            (case settings_Save s w1 of
               (Some e, w2) \<Rightarrow> (Inl (ErrNew (''save default settings: '' @ Error e)), w2)
             | (None, w2) \<Rightarrow> (Inr s, w2))
          else (Inl (ErrNew (''load settings: '' @ Error err)), w1))"

definition settings_Get :: "settings \<Rightarrow> int \<times> int \<times> bool" where
  "settings_Get s = (st_Concurrency s, st_MaxAttempts s, st_AutoDecrypt s)"

text \<open>One numeric setting: a number, an integer, in its range.\<close>

definition check_number :: "string \<Rightarrow> int \<Rightarrow> iface \<Rightarrow> error + int" where
  "check_number name hi v =
     (case v of
        IFloat x \<Rightarrow>
          if x \<noteq> of_int \<lfloor>x\<rfloor> then Inl (ErrNew (name @ '' must be an integer''))
          else if x < 1 \<or> x > of_int hi then Inl (ErrNew (name @ '' must be between 1 and '' @ Itoa hi))
          else Inr \<lfloor>x\<rfloor>
      | _ \<Rightarrow> Inl (ErrNew (name @ '' must be a number'')))"

definition update_auto_decrypt :: "(string \<rightharpoonup> iface) \<Rightarrow> settings \<Rightarrow> error option \<times> settings" where
  "update_auto_decrypt updates s =
     (case updates ''auto_decrypt'' of
        None \<Rightarrow> (None, s)
      | Some (IBool b) \<Rightarrow> (None, s\<lparr>st_AutoDecrypt := b\<rparr>)
      | Some _ \<Rightarrow> (Some (ErrNew ''auto_decrypt must be a boolean''), s))"

definition update_max_attempts :: "(string \<rightharpoonup> iface) \<Rightarrow> settings \<Rightarrow> error option \<times> settings" where
  "update_max_attempts updates s =
     (case updates ''max_attempts'' of
        None \<Rightarrow> update_auto_decrypt updates s
      | Some v \<Rightarrow> (case check_number ''max_attempts'' 20 v of
          Inl e \<Rightarrow> (Some e, s)
        | Inr n \<Rightarrow> update_auto_decrypt updates (s\<lparr>st_MaxAttempts := n\<rparr>)))"

definition settings_Update :: "(string \<rightharpoonup> iface) \<Rightarrow> settings \<Rightarrow> error option \<times> settings" where
  "settings_Update updates s =
     (case updates ''concurrency'' of
        None \<Rightarrow> update_max_attempts updates s
      | Some v \<Rightarrow> (case check_number ''concurrency'' 10 v of
          Inl e \<Rightarrow> (Some e, s)
        | Inr n \<Rightarrow> update_max_attempts updates (s\<lparr>st_Concurrency := n\<rparr>)))"

section \<open>Updates\<close>

definition settings_ok :: "settings \<Rightarrow> bool" where
  "settings_ok s \<longleftrightarrow> 1 \<le> st_Concurrency s \<and> st_Concurrency s \<le> 10 \<and> 1 \<le> st_MaxAttempts s \<and> st_MaxAttempts s \<le> 20"

text \<open>The values a setting may be given: an integral number in a range, a boolean.\<close>

definition integral :: "int \<Rightarrow> iface \<Rightarrow> int option" where
  "integral hi v =
     (case v of IFloat x \<Rightarrow> if x = of_int \<lfloor>x\<rfloor> \<and> 1 \<le> \<lfloor>x\<rfloor> \<and> \<lfloor>x\<rfloor> \<le> hi then Some \<lfloor>x\<rfloor> else None | _ \<Rightarrow> None)"

definition boolean :: "iface \<Rightarrow> bool option" where
  "boolean v = (case v of IBool b \<Rightarrow> Some b | _ \<Rightarrow> None)"

text \<open>What an update asks of one setting: \<open>Some\<close> the new value (the old one when the key is missing),
  \<open>None\<close> when the value is not acceptable.\<close>

definition asked :: "(iface \<Rightarrow> 'a option) \<Rightarrow> iface option \<Rightarrow> 'a \<Rightarrow> 'a option" where
  "asked accept v old = (case v of None \<Rightarrow> Some old | Some x \<Rightarrow> accept x)"

lemma check_number_integral:
  "(case check_number name hi v of Inl _ \<Rightarrow> None | Inr n \<Rightarrow> Some n) = integral hi v"
proof (cases v)
  case (IFloat x)
  have "x < 1 \<or> x > of_int hi \<longleftrightarrow> \<not> (1 \<le> \<lfloor>x\<rfloor> \<and> \<lfloor>x\<rfloor> \<le> hi)" if "x = of_int \<lfloor>x\<rfloor>"
  proof -
    have "x < 1 \<longleftrightarrow> \<lfloor>x\<rfloor> < 1" using that by (metis of_int_1 of_int_less_iff)
    moreover have "x > of_int hi \<longleftrightarrow> \<lfloor>x\<rfloor> > hi" using that by (metis of_int_less_iff)
    ultimately show ?thesis by auto
  qed
  with IFloat show ?thesis by (auto simp: check_number_def integral_def)
qed (simp_all add: check_number_def integral_def)

lemma check_number_cases:
  obtains e where "check_number name hi v = Inl e" "integral hi v = None"
  | n where "check_number name hi v = Inr n" "integral hi v = Some n"
  using check_number_integral [of name hi v] by (cases "check_number name hi v") auto

lemma integral_range: "integral hi v = Some n \<Longrightarrow> 1 \<le> n \<and> n \<le> hi"
  by (auto simp: integral_def split: iface.splits if_splits)

lemma update_auto_decrypt_spec:
  "update_auto_decrypt u s =
     (case asked boolean (u ''auto_decrypt'') (st_AutoDecrypt s) of
        None \<Rightarrow> (Some (ErrNew ''auto_decrypt must be a boolean''), s)
      | Some b \<Rightarrow> (None, s\<lparr>st_AutoDecrypt := b\<rparr>))"
  by (auto simp: update_auto_decrypt_def asked_def boolean_def split: option.splits iface.splits)

text \<open>The update in the order of the code, each setting by what is asked of it.\<close>

lemma update_max_attempts_spec:
  "\<exists>e. update_max_attempts u s =
     (case asked (integral 20) (u ''max_attempts'') (st_MaxAttempts s) of
        None \<Rightarrow> (Some e, s)
      | Some n \<Rightarrow> update_auto_decrypt u (s\<lparr>st_MaxAttempts := n\<rparr>))"
proof (cases "u ''max_attempts''")
  case (Some v)
  then show ?thesis by (cases rule: check_number_cases [of "''max_attempts''" 20 v]) (auto simp: update_max_attempts_def asked_def)
qed (simp add: update_max_attempts_def asked_def)

lemma settings_Update_spec:
  "\<exists>e. settings_Update u s =
     (case asked (integral 10) (u ''concurrency'') (st_Concurrency s) of
        None \<Rightarrow> (Some e, s)
      | Some n \<Rightarrow> update_max_attempts u (s\<lparr>st_Concurrency := n\<rparr>))"
proof (cases "u ''concurrency''")
  case (Some v)
  then show ?thesis by (cases rule: check_number_cases [of "''concurrency''" 10 v]) (auto simp: settings_Update_def asked_def)
qed (simp add: settings_Update_def asked_def)

lemma asked_range:
  "asked (integral hi) v old = Some n \<Longrightarrow> 1 \<le> old \<Longrightarrow> old \<le> hi \<Longrightarrow> 1 \<le> n \<and> n \<le> hi"
  using integral_range by (auto simp: asked_def split: option.splits)

text \<open>
  C29. Updates are checked. From settings in range every update, accepted or not, leads to settings in
  range (at most 10 downloads at a time, at most 20 attempts). An update is accepted exactly when
  every setting it names has a value of its type and range, fractions being refused; then every
  named setting has the new value and the others the old one.
\<close>

theorem settings_Update_checked:
  assumes "settings_ok s"
  shows "settings_ok (snd (settings_Update u s)) \<and>
    (case (asked (integral 10) (u ''concurrency'') (st_Concurrency s),
           asked (integral 20) (u ''max_attempts'') (st_MaxAttempts s),
           asked boolean (u ''auto_decrypt'') (st_AutoDecrypt s)) of
       (Some c, Some m, Some b) \<Rightarrow>
         settings_Update u s = (None, s\<lparr>st_Concurrency := c, st_MaxAttempts := m, st_AutoDecrypt := b\<rparr>)
     | _ \<Rightarrow> fst (settings_Update u s) \<noteq> None)"
proof -
  obtain e where U: "settings_Update u s =
     (case asked (integral 10) (u ''concurrency'') (st_Concurrency s) of
        None \<Rightarrow> (Some e, s) | Some n \<Rightarrow> update_max_attempts u (s\<lparr>st_Concurrency := n\<rparr>))"
    using settings_Update_spec by blast
  show ?thesis
  proof (cases "asked (integral 10) (u ''concurrency'') (st_Concurrency s)")
    case None
    with U assms show ?thesis by simp
  next
    case (Some c)
    let ?s1 = "s\<lparr>st_Concurrency := c\<rparr>"
    have ok1: "settings_ok ?s1" using asked_range [OF Some] assms by (simp add: settings_ok_def)
    obtain e' where M: "update_max_attempts u ?s1 =
       (case asked (integral 20) (u ''max_attempts'') (st_MaxAttempts s) of
          None \<Rightarrow> (Some e', ?s1) | Some n \<Rightarrow> update_auto_decrypt u (?s1\<lparr>st_MaxAttempts := n\<rparr>))"
      using update_max_attempts_spec [of u ?s1] by auto
    show ?thesis
    proof (cases "asked (integral 20) (u ''max_attempts'') (st_MaxAttempts s)")
      case None
      with U M Some ok1 show ?thesis by simp
    next
      case (Some m)
      have "settings_ok (?s1\<lparr>st_MaxAttempts := m\<rparr>)" using asked_range [OF Some] ok1 assms by (simp add: settings_ok_def)
      with U M Some \<open>asked (integral 10) _ _ = Some c\<close> show ?thesis
        by (cases "asked boolean (u ''auto_decrypt'') (st_AutoDecrypt s)")
           (simp_all add: update_auto_decrypt_spec settings_ok_def)
    qed
  qed
qed

theorem settings_Update_checked_witness:
  "settings_Update [''concurrency'' \<mapsto> IFloat 4, ''auto_decrypt'' \<mapsto> IBool False] (default_settings ''/s'') =
     (None, \<lparr>st_Concurrency = 4, st_MaxAttempts = 5, st_AutoDecrypt = False, st_path = ''/s''\<rparr>)"
proof -
  have "settings_ok (default_settings ''/s'')" by (simp add: settings_ok_def default_settings_def)
  from settings_Update_checked [OF this, of "[''concurrency'' \<mapsto> IFloat 4, ''auto_decrypt'' \<mapsto> IBool False]"]
  show ?thesis by (simp add: asked_def integral_def boolean_def default_settings_def)
qed

text \<open>
  A refused update is not undone: the settings named before the bad one keep their new values in
  memory, though the caller is told that the update failed and nothing is saved.
\<close>

theorem settings_Update_partial:
  "settings_Update [''concurrency'' \<mapsto> IFloat 9, ''max_attempts'' \<mapsto> IFloat 21] (default_settings p) =
     (Some (ErrNew ''max_attempts must be between 1 and 20''), (default_settings p)\<lparr>st_Concurrency := 9\<rparr>)"
proof -
  have "Itoa 20 = ''20''" by code_simp
  then show ?thesis by (simp add: settings_Update_def update_max_attempts_def check_number_def default_settings_def)
qed

section \<open>Saving and loading\<close>

lemma settings_keys_plain:
  "list_all plain_char ''concurrency''" "list_all plain_char ''max_attempts''" "list_all plain_char ''auto_decrypt''"
  by code_simp+

lemma unmarshal_marshal:
  assumes "in_int64 (st_Concurrency s)" and "in_int64 (st_MaxAttempts s)" and "st_path t = st_path s"
  shows "unmarshal_settings (marshal_settings s) t = Some s"
proof -
  have "json_Unmarshal (marshal_settings s) = Some (JObj [(''concurrency'', JNum (Itoa (st_Concurrency s))),
     (''max_attempts'', JNum (Itoa (st_MaxAttempts s))), (''auto_decrypt'', JBool (st_AutoDecrypt s))])"
    unfolding marshal_settings_def
    by (rule Unmarshal_MarshalIndent) (use settings_keys_plain in \<open>auto simp: flat_value_def\<close>)
  then show ?thesis
    using ParseInt_Itoa [OF assms(1)] ParseInt_Itoa [OF assms(2)] assms(3)
    by (cases s, cases t) (simp add: unmarshal_settings_def decode_struct_def settings_fields_def field_of_def int_field_def bool_field_def)
qed

lemma settings_Save_no_faults:
  assumes "no_faults w"
  obtains w' where "settings_Save s w = (None, w')" and "no_faults w'"
    and "FileOf w' = (FileOf w)(st_path s \<mapsto> map byte_of (marshal_settings s))"
proof -
  define w1 where "w1 = fs_next w"
  define w2 where "w2 = fs_truncate (st_path s) (fs_next w1)"
  have f: "no_faults w1" "no_faults w2" using assms by (simp_all add: w1_def w2_def fs_truncate_def)
  have "fs_op id w = (None, w1)" "fs_op (fs_truncate (st_path s)) w1 = (None, w2)"
    using fs_op_no_faults [OF assms, of id] fs_op_no_faults [OF f(1)] by (simp_all add: w1_def w2_def)
  moreover have "fs_append (st_path s) bs w2 = (None, fs_write (st_path s) bs (fs_next w2))" for bs
    using f(2) by (simp add: fs_append_def no_faults_def)
  ultimately have "settings_Save s w = (None, fs_write (st_path s) (map byte_of (marshal_settings s)) (fs_next w2))"
    by (simp add: settings_Save_def WriteFile_def)
  then show thesis
    by (rule that) (use f(2) in \<open>simp_all add: fs_write_def w2_def w1_def fs_truncate_def\<close>)
qed

text \<open>
  C30. Saved settings come back: when nothing fails, settings that were saved in the state directory
  are what the daemon reads when it starts again.
\<close>

theorem settings_round_trip:
  assumes "no_faults w" and "st_path s = Join [stateDir, ''settings.json'']"
    and "in_int64 (st_Concurrency s)" and "in_int64 (st_MaxAttempts s)"
  shows "\<exists>w'. settings_Save s w = (None, w') \<and> fst (NewSettings json_error stateDir w') = Inr s"
proof -
  obtain w' where w': "settings_Save s w = (None, w')" "no_faults w'"
      "FileOf w' = (FileOf w)(st_path s \<mapsto> map byte_of (marshal_settings s))"
    using settings_Save_no_faults [OF assms(1)] .
  have "unmarshal_settings (marshal_settings s) (default_settings (st_path s)) = Some s"
    using unmarshal_marshal [OF assms(3,4)] by (simp add: default_settings_def)
  moreover have "ReadFile (st_path s) w' = (Inr (map byte_of (marshal_settings s)), fs_next w')"
    using w'(2,3) by (simp add: ReadFile_def no_faults_def)
  moreover have "st_path (default_settings p) = p" for p by (simp add: default_settings_def)
  ultimately have "settings_load json_error (default_settings (st_path s)) w' = (Inr s, fs_next w')"
    by (simp add: settings_load_def comp_def)
  with w'(1) show ?thesis by (simp add: NewSettings_def assms(2) [symmetric])
qed

text \<open>A file system for trying it: one file, faults as given.\<close>

definition settings_fs :: "string \<Rightarrow> (nat \<Rightarrow> error option) \<Rightarrow> fs" where
  "settings_fs content faults = \<lparr>FileOf = [''/state/settings.json'' \<mapsto> map byte_of content], FsStep = 0,
     FsFault = faults, ReadLen = \<lambda>_. 0, TempSuffix = \<lambda>_. '''', CtxErr = \<lambda>_. None\<rparr>"

theorem settings_round_trip_witness:
  "\<exists>w'. settings_Save \<lparr>st_Concurrency = 7, st_MaxAttempts = 3, st_AutoDecrypt = False, st_path = ''/state/settings.json''\<rparr>
      (settings_fs '''' (\<lambda>_. None)) = (None, w') \<and>
    fst (NewSettings ErrNew ''/state'' w') =
      Inr \<lparr>st_Concurrency = 7, st_MaxAttempts = 3, st_AutoDecrypt = False, st_path = ''/state/settings.json''\<rparr>"
proof -
  have "Join [''/state'', ''settings.json''] = ''/state/settings.json''" by code_simp
  moreover have "no_faults (settings_fs '''' (\<lambda>_. None))" by (simp add: no_faults_def settings_fs_def)
  ultimately show ?thesis
    using settings_round_trip [of "settings_fs '''' (\<lambda>_. None)"
        "\<lparr>st_Concurrency = 7, st_MaxAttempts = 3, st_AutoDecrypt = False, st_path = ''/state/settings.json''\<rparr>" "''/state''" ErrNew]
    by (simp add: in_int64_def)
qed

text \<open>
  Saving is not atomic: the file is truncated before it is written. When the write fails (a full
  disk), good settings are lost, and the daemon does not start again: the empty file is not JSON.
\<close>

theorem settings_Save_torn:
  "let s = default_settings ''/state/settings.json'';
       full = (\<lambda>n. if n = 2 then Some (ErrNew ''no space left on device'') else None);
       (e, w) = settings_Save s (settings_fs (marshal_settings s) full)
   in fst (NewSettings ErrNew ''/state'' (settings_fs (marshal_settings s) full)) = Inr s \<and>
     e = Some (ErrNew ''write settings: no space left on device'') \<and>
     fst (NewSettings ErrNew ''/state'' w) = Inl (ErrNew ''load settings: '')"
  by code_simp

end
