(* ===== verification/Api.thy ===== *)
theory Api
  imports Event_Log Settings
begin

text \<open>
  internal/api/http.go: the HTTP handlers. A handler is a program on the state of the daemon: the
  database and, in \<open>Ext\<close>, the settings in memory (\<open>None\<close> is a nil pointer), the files (for the
  settings file) and the rest of the outside. The queue is the service of theory Service.

  A request comes with the outcome of reading its body through the limit of \<open>withRequestLimit\<close>
  and scanning it as JSON: too large, malformed (with the error of the library), or a value, which
  the handler decodes into its request type. A response is a status code and a payload; that the
  payload is written as JSON, and the lines of the process log, are left out. The operations on
  directories are a parameter.
\<close>

section \<open>Requests, responses, state\<close>

datatype req_body = TooLarge | Malformed error | Value json

record request =
  rq_Method :: string
  rq_URL :: url
  rq_Body :: req_body

record browseResponse =
  br_Path :: string
  br_Parent :: string
  br_Dirs :: "string list"
  br_IsRoot :: bool

record meta =
  OutDirPresets :: "string list"
  Version :: string

datatype payload =
    PNone
  | PError string
  | PMeta meta
  | PJobs "JobView list"
  | PJob JobView
  | PId int
  | PLines "string list"
  | PStatusOk
  | PSettings "int \<times> int \<times> bool"
  | PBrowse browseResponse
  | PMkdir string

record response =
  rs_code :: int
  rs_body :: payload

record 'e api_ext =
  ae_Settings :: "settings option"
  ae_Files :: fs
  ae_Rest :: 'e

record 'e directories =
  d_Stat :: "string \<Rightarrow> ('e, error + bool) state"
  d_ReadDir :: "string \<Rightarrow> ('e, error + (string \<times> bool) list) state"
  d_MkdirAll :: "string \<Rightarrow> ('e, error option) state"

record 'e server =
  sr_Queue :: "'e api_ext service"
  sr_Meta :: "meta option"
  sr_dirs :: "'e api_ext directories"
  sr_type_error :: "json \<Rightarrow> error"

type_synonym ('e, 'z) handler = "(('e api_ext, 'z) world_scheme, response) state"

definition writeJSON :: "int \<Rightarrow> payload \<Rightarrow> response" where
  "writeJSON code v = \<lparr>rs_code = code, rs_body = v\<rparr>"

definition writeErr :: "int \<Rightarrow> error \<Rightarrow> response" where
  "writeErr code err = writeJSON code (PError (Error err))"

definition statusForQueueErr :: "error \<Rightarrow> int" where
  "statusForQueueErr err =
     (if errors_Is err ErrNoRows then 404
      else if errors_Is err ErrMissingEngineGID then 409
      else if errors_Is err ErrActionNotAllowed then 409
      else if errors_Is err ErrDownloaderNotConfigured then 503
      else if Error err \<in> {''missing out_dir'', ''no DATA_* volumes configured'', ''out_dir must be absolute'',
          ''out_dir is not within an allowed DATA_* volume'', ''name must not contain path separators'', ''invalid name''}
        then 400
      else 500)"

definition writeQueueErr :: "error \<Rightarrow> response" where
  "writeQueueErr err = writeErr (statusForQueueErr err) err"

definition status_only :: "int \<Rightarrow> response" where
  "status_only code = \<lparr>rs_code = code, rs_body = PNone\<rparr>"

definition get_settings :: "(('e api_ext, 'z) world_scheme, settings option) state" where
  "get_settings = gets (\<lambda>w. ae_Settings (Ext w))"

text \<open>Decoding the body of a request into a struct.\<close>

definition with_body :: "'e server \<Rightarrow> request \<Rightarrow> (json \<Rightarrow> 'a option) \<Rightarrow> ('a \<Rightarrow> ('e, 'z) handler) \<Rightarrow> ('e, 'z) handler" where
  "with_body sr rq decode k =
     (case rq_Body rq of
        TooLarge \<Rightarrow> return (writeErr 413 (ErrNew ''request body too large''))
      | Malformed e \<Rightarrow> return (writeErr 400 e)
      | Value j \<Rightarrow> (case decode j of
          None \<Rightarrow> return (writeErr 400 (sr_type_error sr j))
        | Some x \<Rightarrow> k x))"

section \<open>Jobs\<close>

definition handleMeta :: "'e server \<Rightarrow> request \<Rightarrow> ('e, 'z) handler" where
  "handleMeta sr rq =
     (if rq_Method rq \<noteq> ''GET'' then return (status_only 405)
      else return (writeJSON 200 (PMeta (case sr_Meta sr of
          None \<Rightarrow> \<lparr>OutDirPresets = [], Version = ''''\<rparr> | Some m \<Rightarrow> m))))"

record addJobRequest =
  aj_URL :: string
  aj_OutDir :: string
  aj_Name :: string
  aj_Site :: string
  aj_ArchivePassword :: string
  aj_MaxAttempts :: int

definition empty_add :: addJobRequest where
  "empty_add = \<lparr>aj_URL = '''', aj_OutDir = '''', aj_Name = '''', aj_Site = '''', aj_ArchivePassword = '''', aj_MaxAttempts = 0\<rparr>"

definition add_fields :: "(string \<times> addJobRequest field) list" where
  "add_fields =
     [(''url'', string_field (\<lambda>v. aj_URL_update (\<lambda>_. v))), (''out_dir'', string_field (\<lambda>v. aj_OutDir_update (\<lambda>_. v))),
      (''name'', string_field (\<lambda>v. aj_Name_update (\<lambda>_. v))), (''site'', string_field (\<lambda>v. aj_Site_update (\<lambda>_. v))),
      (''archive_password'', string_field (\<lambda>v. aj_ArchivePassword_update (\<lambda>_. v))),
      (''max_attempts'', int_field (\<lambda>v. aj_MaxAttempts_update (\<lambda>_. v)))]"

definition decode_add :: "json \<Rightarrow> addJobRequest option" where
  "decode_add j = decode_struct add_fields j empty_add"

definition effective_attempts :: "addJobRequest \<Rightarrow> settings option \<Rightarrow> int" where
  "effective_attempts req st =
     (if aj_MaxAttempts req \<le> 0 then
        (case st of
           None \<Rightarrow> aj_MaxAttempts req
         | Some s \<Rightarrow> if st_MaxAttempts s > 0 then st_MaxAttempts s else aj_MaxAttempts req)
      else aj_MaxAttempts req)"

text \<open>The URL of an added job as the process log shows it; the package has a copy of the function of
  the queue.\<close>

definition api_redactURLForLog :: "string \<Rightarrow> string" where
  "api_redactURLForLog raw =
     (case url_Parse (TrimSpace raw) of
        Inl _ \<Rightarrow> raw
      | Inr u \<Rightarrow> if Fragment u = [] then url_String u else url_String (u\<lparr>Fragment := ''***''\<rparr>))"

lemma api_redactURLForLog_same: "api_redactURLForLog = redactURLForLog"
  by (rule ext) (simp add: api_redactURLForLog_def redactURLForLog_def)

definition add_job :: "'e server \<Rightarrow> addJobRequest \<Rightarrow> ('e, 'z) handler" where
  "add_job sr req =
     (if aj_URL req = '''' \<or> aj_OutDir req = '''' then return (writeErr 400 (ErrNew ''missing url or out_dir''))
      else do {
        st \<leftarrow> get_settings;
        r \<leftarrow> CreateJob (sr_Queue sr) (aj_URL req) (aj_OutDir req) (aj_Name req) (aj_Site req)
          (aj_ArchivePassword req) (effective_attempts req st);
        return (case r of Inl e \<Rightarrow> writeQueueErr e | Inr i \<Rightarrow> writeJSON 200 (PId i))
      })"

definition handleJobs :: "'e server \<Rightarrow> request \<Rightarrow> ('e, 'z) handler" where
  "handleJobs sr rq =
     (if rq_Method rq = ''GET'' then do {
        r \<leftarrow> ListJobs (Query_Get (rq_URL rq) ''status'') (Query_Get (rq_URL rq) ''include_deleted'' = ''1'');
        return (case r of Inl e \<Rightarrow> writeErr 500 e | Inr js \<Rightarrow> writeJSON 200 (PJobs js))
      }
      else if rq_Method rq = ''POST'' then with_body sr rq decode_add (add_job sr)
      else return (status_only 405))"

definition parse_int_error :: "string \<Rightarrow> num_error \<Rightarrow> error" where
  "parse_int_error s e = ErrNew (''strconv.ParseInt: parsing '' @ go_quote s @ '': '' @
     (case e of ErrSyntax \<Rightarrow> ''invalid syntax'' | ErrRange \<Rightarrow> ''value out of range''))"

text \<open>The actions on a job: only by POST, and the error of the queue becomes a status code.\<close>

definition job_action :: "request \<Rightarrow> (('e api_ext, 'z) world_scheme, error option) state \<Rightarrow> ('e, 'z) handler" where
  "job_action rq act =
     (if rq_Method rq \<noteq> ''POST'' then return (status_only 405)
      else do {
        e \<leftarrow> act;
        return (case e of Some err \<Rightarrow> writeQueueErr err | None \<Rightarrow> writeJSON 200 PStatusOk)
      })"

definition job_events :: "request \<Rightarrow> int \<Rightarrow> ('e, 'z) handler" where
  "job_events rq jid =
     (let v = Query_Get (rq_URL rq) ''limit'';
          limit = (if v \<noteq> '''' then (case ParseInt v of (n, None) \<Rightarrow> n | _ \<Rightarrow> 0) else 0) in do {
        r \<leftarrow> ListEvents jid limit;
        return (case r of Inl e \<Rightarrow> writeQueueErr e | Inr ls \<Rightarrow> writeJSON 200 (PLines ls))
      })"

definition handleJob :: "'e server \<Rightarrow> request \<Rightarrow> ('e, 'z) handler" where
  "handleJob sr rq =
     (let parts = split_on CHR ''/'' (TrimPrefix (Path (rq_URL rq)) ''/jobs/'') in
      case ParseInt (parts ! 0) of
        (_, Some e) \<Rightarrow> return (writeErr 400 (parse_int_error (parts ! 0) e))
      | (jid, None) \<Rightarrow>
          if length parts = 1 then
            (if rq_Method rq \<noteq> ''GET'' then return (status_only 405)
             else do {
               r \<leftarrow> GetJob jid;
               return (case r of Inl e \<Rightarrow> writeQueueErr e | Inr v \<Rightarrow> writeJSON 200 (PJob v))
             })
          else if parts ! 1 = ''events'' then job_events rq jid
          else if parts ! 1 = ''retry'' then job_action rq (Retry (sr_Queue sr) jid)
          else if parts ! 1 = ''remove'' then job_action rq (Remove (sr_Queue sr) jid)
          else if parts ! 1 = ''pause'' then
            job_action rq (do { _ \<leftarrow> GetJob jid; Pause (sr_Queue sr) jid })
          else if parts ! 1 = ''resume'' then job_action rq (Resume (sr_Queue sr) jid)
          else return (status_only 404))"

definition clear_action :: "request \<Rightarrow> (('e api_ext, 'z) world_scheme, error option) state \<Rightarrow> ('e, 'z) handler" where
  "clear_action rq act =
     (if rq_Method rq \<noteq> ''POST'' then return (status_only 405)
      else do {
        e \<leftarrow> act;
        return (case e of Some err \<Rightarrow> writeErr 500 err | None \<Rightarrow> writeJSON 200 PStatusOk)
      })"

definition handleJobsClear :: "request \<Rightarrow> ('e, 'z) handler" where
  "handleJobsClear rq = clear_action rq Clear"

definition handleJobsPurge :: "request \<Rightarrow> ('e, 'z) handler" where
  "handleJobsPurge rq = clear_action rq Purge"

section \<open>Settings\<close>

definition put_settings :: "settings \<Rightarrow> ('e api_ext, unit) state" where
  "put_settings s = State (\<lambda>e. ((), e\<lparr>ae_Settings := Some s\<rparr>))"

definition save_settings :: "settings \<Rightarrow> ('e api_ext, error option) state" where
  "save_settings s = State (\<lambda>e. case settings_Save s (ae_Files e) of (r, f) \<Rightarrow> (r, e\<lparr>ae_Files := f\<rparr>))"

definition update_settings :: "settings \<Rightarrow> (string \<rightharpoonup> iface) \<Rightarrow> ('e, 'z) handler" where
  "update_settings st updates =
     (case settings_Update updates st of (e, st') \<Rightarrow> do {
        on_ext (put_settings st');
        case e of
          Some err \<Rightarrow> return (writeErr 400 err)
        | None \<Rightarrow> do {
            r \<leftarrow> on_ext (save_settings st');
            return (case r of Some err \<Rightarrow> writeErr 500 err | None \<Rightarrow> writeJSON 200 (PSettings (settings_Get st')))
          }
      })"

definition handleSettings :: "'e server \<Rightarrow> request \<Rightarrow> ('e, 'z) handler" where
  "handleSettings sr rq = do {
     s \<leftarrow> get_settings;
     case s of
       None \<Rightarrow> return (writeErr 500 (ErrNew ''settings not initialized''))
     | Some st \<Rightarrow>
         if rq_Method rq = ''GET'' then return (writeJSON 200 (PSettings (settings_Get st)))
         else if rq_Method rq = ''POST'' then with_body sr rq decode_updates (update_settings st)
         else return (status_only 405)
   }"

section \<open>Directories\<close>

definition presets :: "'e server \<Rightarrow> string list" where
  "presets sr = (case sr_Meta sr of None \<Rightarrow> [] | Some m \<Rightarrow> OutDirPresets m)"

definition isAllowedPath :: "'e server \<Rightarrow> string \<Rightarrow> bool" where
  "isAllowedPath sr path =
     (if presets sr = [] then False
      else let cleanPath = Clean path in
        list_ex (\<lambda>root. let cleanRoot = Clean root in
          cleanPath = cleanRoot \<or> HasPrefix cleanPath (cleanRoot @ ''/'')) (presets sr))"

definition isRootPreset :: "'e server \<Rightarrow> string \<Rightarrow> bool" where
  "isRootPreset sr path =
     (if presets sr = [] then False
      else let cleanPath = Clean path in list_ex (\<lambda>root. cleanPath = Clean root) (presets sr))"

definition handleBrowse :: "'e server \<Rightarrow> request \<Rightarrow> ('e, 'z) handler" where
  "handleBrowse sr rq =
     (if rq_Method rq \<noteq> ''GET'' then return (status_only 405)
      else let path = Query_Get (rq_URL rq) ''path'' in
        if path = '''' then
          return (writeJSON 200 (PBrowse \<lparr>br_Path = '''', br_Parent = '''', br_Dirs = presets sr, br_IsRoot = True\<rparr>))
        else if \<not> isAllowedPath sr path then return (writeErr 403 (ErrNew ''path not allowed''))
        else do {
          info \<leftarrow> on_ext (d_Stat (sr_dirs sr) path);
          case info of
            Inl e \<Rightarrow>
              if errors_Is e OsErrNotExist then return (writeErr 404 (ErrNew ''path not found''))
              else return (writeErr 500 e)
          | Inr isDir \<Rightarrow>
              if \<not> isDir then return (writeErr 400 (ErrNew ''path is not a directory''))
              else do {
                entries \<leftarrow> on_ext (d_ReadDir (sr_dirs sr) path);
                return (case entries of
                  Inl e \<Rightarrow> writeErr 500 e
                | Inr es \<Rightarrow>
                    (let dirs = sort (map fst (filter snd es)); parent = Dir path in
                     writeJSON 200 (PBrowse \<lparr>br_Path = path, br_Parent = (if parent = path then '''' else parent),
                       br_Dirs = dirs, br_IsRoot = isRootPreset sr path\<rparr>)))
              }
        })"

definition decode_mkdir :: "json \<Rightarrow> string option" where
  "decode_mkdir j = decode_struct [(''path'', string_field (\<lambda>v _. v))] j ''''"

definition mkdir :: "'e server \<Rightarrow> string \<Rightarrow> ('e, 'z) handler" where
  "mkdir sr path =
     (if path = '''' then return (writeErr 400 (ErrNew ''path required''))
      else if \<not> isAllowedPath sr path then return (writeErr 403 (ErrNew ''path not allowed''))
      else do {
        r \<leftarrow> on_ext (d_MkdirAll (sr_dirs sr) path);
        return (case r of Some e \<Rightarrow> writeErr 500 e | None \<Rightarrow> writeJSON 200 (PMkdir path))
      })"

definition handleBrowseMkdir :: "'e server \<Rightarrow> request \<Rightarrow> ('e, 'z) handler" where
  "handleBrowseMkdir sr rq =
     (if rq_Method rq \<noteq> ''POST'' then return (status_only 405)
      else with_body sr rq decode_mkdir (mkdir sr))"

section \<open>Routes\<close>

text \<open>\<open>http.ServeMux\<close>: a path that is not clean is redirected, an exact pattern wins over the subtree
  pattern \<open>/jobs/\<close>.\<close>

definition mux_cleanPath :: "string \<Rightarrow> string" where
  "mux_cleanPath p0 =
     (if p0 = '''' then ''/''
      else let p = (if HasPrefix p0 ''/'' then p0 else CHR ''/'' # p0); np = Clean p in
        if HasSuffix p ''/'' \<and> np \<noteq> ''/'' then np @ ''/'' else np)"

definition Handler :: "'e server \<Rightarrow> request \<Rightarrow> ('e, 'z) handler" where
  "Handler sr rq =
     (let path = Path (rq_URL rq) in
      if mux_cleanPath path \<noteq> path then return (status_only 301)
      else if path = ''/meta'' then handleMeta sr rq
      else if path = ''/jobs'' then handleJobs sr rq
      else if path = ''/jobs/clear'' then handleJobsClear rq
      else if path = ''/jobs/purge'' then handleJobsPurge rq
      else if HasPrefix path ''/jobs/'' then handleJob sr rq
      else if path = ''/api/settings'' then handleSettings sr rq
      else if path = ''/api/browse/mkdir'' then handleBrowseMkdir sr rq
      else if path = ''/api/browse'' then handleBrowse sr rq
      else return (status_only 404))"

end
