(* ===== verification/Archive.thy ===== *)
theory Archive
  imports Go_Url Go_Filepath Effects
begin

text \<open>
  internal/queue/archive_decryptor.go: which files are archives, which file of a multipart set is
  its first volume, which files belong to the same set, and how the external extraction tool is
  run, with a second tool as a fallback. The operating system (files and commands) is the
  parameter \<^verbatim>\<open>host\<close>, whose functions act on the state outside the process.

  The lemmas show that the volumes of a multipart set share one group key with their first volume,
  that the first volume is its own first volume, and what \<open>MaybeDecrypt\<close> runs and reports.
\<close>

section \<open>The operating system\<close>

text \<open>The error of a command: an \<open>*exec.Error\<close> with the name of the command and its cause, or any
  other error (an exit status, a cancelled context).\<close>

datatype run_error =
    ExecError string error
  | RunError error

fun run_error_text :: "run_error \<Rightarrow> string" where
  "run_error_text (ExecError name err) = ''exec: '' @ go_quote name @ '': '' @ Error err"
| "run_error_text (RunError err) = Error err"

record 'e host =
  os_Stat :: "string \<Rightarrow> ('e, error option) state"
  os_Remove :: "string \<Rightarrow> ('e, error option) state"
  exec_LookPath :: "string \<Rightarrow> ('e, error option) state"
  exec_CombinedOutput :: "string \<Rightarrow> string list \<Rightarrow> ('e, string \<times> run_error option) state"

section \<open>Names of archives and of their volumes\<close>

definition archive_suffixes :: "string list" where
  "archive_suffixes = [''.zip'', ''.7z'', ''.rar'', ''.tar'', ''.tar.gz'', ''.tgz'', ''.tar.bz2'',
     ''.tbz2'', ''.tar.xz'', ''.txz'', ''.gz'', ''.bz2'', ''.xz'']"

definition isArchiveFile :: "string \<Rightarrow> bool" where
  "isArchiveFile path =
     (let name = ToLower (Base (TrimSpace path)) in list_ex (HasSuffix name) archive_suffixes)"

definition isAllDigits :: "string \<Rightarrow> bool" where
  "isAllDigits s \<longleftrightarrow> s \<noteq> '''' \<and> list_all is_digit s"

text \<open>The condition of the old naming scheme, \<open>name.r00\<close>, \<open>name.r01\<close> and so on.\<close>

definition r_volume :: "string \<Rightarrow> bool" where
  "r_volume base \<longleftrightarrow>
     (let lower = ToLower base in
        length base > 4 \<and> lower ! (length lower - 4) = CHR ''.'' \<and> lower ! (length lower - 3) = CHR ''r'' \<and>
        isAllDigits (drop (length lower - 2) lower))"

text \<open>The result of \<open>fmt.Sprintf\<close> with the format \<open>%0*d\<close>, the given width and the number 1.\<close>

definition zero_padded_one :: "nat \<Rightarrow> string" where
  "zero_padded_one n = replicate (n - 1) CHR ''0'' @ ''1''"

definition multipartArchiveFirstVolume :: "string \<Rightarrow> string" where
  "multipartArchiveFirstVolume path =
     (let clean = TrimSpace path in
      if clean = '''' then clean
      else let dir = Dir clean; base = Base clean; lower = ToLower base in
        if HasSuffix lower ''.rar'' then
          (let stem = TrimSuffix base (drop (length base - 4) base); stemLower = ToLower stem in
           case LastIndex stemLower ''.part'' of
             Some idx \<Rightarrow>
               (let numPart = drop (idx + length ''.part'') stem in
                if numPart \<noteq> '''' \<and> isAllDigits numPart then
                  (case ParseInt numPart of
                     (num, None) \<Rightarrow>
                       if num > 1 then
                         (let firstNum = (if length numPart > 1 then zero_padded_one (length numPart) else ''1'')
                          in Join [dir, take idx stem @ ''.part'' @ firstNum @ ''.rar''])
                       else clean
                   | (_, Some _) \<Rightarrow> clean)
                else clean)
           | None \<Rightarrow> clean)
        else if r_volume base then
          (case ParseInt (drop (length lower - 2) lower) of
             (num, None) \<Rightarrow>
               if num \<ge> 0 then Join [dir, take (length base - 4) base @ ''.rar''] else clean
           | (_, Some _) \<Rightarrow> clean)
        else clean)"

definition multipartArchiveGroupKey :: "string \<Rightarrow> string \<times> bool" where
  "multipartArchiveGroupKey path =
     (let clean = TrimSpace path in
      if clean = '''' then ('''', False)
      else let dir = ToLower (Clean (Dir clean)); base = Base clean; lower = ToLower base in
        if HasSuffix lower ''.rar'' then
          (let stem = TrimSuffix base (drop (length base - 4) base); stemLower = ToLower stem;
               plain = (dir @ ''|rstyle|'' @ ToLower stem, False) in
           case LastIndex stemLower ''.part'' of
             Some idx \<Rightarrow>
               (let numPart = drop (idx + length ''.part'') stem in
                if numPart \<noteq> '''' \<and> isAllDigits numPart
                then (dir @ ''|partrar|'' @ ToLower (take idx stem), True)
                else plain)
           | None \<Rightarrow> plain)
        else if r_volume base then
          (dir @ ''|rstyle|'' @ ToLower (take (length base - 4) base), True)
        else ('''', False))"

definition resolveArchiveEntryPath :: "'e host \<Rightarrow> string \<Rightarrow> ('e, string) state" where
  "resolveArchiveEntryPath h archivePath =
     (let clean = TrimSpace archivePath in
      if clean = '''' then return clean
      else let candidate = multipartArchiveFirstVolume clean in
        if candidate = clean then return clean
        else do {
          err \<leftarrow> os_Stat h candidate;
          return (if err = None then candidate else clean)
        })"

section \<open>Running the tool\<close>

definition archiveToolKind :: "string \<Rightarrow> string" where
  "archiveToolKind command =
     (let base = ToLower (Base (TrimSpace command)) in
      if base = ''unar'' then ''unar'' else ''7z'')"

definition archiveCommandArgs :: "string \<Rightarrow> string \<Rightarrow> string \<Rightarrow> string \<Rightarrow> string list" where
  "archiveCommandArgs command archivePath outDir password =
     (if archiveToolKind command = ''unar'' then
        [''-f'', ''-o'', outDir] @ (if TrimSpace password \<noteq> '''' then [''-p'', password] else []) @
        [archivePath]
      else
        [''x'', ''-y'', ''-aoa'', ''-o'' @ outDir] @
        (if TrimSpace password \<noteq> '''' then [''-p'' @ password] else []) @ [archivePath])"

definition runArchiveTool :: "'e host \<Rightarrow> string \<Rightarrow> string \<Rightarrow> string \<Rightarrow> string
    \<Rightarrow> ('e, string \<times> run_error option) state" where
  "runArchiveTool h command archivePath outDir password = do {
     (out, err) \<leftarrow> exec_CombinedOutput h command
       (archiveCommandArgs command archivePath outDir password);
     return (TrimSpace out, err)
   }"

fun isCommandNotFound :: "run_error \<Rightarrow> bool" where
  "isCommandNotFound (ExecError name err) = errors_Is err ExecErrNotFound"
| "isCommandNotFound (RunError err) = False"

definition shouldTryUnarFallback :: "string \<Rightarrow> string \<Rightarrow> string \<Rightarrow> run_error \<Rightarrow> bool" where
  "shouldTryUnarFallback command archivePath output runErr =
     (if archiveToolKind command = ''unar'' then False
      else if isCommandNotFound runErr then True
      else let name = ToLower (TrimSpace archivePath) in
        if \<not> HasSuffix name ''.rar'' then False
        else let lower = ToLower output in
          Contains lower ''cannot open the file as archive'' \<or>
          Contains lower (''can'' @ [CHR 0x27] @ ''t open as archive'') \<or>
          Contains lower ''unsupported method'')"

definition fallback_separator :: string where
  "fallback_separator = [CHR 0x0A] @ ''--- unar fallback failed ---'' @ [CHR 0x0A]"

record commandArchiveDecryptor =
  ad_command :: string

definition NewArchiveDecryptor :: commandArchiveDecryptor where
  "NewArchiveDecryptor = \<lparr>ad_command = ''7zz''\<rparr>"

definition archive_failed :: "string \<Rightarrow> run_error \<Rightarrow> error" where
  "archive_failed out err =
     ErrNew (''archive decrypt command failed: '' @ (if out = '''' then run_error_text err else out))"

definition archive_MaybeDecrypt :: "'e host \<Rightarrow> commandArchiveDecryptor option \<Rightarrow> string \<Rightarrow> string \<Rightarrow> string
    \<Rightarrow> ('e, bool \<times> error option) state" where
  "archive_MaybeDecrypt h d archivePath outDir overridePassword =
     (case d of
        None \<Rightarrow> return (False, None)
      | Some dec \<Rightarrow> do {
          resolvedArchivePath \<leftarrow> resolveArchiveEntryPath h archivePath;
          if \<not> isArchiveFile resolvedArchivePath then return (False, None)
          else (let command = (if TrimSpace (ad_command dec) = '''' then ''7zz'' else TrimSpace (ad_command dec));
                    password = TrimSpace overridePassword in do {
            (out, err0) \<leftarrow> runArchiveTool h command resolvedArchivePath outDir password;
            case err0 of
              None \<Rightarrow> return (True, None)
            | Some err \<Rightarrow>
                if shouldTryUnarFallback command resolvedArchivePath out err then do {
                  lookErr \<leftarrow> exec_LookPath h ''unar'';
                  if lookErr = None then do {
                    (fallbackOut0, fallbackErr0) \<leftarrow>
                      runArchiveTool h ''unar'' resolvedArchivePath outDir password;
                    case fallbackErr0 of
                      None \<Rightarrow> return (True, None)
                    | Some fallbackErr \<Rightarrow>
                        (let fallbackOut = (if fallbackOut0 = '''' then run_error_text fallbackErr else fallbackOut0);
                             out' = (if out \<noteq> '''' then out @ fallback_separator @ fallbackOut else fallbackOut)
                         in return (True, Some (archive_failed out' err)))
                  }
                  else return (True, Some (archive_failed out err))
                }
                else return (True, Some (archive_failed out err))
          })
        })"

section \<open>Volumes of a multipart set\<close>

lemma length_ToLower [simp]: "length (ToLower s) = length s"
  by (simp add: ToLower_def)

lemma ToLower_append [simp]: "ToLower (s @ t) = ToLower s @ ToLower t"
  by (simp add: ToLower_def)

lemma ToLower_take: "ToLower (take n s) = take n (ToLower s)"
  by (simp add: ToLower_def take_map)

lemma lower_char_digit: "is_digit c \<Longrightarrow> lower_char c = c"
  by (auto simp: lower_char_def is_digit_iff is_upper_def less_eq_char_def)

lemma ToLower_digits: "list_all is_digit s \<Longrightarrow> ToLower s = s"
  by (simp add: ToLower_def list_all_iff lower_char_digit map_idI)

lemma LastIndex_from_append:
  "LastIndex_from (i + length p) s sub = Some j \<Longrightarrow> LastIndex_from i (p @ s) sub = Some j"
  by (induction p arbitrary: i) auto

lemma LastIndex_from_bound:
  "LastIndex_from i s sub = Some j \<Longrightarrow> i \<le> j \<and> j + length sub \<le> i + length s"
  by (induction s arbitrary: i) (force split: option.splits if_splits dest: prefix_length_le)+

lemma LastIndex_from_None: "\<not> sublist sub s \<Longrightarrow> LastIndex_from i s sub = None"
  by (induction s arbitrary: i) (auto simp: sublist_Cons_right)

lemma LastIndex_part:
  assumes "list_all is_digit num"
  shows "LastIndex (pre @ ''.part'' @ num) ''.part'' = Some (length pre)"
proof -
  have dot: "CHR ''.'' \<notin> set num"
    using assms by (auto simp: list_all_iff is_digit_iff)
  have "\<not> sublist ''.part'' (''part'' @ num)"
    using dot set_mono_sublist [of "''.part''" "''part'' @ num"] by auto
  then have "LastIndex_from (Suc k) (''part'' @ num) ''.part'' = None" for k
    by (rule LastIndex_from_None)
  then have "LastIndex_from k (CHR ''.'' # ''part'' @ num) ''.part'' = Some k" for k
    by (subst LastIndex_from.simps) simp
  then have "LastIndex_from k (pre @ CHR ''.'' # ''part'' @ num) ''.part'' = Some (k + length pre)" for k
    by (intro LastIndex_from_append) blast
  then show ?thesis
    unfolding LastIndex_def by (metis append_Cons append_Nil add_0)
qed

text \<open>The stem of a file name with a four-byte extension.\<close>

lemma TrimSuffix_ext:
  "4 \<le> length b \<Longrightarrow> TrimSuffix b (drop (length b - 4) b) = take (length b - 4) b"
  by (simp add: TrimSuffix_def HasSuffix_def suffix_drop)

definition rar_path :: "string list \<Rightarrow> string \<Rightarrow> string" where
  "rar_path ds s = abs_path (ds @ [s @ ''.rar''])"

lemma proper_rar: "CHR ''/'' \<notin> set s \<Longrightarrow> proper_elem (s @ ''.rar'')"
  by (cases s) (auto simp: proper_elem_def)

lemma rar_path_parts:
  assumes "list_all proper_elem ds" and "CHR ''/'' \<notin> set s"
  shows "TrimSpace (rar_path ds s) = rar_path ds s" and "rar_path ds s \<noteq> []"
    and "Dir (rar_path ds s) = abs_path ds" and "Base (rar_path ds s) = s @ ''.rar''"
    and "Join [abs_path ds, s @ ''.rar''] = rar_path ds s"
proof -
  have "last (rar_path ds s) = CHR ''r''" "hd (rar_path ds s) = CHR ''/''" "rar_path ds s \<noteq> []"
    by (simp_all add: rar_path_def abs_path_snoc) (simp add: abs_path_def)
  then show "TrimSpace (rar_path ds s) = rar_path ds s"
    unfolding TrimSpace_def by (intro TrimFunc_id) (simp add: is_space_def)
  show "Dir (rar_path ds s) = abs_path ds" "Base (rar_path ds s) = s @ ''.rar''"
      "rar_path ds s \<noteq> []" "Join [abs_path ds, s @ ''.rar''] = rar_path ds s"
    using assms proper_rar by (simp_all add: rar_path_def Dir_abs_path Base_abs_path Join_abs_path)
qed

lemma HasSuffix_rar [simp]: "HasSuffix (ToLower (s @ ''.rar'')) ''.rar''"
  by (simp add: HasSuffix_def ToLower_def lower_char_def is_upper_def suffix_def)

lemma take_rar_stem [simp]: "TrimSuffix (s @ ''.rar'') ''.rar'' = s"
  by (simp add: TrimSuffix_def HasSuffix_def suffix_def)

lemma ToLower_part [simp]: "ToLower ''.part'' = ''.part''"
  by code_simp

text \<open>What the two functions do on the path of a \<open>.rar\<close> file, with and without a part number.\<close>

lemma rar_path_plain:
  assumes "list_all proper_elem ds" and "CHR ''/'' \<notin> set s" and "LastIndex (ToLower s) ''.part'' = None"
  shows "multipartArchiveFirstVolume (rar_path ds s) = rar_path ds s"
    and "multipartArchiveGroupKey (rar_path ds s) =
      (ToLower (abs_path ds) @ ''|rstyle|'' @ ToLower s, False)"
  using assms rar_path_parts [OF assms(1,2)]
  by (simp_all add: multipartArchiveFirstVolume_def multipartArchiveGroupKey_def Let_def
      Clean_abs_path del: ToLower_append)

lemma rar_path_part:
  assumes "list_all proper_elem ds" and "CHR ''/'' \<notin> set s" and "s = pre @ ext @ num"
    and "ToLower ext = ''.part''" and "isAllDigits num"
  shows "ParseInt num = (1, None) \<Longrightarrow> multipartArchiveFirstVolume (rar_path ds s) = rar_path ds s"
    and "multipartArchiveGroupKey (rar_path ds s) =
      (ToLower (abs_path ds) @ ''|partrar|'' @ ToLower pre, True)"
proof -
  have num: "list_all is_digit num" "num \<noteq> []" using assms(5) by (simp_all add: isAllDigits_def)
  have len: "length ext = 5" using arg_cong [OF assms(4), of length] by simp
  have "ToLower s = ToLower pre @ ''.part'' @ num"
    using assms(3,4) num by (simp add: ToLower_digits)
  then have idx: "LastIndex (ToLower s) ''.part'' = Some (length pre)"
    using LastIndex_part [OF num(1), of "ToLower pre"] by simp
  have cut: "drop (length pre + length ''.part'') s = num" "take (length pre) s = pre"
      "\<not> length s \<le> length pre + length ''.part''"
    using assms(3) len num(2) by simp_all
  show "multipartArchiveGroupKey (rar_path ds s) =
      (ToLower (abs_path ds) @ ''|partrar|'' @ ToLower pre, True)"
    using assms(1,5) num idx cut rar_path_parts [OF assms(1,2)]
    by (simp add: multipartArchiveGroupKey_def Let_def Clean_abs_path del: ToLower_append)
  show "multipartArchiveFirstVolume (rar_path ds s) = rar_path ds s" if "ParseInt num = (1, None)"
    using that assms(1,5) num idx cut rar_path_parts [OF assms(1,2)]
    by (simp add: multipartArchiveFirstVolume_def Let_def del: ToLower_append)
qed

lemma volume_functions_trim:
  "multipartArchiveFirstVolume (TrimSpace p) = multipartArchiveFirstVolume p"
  "multipartArchiveGroupKey (TrimSpace p) = multipartArchiveGroupKey p"
  by (simp_all add: multipartArchiveFirstVolume_def multipartArchiveGroupKey_def)

lemma zero_padded_one: "isAllDigits (zero_padded_one n)" "ParseInt (zero_padded_one n) = (1, None)"
proof -
  have zeros: "list_all is_digit (replicate k CHR ''0'')" for k
    by (simp add: list_all_iff is_digit_def)
  show dig: "isAllDigits (zero_padded_one n)"
    using zeros by (simp add: isAllDigits_def zero_padded_one_def is_digit_def)
  have "foldl (\<lambda>n c. 10 * n + digit_val c) 0 (replicate k CHR ''0'') = 0" for k
    by (induction k) (simp_all add: digit_val_def)
  then have one: "atoi_nat (zero_padded_one n) = 1"
    by (simp add: atoi_nat_def zero_padded_one_def digit_val_def)
  have "parse_digits False (zero_padded_one n) = (1, None)"
    using dig one by (simp add: parse_digits_def isAllDigits_def)
  moreover obtain c r where "zero_padded_one n = c # r" "c \<noteq> CHR ''-''" "c \<noteq> CHR ''+''"
    using dig is_digit_not_sign by (cases "zero_padded_one n") (auto simp: isAllDigits_def)
  ultimately show "ParseInt (zero_padded_one n) = (1, None)" by (simp add: ParseInt_def)
qed

text \<open>
  The first volume of an absolute path is the path itself or a \<open>.rar\<close> file in the same directory
  whose name comes from the volume's name: with the part number set to one, or in the old scheme
  with the extension replaced.
\<close>

lemma first_volume_cases:
  assumes "IsAbs p" and "multipartArchiveFirstVolume p \<noteq> TrimSpace p"
  obtains (part) ds pre n where "list_all proper_elem ds" and "CHR ''/'' \<notin> set pre"
      and "multipartArchiveFirstVolume p = rar_path ds (pre @ ''.part'' @ zero_padded_one n)"
      and "multipartArchiveGroupKey p = (ToLower (abs_path ds) @ ''|partrar|'' @ ToLower pre, True)"
  | (old) ds stem where "list_all proper_elem ds" and "CHR ''/'' \<notin> set stem"
      and "stem = take (length (Base (TrimSpace p)) - 4) (Base (TrimSpace p))"
      and "multipartArchiveFirstVolume p = rar_path ds stem"
      and "multipartArchiveGroupKey p = (ToLower (abs_path ds) @ ''|rstyle|'' @ ToLower stem, True)"
      and "\<not> HasSuffix (ToLower (Base (TrimSpace p))) ''.rar''"
proof -
  let ?c = "TrimSpace p" and ?b = "Base (TrimSpace p)"
  let ?s = "take (length ?b - 4) ?b"
  have abs: "IsAbs ?c"
    using assms(1) by (cases p) (auto simp: IsAbs_def HasPrefix_def TrimSpace_def TrimFunc_def
        TrimLeftFunc_def TrimRightFunc_def is_space_def dropWhile_append)
  then obtain ds where ds: "Dir ?c = abs_path ds" "list_all proper_elem ds"
    by (rule Dir_IsAbs_obtain)
  have ne: "?c \<noteq> []" using abs by (auto simp: IsAbs_def HasPrefix_def)
  have slash: "CHR ''/'' \<notin> set ?b" if "length ?b > 1"
    using that Base_no_slash [of ?c] by fastforce
  show thesis
  proof (cases "HasSuffix (ToLower ?b) ''.rar''")
    case True
    then have len: "4 \<le> length ?b"
      using suffix_length_le [of "''.rar''" "ToLower ?b"] by (simp add: HasSuffix_def)
    with True assms(2) ne obtain i where i: "LastIndex (ToLower ?s) ''.part'' = Some i"
      and num: "isAllDigits (drop (i + length ''.part'') ?s)"
        "drop (i + length ''.part'') ?s \<noteq> []"
      and first: "multipartArchiveFirstVolume p = Join [abs_path ds, take i ?s @ ''.part'' @
          (if length (drop (i + length ''.part'') ?s) > 1
           then zero_padded_one (length (drop (i + length ''.part'') ?s)) else ''1'') @ ''.rar'']"
      by (auto simp: multipartArchiveFirstVolume_def Let_def TrimSuffix_ext ds
          split: option.splits if_splits prod.splits)
    define n where "n = length (drop (i + length ''.part'') ?s)"
    have digits: "(if n > 1 then zero_padded_one n else ''1'') = zero_padded_one n"
      by (simp add: zero_padded_one_def)
    have pre: "CHR ''/'' \<notin> set (take i ?s)"
      using slash len by (auto dest!: in_set_takeD)
    have "CHR ''/'' \<notin> set (zero_padded_one n)" by (simp add: zero_padded_one_def)
    then have "multipartArchiveFirstVolume p = rar_path ds (take i ?s @ ''.part'' @ zero_padded_one n)"
      using first pre rar_path_parts(5) [OF ds(2), of "take i ?s @ ''.part'' @ zero_padded_one n"]
      unfolding n_def [symmetric] digits by simp
    moreover have "multipartArchiveGroupKey p =
        (ToLower (abs_path ds) @ ''|partrar|'' @ ToLower (take i ?s), True)"
      using True ne len i num
      by (simp add: multipartArchiveGroupKey_def Let_def TrimSuffix_ext ds Clean_abs_path)
    ultimately show thesis using part ds(2) pre by blast
  next
    case False
    with assms(2) ne have r: "r_volume ?b"
      and first: "multipartArchiveFirstVolume p = Join [abs_path ds, ?s @ ''.rar'']"
      by (auto simp: multipartArchiveFirstVolume_def Let_def ds split: if_splits prod.splits option.splits)
    have "CHR ''/'' \<notin> set ?s"
      using slash r by (auto simp: r_volume_def Let_def dest: in_set_takeD)
    moreover from this have "multipartArchiveFirstVolume p = rar_path ds ?s"
      using first rar_path_parts(5) [OF ds(2)] by simp
    moreover have "multipartArchiveGroupKey p = (ToLower (abs_path ds) @ ''|rstyle|'' @ ToLower ?s, True)"
      using False r ne by (simp add: multipartArchiveGroupKey_def Let_def ds Clean_abs_path)
    ultimately show thesis using old ds(2) False by blast
  qed
qed

text \<open>
  A volume and the first volume of its set have the same group key, and the first volume is
  its own first volume. So all parts of a set wait for each other, and the extraction of any of
  them opens the same file. In the old naming scheme (\<open>name.r00\<close>) this is for names that do not
  also contain \<open>.part\<close>.
\<close>

theorem first_volume_same_group:
  assumes "IsAbs p"
    and "HasSuffix (ToLower (Base (TrimSpace p))) ''.rar'' \<or> \<not> Contains (ToLower (Base (TrimSpace p))) ''.part''"
  shows "fst (multipartArchiveGroupKey (multipartArchiveFirstVolume p)) = fst (multipartArchiveGroupKey p) \<and>
    multipartArchiveFirstVolume (multipartArchiveFirstVolume p) = multipartArchiveFirstVolume p"
proof (cases "multipartArchiveFirstVolume p = TrimSpace p")
  case True
  then show ?thesis by (simp add: volume_functions_trim)
next
  case False
  from assms(1) this show ?thesis
  proof (cases rule: first_volume_cases)
    case (part ds pre n)
    have "CHR ''/'' \<notin> set (pre @ ''.part'' @ zero_padded_one n)"
      using part(2) by (simp add: zero_padded_one_def)
    from rar_path_part [OF part(1) this refl ToLower_part zero_padded_one(1)] part zero_padded_one(2)
    show ?thesis by simp
  next
    case (old ds stem)
    have "\<not> sublist ''.part'' (ToLower stem)"
    proof
      assume "sublist ''.part'' (ToLower stem)"
      moreover have "sublist (ToLower stem) (ToLower (Base (TrimSpace p)))"
        using old(3) by (simp add: ToLower_def map_mono_sublist sublist_take)
      ultimately show False
        using assms(2) old(6) unfolding Contains_def by (meson sublist_order.order.trans)
    qed
    then have "LastIndex (ToLower stem) ''.part'' = None"
      by (simp add: LastIndex_def LastIndex_from_None)
    from rar_path_plain [OF old(1,2) this] old(4,5) show ?thesis by simp
  qed
qed

theorem first_volume_same_group_witness:
  "fst (multipartArchiveGroupKey ''/data/Film.part01.rar'') = fst (multipartArchiveGroupKey ''/data/Film.PART12.rar'') \<and>
   multipartArchiveFirstVolume ''/data/Film.PART12.rar'' = ''/data/Film.part01.rar''"
proof -
  have first: "multipartArchiveFirstVolume ''/data/Film.PART12.rar'' = ''/data/Film.part01.rar''"
    by code_simp
  have "IsAbs ''/data/Film.PART12.rar''"
    and "HasSuffix (ToLower (Base (TrimSpace ''/data/Film.PART12.rar''))) ''.rar''" by code_simp+
  with first_volume_same_group [of "''/data/Film.PART12.rar''"] show ?thesis
    unfolding first by blast
qed

end
