(* ===== verification/Runner.thy ===== *)
theory Runner
  imports Service Archive
begin

text \<open>
  internal/queue/runner.go: the background loop that moves jobs through their life cycle. One
  \<open>tick\<close> polls the active downloads, hands finished downloads to the post-processing workers,
  requeues failed jobs whose retry time has come, and starts queued jobs up to the concurrency
  limit. The resolvers, the engine, the two decryptors and the operating system are parameters of
  the record \<open>runner\<close> and act on the state outside the process; the settings that the two getter
  functions read are part of that state too.

  The state \<open>daemon\<close> adds to the database and the outside the fields of \<open>Runner\<close> that change: the
  set of jobs with a pending post-processing, the semaphore of the workers (the number of tokens
  in the channel, \<open>None\<close> before it is made) and the goroutines started so far that still run. A
  goroutine is started by adding it to the list; theory Decrypt_Pool says how it goes on.

  The context of the calls is never cancelled here; a cancelled context shows as failing
  statements, which the database model has anyway. Messages to the process log are left out.
\<close>

section \<open>State\<close>

record decryptTask =
  t_jobID :: int
  t_megaPath :: string
  t_archivePath :: string
  t_outDir :: string
  t_password :: string
  t_rawURL :: string
  t_site :: string
  t_decryptMega :: bool
  t_decryptArch :: bool

text \<open>Where a goroutine running \<open>runDecrypt\<close> is: waiting for a worker, before the MEGA decryption,
  before the archive extraction, before the final update, before its two deferred calls (taking
  the job off the pending set, giving the worker back).\<close>

datatype stage = Acquiring | AtMega | AtArchive | AtDone | Leaving | Releasing

record goroutine =
  g_task :: decryptTask
  g_stage :: stage

record 'e daemon = "'e world" +
  DecryptPending :: "int set"
  DecryptSem :: "nat option"
  Goroutines :: "goroutine list"

record ResolvedTarget =
  Kind :: string
  TargetURL :: string
  Headers :: "(string \<times> string) list"
  Options :: "string \<rightharpoonup> string"
  TargetFilename :: string
  Size :: int

record 'e runner =
  r_ResolveWithSite :: "string \<Rightarrow> string \<Rightarrow> ('e, error + ResolvedTarget) state"
  r_Downloader :: "'e downloader"
  r_MegaDecryptor :: "(string \<Rightarrow> string \<Rightarrow> string \<Rightarrow> ('e, bool \<times> error option) state) option"
  r_ArchiveDecryptor :: "(string \<Rightarrow> string \<Rightarrow> string \<Rightarrow> ('e, bool \<times> error option) state) option"
  r_Concurrency :: int
  r_GetConcurrency :: "('e \<Rightarrow> int) option"
  r_GetAutoDecrypt :: "('e \<Rightarrow> bool) option"
  r_DecryptConcurrency :: int
  r_host :: "'e host"

section \<open>Settings and counts\<close>

definition concurrency :: "'e runner \<Rightarrow> 'e \<Rightarrow> int" where
  "concurrency r e =
     (case r_GetConcurrency r of
        Some get \<Rightarrow> if get e > 0 then get e
                    else if r_Concurrency r > 0 then r_Concurrency r else 2
      | None \<Rightarrow> if r_Concurrency r > 0 then r_Concurrency r else 2)"

definition autoDecryptEnabled :: "'e runner \<Rightarrow> 'e \<Rightarrow> bool" where
  "autoDecryptEnabled r e = (case r_GetAutoDecrypt r of Some get \<Rightarrow> get e | None \<Rightarrow> False)"

definition countDownloading :: "('z db_scheme, int) state" where
  "countDownloading = do {
     jobs \<leftarrow> store_ListJobs (status_text StatusDownloading) False;
     return (case jobs of Inl _ \<Rightarrow> 0 | Inr js \<Rightarrow> int (length js))
   }"

section \<open>Errors and their retry times\<close>

text \<open>Times are in seconds.\<close>

definition mapResolverError :: "error \<Rightarrow> timestamp \<Rightarrow> string \<times> string \<times> timestamp" where
  "mapResolverError err now =
     (if errors_Is err ErrLoginRequired
        then (''login_required'', ''login required or file not public'', now + 6 * 3600)
      else if errors_Is err ErrQuotaExceeded
        then (''quota_exceeded'', ''quota exceeded; retry later'', now + 2 * 3600)
      else if errors_Is err ErrCaptchaNeeded
        then (''captcha_needed'', ''captcha required; cannot proceed in headless mode'', now + 24 * 3600)
      else if errors_Is err ErrTemporarilyOff
        then (''temporarily_unavailable'', ''temporarily unavailable; retry later'', now + 30 * 60)
      else if errors_Is err ErrUnknownSite
        then (''unknown_site'', ''unknown site; cannot resolve'', now + 6 * 3600)
      else (''resolve_failed'', Error err, now + 30 * 60))"

definition mapDownloadError :: "string \<Rightarrow> timestamp \<Rightarrow> string \<times> timestamp" where
  "mapDownloadError msg now =
     (let lower = ToLower (TrimSpace msg) in
      if Contains lower ''status=509'' \<or> Contains lower ''status code 509'' \<or> Contains lower ''status 509''
      then (''quota_exceeded'', now + 2 * 3600)
      else (''download_error'', now + 10 * 60))"

section \<open>Output files\<close>

definition outputNameForJob :: "job \<Rightarrow> string" where
  "outputNameForJob job =
     (if sanitizeFilename (Name job) \<noteq> '''' then sanitizeFilename (Name job)
      else (case Filename job of Some f \<Rightarrow> sanitizeFilename f | None \<Rightarrow> ''''))"

definition archivePathForJob :: "job \<Rightarrow> string" where
  "archivePathForJob job =
     (let name = (if sanitizeFilename (Name job) = '''' then
            (case Filename job of Some f \<Rightarrow> sanitizeFilename f | None \<Rightarrow> '''')
          else sanitizeFilename (Name job)) in
      if name = '''' then '''' else Join [OutDir job, name])"

fun isOutputConflictActiveStatus :: "status \<Rightarrow> bool" where
  "isOutputConflictActiveStatus StatusQueued = True"
| "isOutputConflictActiveStatus StatusResolving = True"
| "isOutputConflictActiveStatus StatusDownloading = True"
| "isOutputConflictActiveStatus StatusPaused = True"
| "isOutputConflictActiveStatus StatusDecrypting = True"
| "isOutputConflictActiveStatus _ = False"

definition opt :: "(string \<rightharpoonup> string) \<Rightarrow> string \<Rightarrow> string" where
  "opt options k = (case options k of Some v \<Rightarrow> v | None \<Rightarrow> '''')"

definition needsFreshStart :: "(string \<rightharpoonup> string) \<Rightarrow> bool" where
  "needsFreshStart options \<longleftrightarrow>
     EqualFold (TrimSpace (opt options ''continue'')) ''false'' \<or>
     EqualFold (TrimSpace (opt options ''always-resume'')) ''false''"

definition hasActiveOutputConflict :: "job \<Rightarrow> string \<Rightarrow> ('z db_scheme, bool) state" where
  "hasActiveOutputConflict job outName =
     (if outName = '''' then return False
      else do {
        jobs \<leftarrow> store_ListJobs '''' False;
        return (case jobs of
          Inl _ \<Rightarrow> False
        | Inr js \<Rightarrow> list_ex (\<lambda>other. ID other \<noteq> ID job \<and> OutDir other = OutDir job \<and>
            isOutputConflictActiveStatus (Status other) \<and> outputNameForJob other = outName) js)
      })"

definition prepareOutputForStart :: "'e runner \<Rightarrow> job \<Rightarrow> string \<Rightarrow> (string \<rightharpoonup> string)
    \<Rightarrow> (('e, 'z) world_scheme, error option) state" where
  "prepareOutputForStart r job outName options =
     (if \<not> needsFreshStart options then return None
      else do {
        conflict \<leftarrow> hasActiveOutputConflict job outName;
        if conflict then return None
        else do {
          err \<leftarrow> on_ext (os_Remove (r_host r) (Join [OutDir job, outName] @ ''.aria2''));
          return (case err of
            Some e \<Rightarrow> if errors_Is e OsErrNotExist then None else Some e
          | None \<Rightarrow> None)
        }
      })"

section \<open>Starting a job\<close>

definition start_options :: "job \<Rightarrow> string \<Rightarrow> ResolvedTarget \<Rightarrow> (string \<rightharpoonup> string)" where
  "start_options job filename res =
     (let options = Map.empty(''dir'' \<mapsto> OutDir job);
          options = (if sanitizeFilename (Name job) \<noteq> '''' then options(''out'' \<mapsto> sanitizeFilename (Name job))
                     else if filename \<noteq> '''' then options(''out'' \<mapsto> filename) else options)
      in (\<lambda>k. case Options res k of
           Some v \<Rightarrow> if v = '''' then options k else Some v
         | None \<Rightarrow> options k))"

text \<open>The value of the \<open>header\<close> option, in the order in which Go happens to walk the map.\<close>

definition header_text :: "(string \<times> string) list \<Rightarrow> string" where
  "header_text hs = join_with CHR 0x0A (map (\<lambda>(k, v). k @ '': '' @ v) hs)"

definition fail_at :: "int \<Rightarrow> string \<Rightarrow> string \<Rightarrow> int \<Rightarrow> ('z db_scheme, error option) state" where
  "fail_at jid code msg delay = do {
     now \<leftarrow> time_now;
     MarkFailed jid code msg (Some (now + delay))
   }"

text \<open>What follows the call of the resolver in \<open>resolveAndStart\<close>.\<close>

definition start_resolved :: "'e runner \<Rightarrow> job \<Rightarrow> ResolvedTarget
    \<Rightarrow> (('e, 'z) world_scheme, error option) state" where
  "start_resolved r job res =
     (let filename = sanitizeFilename (TargetFilename res) in
      check (UpdateResolving (ID job) (TargetURL res) filename (Size res))
      (if Kind res \<noteq> ''aria2'' then do {
         _ \<leftarrow> AddEvent (ID job) ''error'' ''resolver returned unsupported engine'';
         fail_at (ID job) ''unsupported_engine'' ''resolver returned unsupported engine'' (30 * 60)
       }
       else (let options = start_options job filename res;
                 outName = sanitizeFilename (opt options ''out'') in do {
         prepErr \<leftarrow> (if outName \<noteq> '''' then prepareOutputForStart r job outName options else return None);
         case prepErr of
           Some err \<Rightarrow> do {
             _ \<leftarrow> AddEvent (ID job) ''error'' (''prepare output failed: '' @ Error err);
             fail_at (ID job) ''prepare_output_failed'' (Error err) (10 * 60)
           }
         | None \<Rightarrow> do {
             let options' = (if Headers res \<noteq> [] then options(''header'' \<mapsto> header_text (Headers res)) else options);
             started \<leftarrow> on_ext (dl_AddURI (r_Downloader r) (TargetURL res) options');
             case started of
               Inl err \<Rightarrow> do {
                 _ \<leftarrow> AddEvent (ID job) ''error'' (Error err);
                 fail_at (ID job) ''download_start_failed'' (Error err) (10 * 60)
               }
             | Inr gid \<Rightarrow> do {
                 _ \<leftarrow> AddEvent (ID job) ''info'' ''download started'';
                 MarkDownloading (ID job) ''aria2'' gid
               }
           }
       })))"

definition resolveAndStart :: "'e runner \<Rightarrow> job \<Rightarrow> (('e, 'z) world_scheme, error option) state" where
  "resolveAndStart r job = do {
     latest \<leftarrow> store_GetJob (ID job);
     if (case latest of Inr l \<Rightarrow> DeletedAt l \<noteq> None | Inl _ \<Rightarrow> False)
     then AddEvent (ID job) ''info'' ''skipped deleted job''
     else do {
       target \<leftarrow> on_ext (r_ResolveWithSite r (Site job) (URL job));
       case target of
         Inl err \<Rightarrow> do {
           now \<leftarrow> time_now;
           let (code, msg, retryAt) = mapResolverError err now;
           _ \<leftarrow> AddEvent (ID job) ''error'' msg;
           MarkFailed (ID job) code msg (Some retryAt)
         }
       | Inr res \<Rightarrow> start_resolved r job res
     }
   }"

section \<open>Post-processing\<close>

definition shouldDecryptMega :: "'e runner \<Rightarrow> job \<Rightarrow> string \<Rightarrow> bool" where
  "shouldDecryptMega r job filePath =
     (if r_MegaDecryptor r = None then False
      else if \<not> IsMegaJob (Site job) (URL job) then False
      else if Status job = StatusDecrypting \<and> isArchiveFile filePath \<and>
          TrimSpace (nullString (ErrorCode job)) \<noteq> '''' then False
      else True)"

definition shouldDecryptArchive :: "'e runner \<Rightarrow> 'e \<Rightarrow> job \<Rightarrow> string \<Rightarrow> string \<Rightarrow> bool" where
  "shouldDecryptArchive r e job filePath password =
     (if r_ArchiveDecryptor r = None then False
      else if Status job = StatusDecrypting then TrimSpace password \<noteq> '''' \<or> isArchiveFile filePath
      else if \<not> autoDecryptEnabled r e then False
      else TrimSpace password \<noteq> '''' \<or> isArchiveFile filePath)"

definition firstStatusPath :: "aria2_status option \<Rightarrow> string" where
  "firstStatusPath st =
     (case st of
        None \<Rightarrow> ''''
      | Some s \<Rightarrow> (case find (\<lambda>p. p \<noteq> '''') (map TrimSpace (Files s)) of Some p \<Rightarrow> p | None \<Rightarrow> ''''))"

fun isMultipartSiblingPending :: "status \<Rightarrow> bool" where
  "isMultipartSiblingPending StatusQueued = True"
| "isMultipartSiblingPending StatusResolving = True"
| "isMultipartSiblingPending StatusDownloading = True"
| "isMultipartSiblingPending StatusPaused = True"
| "isMultipartSiblingPending _ = False"

text \<open>The scan over the other jobs: those of the same directory and the same multipart group.\<close>

definition siblings :: "job \<Rightarrow> string \<Rightarrow> job list \<Rightarrow> job list" where
  "siblings job groupKey jobs =
     filter (\<lambda>other. ID other \<noteq> ID job \<and> OutDir other = OutDir job \<and>
       fst (multipartArchiveGroupKey (archivePathForJob other)) \<noteq> '''' \<and>
       fst (multipartArchiveGroupKey (archivePathForJob other)) = groupKey) jobs"

definition wait_message :: "nat \<Rightarrow> string" where
  "wait_message pendingParts =
     ''archive decrypt waiting: multipart set still downloading ('' @ Itoa (int pendingParts) @ '' part job(s))''"

definition archiveDecryptWaitMessage :: "job \<Rightarrow> string \<Rightarrow> ('z db_scheme, string) state" where
  "archiveDecryptWaitMessage job filePath =
     (case multipartArchiveGroupKey filePath of (groupKey, explicit0) \<Rightarrow>
      if groupKey = '''' then return ''''
      else do {
        jobs \<leftarrow> store_ListJobs '''' False;
        return (case jobs of
          Inl _ \<Rightarrow> ''''
        | Inr js \<Rightarrow>
            (let sibs = siblings job groupKey js;
                 seenSibling = (sibs \<noteq> []);
                 groupExplicit = (explicit0 \<or> list_ex (\<lambda>other. snd (multipartArchiveGroupKey (archivePathForJob other))) sibs);
                 pendingParts = length (filter (\<lambda>other. isMultipartSiblingPending (Status other)) sibs)
             in if \<not> groupExplicit \<and> \<not> seenSibling then ''''
                else if pendingParts > 0 then wait_message pendingParts else ''''))
      })"

definition missing_mega_path :: string where
  "missing_mega_path = ''postprocess failed: missing file path for mega decrypt''"

definition missing_archive_path :: string where
  "missing_archive_path = ''postprocess failed: missing file path for archive decrypt''"

text \<open>The result: the task, whether to process it, the message to wait with, the failure.\<close>

definition buildDecryptTask :: "'e runner \<Rightarrow> job \<Rightarrow> aria2_status option
    \<Rightarrow> (('e, 'z) world_scheme, decryptTask \<times> bool \<times> string \<times> string) state" where
  "buildDecryptTask r job st = do {
     let password = TrimSpace (nullString (ArchivePassword job));
     let downloadPath = (if firstStatusPath st = '''' then archivePathForJob job else firstStatusPath st);
     archivePath \<leftarrow> on_ext (resolveArchiveEntryPath (r_host r) downloadPath);
     e \<leftarrow> gets Ext;
     let task = \<lparr>t_jobID = ID job, t_megaPath = downloadPath, t_archivePath = archivePath,
       t_outDir = OutDir job, t_password = password, t_rawURL = URL job, t_site = Site job,
       t_decryptMega = shouldDecryptMega r job downloadPath,
       t_decryptArch = shouldDecryptArchive r e job archivePath password\<rparr>;
     if \<not> t_decryptMega task \<and> \<not> t_decryptArch task then return (task, False, '''', '''')
     else if t_decryptMega task \<and> TrimSpace (t_megaPath task) = '''' then
       return (task, True, '''', missing_mega_path)
     else if t_decryptArch task \<and> TrimSpace (t_archivePath task) = '''' then
       return (task, True, '''', missing_archive_path)
     else if t_decryptArch task then do {
       waitMsg \<leftarrow> archiveDecryptWaitMessage job (t_archivePath task);
       return (task, True, waitMsg, '''')
     }
     else return (task, True, '''', '''')
   }"

definition markDecryptPending :: "int \<Rightarrow> (('e, 'z) daemon_scheme, bool) state" where
  "markDecryptPending jobID = State (\<lambda>d.
     if jobID \<in> DecryptPending d then (False, d)
     else (True, d\<lparr>DecryptPending := insert jobID (DecryptPending d)\<rparr>))"

definition unmarkDecryptPending :: "int \<Rightarrow> (('e, 'z) daemon_scheme, unit) state" where
  "unmarkDecryptPending jobID = State (\<lambda>d. ((), d\<lparr>DecryptPending := DecryptPending d - {jobID}\<rparr>))"

definition spawn :: "decryptTask \<Rightarrow> (('e, 'z) daemon_scheme, unit) state" where
  "spawn task = State (\<lambda>d.
     ((), d\<lparr>Goroutines := Goroutines d @ [\<lparr>g_task = task, g_stage = Acquiring\<rparr>]\<rparr>))"

definition scheduleDecrypt :: "decryptTask \<Rightarrow> (('e, 'z) daemon_scheme, unit) state" where
  "scheduleDecrypt task = do {
     marked \<leftarrow> markDecryptPending (t_jobID task);
     if \<not> marked then return () else spawn task
   }"

definition fail_postprocess :: "int \<Rightarrow> string \<Rightarrow> ('z db_scheme, unit) state" where
  "fail_postprocess jid failMsg = do {
     _ \<leftarrow> AddEvent jid ''error'' failMsg;
     _ \<leftarrow> MarkPostprocessFailed jid failMsg ''postprocess_failed'';
     _ \<leftarrow> ClearArchivePassword jid;
     return ()
   }"

definition queueDecryptFromStatus :: "'e runner \<Rightarrow> job \<Rightarrow> aria2_status \<Rightarrow> int
    \<Rightarrow> (('e, 'z) daemon_scheme, bool) state" where
  "queueDecryptFromStatus r job st bytesDone = do {
     (task, shouldProcess, waitMsg, failMsg) \<leftarrow> buildDecryptTask r job (Some st);
     if \<not> shouldProcess then return False
     else if failMsg \<noteq> '''' then do { fail_postprocess (ID job) failMsg; return True }
     else do {
       err \<leftarrow> MarkDecrypting (ID job) bytesDone;
       case err of
         Some _ \<Rightarrow> return False
       | None \<Rightarrow> do {
           _ \<leftarrow> AddEvent (ID job) ''info'' ''download finished'';
           if waitMsg \<noteq> '''' then do { _ \<leftarrow> AddEvent (ID job) ''info'' waitMsg; return True }
           else do { scheduleDecrypt task; return True }
         }
     }
   }"

definition dispatch_job :: "'e runner \<Rightarrow> job \<Rightarrow> (('e, 'z) daemon_scheme, unit) state" where
  "dispatch_job r job = do {
     e \<leftarrow> gets Ext;
     if \<not> autoDecryptEnabled r e \<and> Status job \<noteq> StatusDecrypting \<and>
         \<not> shouldDecryptMega r job (archivePathForJob job) then return ()
     else do {
       (task, shouldProcess, waitMsg, failMsg) \<leftarrow> buildDecryptTask r job None;
       if \<not> shouldProcess then
         (if Status job = StatusDecrypting then do {
            _ \<leftarrow> MarkCompleted (ID job);
            _ \<leftarrow> ClearArchivePassword (ID job);
            return ()
          } else return ())
       else if failMsg \<noteq> '''' then fail_postprocess (ID job) failMsg
       else do {
         marked \<leftarrow> (if Status job \<noteq> StatusDecrypting
           then do { err \<leftarrow> MarkDecrypting (ID job) (BytesDone job);
                     return (case err of Some _ \<Rightarrow> None | None \<Rightarrow> Some True) }
           else return (Some False));
         case marked of
           None \<Rightarrow> return ()
         | Some markedDecrypting \<Rightarrow>
             if waitMsg \<noteq> '''' then
               (if markedDecrypting
                then do { _ \<leftarrow> AddEvent (ID job) ''info'' waitMsg; return () } else return ())
             else scheduleDecrypt task
       }
     }
   }"

definition dispatchCompletedDecrypt :: "'e runner \<Rightarrow> (('e, 'z) daemon_scheme, error option) state" where
  "dispatchCompletedDecrypt r =
     (if r_ArchiveDecryptor r = None \<and> r_MegaDecryptor r = None then return None
      else do {
        jobs \<leftarrow> ListPendingPostprocess 100;
        case jobs of
          Inl e \<Rightarrow> return (Some e)
        | Inr js \<Rightarrow> do { for_each (dispatch_job r) js; return None }
      })"

section \<open>Polling the active downloads\<close>

definition eta_seconds :: "int \<Rightarrow> int \<Rightarrow> int \<Rightarrow> int" where
  "eta_seconds speed totalLen bytesDone =
     (if speed > 0 \<and> totalLen > 0 \<and> bytesDone < totalLen
      then wrap64 (totalLen - bytesDone) sdiv speed else 0)"

definition update_job_from_status :: "'e runner \<Rightarrow> job \<Rightarrow> aria2_status
    \<Rightarrow> (('e, 'z) daemon_scheme, unit) state" where
  "update_job_from_status r job st = do {
     let bytesDone = fst (ParseInt (CompletedLen st));
     let totalLen = fst (ParseInt (TotalLength st));
     let speed = fst (ParseInt (Speed st));
     let eta = eta_seconds speed totalLen bytesDone;
     if aria2_Status st = ''complete'' then do {
       let bytesDone' = (if bytesDone = 0 \<and> totalLen > 0 then totalLen else bytesDone);
       queued \<leftarrow> queueDecryptFromStatus r job st bytesDone';
       if queued then return ()
       else do {
         _ \<leftarrow> UpdateProgress (ID job) bytesDone' StatusCompleted 0 0;
         _ \<leftarrow> AddEvent (ID job) ''info'' ''download finished'';
         _ \<leftarrow> MarkCompleted (ID job);
         return ()
       }
     }
     else if aria2_Status st = ''error'' then do {
       let msg = (if ErrorMessage st = '''' then ''download error'' else ErrorMessage st);
       now \<leftarrow> time_now;
       let (code, retryAt) = mapDownloadError msg now;
       _ \<leftarrow> AddEvent (ID job) ''error'' msg;
       _ \<leftarrow> MarkFailed (ID job) code msg (Some retryAt);
       return ()
     }
     else do {
       _ \<leftarrow> UpdateProgress (ID job) bytesDone StatusDownloading speed eta;
       return ()
     }
   }"

definition update_active_job :: "'e runner \<Rightarrow> job \<Rightarrow> (('e, 'z) daemon_scheme, unit) state" where
  "update_active_job r job =
     (case EngineGID job of
        None \<Rightarrow> return ()
      | Some gid \<Rightarrow> do {
          told \<leftarrow> on_ext (dl_TellStatus (r_Downloader r) gid);
          case told of
            Inl err \<Rightarrow>
              if errors_Is err ErrGIDNotFound then do {
                _ \<leftarrow> fail_at (ID job) ''gid_not_found'' (Error err) (2 * 60);
                return ()
              }
              else do { _ \<leftarrow> AddEvent (ID job) ''error'' (Error err); return () }
          | Inr st \<Rightarrow> update_job_from_status r job st
        })"

definition updateActive :: "'e runner \<Rightarrow> (('e, 'z) daemon_scheme, error option) state" where
  "updateActive r = do {
     jobs \<leftarrow> store_ListJobs (status_text StatusDownloading) False;
     case jobs of
       Inl e \<Rightarrow> return (Some e)
     | Inr js \<Rightarrow> do { for_each (update_active_job r) js; return None }
   }"

definition requeue_job :: "int \<Rightarrow> ('z db_scheme, unit) state" where
  "requeue_job jid = do {
     err \<leftarrow> Requeue jid;
     case err of
       Some e \<Rightarrow> do { _ \<leftarrow> AddEvent jid ''error'' (''auto requeue failed: '' @ Error e); return () }
     | None \<Rightarrow> do { _ \<leftarrow> AddEvent jid ''info'' ''auto retry queued''; return () }
   }"

definition requeueFailed :: "('z db_scheme, error option) state" where
  "requeueFailed = do {
     ids \<leftarrow> ListRetryableFailed 0;
     case ids of
       Inl e \<Rightarrow> return (Some e)
     | Inr js \<Rightarrow> do { for_each requeue_job js; return None }
   }"

end
