(* ===== verification/Runner_Loop.thy ===== *)
theory Runner_Loop
  imports Runner
begin

text \<open>
  The loop of the runner and what its steps keep. The locale \<open>worker_contract\<close> is the interface
  between the runner and the store for the work on single jobs: whatever the resolvers, the engine
  and the operating system answer, the work on a job only takes steps of \<open>work_step\<close> on the row of
  that job and adds events of that job. From it follow that starting jobs ends, that a job is
  never made \<open>queued\<close> by working on it, and the bound on the number of downloads.
\<close>

section \<open>The work on a job\<close>

locale worker_contract = work_contract R Own + ext_contract R
  for R :: "('e, 'z) world_scheme \<Rightarrow> ('e, 'z) world_scheme \<Rightarrow> bool" and Own :: "int \<Rightarrow> bool"
begin

lemma keeps_countDownloading: "state_io_rel R countDownloading"
  unfolding countDownloading_def by (intro keeps_control keeps_reads)

lemma keeps_fail_at: "Own i \<Longrightarrow> state_io_rel R (fail_at i c m t)"
  unfolding fail_at_def by (intro keeps_control keeps_time_now keeps_own)

lemma keeps_hasActiveOutputConflict: "state_io_rel R (hasActiveOutputConflict job n)"
  unfolding hasActiveOutputConflict_def by (intro keeps_control keeps_reads)

lemma keeps_prepareOutputForStart: "state_io_rel R (prepareOutputForStart r job n opts)"
  unfolding prepareOutputForStart_def
  by (intro keeps_control keeps_hasActiveOutputConflict keeps_on_ext)

lemma keeps_start_resolved: "Own (ID job) \<Longrightarrow> state_io_rel R (start_resolved r job res)"
  unfolding start_resolved_def
  by (intro keeps_control keeps_check keeps_own keeps_fail_at keeps_prepareOutputForStart keeps_on_ext)

lemma keeps_resolveAndStart: "Own (ID job) \<Longrightarrow> state_io_rel R (resolveAndStart r job)"
  unfolding resolveAndStart_def
  by (intro keeps_control keeps_own keeps_reads keeps_time_now keeps_on_ext keeps_start_resolved)

lemma keeps_buildDecryptTask: "state_io_rel R (buildDecryptTask r job st)"
  unfolding buildDecryptTask_def archiveDecryptWaitMessage_def
  by (intro keeps_control keeps_reads keeps_on_ext)

lemma keeps_fail_postprocess: "Own i \<Longrightarrow> state_io_rel R (fail_postprocess i m)"
  unfolding fail_postprocess_def by (intro keeps_control keeps_own)

end

text \<open>The pool of workers changes by scheduling a task only.\<close>

locale daemon_worker_contract = worker_contract R Own
  for R :: "('e, 'z) daemon_scheme \<Rightarrow> ('e, 'z) daemon_scheme \<Rightarrow> bool" and Own :: "int \<Rightarrow> bool" +
  assumes schedule: "R d (final (scheduleDecrypt task) d)"
begin

lemma keeps_scheduleDecrypt: "state_io_rel R (scheduleDecrypt task)"
  by (rule state_io_rel_final) (rule schedule)

lemma keeps_queueDecryptFromStatus:
  "Own (ID job) \<Longrightarrow> state_io_rel R (queueDecryptFromStatus r job st b)"
  unfolding queueDecryptFromStatus_def
  by (intro keeps_control keeps_own keeps_buildDecryptTask keeps_fail_postprocess keeps_scheduleDecrypt)

lemma keeps_dispatch_job: "Own (ID job) \<Longrightarrow> state_io_rel R (dispatch_job r job)"
  unfolding dispatch_job_def
  by (intro keeps_control keeps_own keeps_buildDecryptTask keeps_fail_postprocess keeps_scheduleDecrypt)

lemma keeps_update_job_from_status:
  "Own (ID job) \<Longrightarrow> state_io_rel R (update_job_from_status r job st)"
  unfolding update_job_from_status_def
  by (intro keeps_control keeps_own keeps_time_now keeps_queueDecryptFromStatus)

lemma keeps_update_active_job: "Own (ID job) \<Longrightarrow> state_io_rel R (update_active_job r job)"
  unfolding update_active_job_def
  by (intro keeps_control keeps_own keeps_fail_at keeps_on_ext keeps_update_job_from_status)

end

section \<open>Work on one job leaves the others alone\<close>

definition worked :: "job \<Rightarrow> job \<Rightarrow> bool" where
  "worked j k \<longleftrightarrow> static_same j k \<and> DeletedAt k = DeletedAt j \<and>
     (Status k = StatusQueued \<longrightarrow> Status j = StatusQueued)"

lemma work_step_worked: "work_step j k \<Longrightarrow> worked j k"
  by (induction rule: work_step.induct) (auto simp: worked_def static_same_def row_ops)

definition works_on :: "(int \<Rightarrow> bool) \<Rightarrow> 'z db_scheme \<Rightarrow> 'z db_scheme \<Rightarrow> bool" where
  "works_on Own s s' \<longleftrightarrow>
     list_all2 (\<lambda>j k. k = j \<or> Own (ID j) \<and> worked j k) (Jobs s) (Jobs s')"

lemma works_on_refl [simp]: "works_on Own s s"
  by (simp add: works_on_def list_all2_same)

lemma worked_trans: "worked j k \<Longrightarrow> worked k l \<Longrightarrow> worked j l"
  by (auto simp: worked_def static_same_def)

lemma worked_ID: "worked j k \<Longrightarrow> ID k = ID j"
  by (simp add: worked_def static_same_def)

lemma works_on_trans:
  assumes "works_on Own s t" and "works_on Own t u"
  shows "works_on Own s u"
  unfolding works_on_def
  by (rule list_all2_trans [OF _ assms [unfolded works_on_def]])
    (auto intro: worked_trans dest: worked_ID)

lemma works_on_update: "Own i \<Longrightarrow> (\<And>j. work_step j (f j)) \<Longrightarrow> works_on Own s (update_job i f s)"
  by (auto simp: works_on_def list_all2_map2 intro!: list_all2_refl work_step_worked)

lemma works_on_cong: "Jobs s' = Jobs s \<Longrightarrow> works_on Own s s'"
  by (simp add: works_on_def list_all2_same)

lemma scheduleDecrypt_db [simp]:
  "Jobs (final (scheduleDecrypt t) d) = Jobs d" "Events (final (scheduleDecrypt t) d) = Events d"
  "JobSeq (final (scheduleDecrypt t) d) = JobSeq d" "EventSeq (final (scheduleDecrypt t) d) = EventSeq d"
  "Step (final (scheduleDecrypt t) d) = Step d" "ClockAt (final (scheduleDecrypt t) d) = ClockAt d"
  "FaultAt (final (scheduleDecrypt t) d) = FaultAt d"
  by (simp_all add: scheduleDecrypt_def markDecryptPending_def spawn_def)

interpretation works: daemon_worker_contract "works_on Own" Own for Own
  by unfold_locales (auto intro: works_on_trans works_on_update works_on_cong)

section \<open>The loop that starts jobs\<close>

text \<open>Starting jobs ends because every turn takes a job out of \<open>queued\<close>.\<close>

definition queued_count :: "'z db_scheme \<Rightarrow> nat" where
  "queued_count s = length (filter (\<lambda>j. Status j = StatusQueued) (Jobs s))"

lemma list_all2_length_filter:
  assumes "list_all2 R xs ys" and "\<And>x y. R x y \<Longrightarrow> P y \<Longrightarrow> P x"
  shows "length (filter P ys) \<le> length (filter P xs)"
  using assms(1) by (induction rule: list_all2_induct) (auto dest: assms(2))

lemma works_on_queued_count: "works_on Own s s' \<Longrightarrow> queued_count s' \<le> queued_count s"
  unfolding works_on_def queued_count_def
  by (erule list_all2_length_filter) (auto simp: worked_def)

lemma length_filter_map_less:
  assumes "\<And>x. P (f x) \<Longrightarrow> P x" and "y \<in> set xs" and "P y" and "\<not> P (f y)"
  shows "length (filter P (map f xs)) < length (filter P xs)"
proof -
  have le: "length (filter P (map f ys)) \<le> length (filter P ys)" for ys
    using assms(1) by (induction ys) auto
  obtain as bs where "xs = as @ y # bs" using assms(2) by (meson split_list)
  then show ?thesis using assms(3,4) le [of as] le [of bs] by simp
qed

lemma claimed_queued_count:
  "claimed t (Jobs s) j (Jobs s') \<Longrightarrow> queued_count s' < queued_count s"
  unfolding claimed_def queued_count_def
  by (elim bexE conjE, simp only:, rule length_filter_map_less)
    (auto simp: row_Claim_def claimable_def split: if_splits)

lemma Jobs_countDownloading [simp]: "Jobs (final countDownloading s) = Jobs s"
  by (simp add: countDownloading_def store_ListJobs_def run_sql_query case_prod_beta split: option.split)

text \<open>The body of the loop: \<open>None\<close> is the \<open>break\<close>, otherwise the new value of \<open>active\<close>.\<close>

definition start_turn :: "'e runner \<Rightarrow> (('e, 'z) daemon_scheme, int option) state" where
  "start_turn r = do {
     job \<leftarrow> ClaimNextQueued;
     case job of
       Inl err \<Rightarrow> return None
     | Inr j \<Rightarrow> do {
         _ \<leftarrow> resolveAndStart r j;
         active \<leftarrow> countDownloading;
         return (Some active)
       }
   }"

function start_loop :: "'e runner \<Rightarrow> int \<Rightarrow> ('e, 'z) daemon_scheme \<Rightarrow> ('e, 'z) daemon_scheme" where
  "start_loop r active w =
     (if active < concurrency r (Ext w) then
        (case run_state (start_turn r) w of
           (None, w1) \<Rightarrow> w1
         | (Some active', w1) \<Rightarrow> start_loop r active' w1)
      else w)"
  by pat_completeness auto

lemma start_turn_Some:
  assumes "run_state (start_turn r) w = (Some a, w')"
  obtains j w1 where "run_state ClaimNextQueued w = (Inr j, w1)"
    and "a = result countDownloading (final (resolveAndStart r j) w1)"
    and "w' = final countDownloading (final (resolveAndStart r j) w1)"
  using assms by (auto simp: start_turn_def case_prod_beta prod_eq_iff split: sum.splits)

lemma start_turn_queued:
  assumes "run_state (start_turn r) w = (Some a, w')"
  shows "queued_count w' < queued_count (w :: ('e, 'z) daemon_scheme)"
proof -
  obtain j w1 where j: "run_state ClaimNextQueued w = (Inr j, w1)"
      and w': "w' = final countDownloading (final (resolveAndStart r j) w1)"
    using assms by (rule start_turn_Some)
  have "queued_count w1 < queued_count w"
    using ClaimNextQueued_outcome [of w] j by (auto dest: claimed_queued_count)
  moreover have "works_on (\<lambda>_. True) w1 (final (resolveAndStart r j) w1)"
    by (rule state_io_relE [OF works.keeps_resolveAndStart]) simp
  moreover have "queued_count w' = queued_count (final (resolveAndStart r j) w1)"
    by (simp add: w' queued_count_def)
  ultimately show ?thesis by (metis works_on_queued_count order_le_less_trans)
qed

termination start_loop
  by (relation "measure (\<lambda>(r, active, w). queued_count w)") (auto intro: start_turn_queued [OF sym])

declare start_loop.simps [simp del]

definition tick :: "'e runner \<Rightarrow> (('e, 'z) daemon_scheme, unit) state" where
  "tick r = do {
     _ \<leftarrow> updateActive r;
     _ \<leftarrow> dispatchCompletedDecrypt r;
     _ \<leftarrow> requeueFailed;
     active \<leftarrow> countDownloading;
     State (\<lambda>w. ((), start_loop r active w))
   }"

section \<open>What a tick keeps\<close>

locale daemon_contract = queue_contract R
  for R :: "('e, 'z) daemon_scheme \<Rightarrow> ('e, 'z) daemon_scheme \<Rightarrow> bool" +
  assumes schedule: "R d (final (scheduleDecrypt task) d)"

sublocale daemon_contract \<subseteq> worker: daemon_worker_contract R "\<lambda>_. True"
  by unfold_locales (rule schedule)

context daemon_contract
begin

lemma keeps_updateActive: "state_io_rel R (updateActive r)"
  unfolding updateActive_def
  by (intro keeps_control keeps_store worker.keeps_update_active_job) simp

lemma keeps_dispatchCompletedDecrypt: "state_io_rel R (dispatchCompletedDecrypt r)"
  unfolding dispatchCompletedDecrypt_def
  by (intro keeps_control keeps_store worker.keeps_dispatch_job) simp

lemma keeps_requeueFailed: "state_io_rel R requeueFailed"
  unfolding requeueFailed_def requeue_job_def by (intro keeps_control keeps_store)

lemma keeps_start_turn: "state_io_rel R (start_turn r)"
  unfolding start_turn_def
  by (intro keeps_control keeps_store worker.keeps_countDownloading worker.keeps_resolveAndStart) simp

lemma start_loop_keeps: "R w (start_loop r active w)"
proof (induction r active w rule: start_loop.induct)
  case (1 r active w)
  obtain a w1 where turn: "run_state (start_turn r) w = (a, w1)" by fastforce
  have first: "R w w1" using state_io_relE [OF keeps_start_turn, of w r] turn by simp
  show ?case
  proof (cases "active < concurrency r (Ext w) \<and> a \<noteq> None")
    case True
    then obtain a' where "a = Some a'" by auto
    with True "1.IH" turn have "R w1 (start_loop r a' w1)" by metis
    moreover have "start_loop r active w = start_loop r a' w1"
      using True turn \<open>a = Some a'\<close> by (simp add: start_loop.simps [of r active])
    ultimately show ?thesis using first trans by metis
  next
    case False
    then show ?thesis using first turn refl by (auto simp: start_loop.simps [of r active])
  qed
qed

lemma keeps_tick: "state_io_rel R (tick r)"
proof -
  have "state_io_rel R (State (\<lambda>w. ((), start_loop r a w)))" for a
    by (rule state_io_rel_final) (simp add: start_loop_keeps)
  then show ?thesis
    unfolding tick_def
    by (intro keeps_control keeps_updateActive keeps_dispatchCompletedDecrypt keeps_requeueFailed
        worker.keeps_countDownloading)
qed

end

interpretation wfd: daemon_contract "\<lambda>s s'. wf_db s \<longrightarrow> wf_db s'"
  by unfold_locales (simp add: wf_db_def)

interpretation envd: daemon_contract env_step
  by unfold_locales (simp add: env_step_def)

sublocale row_contract \<subseteq> daemon: daemon_contract "\<lambda>s s'. list_all2 rowR (Jobs s) (Jobs s')"
  by unfold_locales (simp add: list_all2_same row_refl)

end
