(* ===== verification/Row_Logic.thy ===== *)
theory Row_Logic
  imports Service_Laws
begin

text \<open>
  A small weakest-precondition calculus that follows the row of one job through a handler, on a
  database whose statements do not fail: \<open>ends i j m Q\<close> says that, started with the row \<open>j\<close> for the
  job \<open>i\<close>, the program \<open>m\<close> ends with some row \<open>k\<close> for it, its result \<open>x\<close> and \<open>k\<close> satisfying \<open>Q\<close>.
  The rules have one premise per way a call can go on; clock readings are arbitrary in them.
\<close>

definition job_at :: "int \<Rightarrow> job \<Rightarrow> 'z db_scheme \<Rightarrow> bool" where
  "job_at i j s \<longleftrightarrow> quiet s \<and> lookup_job i s = Some j"

definition ends :: "int \<Rightarrow> job \<Rightarrow> ('z db_scheme, 'a) state \<Rightarrow> ('a \<Rightarrow> job \<Rightarrow> bool) \<Rightarrow> bool" where
  "ends i j m Q \<longleftrightarrow> (\<forall>s. job_at i j s \<longrightarrow> (\<exists>k. job_at i k (final m s) \<and> Q (result m s) k))"

lemma endsD:
  assumes "ends i j m Q" and "quiet s" and "lookup_job i s = Some j"
  obtains k where "lookup_job i (final m s) = Some k" and "Q (result m s) k" and "quiet (final m s)"
  using assms by (auto simp: ends_def job_at_def)

lemma ends_conseq: "ends i j m P \<Longrightarrow> (\<And>x k. P x k \<Longrightarrow> Q x k) \<Longrightarrow> ends i j m Q"
  unfolding ends_def by blast

lemma ends_return: "Q x j \<Longrightarrow> ends i j (return x) Q"
  by (auto simp: ends_def)

lemma ends_gets: "(\<And>s. Q (f s) j) \<Longrightarrow> ends i j (gets f) Q"
  by (auto simp: ends_def)

lemma ends_bind: "ends i j m (\<lambda>x k. ends i k (f x) Q) \<Longrightarrow> ends i j (State_Monad.bind m f) Q"
  unfolding ends_def by (simp add: final_bind result_bind del: run_state_bind) blast

lemma ends_if: "(b \<Longrightarrow> ends i j m Q) \<Longrightarrow> (\<not> b \<Longrightarrow> ends i j n Q) \<Longrightarrow> ends i j (if b then m else n) Q"
  by simp

lemma ends_option:
  "(v = None \<Longrightarrow> ends i j m Q) \<Longrightarrow> (\<And>x. v = Some x \<Longrightarrow> ends i j (f x) Q) \<Longrightarrow>
   ends i j (case v of None \<Rightarrow> m | Some x \<Rightarrow> f x) Q"
  by (cases v) auto

lemma ends_sum:
  "(\<And>e. v = Inl e \<Longrightarrow> ends i j (f e) Q) \<Longrightarrow> (\<And>x. v = Inr x \<Longrightarrow> ends i j (g x) Q) \<Longrightarrow>
   ends i j (case v of Inl e \<Rightarrow> f e | Inr x \<Rightarrow> g x) Q"
  by (cases v) auto

lemma ends_prod:
  "(\<And>x y. v = (x, y) \<Longrightarrow> ends i j (f x y) Q) \<Longrightarrow> ends i j (case v of (x, y) \<Rightarrow> f x y) Q"
  by (cases v) auto

lemma ends_let: "(\<And>x. x = v \<Longrightarrow> ends i j (f x) Q) \<Longrightarrow> ends i j (let x = v in f x) Q"
  by simp

text \<open>For a call that cannot fail on a database that does not.\<close>

lemma ends_check:
  "ends i j m (\<lambda>e k. e = None \<and> ends i k n Q) \<Longrightarrow> ends i j (check m n) Q"
  unfolding check_def by (rule ends_bind, erule ends_conseq) auto

lemma ends_time_now: "(\<And>t. Q t j) \<Longrightarrow> ends i j time_now Q"
  by (auto simp: ends_def)

lemma ends_AddEvent: "Q None j \<Longrightarrow> ends i j (AddEvent i l m) Q"
  by (auto simp: ends_def job_at_def run_AddEvent_quiet)

lemma ends_GetJob: "Q (Inr j) j \<Longrightarrow> ends i j (store_GetJob i) Q"
  by (auto simp: ends_def job_at_def run_GetJob_quiet)

lemma ends_sql_query: "(\<And>s. Q (Inr (q s)) j) \<Longrightarrow> ends i j (sql_query q) Q"
  by (auto simp: ends_def job_at_def run_sql_query_quiet)

lemma ends_ListJobs: "(\<And>js. Q (Inr js) j) \<Longrightarrow> ends i j (store_ListJobs st d) Q"
  unfolding store_ListJobs_def by (rule ends_sql_query)

lemma ends_update_row:
  assumes "\<And>t k. ID (f t k) = ID k" and "\<And>t. Q None (f t j)"
  shows "ends i j (update_row i f) Q"
  using assms by (auto simp: ends_def job_at_def run_update_row_quiet lookup_update_job)

lemma ends_updates:
  "(\<And>t. Q None (row_UpdateResolving u f n t j)) \<Longrightarrow> ends i j (UpdateResolving i u f n) Q"
  "(\<And>t. Q None (row_MarkDownloading e g t j)) \<Longrightarrow> ends i j (MarkDownloading i e g) Q"
  "(\<And>t. Q None (row_UpdateProgress b st sp eta t j)) \<Longrightarrow> ends i j (UpdateProgress i b st sp eta) Q"
  "(\<And>t. Q None (row_MarkCompleted t j)) \<Longrightarrow> ends i j (MarkCompleted i) Q"
  "(\<And>t. Q None (row_MarkDecrypting b t j)) \<Longrightarrow> ends i j (MarkDecrypting i b) Q"
  "(\<And>t. Q None (row_ClearArchivePassword t j)) \<Longrightarrow> ends i j (ClearArchivePassword i) Q"
  "(\<And>t. Q None (row_Requeue t j)) \<Longrightarrow> ends i j (Requeue i) Q"
  "(\<And>t. Q None (row_MarkPaused t j)) \<Longrightarrow> ends i j (MarkPaused i) Q"
  by (simp_all add: update_ops ends_update_row)

lemma ends_MarkPostprocessFailed:
  "(\<And>t. Q None (row_MarkPostprocessFailed m (if TrimSpace c = '''' then ''archive_decrypt_failed'' else c) t j)) \<Longrightarrow>
   ends i j (MarkPostprocessFailed i m c) Q"
  unfolding MarkPostprocessFailed_def Let_def by (rule ends_update_row) auto

lemma ends_MarkFailed:
  "(\<And>t. Q None (row_MarkFailed c m r t j)) \<Longrightarrow> ends i j (MarkFailed i c m r) Q"
  by (auto simp: ends_def job_at_def run_MarkFailed_quiet lookup_update_job)

lemma ends_on_ext: "(\<And>x. Q x j) \<Longrightarrow> ends i j (on_ext m) Q"
  by (auto simp: ends_def job_at_def run_on_ext)

lemmas ends_control = ends_return ends_gets ends_bind ends_if ends_option ends_sum ends_prod ends_let
  ends_check
lemmas ends_store = ends_time_now ends_AddEvent ends_GetJob ends_ListJobs ends_updates
  ends_MarkPostprocessFailed ends_MarkFailed ends_on_ext

end
