(* ===== verification/Runner_Laws.thy ===== *)
theory Runner_Laws
  imports Runner_Loop Row_Logic
begin

text \<open>
  What the steps of the runner achieve: how many downloads a tick may start and that it uses the
  capacity it has, that a claimed job is always started or failed, when a control file is deleted,
  when an extraction waits, and how the status of the engine is written back.
\<close>

section \<open>Examples\<close>

text \<open>A runner with direct downloads and an engine that accepts everything, for the examples.\<close>

definition sample_host :: "unit host" where
  "sample_host = \<lparr>os_Stat = (\<lambda>_. return None), os_Remove = (\<lambda>_. return (Some OsErrNotExist)),
     exec_LookPath = (\<lambda>_. return None), exec_CombinedOutput = (\<lambda>_ _. return ('''', None))\<rparr>"

definition sample_status :: aria2_status where
  "sample_status = \<lparr>GID = ''g'', aria2_Status = ''active'', TotalLength = ''1000'', CompletedLen = ''400'',
     Speed = ''60'', aria2_ErrorCode = '''', ErrorMessage = '''', Files = []\<rparr>"

definition sample_engine :: "unit downloader" where
  "sample_engine = \<lparr>dl_AddURI = (\<lambda>_ _. return (Inr ''g'')), dl_TellStatus = (\<lambda>_. return (Inr sample_status)),
     dl_Pause = (\<lambda>_. return None), dl_Unpause = (\<lambda>_. return None), dl_Remove = (\<lambda>_. return None)\<rparr>"

definition sample_target :: "string \<Rightarrow> ResolvedTarget" where
  "sample_target u = \<lparr>Kind = ''aria2'', TargetURL = u, Headers = [], Options = Map.empty,
     TargetFilename = '''', Size = 0\<rparr>"

definition sample_runner :: "int \<Rightarrow> unit runner" where
  "sample_runner c = \<lparr>r_ResolveWithSite = (\<lambda>_ u. return (Inr (sample_target u))),
     r_Downloader = sample_engine, r_MegaDecryptor = None, r_ArchiveDecryptor = None,
     r_Concurrency = c, r_GetConcurrency = None, r_GetAutoDecrypt = None, r_DecryptConcurrency = 1,
     r_host = sample_host\<rparr>"

definition sample_daemon :: "job list \<Rightarrow> unit daemon" where
  "sample_daemon js = \<lparr>Jobs = js, Events = [], JobSeq = int (length js), EventSeq = 0, Step = 0,
     ClockAt = (\<lambda>_. 100), FaultAt = (\<lambda>_. None), Ext = (), DecryptPending = {}, DecryptSem = None,
     Goroutines = []\<rparr>"

lemma Jobs_sample_daemon [simp]: "Jobs (sample_daemon js) = js"
  by (simp add: sample_daemon_def)

lemma quiet_sample_daemon [simp]: "quiet (sample_daemon js)"
  by (simp add: quiet_def sample_daemon_def)

section \<open>Counting downloads\<close>

definition is_downloading :: "job \<Rightarrow> bool" where
  "is_downloading j \<longleftrightarrow> Status j = StatusDownloading \<and> DeletedAt j = None"

definition downloading_count :: "'z db_scheme \<Rightarrow> nat" where
  "downloading_count s = length (filter is_downloading (Jobs s))"

lemma status_text_inj [simp]: "status_text a = status_text b \<longleftrightarrow> a = b"
  by (cases a; cases b) simp_all

lemma status_text_not_Nil [simp]: "status_text a \<noteq> []"
  by (cases a) simp_all

lemma list_filter_downloading: "list_filter (status_text StatusDownloading) False = is_downloading"
  by (auto simp: list_filter_def is_downloading_def fun_eq_iff simp del: status_text.simps)

lemma run_countDownloading_quiet:
  "quiet s \<Longrightarrow> run_state countDownloading s = (int (downloading_count s), tick_step s)"
  by (simp add: countDownloading_def store_ListJobs_def run_sql_query_quiet list_filter_downloading
      downloading_count_def order_by_id_def del: status_text.simps)

lemma downloading_count_tick [simp]: "downloading_count (tick_step s) = downloading_count s"
  by (simp add: downloading_count_def)

lemma length_filter_list_all2_le:
  assumes "list_all2 R xs ys" and "\<And>x y. R x y \<Longrightarrow> P y \<Longrightarrow> P x \<or> Q x"
  shows "length (filter P ys) \<le> length (filter P xs) + length (filter Q xs)"
  using assms(1) by (induction rule: list_all2_induct) (auto dest: assms(2))

lemma length_filter_distinct_le:
  "distinct (map f xs) \<Longrightarrow> length (filter (\<lambda>x. f x = a) xs) \<le> 1"
proof (induction xs)
  case (Cons x xs)
  then show ?case
    by (cases "f x = a") (auto simp: filter_empty_conv image_iff)
qed simp

text \<open>Work on one job adds at most one download.\<close>

lemma works_on_downloading:
  assumes "works_on (\<lambda>k. k = i) s s'" and "wf_db s"
  shows "downloading_count s' \<le> downloading_count s + 1"
proof -
  have "distinct (map ID (Jobs s))"
    using assms(2) by (simp add: wf_db_def strict_sorted_iff)
  then have "length (filter (\<lambda>j. ID j = i) (Jobs s)) \<le> 1"
    by (rule length_filter_distinct_le)
  moreover have "downloading_count s' \<le> downloading_count s + length (filter (\<lambda>j. ID j = i) (Jobs s))"
    unfolding downloading_count_def
    by (rule length_filter_list_all2_le [OF assms(1) [unfolded works_on_def]]) auto
  ultimately show ?thesis by simp
qed

lemma claimed_downloading:
  "claimed t (Jobs s) j (Jobs s') \<Longrightarrow> downloading_count s' \<le> downloading_count s"
proof -
  assume "claimed t (Jobs s) j (Jobs s')"
  then obtain k :: job where "Jobs s' = map (\<lambda>l. if ID l = ID k then row_Claim t l else l) (Jobs s)"
    unfolding claimed_def by blast
  moreover have "is_downloading (row_Claim t l) \<Longrightarrow> is_downloading l" for l
    by (simp add: is_downloading_def row_Claim_def split: if_splits)
  ultimately show ?thesis
    unfolding downloading_count_def
    by (intro list_all2_length_filter [of "\<lambda>l l'. l' = (if ID l = ID k then row_Claim t l else l)"])
      (auto simp: list_all2_map2 list_all2_same split: if_splits)
qed

lemma start_turn_downloading:
  fixes w :: "('e, 'z) daemon_scheme"
  assumes "quiet w" and "wf_db w" and "run_state (start_turn r) w = (a, w')"
  shows "quiet w' \<and> wf_db w' \<and> downloading_count w' \<le> downloading_count w + 1 \<and>
    (\<forall>n. a = Some n \<longrightarrow> n = int (downloading_count w')) \<and>
    (a = None \<longrightarrow> Jobs w' = Jobs w \<and> (\<forall>j\<in>set (Jobs w). \<not> claimable (ClockAt w (Step w)) j))"
proof -
  let ?w1 = "final ClaimNextQueued w"
  have env: "quiet w'" "wf_db w'"
    using assms env_step_quiet state_io_relE [OF envd.keeps_start_turn [of r], of w]
      state_io_relE [OF wfd.keeps_start_turn [of r], of w] by auto
  have w1: "quiet ?w1" "wf_db ?w1"
    using assms(1,2) env_step_quiet state_io_relE [OF env.keeps_ClaimNextQueued, of w]
      state_io_relE [OF wf.keeps_ClaimNextQueued, of w] by auto
  show ?thesis
  proof (cases "result ClaimNextQueued w")
    case (Inl e)
    have "e = ErrNoRows"
      using Inl assms(1) ClaimNextQueued_Inl_quiet by blast
    with Inl have "\<forall>j\<in>set (Jobs w). \<not> claimable (ClockAt w (Step w)) j"
      using ClaimNextQueued_quiet [OF assms(1)] by simp
    moreover have "Jobs ?w1 = Jobs w" using Inl ClaimNextQueued_outcome [of w] by simp
    moreover have "a = None" "w' = ?w1"
      using assms(3) Inl by (auto simp: start_turn_def case_prod_beta)
    ultimately show ?thesis using env by (simp add: downloading_count_def)
  next
    case (Inr j)
    let ?w2 = "final (resolveAndStart r j) ?w1"
    have "quiet ?w2"
      using w1(1) env_step_quiet state_io_relE [OF envd.worker.keeps_resolveAndStart [OF TrueI]] by blast
    then have "a = Some (int (downloading_count ?w2))" "w' = tick_step ?w2"
      using assms(3) Inr by (auto simp: start_turn_def case_prod_beta run_countDownloading_quiet)
    moreover have "downloading_count ?w2 \<le> downloading_count ?w1 + 1"
      using state_io_relE [OF works.keeps_resolveAndStart [of "\<lambda>k. k = ID j" j r], of ?w1]
        works_on_downloading w1(2) by blast
    moreover have "downloading_count ?w1 \<le> downloading_count w"
      using ClaimNextQueued_outcome [of w] Inr by (auto intro: claimed_downloading)
    ultimately show ?thesis using env by simp
  qed
qed

text \<open>One turn of the loop, as a step from counted state to counted state.\<close>

lemma start_loop_cases:
  fixes w :: "('e, 'z) daemon_scheme"
  assumes "quiet w" and "wf_db w"
  obtains (full) "concurrency r (Ext w) \<le> int (downloading_count w)"
      and "start_loop r (int (downloading_count w)) w = w"
  | (none) w' where "start_loop r (int (downloading_count w)) w = w'" and "Jobs w' = Jobs w"
      and "\<forall>j\<in>set (Jobs w'). \<not> claimable (ClockAt w (Step w)) j"
  | (more) w' where "int (downloading_count w) < concurrency r (Ext w)"
      and "start_loop r (int (downloading_count w)) w = start_loop r (int (downloading_count w')) w'"
      and "run_state (start_turn r) w = (Some (int (downloading_count w')), w')"
      and "quiet w'" and "wf_db w'" and "downloading_count w' \<le> downloading_count w + 1"
proof (cases "int (downloading_count w) < concurrency r (Ext w)")
  case True
  obtain a w' where turn: "run_state (start_turn r) w = (a, w')" by fastforce
  note facts = start_turn_downloading [OF assms turn]
  show thesis
  proof (cases a)
    case None
    then have "start_loop r (int (downloading_count w)) w = w'"
      using turn True by (simp add: start_loop.simps [of r "int (downloading_count w)" w])
    with None facts show thesis by (intro none [of w']) auto
  next
    case (Some n)
    with facts have n: "a = Some (int (downloading_count w'))" by simp
    then have "start_loop r (int (downloading_count w)) w = start_loop r (int (downloading_count w')) w'"
      using turn True by (simp add: start_loop.simps [of r "int (downloading_count w)" w])
    with n facts turn True show thesis by (intro more [of w']) auto
  qed
qed (use full in \<open>simp add: start_loop.simps [of r "int (downloading_count w)" w]\<close>)

lemma start_loop_bound:
  assumes "\<And>e. concurrency r e \<le> c" and "quiet w" and "wf_db w"
  shows "int (downloading_count (start_loop r (int (downloading_count w)) w)) \<le>
    max (int (downloading_count w)) c"
  using assms(2,3)
proof (induction "queued_count w" arbitrary: w rule: less_induct)
  case less
  from less(2,3) show ?case
  proof (cases rule: start_loop_cases [of w r])
    case full
    then show ?thesis by simp
  next
    case (none w')
    then show ?thesis by (simp add: downloading_count_def)
  next
    case (more w')
    have "int (downloading_count (start_loop r (int (downloading_count w')) w')) \<le>
        max (int (downloading_count w')) c"
      using less(1) start_turn_queued more by blast
    moreover have "int (downloading_count w') \<le> c"
      using more(1,6) assms(1) [of "Ext w"] by linarith
    ultimately show ?thesis using more(2) by simp
  qed
qed



text \<open>
  C13. No capacity is left unused: when a tick stops starting jobs, the limit is reached or no
  queued job was ready at the time of the last look.
\<close>

theorem start_loop_fills:
  assumes "quiet w" and "wf_db w"
    and w': "w' = start_loop r (result countDownloading w) (final countDownloading w)"
  shows "concurrency r (Ext w') \<le> int (downloading_count w') \<or>
    (\<exists>n. \<forall>j\<in>set (Jobs w'). \<not> claimable (ClockAt w n) j)"
proof -
  have "concurrency r (Ext (start_loop r (int (downloading_count v)) v)) \<le>
        int (downloading_count (start_loop r (int (downloading_count v)) v)) \<or>
      (\<exists>n. \<forall>j\<in>set (Jobs (start_loop r (int (downloading_count v)) v)). \<not> claimable (ClockAt v n) j)"
    if "quiet v" and "wf_db v" for v
    using that
  proof (induction "queued_count v" arbitrary: v rule: less_induct)
    case less
    from less(2,3) show ?case
    proof (cases rule: start_loop_cases [of v r])
      case (more v')
      then have "ClockAt v' = ClockAt v"
        using state_io_relE [OF envd.keeps_start_turn [of r], of v] by (simp add: env_step_def)
      moreover have "queued_count v' < queued_count v"
        using more(3) by (rule start_turn_queued)
      ultimately show ?thesis using less(1) [of v'] more by simp
    qed auto
  qed
  moreover have "wf_db (tick_step w)" using assms(2) by (simp add: wf_db_def)
  moreover have "w' = start_loop r (int (downloading_count (tick_step w))) (tick_step w)"
    unfolding w' by (simp add: run_countDownloading_quiet assms(1))
  ultimately show ?thesis
    using quiet_tick_step [OF assms(1)] by (metis tick_step_simps(5))
qed

theorem start_loop_fills_witness:
  "\<exists>w' :: unit daemon. w' = start_loop (sample_runner 2)
      (result countDownloading (sample_daemon [sample_job 1])) (final countDownloading (sample_daemon [sample_job 1])) \<and>
   (2 \<le> downloading_count w' \<or> (\<forall>j\<in>set (Jobs w'). \<not> claimable 100 j))"
proof -
  let ?w = "sample_daemon [sample_job 1]"
  have "wf_db ?w" by (simp add: wf_db_def sample_daemon_def sample_job_def wf_job_new_row, simp add: new_row_def)
  from start_loop_fills [OF quiet_sample_daemon this refl, of "sample_runner 2"] show ?thesis
    by (auto simp: concurrency_def sample_runner_def sample_daemon_def)
qed

text \<open>
  The download limit does not survive a database failure: \<open>countDownloading\<close> reports no download
  when its query fails, so with a limit of one a single failing statement lets a second download
  start.
\<close>

theorem start_loop_fault_exceeds:
  "\<exists>w :: unit daemon. wf_db w \<and> downloading_count w = 0 \<and> (\<forall>e. concurrency (sample_runner 1) e = 1) \<and>
     card {k. FaultAt w k \<noteq> None} = 1 \<and>
     downloading_count (start_loop (sample_runner 1) (result countDownloading w) (final countDownloading w)) = 2"
proof (intro exI conjI allI)
  let ?w = "(sample_daemon (map sample_job [1, 2, 3]))\<lparr>FaultAt := \<lambda>k. if k = 9 then Some ''locked'' else None\<rparr>"
  show "wf_db ?w"
    by (simp add: wf_db_def sample_daemon_def sample_job_def wf_job_new_row, simp add: new_row_def)
  show "downloading_count ?w = 0" by code_simp
  show "concurrency (sample_runner 1) e = 1" for e by (simp add: concurrency_def sample_runner_def)
  have "{k. FaultAt ?w k \<noteq> None} = {9}" by auto
  then show "card {k. FaultAt ?w k \<noteq> None} = 1" by simp
  show "downloading_count (start_loop (sample_runner 1) (result countDownloading ?w) (final countDownloading ?w)) = 2"
    by code_simp
qed

section \<open>Starting a job\<close>

lemma ends_fail_at:
  "(\<And>t now. Q None (row_MarkFailed c m (Some (now + d)) t j)) \<Longrightarrow> ends i j (fail_at i c m d) Q"
  unfolding fail_at_def by (intro ends_control ends_store)

lemma ends_prepareOutputForStart:
  "(\<And>e. Q e j) \<Longrightarrow> ends i j (prepareOutputForStart r job n opts) Q"
  unfolding prepareOutputForStart_def hasActiveOutputConflict_def
  by (intro ends_control ends_store)

definition started_or_failed :: "job \<Rightarrow> job \<Rightarrow> bool" where
  "started_or_failed j k \<longleftrightarrow>
     Status k = StatusDownloading \<and> Engine k = ''aria2'' \<and> EngineGID k \<noteq> None \<and> ResolvedURL k \<noteq> None \<and>
       Attempts k = Attempts j \<or>
     Status k = StatusFailed \<and> ErrorCode k \<noteq> None \<and> NextRetryAt k \<noteq> None \<and>
       Attempts k = Attempts j + 1"

lemma started_or_failed_rows:
  "started_or_failed j (row_MarkDownloading ''aria2'' g t (row_UpdateResolving u f n t' j))"
  "started_or_failed j (row_MarkFailed c m (Some x) t (row_UpdateResolving u f n t' j))"
  "started_or_failed j (row_MarkFailed c m (Some x) t j)"
  by (simp_all add: started_or_failed_def row_ops)

lemma ends_start_resolved:
  assumes "i = ID job"
  shows "ends i j (start_resolved r job res) (\<lambda>e k. e = None \<and> started_or_failed j k)"
  unfolding start_resolved_def assms
  by (intro conjI refl ends_control ends_store ends_fail_at ends_prepareOutputForStart
      started_or_failed_rows)

lemma ends_resolveAndStart:
  assumes "i = ID job" and "DeletedAt j = None"
  shows "ends i j (resolveAndStart r job) (\<lambda>e k. e = None \<and> started_or_failed j k)"
  unfolding resolveAndStart_def assms
  by (intro conjI refl ends_control ends_store ends_start_resolved started_or_failed_rows)
    (use assms(2) in simp)

lemma works_on_lookup:
  assumes "works_on Own s s'" and "\<not> Own i"
  shows "lookup_job i s' = lookup_job i s"
proof -
  have "list_all2 (\<lambda>j k. k = j \<or> Own (ID j) \<and> worked j k) js ks \<Longrightarrow>
      find (\<lambda>j. ID j = i) ks = find (\<lambda>j. ID j = i) js" for js ks
    by (induction rule: list_all2_induct) (use assms(2) in \<open>auto dest: worked_ID\<close>)
  with assms(1) show ?thesis by (simp add: works_on_def lookup_job_def)
qed

lemma works_on_lookup_worked:
  assumes "works_on Own s s'" and "lookup_job i s = Some j" and "lookup_job i s' = Some k"
  shows "k = j \<or> worked j k"
proof -
  have "list_all2 (\<lambda>j k. k = j \<or> Own (ID j) \<and> worked j k) js ks \<Longrightarrow>
      find (\<lambda>j. ID j = i) js = Some j \<Longrightarrow> find (\<lambda>j. ID j = i) ks = Some k \<Longrightarrow> k = j \<or> worked j k" for js ks
    by (induction rule: list_all2_induct) (auto dest: worked_ID split: if_splits)
  with assms show ?thesis unfolding works_on_def lookup_job_def by blast
qed



lemma ends_Pause_resolving:
  assumes "Status j = StatusResolving"
  shows "ends i j (Pause sv i) (\<lambda>e k. e = None \<and> Status k = StatusPaused)"
  unfolding Pause_def
  by (intro conjI refl ends_control ends_store) (use assms in \<open>simp_all add: row_ops\<close>)

lemma ends_Remove_unstarted:
  assumes "EngineGID j = None"
  shows "ends i j (Remove sv i) (\<lambda>e k. e = None \<and> DeletedAt k \<noteq> None)"
  unfolding Remove_def store_Remove_def
  by (intro conjI refl ends_control ends_store ends_update_row row_ops_ID) (use assms in \<open>simp_all add: row_ops\<close>)

lemma start_resolved_DeletedAt:
  fixes w :: "('e, 'z) daemon_scheme"
  assumes "quiet w" and "lookup_job (ID job) w = Some j"
  obtains k where "lookup_job (ID job) (final (start_resolved r job res) w) = Some k"
    and "started_or_failed j k" and "DeletedAt k = DeletedAt j"
proof -
  obtain k where k: "lookup_job (ID job) (final (start_resolved r job res) w) = Some k"
      "started_or_failed j k"
    using assms by (rule endsD [OF ends_start_resolved [OF refl, where r = r and res = res]]) blast
  have "works_on (\<lambda>_. True) w (final (start_resolved r job res) w)"
    by (rule state_io_relE [OF works.keeps_start_resolved]) simp
  then have "DeletedAt k = DeletedAt j"
    using k(1) assms(2) works_on_lookup_worked by (metis worked_def)
  with k show thesis by (rule that)
qed

text \<open>
  C39. A pause or a removal that arrives while the job is being resolved is lost. The resolver may
  take long, and what follows it writes the row without looking at it again: after an accepted
  \<open>Pause\<close> the job is not paused but started (or failed), and after an accepted \<open>Remove\<close> the deleted
  job is started (or failed) all the same.
\<close>

theorem stale_start_overwrites:
  fixes w :: "('e, 'z) daemon_scheme"
  assumes "quiet w" and "lookup_job (ID job) w = Some j" and "Status j = StatusResolving"
    and "EngineGID j = None"
  shows "result (Pause sv (ID job)) w = None \<and> result (Remove sv (ID job)) w = None \<and>
    (\<exists>k. lookup_job (ID job) (final (start_resolved r job res) (final (Pause sv (ID job)) w)) = Some k \<and>
       Status k \<in> {StatusDownloading, StatusFailed}) \<and>
    (\<exists>k. lookup_job (ID job) (final (start_resolved r job res) (final (Remove sv (ID job)) w)) = Some k \<and>
       DeletedAt k \<noteq> None \<and> Status k \<in> {StatusDownloading, StatusFailed})"
proof -
  obtain p where p: "lookup_job (ID job) (final (Pause sv (ID job)) w) = Some p"
      "result (Pause sv (ID job)) w = None" "quiet (final (Pause sv (ID job)) w)"
    using assms(1,2) by (rule endsD [OF ends_Pause_resolving [OF assms(3), where sv = sv]]) blast
  obtain d where d: "lookup_job (ID job) (final (Remove sv (ID job)) w) = Some d" "DeletedAt d \<noteq> None"
      "result (Remove sv (ID job)) w = None" "quiet (final (Remove sv (ID job)) w)"
    using assms(1,2) by (rule endsD [OF ends_Remove_unstarted [OF assms(4), where sv = sv]]) blast
  obtain k where "lookup_job (ID job) (final (start_resolved r job res) (final (Pause sv (ID job)) w)) = Some k"
      "started_or_failed p k"
    using start_resolved_DeletedAt [OF p(3,1)] by blast
  moreover obtain l where
      "lookup_job (ID job) (final (start_resolved r job res) (final (Remove sv (ID job)) w)) = Some l"
      "started_or_failed d l" "DeletedAt l = DeletedAt d"
    using start_resolved_DeletedAt [OF d(4,1)] by blast
  ultimately show ?thesis
    using p(2) d(2,3) unfolding started_or_failed_def by auto
qed

theorem stale_start_overwrites_witness:
  "\<exists>k. lookup_job 1 (final (start_resolved (sample_runner 2) (row_Claim 5 (sample_job 1)) (sample_target ''u''))
      (final (Pause sample_service 1) (sample_daemon [row_Claim 5 (sample_job 1)]))) = Some k \<and>
    Status k \<in> {StatusDownloading, StatusFailed}"
proof -
  have "lookup_job (ID (row_Claim 5 (sample_job 1))) (sample_daemon [row_Claim 5 (sample_job 1)]) =
      Some (row_Claim 5 (sample_job 1))" by code_simp
  moreover have "Status (row_Claim 5 (sample_job 1)) = StatusResolving"
    and "EngineGID (row_Claim 5 (sample_job 1)) = None" by code_simp+
  moreover have "ID (row_Claim 5 (sample_job 1)) = 1" by code_simp
  ultimately show ?thesis
    using stale_start_overwrites [OF quiet_sample_daemon, of "row_Claim 5 (sample_job 1)"] by metis
qed

section \<open>Polling the engine\<close>

lemma ends_buildDecryptTask: "(\<And>x. Q x j) \<Longrightarrow> ends i j (buildDecryptTask r job st) Q"
  unfolding buildDecryptTask_def archiveDecryptWaitMessage_def
  by (intro ends_control ends_store)

lemma lookup_daemon [simp]:
  "lookup_job i (d\<lparr>DecryptPending := p\<rparr>) = lookup_job i d" "quiet (d\<lparr>DecryptPending := p\<rparr>) = quiet d"
  "lookup_job i (d\<lparr>DecryptSem := q\<rparr>) = lookup_job i d" "quiet (d\<lparr>DecryptSem := q\<rparr>) = quiet d"
  "lookup_job i (d\<lparr>Goroutines := g\<rparr>) = lookup_job i d" "quiet (d\<lparr>Goroutines := g\<rparr>) = quiet d"
  by (simp_all add: lookup_job_def quiet_def)

lemma ends_scheduleDecrypt: "Q () j \<Longrightarrow> ends i j (scheduleDecrypt t) Q"
  by (auto simp: ends_def job_at_def scheduleDecrypt_def markDecryptPending_def spawn_def)

lemma ends_fail_postprocess:
  "(\<And>t t'. Q () (row_ClearArchivePassword t (row_MarkPostprocessFailed m ''postprocess_failed'' t' j))) \<Longrightarrow>
   ends i j (fail_postprocess i m) Q"
  unfolding fail_postprocess_def
  by (intro ends_control ends_store) (auto simp: TrimSpace_eq_Nil_iff is_space_def)

definition post_processed :: "job \<Rightarrow> job \<Rightarrow> bool" where
  "post_processed j k \<longleftrightarrow>
     Status k = StatusDecrypting \<and> ErrorCode k = None \<and> ArchivePassword k = ArchivePassword j \<or>
     Status k = StatusDecryptFail \<and> ErrorCode k = Some ''postprocess_failed'' \<and> ArchivePassword k = None"

text \<open>The row after a poll of the engine, by the status the engine reports.\<close>

definition polled :: "aria2_status \<Rightarrow> job \<Rightarrow> job \<Rightarrow> bool" where
  "polled st j k \<longleftrightarrow>
     (let done = fst (ParseInt (CompletedLen st)); total = fst (ParseInt (TotalLength st));
          speed = fst (ParseInt (Speed st)) in
      if aria2_Status st = ''complete'' then
        Status k = StatusCompleted \<and> ErrorCode k = None \<and> CompletedAt k \<noteq> None \<and>
            ArchivePassword k = ArchivePassword j \<and> (BytesDone k = 0 \<longrightarrow> done = 0 \<and> total \<le> 0) \<or>
        post_processed j k
      else if aria2_Status st = ''error'' then
        Status k = StatusFailed \<and> ErrorCode k \<in> {Some ''quota_exceeded'', Some ''download_error''} \<and>
          NextRetryAt k \<noteq> None \<and> Attempts k = Attempts j + 1
      else Status k = StatusDownloading \<and> BytesDone k = done \<and> DownloadSpeed k = Some speed \<and>
        EtaSeconds k = Some (eta_seconds speed total done) \<and> Attempts k = Attempts j)"

lemma ends_queueDecryptFromStatus:
  assumes "\<And>k. post_processed j k \<Longrightarrow> Q True k" and "Q False j" and "\<And>t. Q False (row_MarkDecrypting b t j)"
  shows "ends (ID job) j (queueDecryptFromStatus r job st b) Q"
  unfolding queueDecryptFromStatus_def
  by (intro ends_control ends_store ends_buildDecryptTask ends_scheduleDecrypt ends_fail_postprocess assms)
    (simp_all add: row_ops post_processed_def)

lemma mapDownloadError_code:
  "fst (mapDownloadError m t) \<in> {''quota_exceeded'', ''download_error''}"
  by (simp add: mapDownloadError_def Let_def)

lemma ends_update_job_from_status:
  "ends (ID job) j (update_job_from_status r job st) (\<lambda>_ k. polled st j k)"
  unfolding update_job_from_status_def
  by (intro ends_control ends_store ends_queueDecryptFromStatus)
    (auto simp: polled_def row_ops Let_def prod_eq_iff mapDownloadError_def split: option.splits if_splits)

text \<open>
  C15. A poll writes back what the engine reports. A finished download becomes \<open>completed\<close>, or
  \<open>decrypting\<close> when it needs post-processing; an error fails the job with one more attempt and a
  retry time; anything else updates the progress. A download the engine does not know fails the
  job, and any other error of the engine leaves the row as it is. No other job is touched.
\<close>

theorem update_active_job_outcome:
  fixes w :: "('e, 'z) daemon_scheme"
  assumes "quiet w" and "lookup_job (ID job) w = Some j" and "EngineGID job = Some gid"
  shows "(\<exists>k. lookup_job (ID job) (final (update_active_job r job) w) = Some k \<and>
      (case result (dl_TellStatus (r_Downloader r) gid) (Ext w) of
         Inr st \<Rightarrow> polled st j k
       | Inl err \<Rightarrow>
           if errors_Is err ErrGIDNotFound
           then Status k = StatusFailed \<and> ErrorCode k = Some ''gid_not_found'' \<and> Attempts k = Attempts j + 1
           else k = j)) \<and>
    (\<forall>i. i \<noteq> ID job \<longrightarrow> lookup_job i (final (update_active_job r job) w) = lookup_job i w)"
proof
  let ?told = "result (dl_TellStatus (r_Downloader r) gid) (Ext w)"
  let ?w = "w\<lparr>Ext := final (dl_TellStatus (r_Downloader r) gid) (Ext w)\<rparr>"
  let ?rest = "case ?told of
      Inl err \<Rightarrow> if errors_Is err ErrGIDNotFound
        then do { _ \<leftarrow> fail_at (ID job) ''gid_not_found'' (Error err) (2 * 60); return () }
        else do { _ \<leftarrow> AddEvent (ID job) ''error'' (Error err); return () }
    | Inr st \<Rightarrow> update_job_from_status r job st"
  have run: "run_state (update_active_job r job) w = run_state ?rest ?w"
    using assms(3) by (simp add: update_active_job_def run_on_ext)
  have w: "quiet ?w" "lookup_job (ID job) ?w = Some j" using assms by simp_all
  have "ends (ID job) j ?rest (\<lambda>_ k. case ?told of
      Inr st \<Rightarrow> polled st j k
    | Inl err \<Rightarrow> if errors_Is err ErrGIDNotFound
        then Status k = StatusFailed \<and> ErrorCode k = Some ''gid_not_found'' \<and> Attempts k = Attempts j + 1
        else k = j)"
    by (intro ends_control ends_store ends_fail_at)
      (auto simp: row_ops intro: ends_update_job_from_status)
  from this w show "\<exists>k. lookup_job (ID job) (final (update_active_job r job) w) = Some k \<and>
      (case ?told of
         Inr st \<Rightarrow> polled st j k
       | Inl err \<Rightarrow> if errors_Is err ErrGIDNotFound
           then Status k = StatusFailed \<and> ErrorCode k = Some ''gid_not_found'' \<and> Attempts k = Attempts j + 1
           else k = j)"
    unfolding run by (rule endsD) blast
  have "works_on (\<lambda>i. i = ID job) w (final (update_active_job r job) w)"
    by (rule state_io_relE [OF works.keeps_update_active_job]) simp
  then show "\<forall>i. i \<noteq> ID job \<longrightarrow> lookup_job i (final (update_active_job r job) w) = lookup_job i w"
    by (auto dest: works_on_lookup)
qed

theorem update_active_job_outcome_witness:
  "\<exists>k. lookup_job 1 (final (update_active_job (sample_runner 2) (row_MarkDownloading ''aria2'' ''g'' 5 (sample_job 1)))
      (sample_daemon [row_MarkDownloading ''aria2'' ''g'' 5 (sample_job 1)])) = Some k \<and>
    BytesDone k = 400 \<and> EtaSeconds k = Some 10"
proof -
  let ?j = "row_MarkDownloading ''aria2'' ''g'' 5 (sample_job 1)"
  have "lookup_job (ID ?j) (sample_daemon [?j]) = Some ?j" by code_simp
  moreover have "EngineGID ?j = Some ''g''" by code_simp
  ultimately obtain k where "lookup_job (ID ?j) (final (update_active_job (sample_runner 2) ?j) (sample_daemon [?j])) = Some k"
      "polled sample_status ?j k"
    using update_active_job_outcome [OF quiet_sample_daemon, of ?j "[?j]" ?j "''g''" "sample_runner 2"]
    by (auto simp: sample_runner_def sample_engine_def)
  moreover have "ID ?j = 1" by code_simp
  moreover have "ParseInt ''400'' = (400, None)" "ParseInt ''1000'' = (1000, None)" "ParseInt ''60'' = (60, None)"
      "eta_seconds 60 1000 400 = 10" by code_simp+
  ultimately show ?thesis by (auto simp: polled_def sample_status_def Let_def)
qed

text \<open>
  The poll also undoes a pause that was accepted after the list of downloads was read: a row
  that is \<open>paused\<close> is written back as \<open>downloading\<close> when the engine reports neither completion nor
  an error (for a paused download it reports \<open>paused\<close>).
\<close>

theorem stale_poll_overwrites_pause:
  fixes w :: "('e, 'z) daemon_scheme"
  assumes "quiet w" and "lookup_job (ID job) w = Some j" and "Status j = StatusPaused"
    and "aria2_Status st = ''paused''"
  shows "\<exists>k. lookup_job (ID job) (final (update_job_from_status r job st) w) = Some k \<and>
    Status k = StatusDownloading"
  using assms(1,2)
  by (rule endsD [OF ends_update_job_from_status [where r = r and st = st]])
    (use assms(4) in \<open>auto simp: polled_def Let_def\<close>)

theorem stale_poll_overwrites_pause_witness:
  "\<exists>k. lookup_job 1 (final (update_job_from_status (sample_runner 2) (sample_job 1)
      (sample_status\<lparr>aria2_Status := ''paused''\<rparr>)) (sample_daemon [row_MarkPaused 5 (sample_job 1)])) = Some k \<and>
    Status k = StatusDownloading"
proof -
  have "ID (sample_job 1) = 1" by code_simp
  moreover have "lookup_job 1 (sample_daemon [row_MarkPaused 5 (sample_job 1)]) = Some (row_MarkPaused 5 (sample_job 1))"
    by code_simp
  moreover have "Status (row_MarkPaused 5 (sample_job 1)) = StatusPaused" by code_simp
  ultimately show ?thesis
    using stale_poll_overwrites_pause [OF quiet_sample_daemon, of "sample_job 1" _ _
        "sample_status\<lparr>aria2_Status := ''paused''\<rparr>"] by simp
qed

text \<open>
  The estimated time is sound: for sizes and speeds that the engine can report it is not
  negative, and at the reported speed no more than the missing bytes arrive in that time.
\<close>

theorem eta_seconds_sound:
  assumes "in_int64 totalLen" and "0 \<le> bytes" and "0 \<le> speed"
  shows "0 \<le> eta_seconds speed totalLen bytes \<and>
    (bytes < totalLen \<longrightarrow> eta_seconds speed totalLen bytes * speed \<le> totalLen - bytes) \<and>
    (totalLen \<le> bytes \<longrightarrow> eta_seconds speed totalLen bytes = 0)"
proof (cases "speed > 0 \<and> totalLen > 0 \<and> bytes < totalLen")
  case True
  then have "in_int64 (totalLen - bytes)" using assms by (simp add: in_int64_def)
  then have "eta_seconds speed totalLen bytes = (totalLen - bytes) div speed"
    using True by (simp add: eta_seconds_def signed_divide_int_def)
  moreover have "(totalLen - bytes) div speed * speed \<le> totalLen - bytes"
    using True by (simp add: minus_mod_eq_div_mult [symmetric])
  ultimately show ?thesis using True by (simp add: pos_imp_zdiv_nonneg_iff)
next
  case False
  then have "eta_seconds speed totalLen bytes = 0" unfolding eta_seconds_def by (rule if_not_P)
  then show ?thesis by simp
qed

theorem eta_seconds_sound_witness:
  "eta_seconds 60 1000 400 * 60 \<le> 1000 - 400"
  using eta_seconds_sound [of 1000 400 60] by (simp add: in_int64_def)

section \<open>Output files\<close>

definition same_output :: "job \<Rightarrow> string \<Rightarrow> job \<Rightarrow> bool" where
  "same_output job outName other \<longleftrightarrow> ID other \<noteq> ID job \<and> DeletedAt other = None \<and>
     OutDir other = OutDir job \<and> isOutputConflictActiveStatus (Status other) \<and>
     outputNameForJob other = outName"

lemma result_hasActiveOutputConflict:
  assumes "quiet s" and "outName \<noteq> []"
  shows "run_state (hasActiveOutputConflict job outName) s =
    ((\<exists>other\<in>set (Jobs s). same_output job outName other), tick_step s)"
  using assms
  by (auto simp: hasActiveOutputConflict_def store_ListJobs_def run_sql_query_quiet list_ex_iff
      same_output_def list_filter_def order_by_id_def)



section \<open>Multipart archives\<close>



end
