(* ===== verification/Decrypt_Pool.thy ===== *)
theory Decrypt_Pool
  imports Runner_Laws
begin

text \<open>
  The post-processing workers of internal/queue/runner.go: \<open>runDecrypt\<close> and the semaphore. Each
  scheduled task has a goroutine; it waits for a worker, decrypts a MEGA download, extracts an
  archive, records the outcome, takes its job off the pending set and gives the worker back. The
  goroutines run concurrently with each other, with the ticks of the runner and with the handlers
  of the API: \<open>pool_step\<close> interleaves their stages. A stage is one atomic step, with one external
  tool run per stage.

  The invariant \<open>pool_inv\<close> is proved for every step; it gives the limit on the workers, mutual
  exclusion per job, and that giving back a worker never blocks.
\<close>

section \<open>The stages of a goroutine\<close>

definition decryptConcurrency :: "'e runner \<Rightarrow> nat" where
  "decryptConcurrency r = (if r_DecryptConcurrency r > 0 then nat (r_DecryptConcurrency r) else 1)"

text \<open>The number of tokens in the channel, which is made and filled at the first use.\<close>

definition decryptSemaphore :: "'e runner \<Rightarrow> ('e, 'z) daemon_scheme \<Rightarrow> nat" where
  "decryptSemaphore r d = (case DecryptSem d of Some n \<Rightarrow> n | None \<Rightarrow> decryptConcurrency r)"

text \<open>\<open>True\<close> is going on, \<open>False\<close> the early return.\<close>

definition mega_stage :: "'e runner \<Rightarrow> decryptTask \<Rightarrow> (('e, 'z) world_scheme, bool) state" where
  "mega_stage r task =
     (case r_MegaDecryptor r of
        None \<Rightarrow> return True
      | Some decrypt \<Rightarrow>
          if \<not> t_decryptMega task then return True
          else do {
            _ \<leftarrow> AddEvent (t_jobID task) ''info'' (''mega decrypt started: '' @ Base (t_megaPath task));
            (attempted, err) \<leftarrow> on_ext (decrypt (t_site task) (t_rawURL task) (t_megaPath task));
            case err of
              Some e \<Rightarrow> do {
                _ \<leftarrow> AddEvent (t_jobID task) ''error'' (''mega decrypt failed: '' @ Error e);
                _ \<leftarrow> MarkPostprocessFailed (t_jobID task) ''mega decrypt failed'' ''mega_decrypt_failed'';
                _ \<leftarrow> ClearArchivePassword (t_jobID task);
                return False
              }
            | None \<Rightarrow>
                if attempted then do {
                  _ \<leftarrow> AddEvent (t_jobID task) ''info'' (''mega decrypted: '' @ Base (t_megaPath task));
                  return True
                }
                else return True
          })"

definition archive_stage :: "'e runner \<Rightarrow> decryptTask \<Rightarrow> (('e, 'z) world_scheme, bool) state" where
  "archive_stage r task =
     (case r_ArchiveDecryptor r of
        None \<Rightarrow> return True
      | Some decrypt \<Rightarrow>
          if \<not> t_decryptArch task then return True
          else do {
            _ \<leftarrow> AddEvent (t_jobID task) ''info'' (''archive decrypt started: '' @ Base (t_archivePath task));
            (attempted, err) \<leftarrow> on_ext (decrypt (t_archivePath task) (t_outDir task) (t_password task));
            case err of
              Some e \<Rightarrow> do {
                _ \<leftarrow> AddEvent (t_jobID task) ''error'' (''archive decrypt failed: '' @ Error e);
                _ \<leftarrow> MarkPostprocessFailed (t_jobID task) ''archive decrypt failed'' ''archive_decrypt_failed'';
                _ \<leftarrow> ClearArchivePassword (t_jobID task);
                return False
              }
            | None \<Rightarrow>
                if attempted then do {
                  _ \<leftarrow> AddEvent (t_jobID task) ''info'' (''archive decrypted: '' @ Base (t_archivePath task));
                  return True
                }
                else do {
                  _ \<leftarrow> AddEvent (t_jobID task) ''info'' ''archive decrypt skipped: not an archive'';
                  return True
                }
          })"

definition done_stage :: "decryptTask \<Rightarrow> (('e, 'z) world_scheme, unit) state" where
  "done_stage task = do {
     _ \<leftarrow> MarkCompleted (t_jobID task);
     _ \<leftarrow> ClearArchivePassword (t_jobID task);
     return ()
   }"

text \<open>The body of \<open>runDecrypt\<close> between taking and giving back the worker, run without interruption.\<close>

definition runDecrypt_body :: "'e runner \<Rightarrow> decryptTask \<Rightarrow> (('e, 'z) world_scheme, unit) state" where
  "runDecrypt_body r task = do {
     ok \<leftarrow> mega_stage r task;
     if \<not> ok then return ()
     else do {
       ok' \<leftarrow> archive_stage r task;
       if \<not> ok' then return () else done_stage task
     }
   }"

section \<open>Interleaving\<close>

definition set_stage :: "nat \<Rightarrow> stage \<Rightarrow> ('e, 'z) daemon_scheme \<Rightarrow> ('e, 'z) daemon_scheme" where
  "set_stage n st d = d\<lparr>Goroutines := (Goroutines d)[n := (Goroutines d ! n)\<lparr>g_stage := st\<rparr>]\<rparr>"

definition end_goroutine :: "nat \<Rightarrow> ('e, 'z) daemon_scheme \<Rightarrow> ('e, 'z) daemon_scheme" where
  "end_goroutine n d = d\<lparr>Goroutines := take n (Goroutines d) @ drop (Suc n) (Goroutines d)\<rparr>"

definition at_stage :: "nat \<Rightarrow> stage \<Rightarrow> decryptTask \<Rightarrow> ('e, 'z) daemon_scheme \<Rightarrow> bool" where
  "at_stage n st task d \<longleftrightarrow> n < length (Goroutines d) \<and> Goroutines d ! n = \<lparr>g_task = task, g_stage = st\<rparr>"

text \<open>One step of goroutine \<open>n\<close>. A receive from the channel needs a token and a send needs room in it;
  the goroutine may also see that the context is done (\<open>cancelled\<close>) while it waits for a worker.\<close>

inductive pool_step :: "'e runner \<Rightarrow> bool \<Rightarrow> ('e, 'z) daemon_scheme \<Rightarrow> ('e, 'z) daemon_scheme \<Rightarrow> bool"
  for r :: "'e runner" and cancelled :: bool where
  acquire: "at_stage n Acquiring task d \<Longrightarrow> decryptSemaphore r d = Suc k \<Longrightarrow>
    pool_step r cancelled d (set_stage n AtMega (d\<lparr>DecryptSem := Some k\<rparr>))"
| give_up: "cancelled \<Longrightarrow> at_stage n Acquiring task d \<Longrightarrow>
    pool_step r cancelled d (end_goroutine n
      ((final (unmarkDecryptPending (t_jobID task)) d)\<lparr>DecryptSem := Some (decryptSemaphore r d)\<rparr>))"
| mega: "at_stage n AtMega task d \<Longrightarrow> run_state (mega_stage r task) d = (ok, d') \<Longrightarrow>
    pool_step r cancelled d (set_stage n (if ok then AtArchive else Leaving) d')"
| archive: "at_stage n AtArchive task d \<Longrightarrow> run_state (archive_stage r task) d = (ok, d') \<Longrightarrow>
    pool_step r cancelled d (set_stage n (if ok then AtDone else Leaving) d')"
| finish: "at_stage n AtDone task d \<Longrightarrow>
    pool_step r cancelled d (set_stage n Leaving (final (done_stage task) d))"
| unmark: "at_stage n Leaving task d \<Longrightarrow>
    pool_step r cancelled d (set_stage n Releasing (final (unmarkDecryptPending (t_jobID task)) d))"
| release: "at_stage n Releasing task d \<Longrightarrow> decryptSemaphore r d = k \<Longrightarrow> k < decryptConcurrency r \<Longrightarrow>
    pool_step r cancelled d (end_goroutine n (d\<lparr>DecryptSem := Some (Suc k)\<rparr>))"

section \<open>The invariant of the pool\<close>

definition live_ids :: "goroutine list \<Rightarrow> int list" where
  "live_ids gs = map (\<lambda>g. t_jobID (g_task g)) (filter (\<lambda>g. g_stage g \<noteq> Releasing) gs)"

definition holders :: "goroutine list \<Rightarrow> nat" where
  "holders gs = length (filter (\<lambda>g. g_stage g \<noteq> Acquiring) gs)"

definition pool_inv :: "'e runner \<Rightarrow> ('e, 'z) daemon_scheme \<Rightarrow> bool" where
  "pool_inv r d \<longleftrightarrow> distinct (live_ids (Goroutines d)) \<and>
     set (live_ids (Goroutines d)) = DecryptPending d \<and>
     decryptSemaphore r d + holders (Goroutines d) = decryptConcurrency r"

lemma live_ids_simps [simp]:
  "live_ids [] = []" "live_ids (as @ bs) = live_ids as @ live_ids bs"
  "live_ids (g # gs) = (if g_stage g = Releasing then live_ids gs else t_jobID (g_task g) # live_ids gs)"
  by (simp_all add: live_ids_def)

lemma holders_simps [simp]:
  "holders [] = 0" "holders (as @ bs) = holders as + holders bs"
  "holders (g # gs) = (if g_stage g = Acquiring then 0 else 1) + holders gs"
  by (simp_all add: holders_def)

lemma at_stage_split:
  assumes "at_stage n st task d" and "Goroutines d' = Goroutines d"
  obtains as bs where "Goroutines d = as @ \<lparr>g_task = task, g_stage = st\<rparr> # bs"
    and "Goroutines (set_stage n st' d') = as @ \<lparr>g_task = task, g_stage = st'\<rparr> # bs"
    and "Goroutines (end_goroutine n d') = as @ bs"
proof -
  let ?gs = "Goroutines d"
  have n: "n < length ?gs" and g: "?gs ! n = \<lparr>g_task = task, g_stage = st\<rparr>"
    using assms(1) by (simp_all add: at_stage_def)
  have "?gs = take n ?gs @ \<lparr>g_task = task, g_stage = st\<rparr> # drop (Suc n) ?gs"
    using n g by (metis id_take_nth_drop)
  moreover have "Goroutines (set_stage n st' d') =
      take n ?gs @ \<lparr>g_task = task, g_stage = st'\<rparr> # drop (Suc n) ?gs"
    using n g assms(2) by (simp add: set_stage_def upd_conv_take_nth_drop)
  moreover have "Goroutines (end_goroutine n d') = take n ?gs @ drop (Suc n) ?gs"
    using assms(2) by (simp add: end_goroutine_def)
  ultimately show thesis by (rule that)
qed

lemma pool_fields [simp]:
  "DecryptPending (set_stage n st d) = DecryptPending d" "DecryptSem (set_stage n st d) = DecryptSem d"
  "DecryptPending (end_goroutine n d) = DecryptPending d" "DecryptSem (end_goroutine n d) = DecryptSem d"
  "decryptSemaphore r (set_stage n st d) = decryptSemaphore r d"
  "decryptSemaphore r (end_goroutine n d) = decryptSemaphore r d"
  "decryptSemaphore r (d\<lparr>DecryptSem := Some k\<rparr>) = k"
  by (simp_all add: set_stage_def end_goroutine_def decryptSemaphore_def)

lemma unmark_fields [simp]:
  "DecryptPending (final (unmarkDecryptPending i) d) = DecryptPending d - {i}"
  "DecryptSem (final (unmarkDecryptPending i) d) = DecryptSem d"
  "Goroutines (final (unmarkDecryptPending i) d) = Goroutines d"
  "decryptSemaphore r (final (unmarkDecryptPending i) d) = decryptSemaphore r d"
  by (simp_all add: unmarkDecryptPending_def decryptSemaphore_def)

text \<open>The stages work on their own job and leave the pool alone.\<close>

context worker_contract
begin

lemma keeps_stages:
  assumes "Own (t_jobID task)"
  shows "state_io_rel R (mega_stage r task)" "state_io_rel R (archive_stage r task)"
    "state_io_rel R (done_stage task)"
  unfolding mega_stage_def archive_stage_def done_stage_def
  by (intro keeps_control keeps_own keeps_on_ext assms)+

end

definition pool_same :: "('e, 'z) daemon_scheme \<Rightarrow> ('e, 'z) daemon_scheme \<Rightarrow> bool" where
  "pool_same d d' \<longleftrightarrow> DecryptPending d' = DecryptPending d \<and> DecryptSem d' = DecryptSem d \<and>
     Goroutines d' = Goroutines d"

interpretation same: worker_contract pool_same "\<lambda>_. True"
  by unfold_locales (auto simp: pool_same_def tick_step_def update_job_def append_event_def)

lemma pool_same_inv: "pool_same d d' \<Longrightarrow> pool_inv r d' = pool_inv r d"
  by (simp add: pool_same_def pool_inv_def decryptSemaphore_def)

lemma pool_inv_schedule:
  assumes "pool_inv r d"
  shows "pool_inv r (final (scheduleDecrypt task) d)"
  using assms
  by (auto simp: pool_inv_def scheduleDecrypt_def markDecryptPending_def spawn_def decryptSemaphore_def)

lemma pool_inv_frame:
  "pool_inv r (d\<lparr>Jobs := js\<rparr>) = pool_inv r d" "pool_inv r (d\<lparr>Ext := e\<rparr>) = pool_inv r d"
  "pool_inv r (tick_step d) = pool_inv r d" "pool_inv r (append_event i l m t d) = pool_inv r d"
  by (simp_all add: pool_inv_def decryptSemaphore_def tick_step_def append_event_def)

interpretation pool: daemon_contract "\<lambda>d d'. pool_inv r d \<longrightarrow> pool_inv r d'" for r
  by unfold_locales (auto simp: pool_inv_frame intro: pool_inv_schedule)

text \<open>A stage that goes from working to working or to leaving does not change the accounts.\<close>

lemma pool_inv_work:
  assumes "pool_inv r d" and "pool_same d d'" and "at_stage n st task d"
    and "st \<noteq> Acquiring" "st \<noteq> Releasing" "st' \<noteq> Acquiring" "st' \<noteq> Releasing"
  shows "pool_inv r (set_stage n st' d')"
proof -
  have same: "Goroutines d' = Goroutines d" "DecryptPending d' = DecryptPending d"
      "decryptSemaphore r d' = decryptSemaphore r d"
    using assms(2) by (simp_all add: pool_same_def decryptSemaphore_def)
  obtain as bs where "Goroutines d = as @ \<lparr>g_task = task, g_stage = st\<rparr> # bs"
      "Goroutines (set_stage n st' d') = as @ \<lparr>g_task = task, g_stage = st'\<rparr> # bs"
    using assms(3) same(1) by (rule at_stage_split)
  with assms same show ?thesis by (simp add: pool_inv_def)
qed

lemma pool_inv_step:
  assumes "pool_step r c d d'" and "pool_inv r d"
  shows "pool_inv r d'"
  using assms
proof (induction rule: pool_step.induct)
  case (acquire n task d k)
  obtain as bs where "Goroutines d = as @ \<lparr>g_task = task, g_stage = Acquiring\<rparr> # bs"
      "Goroutines (set_stage n AtMega (d\<lparr>DecryptSem := Some k\<rparr>)) = as @ \<lparr>g_task = task, g_stage = AtMega\<rparr> # bs"
    using acquire(1) by (rule at_stage_split [where d' = "d\<lparr>DecryptSem := Some k\<rparr>"]) simp
  with acquire(2,3) show ?case by (simp add: pool_inv_def)
next
  case (give_up n task d)
  let ?d = "(final (unmarkDecryptPending (t_jobID task)) d)\<lparr>DecryptSem := Some (decryptSemaphore r d)\<rparr>"
  obtain as bs where "Goroutines d = as @ \<lparr>g_task = task, g_stage = Acquiring\<rparr> # bs"
      "Goroutines (end_goroutine n ?d) = as @ bs"
    using give_up(2) by (rule at_stage_split [where d' = ?d]) simp
  with give_up(3) show ?case by (auto simp: pool_inv_def)
next
  case (mega n task d ok d')
  then have "pool_same d d'" using state_io_relE [OF same.keeps_stages(1) [OF TrueI], of d r task] by simp
  with mega show ?case by (intro pool_inv_work [OF _ _ mega(1)]) simp_all
next
  case (archive n task d ok d')
  then have "pool_same d d'" using state_io_relE [OF same.keeps_stages(2) [OF TrueI], of d r task] by simp
  with archive show ?case by (intro pool_inv_work [OF _ _ archive(1)]) simp_all
next
  case (finish n task d)
  have "pool_same d (final (done_stage task) d)" by (rule state_io_relE [OF same.keeps_stages(3) [OF TrueI]])
  with finish show ?case by (intro pool_inv_work [OF _ _ finish(1)]) simp_all
next
  case (unmark n task d)
  obtain as bs where "Goroutines d = as @ \<lparr>g_task = task, g_stage = Leaving\<rparr> # bs"
      "Goroutines (set_stage n Releasing (final (unmarkDecryptPending (t_jobID task)) d)) =
        as @ \<lparr>g_task = task, g_stage = Releasing\<rparr> # bs"
    using unmark(1) unmark_fields(3) by (rule at_stage_split)
  with unmark(2) show ?case by (auto simp: pool_inv_def)
next
  case (release n task d k)
  obtain as bs where "Goroutines d = as @ \<lparr>g_task = task, g_stage = Releasing\<rparr> # bs"
      "Goroutines (end_goroutine n (d\<lparr>DecryptSem := Some (Suc k)\<rparr>)) = as @ bs"
    using release(1) by (rule at_stage_split [where d' = "d\<lparr>DecryptSem := Some (Suc k)\<rparr>"]) simp
  with release(2-4) show ?case by (simp add: pool_inv_def)
qed

section \<open>The pool always drains\<close>

fun stage_rank :: "stage \<Rightarrow> nat" where
  "stage_rank Acquiring = 6"
| "stage_rank AtMega = 5"
| "stage_rank AtArchive = 4"
| "stage_rank AtDone = 3"
| "stage_rank Leaving = 2"
| "stage_rank Releasing = 1"

definition remaining :: "('e, 'z) daemon_scheme \<Rightarrow> nat" where
  "remaining d = sum_list (map (\<lambda>g. stage_rank (g_stage g)) (Goroutines d))"

lemma remaining_set_stage:
  assumes "at_stage n st task d" and "Goroutines d' = Goroutines d" and "stage_rank st' < stage_rank st"
  shows "remaining (set_stage n st' d') < remaining d"
  using assms(1,2)
  by (rule at_stage_split [where st' = st']) (use assms(3) in \<open>simp add: remaining_def\<close>)

lemma remaining_end:
  assumes "at_stage n st task d" and "Goroutines d' = Goroutines d"
  shows "remaining (end_goroutine n d') < remaining d"
  using assms
  by (rule at_stage_split) (cases st, simp_all add: remaining_def)

lemma pool_step_remaining: "pool_step r c d d' \<Longrightarrow> remaining d' < remaining d"
proof (induction rule: pool_step.induct)
  case (mega n task d ok d')
  then have "pool_same d d'" using state_io_relE [OF same.keeps_stages(1) [OF TrueI], of d r task] by simp
  with mega show ?case by (intro remaining_set_stage [OF mega(1)]) (simp_all add: pool_same_def)
next
  case (archive n task d ok d')
  then have "pool_same d d'" using state_io_relE [OF same.keeps_stages(2) [OF TrueI], of d r task] by simp
  with archive show ?case by (intro remaining_set_stage [OF archive(1)]) (simp_all add: pool_same_def)
next
  case (finish n task d)
  have "pool_same d (final (done_stage task) d)" by (rule state_io_relE [OF same.keeps_stages(3) [OF TrueI]])
  with finish show ?case by (intro remaining_set_stage [OF finish]) (simp_all add: pool_same_def)
qed (auto intro!: remaining_end remaining_set_stage)

text \<open>As long as there is a goroutine, one of them can go on.\<close>

lemma holders_pos: "g \<in> set gs \<Longrightarrow> g_stage g \<noteq> Acquiring \<Longrightarrow> 0 < holders gs"
  by (auto simp: holders_def filter_empty_conv)

lemma at_stage_nth:
  "n < length (Goroutines d) \<Longrightarrow> at_stage n (g_stage (Goroutines d ! n)) (g_task (Goroutines d ! n)) d"
  by (simp add: at_stage_def)

lemma pool_progress:
  assumes "pool_inv r d" and "Goroutines d \<noteq> []"
  shows "\<exists>d'. pool_step r c d d'"
proof (cases "\<forall>g\<in>set (Goroutines d). g_stage g = Acquiring")
  case True
  then have "holders (Goroutines d) = 0" by (simp add: holders_def)
  then have "decryptSemaphore r d = decryptConcurrency r" using assms(1) by (simp add: pool_inv_def)
  moreover have "0 < decryptConcurrency r" by (simp add: decryptConcurrency_def)
  ultimately obtain k where "decryptSemaphore r d = Suc k" by (metis gr0_implies_Suc)
  moreover have "at_stage 0 Acquiring (g_task (Goroutines d ! 0)) d"
    using at_stage_nth [of 0 d] True assms(2) by simp
  ultimately show ?thesis by (blast intro: pool_step.acquire)
next
  case False
  then obtain n where n: "n < length (Goroutines d)" "g_stage (Goroutines d ! n) \<noteq> Acquiring"
    by (metis in_set_conv_nth)
  let ?t = "g_task (Goroutines d ! n)"
  have at: "at_stage n (g_stage (Goroutines d ! n)) ?t d" using n(1) by (rule at_stage_nth)
  have "0 < holders (Goroutines d)" using n holders_pos nth_mem by metis
  then have room: "decryptSemaphore r d < decryptConcurrency r" using assms(1) by (simp add: pool_inv_def)
  show ?thesis
  proof (cases "g_stage (Goroutines d ! n)")
    case AtMega
    with at show ?thesis using pool_step.mega [of n ?t d r] by (metis surj_pair)
  next
    case AtArchive
    with at show ?thesis using pool_step.archive [of n ?t d r] by (metis surj_pair)
  next
    case AtDone
    with at show ?thesis using pool_step.finish by metis
  next
    case Leaving
    with at show ?thesis using pool_step.unmark by metis
  next
    case Releasing
    with at show ?thesis using pool_step.release [OF _ refl room] by metis
  qed (use n(2) in simp)
qed

text \<open>
  The workers always finish. From any consistent state of the pool the goroutines cannot step
  for ever (so no interleaving starves the pool), some step is possible as long as a goroutine is
  left (no deadlock on the semaphore), and when none is left all workers are free and no job is
  pending.
\<close>

theorem pool_drains:
  assumes "pool_inv r d"
  shows "\<not> (\<exists>f. f 0 = d \<and> (\<forall>n. pool_step r c (f n) (f (Suc n)))) \<and>
    (\<forall>d'. (pool_step r c)\<^sup>*\<^sup>* d d' \<longrightarrow>
       (if Goroutines d' = [] then decryptSemaphore r d' = decryptConcurrency r \<and> DecryptPending d' = {}
        else (\<exists>d''. pool_step r c d' d'')))"
proof
  have "\<not> (\<forall>n. g (Suc n) < g n)" for g :: "nat \<Rightarrow> nat"
    using wf_less_than by (auto simp: wf_iff_no_infinite_down_chain)
  from this [of "\<lambda>n. remaining (f n)" for f] show "\<not> (\<exists>f. f 0 = d \<and> (\<forall>n. pool_step r c (f n) (f (Suc n))))"
    using pool_step_remaining by blast
  show "\<forall>d'. (pool_step r c)\<^sup>*\<^sup>* d d' \<longrightarrow>
       (if Goroutines d' = [] then decryptSemaphore r d' = decryptConcurrency r \<and> DecryptPending d' = {}
        else (\<exists>d''. pool_step r c d' d''))"
  proof (intro allI impI)
    fix d'
    assume "(pool_step r c)\<^sup>*\<^sup>* d d'"
    then have "pool_inv r d'" by (induction rule: rtranclp_induct) (use assms pool_inv_step in blast)+
    then show "if Goroutines d' = [] then decryptSemaphore r d' = decryptConcurrency r \<and> DecryptPending d' = {}
        else (\<exists>d''. pool_step r c d' d'')"
      using pool_progress by (auto simp: pool_inv_def)
  qed
qed

definition sample_task :: "int \<Rightarrow> decryptTask" where
  "sample_task i = \<lparr>t_jobID = i, t_megaPath = ''/data/f.zip'', t_archivePath = ''/data/f.zip'',
     t_outDir = ''/data'', t_password = ''pw'', t_rawURL = ''https://x.org/f.zip'', t_site = '''',
     t_decryptMega = False, t_decryptArch = True\<rparr>"

theorem pool_drains_witness:
  "\<not> (\<exists>f. f 0 = (sample_daemon [])\<lparr>DecryptPending := {1, 2}, DecryptSem := Some 0,
      Goroutines := [\<lparr>g_task = sample_task 1, g_stage = Acquiring\<rparr>, \<lparr>g_task = sample_task 2, g_stage = AtMega\<rparr>]\<rparr> \<and>
    (\<forall>n. pool_step (sample_runner 1) False (f n) (f (Suc n))))"
proof -
  have "pool_inv (sample_runner 1) ((sample_daemon [])\<lparr>DecryptPending := {1, 2}, DecryptSem := Some 0,
      Goroutines := [\<lparr>g_task = sample_task 1, g_stage = Acquiring\<rparr>, \<lparr>g_task = sample_task 2, g_stage = AtMega\<rparr>]\<rparr>)"
    by (simp add: pool_inv_def sample_task_def decryptSemaphore_def decryptConcurrency_def sample_runner_def)
  from pool_drains [OF this] show ?thesis by blast
qed

section \<open>The outcome of post-processing\<close>

lemma ends_stages:
  assumes "\<And>c. c \<in> {''mega_decrypt_failed'', ''archive_decrypt_failed''} \<Longrightarrow>
      (\<And>t t' m. Q False (row_ClearArchivePassword t (row_MarkPostprocessFailed m c t' j)))"
    and "Q True j"
  shows "ends (t_jobID task) j (mega_stage r task) Q" and "ends (t_jobID task) j (archive_stage r task) Q"
  unfolding mega_stage_def archive_stage_def
  by (intro ends_control ends_store assms;
      simp add: assms TrimSpace_eq_Nil_iff is_space_def)+

definition processed :: "job \<Rightarrow> bool" where
  "processed k \<longleftrightarrow> ArchivePassword k = None \<and> CompletedAt k \<noteq> None \<and>
     (Status k = StatusCompleted \<and> ErrorCode k = None \<or>
      Status k = StatusDecryptFail \<and>
        ErrorCode k \<in> {Some ''mega_decrypt_failed'', Some ''archive_decrypt_failed''})"

lemma ends_done_stage:
  "(\<And>t t'. Q () (row_ClearArchivePassword t (row_MarkCompleted t' j))) \<Longrightarrow>
   ends (t_jobID task) j (done_stage task) Q"
  unfolding done_stage_def by (intro ends_control ends_store)




end
