(* ===== verification/Daemon_System.thy ===== *)
theory Daemon_System
  imports Decrypt_Pool
begin

text \<open>
  The daemon as a whole: the ticks of the runner, the goroutines of the post-processing and the
  handlers of the API take turns on one database, and the world outside moves in between. The
  step relation \<open>sys_step\<close> has one rule per kind of turn; \<open>reachable\<close> are the states that come from
  empty tables. A statement that only reads is a step too (\<open>query\<close>). A tick and an operation of the
  API are one step each; what can happen when they overlap is the subject of single theorems (for
  one, \<open>stale_start_overwrites\<close> of theory Runner_Laws). The invariants of the store, of the pool and
  of the output directories are proved for all reachable states, under any pattern of database
  failures and any answers from outside.
\<close>

section \<open>Steps and reachable states\<close>

inductive sys_step :: "'e runner \<Rightarrow> 'e service \<Rightarrow> ('e, 'z) daemon_scheme \<Rightarrow> ('e, 'z) daemon_scheme \<Rightarrow> bool"
  for r :: "'e runner" and sv :: "'e service" where
  ticks: "sys_step r sv d (final (tick r) d)"
| worker: "pool_step r c d d' \<Longrightarrow> sys_step r sv d d'"
| create: "sys_step r sv d (final (CreateJob sv url outDir name site pw n) d)"
| retry: "sys_step r sv d (final (Retry sv i) d)"
| remove: "sys_step r sv d (final (Remove sv i) d)"
| pause: "sys_step r sv d (final (Pause sv i) d)"
| resume: "sys_step r sv d (final (Resume sv i) d)"
| clear: "sys_step r sv d (final Clear d)"
| purge: "sys_step r sv d (final Purge d)"
| outside: "sys_step r sv d (d\<lparr>Ext := e\<rparr>)"
| query: "sys_step r sv d (tick_step d)"

definition initial :: "('e, 'z) daemon_scheme \<Rightarrow> bool" where
  "initial d \<longleftrightarrow> Jobs d = [] \<and> Events d = [] \<and> JobSeq d = 0 \<and> EventSeq d = 0 \<and>
     DecryptPending d = {} \<and> DecryptSem d = None \<and> Goroutines d = []"

inductive reachable :: "'e runner \<Rightarrow> 'e service \<Rightarrow> ('e, 'z) daemon_scheme \<Rightarrow> bool"
  for r :: "'e runner" and sv :: "'e service" where
  init: "initial d \<Longrightarrow> reachable r sv d"
| step: "reachable r sv d \<Longrightarrow> sys_step r sv d d' \<Longrightarrow> reachable r sv d'"

section \<open>The database\<close>

lemma wf_AddEvent: "wf_db s \<Longrightarrow> wf_db (final (AddEvent i l m) s)"
  using state_io_relE [OF wf.work.keeps_AddEvent [OF TrueI], of s] by blast

lemma wf_CreateJob:
  assumes "wf_db d"
  shows "wf_db (final (CreateJob sv url outDir name site pw n) d)"
proof (cases "cleanOutDir outDir (sv_allowedRoots sv)")
  case (Inr dir)
  show ?thesis
  proof (cases "cleanUserFilename name")
    case nm: (Inr nm)
    have "wf_db (tick_step d)" using assms by (simp add: wf_db_def)
    then show ?thesis
      by (simp add: CreateJob_cases [OF Inr nm] wf_insert_job wf_AddEvent split: option.split)
  qed (use assms Inr in \<open>simp add: CreateJob_def Let_def\<close>)
qed (use assms in \<open>simp add: CreateJob_def Let_def\<close>)

lemma pool_step_wf:
  assumes "pool_step r c d d'" and "wf_db d"
  shows "wf_db d'"
  using assms
proof (induction rule: pool_step.induct)
  case (mega n task d ok d')
  then have "wf_db d'"
    using state_io_relE [OF wfd.worker.keeps_stages(1) [OF TrueI], of d r task] by simp
  then show ?case by (simp add: set_stage_def wf_db_def)
next
  case (archive n task d ok d')
  then have "wf_db d'"
    using state_io_relE [OF wfd.worker.keeps_stages(2) [OF TrueI], of d r task] by simp
  then show ?case by (simp add: set_stage_def wf_db_def)
next
  case (finish n task d)
  then have "wf_db (final (done_stage task) d)"
    using state_io_relE [OF wfd.worker.keeps_stages(3) [OF TrueI], of d task] by simp
  then show ?case by (simp add: set_stage_def wf_db_def)
qed (simp_all add: set_stage_def end_goroutine_def unmarkDecryptPending_def wf_db_def)

lemma sys_step_wf: "sys_step r sv d d' \<Longrightarrow> wf_db d \<Longrightarrow> wf_db d'"
proof (induction rule: sys_step.induct)
  case (ticks d)
  then show ?case using state_io_relE [OF wfd.keeps_tick [of r], of d] by simp
next
  case (purge d)
  then show ?case by (simp add: Purge_def wf_ClearAll)
next
  case (outside d e)
  then show ?case by (simp add: wf_db_def)
next
  case (query d)
  then show ?case by (simp add: wf_db_def)
qed (auto intro: pool_step_wf wf_CreateJob state_io_relE [OF wfq.keeps_Retry, rule_format]
    state_io_relE [OF wfq.keeps_Remove, rule_format] state_io_relE [OF wfq.keeps_Pause, rule_format]
    state_io_relE [OF wfq.keeps_Resume, rule_format] state_io_relE [OF wfq.keeps_Clear, rule_format])

section \<open>The pool\<close>

lemma pool_same_store_CreateJob: "state_io_rel pool_same (store_CreateJob j)"
  by (rule state_io_rel_final)
    (simp add: run_store_CreateJob pool_same_def insert_job_def tick_step_def split: option.split)

lemma pool_same_CreateJob: "pool_same d (final (CreateJob sv url outDir name site pw n) d)"
  unfolding CreateJob_def
  by (rule state_io_relE)
    (intro same.keeps_control same.keeps_AddEvent TrueI pool_same_store_CreateJob)

lemma pool_same_ClearAll: "pool_same d (final ClearAll d)"
  by (auto simp: ClearAll_def run_sql_exec pool_same_def tick_step_def split: option.split)

lemma sys_step_pool: "sys_step r sv d d' \<Longrightarrow> pool_inv r d \<Longrightarrow> pool_inv r d'"
proof (induction rule: sys_step.induct)
  case (ticks d)
  then show ?case using state_io_relE [OF pool.keeps_tick [of r r], of d] by simp
next
  case (create d url outDir name site pw n)
  then show ?case using pool_same_inv [OF pool_same_CreateJob] by blast
next
  case (purge d)
  then show ?case unfolding Purge_def using pool_same_inv [OF pool_same_ClearAll] by blast
next
  case (outside d e)
  then show ?case by (simp add: pool_inv_frame)
next
  case (query d)
  then show ?case by (simp add: pool_inv_frame)
qed (auto intro: pool_inv_step state_io_relE [OF pool.keeps_Retry, rule_format]
    state_io_relE [OF pool.keeps_Remove, rule_format] state_io_relE [OF pool.keeps_Pause, rule_format]
    state_io_relE [OF pool.keeps_Resume, rule_format] state_io_relE [OF pool.keeps_Clear, rule_format])

section \<open>Output directories\<close>

definition outdirs_allowed :: "string list \<Rightarrow> 'z db_scheme \<Rightarrow> bool" where
  "outdirs_allowed roots s \<longleftrightarrow>
     (\<forall>j\<in>set (Jobs s). list_all proper_elem (elems (OutDir j)) \<and> (\<exists>root\<in>set roots. inside root (OutDir j)))"

lemma outdirs_allowed_rows:
  assumes "list_all2 static_same (Jobs s) (Jobs s')" and "outdirs_allowed roots s"
  shows "outdirs_allowed roots s'"
  using static.rows_rel_in [OF assms(1)] assms(2)
  by (fastforce simp: outdirs_allowed_def static_same_def)

lemma outdirs_allowed_CreateJob:
  assumes "outdirs_allowed (sv_allowedRoots sv) d"
  shows "outdirs_allowed (sv_allowedRoots sv) (final (CreateJob sv url outDir name site pw n) d)"
proof (cases "cleanOutDir outDir (sv_allowedRoots sv)")
  case (Inr dir)
  then have dir: "list_all proper_elem (elems dir)" "\<exists>root\<in>set (sv_allowedRoots sv). inside root dir"
    using cleanOutDir_no_traversal(1) by (auto simp: cleanOutDir_Inr_iff)
  show ?thesis
  proof (cases "cleanUserFilename name")
    case nm: (Inr nm)
    show ?thesis
      using assms dir
      by (auto simp: CreateJob_cases [OF Inr nm] keeps_rows_AddEvent outdirs_allowed_def new_row_def
          job_to_create_def split: option.split)
  qed (use assms Inr in \<open>simp add: CreateJob_def Let_def\<close>)
qed (use assms in \<open>simp add: CreateJob_def Let_def\<close>)

lemma Jobs_pool [simp]:
  "Jobs (set_stage n st d) = Jobs d" "Jobs (end_goroutine n d) = Jobs d"
  "Jobs (final (unmarkDecryptPending i) d) = Jobs d"
  by (simp_all add: set_stage_def end_goroutine_def unmarkDecryptPending_def)

lemma pool_step_static: "pool_step r c d d' \<Longrightarrow> list_all2 static_same (Jobs d) (Jobs d')"
proof (induction rule: pool_step.induct)
  case (mega n task d ok d')
  then show ?case
    using state_io_relE [OF static.daemon.worker.keeps_stages(1) [OF TrueI], of d r task] by simp
next
  case (archive n task d ok d')
  then show ?case
    using state_io_relE [OF static.daemon.worker.keeps_stages(2) [OF TrueI], of d r task] by simp
next
  case (finish n task d)
  then show ?case
    using state_io_relE [OF static.daemon.worker.keeps_stages(3) [OF TrueI], of d task] by simp
qed (simp_all add: list_all2_same static.row_refl)

lemma sys_step_outdirs:
  assumes "sys_step r sv d d'" and "outdirs_allowed (sv_allowedRoots sv) d"
  shows "outdirs_allowed (sv_allowedRoots sv) d'"
  using assms
proof (cases rule: sys_step.cases)
  case (create url outDir name site pw n)
  with assms(2) show ?thesis by (simp add: outdirs_allowed_CreateJob)
next
  case purge
  with assms(2) show ?thesis
    by (auto simp: Purge_def ClearAll_def run_sql_exec outdirs_allowed_def split: option.split)
next
  case ticks
  with assms(2) show ?thesis
    using outdirs_allowed_rows [OF state_io_relE [OF static.daemon.keeps_tick]] by blast
next
  case (outside e)
  with assms(2) show ?thesis by (simp add: outdirs_allowed_def)
next
  case query
  with assms(2) show ?thesis by (simp add: outdirs_allowed_def)
qed (auto intro: outdirs_allowed_rows [OF pool_step_static]
    outdirs_allowed_rows [OF state_io_relE [OF static.queue.keeps_Retry]]
    outdirs_allowed_rows [OF state_io_relE [OF static.queue.keeps_Remove]]
    outdirs_allowed_rows [OF state_io_relE [OF static.queue.keeps_Pause]]
    outdirs_allowed_rows [OF state_io_relE [OF static.queue.keeps_Resume]]
    outdirs_allowed_rows [OF state_io_relE [OF static.queue.keeps_Clear]])

section \<open>All reachable states\<close>

text \<open>
  C2. The tables stay consistent in every reachable state of the daemon: identifiers are positive,
  increasing and below the counters, every event belongs to a job, a failed job has a cause, a
  resolving job a start time, a deleted job a deletion time. This holds for every interleaving of
  the runner, the workers and the API, and for every pattern of database failures.
\<close>

theorem reachable_wf:
  assumes "reachable r sv d"
  shows "wf_db d"
  using assms
proof (induction rule: reachable.induct)
  case (init d)
  then show ?case by (simp add: initial_def wf_db_def)
qed (rule sys_step_wf)

text \<open>
  C1. No job ever writes outside the configured volumes: in every reachable state the output
  directory of every job is a clean path inside one of the allowed roots.
\<close>

theorem reachable_outdirs_allowed:
  assumes "reachable r sv d"
  shows "outdirs_allowed (sv_allowedRoots sv) d"
  using assms
proof (induction rule: reachable.induct)
  case (init d)
  then show ?case by (simp add: initial_def outdirs_allowed_def)
qed (rule sys_step_outdirs)

lemma reachable_pool: "reachable r sv d \<Longrightarrow> pool_inv r d"
proof (induction rule: reachable.induct)
  case (init d)
  then show ?case by (simp add: initial_def pool_inv_def decryptSemaphore_def)
qed (rule sys_step_pool)

text \<open>
  C6. Post-processing is bounded and exclusive: in every reachable state at most the configured
  number of goroutines hold a worker, the goroutines that have not finished with their job work on
  different jobs, and these jobs are exactly the pending ones.
\<close>

theorem reachable_workers:
  assumes "reachable r sv d"
  shows "holders (Goroutines d) \<le> decryptConcurrency r \<and> distinct (live_ids (Goroutines d)) \<and>
    set (live_ids (Goroutines d)) = DecryptPending d"
  using reachable_pool [OF assms] by (auto simp: pool_inv_def)

text \<open>
  C9. The post-processing always finishes: from every reachable state of the daemon, the goroutines
  cannot step for ever among themselves, some step is possible as long as one of them is left (no
  deadlock on the semaphore, in whatever order they come), and when none is left all workers are free
  and no job is pending.
\<close>

theorem reachable_drains:
  assumes "reachable r sv d"
  shows "\<not> (\<exists>f. f 0 = d \<and> (\<forall>n. pool_step r c (f n) (f (Suc n)))) \<and>
    (\<forall>d'. (pool_step r c)\<^sup>*\<^sup>* d d' \<longrightarrow>
       (if Goroutines d' = [] then decryptSemaphore r d' = decryptConcurrency r \<and> DecryptPending d' = {}
        else (\<exists>d''. pool_step r c d' d'')))"
  by (rule pool_drains [OF reachable_pool [OF assms]])

definition sample_history :: "unit daemon" where
  "sample_history = final (tick (sample_runner 1))
     (final (CreateJob sample_service ''https://x.org/f.zip'' ''/data/tv'' '''' '''' '''' 0) (sample_daemon []))"

lemma sample_history_reachable: "reachable (sample_runner 1) sample_service sample_history"
proof -
  have "initial (sample_daemon [])" by (simp add: initial_def sample_daemon_def)
  then show ?thesis
    unfolding sample_history_def
    by (intro reachable.step [OF _ sys_step.ticks] reachable.step [OF _ sys_step.create] reachable.init)
qed

theorem reachable_wf_witness: "wf_db sample_history"
  by (rule reachable_wf [OF sample_history_reachable])

theorem reachable_outdirs_allowed_witness:
  "outdirs_allowed [''/data''] sample_history \<and> map Status (Jobs sample_history) = [StatusDownloading]"
proof
  show "outdirs_allowed [''/data''] sample_history"
    using reachable_outdirs_allowed [OF sample_history_reachable] by (simp add: sample_service_def)
  show "map Status (Jobs sample_history) = [StatusDownloading]" by code_simp
qed

theorem reachable_workers_witness: "holders (Goroutines sample_history) \<le> decryptConcurrency (sample_runner 1)"
  using reachable_workers [OF sample_history_reachable] by simp

theorem reachable_drains_witness:
  "\<not> (\<exists>f. f 0 = sample_history \<and> (\<forall>n. pool_step (sample_runner 1) True (f n) (f (Suc n)))) \<and>
   Goroutines sample_history = [] \<and> decryptSemaphore (sample_runner 1) sample_history = 1"
proof -
  have none: "Goroutines sample_history = []" "decryptConcurrency (sample_runner 1) = 1" by code_simp+
  with reachable_drains [OF sample_history_reachable] show ?thesis by (metis rtranclp.rtrancl_refl)
qed

end
