(* ===== verification/Api_Laws.thy ===== *)
theory Api_Laws
  imports Api Daemon_System
begin

text \<open>
  Properties of the HTTP API and how it composes with the rest of the daemon: every request is a
  sequence of steps of the system of theory Daemon_System, so that what holds of all reachable
  states holds with the API in front; requests that are not POST only read; the two checks of
  directories, in the API and in the queue, agree; and errors become the status codes that the
  handlers promise.
\<close>

section \<open>Requests are steps of the system\<close>

interpretation system: effect_contract "(sys_step r sv)\<^sup>*\<^sup>*" for r sv
  by unfold_locales auto

lemma system_step: "sys_step r sv d d' \<Longrightarrow> (sys_step r sv)\<^sup>*\<^sup>* d d'"
  by (rule r_into_rtranclp)

lemma system_query: "state_io_rel (sys_step r sv)\<^sup>*\<^sup>* (sql_query q)"
  by (rule state_io_rel_final) (auto simp: run_sql_query intro: system_step sys_step.query split: option.split)

lemma system_on_ext: "state_io_rel (sys_step r sv)\<^sup>*\<^sup>* (on_ext m)"
  by (rule state_io_rel_final) (simp add: run_on_ext system_step sys_step.outside)

lemma system_reads:
  "state_io_rel (sys_step r sv)\<^sup>*\<^sup>* (GetJob i)" "state_io_rel (sys_step r sv)\<^sup>*\<^sup>* (ListJobs st d)"
  "state_io_rel (sys_step r sv)\<^sup>*\<^sup>* (ListEvents i n)" "state_io_rel (sys_step r sv)\<^sup>*\<^sup>* get_settings"
  unfolding GetJob_def ListJobs_def ListEvents_def get_settings_def store_GetJob_def store_ListJobs_def store_ListEvents_def
  by (intro system.keeps_control system_query)+

lemma system_ops:
  "state_io_rel (sys_step r sv)\<^sup>*\<^sup>* (CreateJob sv u out nm site pw n)"
  "state_io_rel (sys_step r sv)\<^sup>*\<^sup>* (Retry sv i)" "state_io_rel (sys_step r sv)\<^sup>*\<^sup>* (Remove sv i)"
  "state_io_rel (sys_step r sv)\<^sup>*\<^sup>* (Pause sv i)" "state_io_rel (sys_step r sv)\<^sup>*\<^sup>* (Resume sv i)"
  "state_io_rel (sys_step r sv)\<^sup>*\<^sup>* Clear" "state_io_rel (sys_step r sv)\<^sup>*\<^sup>* Purge"
  by (rule state_io_rel_final, rule system_step, rule sys_step.intros)+

lemmas system_keeps = system.keeps_control system_on_ext system_reads system_ops

lemma system_with_body:
  "(\<And>x. state_io_rel (sys_step r sv)\<^sup>*\<^sup>* (k x)) \<Longrightarrow> state_io_rel (sys_step r sv)\<^sup>*\<^sup>* (with_body sr rq decode k)"
  unfolding with_body_def by (auto split: req_body.split option.split intro: system.keeps_return)

lemma system_handlers:
  fixes sr :: "'e server"
  shows "state_io_rel (sys_step r (sr_Queue sr))\<^sup>*\<^sup>* (handleMeta sr rq)"
    "state_io_rel (sys_step r (sr_Queue sr))\<^sup>*\<^sup>* (handleJobs sr rq)"
    "state_io_rel (sys_step r (sr_Queue sr))\<^sup>*\<^sup>* (handleJob sr rq)"
    "state_io_rel (sys_step r (sr_Queue sr))\<^sup>*\<^sup>* (handleJobsClear rq)"
    "state_io_rel (sys_step r (sr_Queue sr))\<^sup>*\<^sup>* (handleJobsPurge rq)"
    "state_io_rel (sys_step r (sr_Queue sr))\<^sup>*\<^sup>* (handleSettings sr rq)"
    "state_io_rel (sys_step r (sr_Queue sr))\<^sup>*\<^sup>* (handleBrowse sr rq)"
    "state_io_rel (sys_step r (sr_Queue sr))\<^sup>*\<^sup>* (handleBrowseMkdir sr rq)"
  unfolding handleMeta_def handleJobs_def add_job_def handleJob_def job_action_def job_events_def handleJobsClear_def
    handleJobsPurge_def clear_action_def handleSettings_def update_settings_def handleBrowse_def handleBrowseMkdir_def mkdir_def
  by (intro system_keeps system_with_body)+

text \<open>
  C3. The API refines the system: whatever request comes in, what its handler does is a sequence of
  the steps of the abstract system (operations of the queue, reading statements, changes outside),
  for every runner that works beside it. So every property of all reachable states of the daemon
  holds for the daemon with its HTTP API, settings and directory browser included.
\<close>

theorem Handler_refines_system:
  "(sys_step r (sr_Queue sr))\<^sup>*\<^sup>* d (final (Handler sr rq) d)"
  unfolding Handler_def by (rule state_io_relE) (intro system.keeps_control system_handlers)

lemma reachable_steps: "(sys_step r sv)\<^sup>*\<^sup>* d d' \<Longrightarrow> reachable r sv d \<Longrightarrow> reachable r sv d'"
  by (induction rule: rtranclp_induct) (auto intro: reachable.step)

section \<open>Reading requests\<close>

definition tables_same :: "'z db_scheme \<Rightarrow> 'z db_scheme \<Rightarrow> bool" where
  "tables_same s s' \<longleftrightarrow> Jobs s' = Jobs s \<and> Events s' = Events s \<and> JobSeq s' = JobSeq s \<and> EventSeq s' = EventSeq s"

interpretation reading: work_contract tables_same "\<lambda>_. False"
  by unfold_locales (auto simp: tables_same_def tick_step_def)

interpretation reading_ext: ext_contract tables_same
  by unfold_locales (auto simp: tables_same_def)

lemma reading_views:
  "state_io_rel tables_same (GetJob i)" "state_io_rel tables_same (ListJobs st d)"
  "state_io_rel tables_same (ListEvents i n)" "state_io_rel tables_same get_settings"
  unfolding GetJob_def ListJobs_def ListEvents_def get_settings_def store_ListEvents_def
  by (intro reading.keeps_control reading.keeps_reads reading.keeps_sql_query)+

text \<open>
  Only POST changes jobs: a request with any other method, on any path and with any body, leaves
  the job and event tables as they are.
\<close>

theorem Handler_reads:
  assumes "rq_Method rq \<noteq> ''POST''"
  shows "tables_same w (final (Handler sr rq) w)"
proof -
  have "state_io_rel tables_same (Handler sr rq)"
    unfolding Handler_def handleMeta_def handleJobs_def handleJob_def job_action_def job_events_def handleJobsClear_def
      handleJobsPurge_def clear_action_def handleSettings_def handleBrowse_def handleBrowseMkdir_def
    by (intro reading.keeps_control reading_views reading_ext.keeps_on_ext) (use assms in simp_all)
  then show ?thesis by (rule state_io_relE)
qed

text \<open>A server on the sample service, for trying the properties: one preset, default settings.\<close>

definition sample_server :: "unit server" where
  "sample_server = \<lparr>sr_Queue = \<lparr>sv_downloader = None, sv_allowedRoots = [''/data'']\<rparr>,
     sr_Meta = Some \<lparr>OutDirPresets = [''/data''], Version = ''dev''\<rparr>,
     sr_dirs = \<lparr>d_Stat = \<lambda>_. return (Inr True), d_ReadDir = \<lambda>_. return (Inr []), d_MkdirAll = \<lambda>_. return None\<rparr>,
     sr_type_error = \<lambda>_. ErrNew ''type''\<rparr>"

definition sample_request :: "string \<Rightarrow> string \<Rightarrow> json \<Rightarrow> request" where
  "sample_request method path body = \<lparr>rq_Method = method, rq_URL = empty_url\<lparr>Path := path\<rparr>, rq_Body = Value body\<rparr>"

definition api_world :: "job list \<Rightarrow> unit api_ext world" where
  "api_world js = \<lparr>Jobs = js, Events = [], JobSeq = int (length js), EventSeq = 0, Step = 0,
     ClockAt = (\<lambda>_. 100), FaultAt = (\<lambda>_. None),
     Ext = \<lparr>ae_Settings = Some (default_settings ''/s''), ae_Files = settings_fs '''' (\<lambda>_. None), ae_Rest = ()\<rparr>\<rparr>"

theorem Handler_reads_witness:
  "tables_same (api_world [sample_job 1]) (final (Handler sample_server (sample_request ''DELETE'' ''/jobs/1'' JNull)) (api_world [sample_job 1]))"
  by (rule Handler_reads) (simp add: sample_request_def)

section \<open>Directories\<close>

lemma split_join_append:
  assumes "bs \<noteq> []" and "\<And>x. x \<in> set bs \<Longrightarrow> c \<notin> set x"
  shows "split_on c (join_with c bs @ c # r) = bs @ split_on c r"
proof -
  have "join_with c bs @ c # r = join_with c (bs @ split_on c r)"
    using assms(1) by (simp add: join_with_append)
  moreover have "c \<notin> set x" if "x \<in> set (bs @ split_on c r)" for x
    using that assms(2) split_on_no_sep [of x c r] by auto
  ultimately show ?thesis using split_on_join_with [of "bs @ split_on c r" c] assms(1) by simp
qed

lemma abs_path_below:
  assumes "list_all proper_elem ts" and "list_all proper_elem bs" and "bs \<noteq> []"
  shows "abs_path ts = abs_path bs \<or> HasPrefix (abs_path ts) (abs_path bs @ ''/'') \<longleftrightarrow> prefix bs ts"
proof
  assume "abs_path ts = abs_path bs \<or> HasPrefix (abs_path ts) (abs_path bs @ ''/'')"
  then show "prefix bs ts"
  proof
    assume "HasPrefix (abs_path ts) (abs_path bs @ ''/'')"
    then obtain r where r: "join_with CHR ''/'' ts = join_with CHR ''/'' bs @ CHR ''/'' # r"
      by (auto simp: HasPrefix_def prefix_def abs_path_def)
    have "\<And>x. x \<in> set bs \<Longrightarrow> CHR ''/'' \<notin> set x" "\<And>x. x \<in> set ts \<Longrightarrow> CHR ''/'' \<notin> set x"
      using assms(1,2) by (auto simp: list_all_iff proper_elem_def)
    moreover have "ts \<noteq> []" using r by auto
    ultimately have "ts = bs @ split_on CHR ''/'' r"
      using r split_join_append [OF assms(3), of "CHR ''/''" r] split_on_join_with [of ts "CHR ''/''"] by simp
    then show ?thesis by simp
  qed (use assms(1,2) abs_path_eq_iff in auto)
next
  assume "prefix bs ts"
  then obtain r where "ts = bs @ r" by (auto simp: prefix_def)
  then show "abs_path ts = abs_path bs \<or> HasPrefix (abs_path ts) (abs_path bs @ ''/'')"
    using assms(3) by (cases "r = []") (auto simp: abs_path_def HasPrefix_def join_with_append)
qed

text \<open>
  C22. The two checks of directories agree: a path that the directory browser of the API lets through
  is one that the queue accepts as output directory, and the other way round, for absolute paths and
  presets that are absolute directories other than the root of the file system. So a directory the
  user has browsed to or made can be used, and no other directory is shown or made.
\<close>

theorem isAllowedPath_cleanOutDir:
  assumes "IsAbs path" and "\<forall>root\<in>set (presets sr). IsAbs root \<and> Clean root \<noteq> ''/''"
  shows "isAllowedPath sr path \<longleftrightarrow> (\<exists>c. cleanOutDir path (presets sr) = Inr c)"
proof -
  obtain ts where ts: "Clean path = abs_path ts" "list_all proper_elem ts" using Clean_abs_obtain [OF assms(1)] .
  have "Clean path = Clean root \<or> HasPrefix (Clean path) (Clean root @ ''/'') \<longleftrightarrow> inside root (Clean path)"
    if root: "root \<in> set (presets sr)" for root
  proof -
    have abs: "IsAbs root" "Clean root \<noteq> ''/''" using assms(2) root by auto
    obtain bs where bs: "Clean root = abs_path bs" "list_all proper_elem bs" using Clean_abs_obtain [OF abs(1)] .
    have "bs \<noteq> []" using abs(2) bs(1) by (auto simp: abs_path_def)
    with bs ts abs(1) show ?thesis by (simp add: abs_path_below inside_def elems_abs_path)
  qed
  then show ?thesis using assms(1) by (auto simp: isAllowedPath_def Let_def list_ex_iff cleanOutDir_Inr_iff)
qed

theorem isAllowedPath_cleanOutDir_witness:
  "isAllowedPath sample_server ''/data/tv/../films'' \<and> cleanOutDir ''/data/tv/../films'' [''/data''] = Inr ''/data/films''"
proof -
  have "IsAbs ''/data/tv/../films''" "IsAbs ''/data''" "Clean ''/data'' \<noteq> ''/''"
      "cleanOutDir ''/data/tv/../films'' [''/data''] = Inr ''/data/films''" by code_simp+
  moreover have "presets sample_server = [''/data'']" by (simp add: presets_def sample_server_def)
  ultimately show ?thesis using isAllowedPath_cleanOutDir [of "''/data/tv/../films''" sample_server] by auto
qed

text \<open>With the root of the file system as a preset the checks differ: the queue accepts every absolute
  directory, the browser only the root itself.\<close>

lemma isAllowedPath_root_differs:
  "\<not> isAllowedPath (sample_server\<lparr>sr_Meta := Some \<lparr>OutDirPresets = [''/''], Version = ''''\<rparr>\<rparr>) ''/data'' \<and>
   cleanOutDir ''/data'' [''/''] = Inr ''/data''"
  by code_simp

text \<open>
  Directories are made inside the presets only: a request to make a directory either leaves
  everything outside the database as it was, or names a path that passes \<open>isAllowedPath\<close> and does
  just what making that directory does.
\<close>

theorem mkdir_contained:
  "Ext (final (handleBrowseMkdir sr rq) w) = Ext w \<or>
   (\<exists>j path. rq_Body rq = Value j \<and> decode_mkdir j = Some path \<and> isAllowedPath sr path \<and>
      Ext (final (handleBrowseMkdir sr rq) w) = final (d_MkdirAll (sr_dirs sr) path) (Ext w))"
  by (auto simp: handleBrowseMkdir_def with_body_def mkdir_def run_on_ext final_bind
      simp del: run_state_bind split: req_body.split option.split)

section \<open>Status codes\<close>

lemma path_error_status:
  "cleanOutDir d roots = Inl e \<Longrightarrow> statusForQueueErr e = 400"
  "cleanUserFilename n = Inl e \<Longrightarrow> statusForQueueErr e = 400"
  by (auto simp: cleanOutDir_def cleanUserFilename_def Let_def statusForQueueErr_def errMissingOutDir_def errNoVolumes_def
      errNotAbsolute_def errNotAllowed_def errNameSeparators_def errInvalidName_def split: if_splits)

text \<open>What a created job has for its limit of attempts: that of the request, of the settings, or 5.\<close>

definition attempts_of :: "addJobRequest \<Rightarrow> settings option \<Rightarrow> int" where
  "attempts_of req st =
     (if aj_MaxAttempts req > 0 then aj_MaxAttempts req
      else case st of Some s \<Rightarrow> if st_MaxAttempts s > 0 then st_MaxAttempts s else 5 | None \<Rightarrow> 5)"

text \<open>
  Adding a job by HTTP: on a database that works, a request with a URL, an output directory inside
  the configured volumes and an acceptable name is answered with 200 and the identifier of a new job
  with just these data, whose limit of attempts is that of the request or else of the settings. Every
  other request is answered with 400 and changes nothing in the tables.
\<close>

theorem add_job_outcome:
  assumes "wf_db w" and "quiet w"
    and "rq_Method rq = ''POST''" and "rq_Body rq = Value j" and "decode_add j = Some req"
  shows "if aj_URL req \<noteq> '''' \<and> (\<exists>c. cleanOutDir (aj_OutDir req) (sv_allowedRoots (sr_Queue sr)) = Inr c) \<and>
        (\<exists>c. cleanUserFilename (aj_Name req) = Inr c)
    then result (handleJobs sr rq) w = \<lparr>rs_code = 200, rs_body = PId (JobSeq w + 1)\<rparr> \<and>
      lookup_job (JobSeq w + 1) w = None \<and>
      (\<exists>k. lookup_job (JobSeq w + 1) (final (handleJobs sr rq) w) = Some k \<and> URL k = aj_URL req \<and>
        OutDir k = Clean (aj_OutDir req) \<and> Name k = aj_Name req \<and> Site k = aj_Site req \<and> Status k = StatusQueued \<and>
        MaxAttempts k = attempts_of req (ae_Settings (Ext w)))
    else rs_code (result (handleJobs sr rq) w) = 400 \<and> tables_same w (final (handleJobs sr rq) w)"
proof -
  let ?n = "effective_attempts req (ae_Settings (Ext w))"
  let ?C = "CreateJob (sr_Queue sr) (aj_URL req) (aj_OutDir req) (aj_Name req) (aj_Site req) (aj_ArchivePassword req) ?n"
  have run: "run_state (handleJobs sr rq) w =
      (if aj_URL req = '''' \<or> aj_OutDir req = '''' then (writeErr 400 (ErrNew ''missing url or out_dir''), w)
       else (case result ?C w of Inl e \<Rightarrow> writeQueueErr e | Inr i \<Rightarrow> writeJSON 200 (PId i), final ?C w))"
    using assms(3-5)
    by (simp add: handleJobs_def with_body_def add_job_def get_settings_def run_state_bind_beta del: run_state_bind)
  show ?thesis
  proof (cases "aj_URL req \<noteq> '''' \<and> (\<exists>c. cleanOutDir (aj_OutDir req) (sv_allowedRoots (sr_Queue sr)) = Inr c) \<and>
        (\<exists>c. cleanUserFilename (aj_Name req) = Inr c)")
    case True
    then obtain dir where ok: "cleanOutDir (aj_OutDir req) (sv_allowedRoots (sr_Queue sr)) = Inr dir"
        "cleanUserFilename (aj_Name req) = Inr (aj_Name req)" using cleanUserFilename_same by metis
    let ?j = "job_to_create (aj_URL req) dir (aj_Name req) (aj_Site req) (TrimSpace (aj_ArchivePassword req)) (if ?n \<le> 0 then 5 else ?n)"
    have "aj_OutDir req \<noteq> ''''" using ok(1) by (auto simp: cleanOutDir_def)
    moreover have "FaultAt w (Step w) = None" using assms(2) by (simp add: quiet_def)
    ultimately have "result (handleJobs sr rq) w = \<lparr>rs_code = 200, rs_body = PId (JobSeq w + 1)\<rparr>"
        "Jobs (final (handleJobs sr rq) w) = Jobs (insert_job ?j (ClockAt w (Step w)) (tick_step w))"
      using run True by (simp_all add: CreateJob_cases [OF ok] writeJSON_def keeps_rows_AddEvent)
    moreover have none: "lookup_job (JobSeq w + 1) w = None" using wf_db_new_id [OF assms(1)] .
    ultimately have "lookup_job (JobSeq w + 1) (final (handleJobs sr rq) w) = Some (new_row (JobSeq w + 1) ?j (ClockAt w (Step w)))"
      using lookup_job_cong [of "final (handleJobs sr rq) w" "insert_job ?j (ClockAt w (Step w)) (tick_step w)"]
      by (simp add: lookup_insert_job)
    moreover have "dir = Clean (aj_OutDir req)" using ok(1) by (simp add: cleanOutDir_Inr_iff)
    moreover have "(if ?n \<le> 0 then 5 else ?n) = attempts_of req (ae_Settings (Ext w))"
      by (auto simp: effective_attempts_def attempts_of_def split: option.split)
    ultimately show ?thesis
      using True none \<open>result (handleJobs sr rq) w = _\<close> by (simp add: new_row_def job_to_create_def)
  next
    case False
    have "rs_code (result (handleJobs sr rq) w) = 400 \<and> final (handleJobs sr rq) w = w"
    proof (cases "aj_URL req = '''' \<or> aj_OutDir req = ''''")
      case True
      then show ?thesis using run by (simp add: writeErr_def writeJSON_def)
    next
      case named: False
      with False obtain e where "run_state ?C w = (Inl e, w)" "statusForQueueErr e = 400"
        using path_error_status by (cases "cleanOutDir (aj_OutDir req) (sv_allowedRoots (sr_Queue sr))";
            cases "cleanUserFilename (aj_Name req)") (auto simp: CreateJob_def Let_def)
      with named show ?thesis using run by (simp add: writeQueueErr_def writeErr_def writeJSON_def)
    qed
    then show ?thesis by (subst if_not_P [OF False]) (simp add: tables_same_def)
  qed
qed

theorem add_job_outcome_witness:
  "result (handleJobs sample_server (sample_request ''POST'' ''/jobs''
     (JObj [(''url'', JStr ''http://x/y''), (''out_dir'', JStr ''/data/tv'')]))) (api_world []) = \<lparr>rs_code = 200, rs_body = PId 1\<rparr>"
proof -
  let ?j = "JObj [(''url'', JStr ''http://x/y''), (''out_dir'', JStr ''/data/tv'')]"
  let ?rq = "sample_request ''POST'' ''/jobs'' ?j"
  let ?req = "empty_add\<lparr>aj_URL := ''http://x/y'', aj_OutDir := ''/data/tv''\<rparr>"
  have "rq_Method ?rq = ''POST''" "rq_Body ?rq = Value ?j" by (simp_all add: sample_request_def)
  moreover have "decode_add ?j = Some ?req" "cleanOutDir ''/data/tv'' [''/data''] = Inr ''/data/tv''" "cleanUserFilename '''' = Inr ''''"
    by code_simp+
  moreover have "wf_db (api_world [])" "quiet (api_world [])" "JobSeq (api_world []) = 0"
    by (simp_all add: wf_db_def quiet_def api_world_def)
  moreover have "sv_allowedRoots (sr_Queue sample_server) = [''/data'']" by (simp add: sample_server_def)
  ultimately show ?thesis
    using add_job_outcome [of "api_world []" ?rq ?j ?req sample_server] by (simp add: empty_add_def)
qed

text \<open>Paths of the form \<open>/jobs/<id>/<action>\<close>.\<close>

lemma Itoa_no_slash: "CHR ''/'' \<notin> set (Itoa x)"
proof -
  have "CHR ''/'' \<notin> set (itoa_nat n)" for n
    using itoa_nat_digits [of n] by (auto simp: list_all_iff is_digit_def)
  then show ?thesis by (simp add: Itoa_def)
qed

lemma handleJob_action:
  assumes "Path (rq_URL rq) = ''/jobs/'' @ Itoa i @ ''/'' @ act" and "in_int64 i" and "CHR ''/'' \<notin> set act"
  shows "handleJob sr rq =
    (if act = ''events'' then job_events rq i
     else if act = ''retry'' then job_action rq (Retry (sr_Queue sr) i)
     else if act = ''remove'' then job_action rq (Remove (sr_Queue sr) i)
     else if act = ''pause'' then job_action rq (do { _ \<leftarrow> GetJob i; Pause (sr_Queue sr) i })
     else if act = ''resume'' then job_action rq (Resume (sr_Queue sr) i)
     else return (status_only 404))"
proof -
  have "TrimPrefix (Path (rq_URL rq)) ''/jobs/'' = Itoa i @ CHR ''/'' # act"
    using assms(1) by (simp add: TrimPrefix_def HasPrefix_def)
  moreover have "split_on CHR ''/'' (Itoa i @ CHR ''/'' # act) = [Itoa i, act]"
    using split_on_append_sep [OF Itoa_no_slash] split_on_id [OF assms(3)] by simp
  ultimately show ?thesis
    using ParseInt_Itoa [OF assms(2)] by (simp add: handleJob_def Let_def)
qed

lemma action_unknown:
  assumes "quiet w" and "lookup_job i w = None"
  shows "run_state (Retry sv i) w = (Some ErrNoRows, tick_step w)" "run_state (Remove sv i) w = (Some ErrNoRows, tick_step w)"
    "run_state (Pause sv i) w = (Some ErrNoRows, tick_step w)" "run_state (Resume sv i) w = (Some ErrNoRows, tick_step w)"
  using assms by (simp_all add: Retry_def Remove_def Pause_def Resume_def run_GetJob_quiet run_state_bind_beta del: run_state_bind)

text \<open>
  Actions on a job that does not exist: retry, remove, pause and resume answer 404 and change
  nothing in the tables, whatever the downloader.
\<close>

theorem unknown_job_not_found:
  assumes "quiet w" and "lookup_job i w = None" and "in_int64 i"
    and "rq_Method rq = ''POST''" and "Path (rq_URL rq) = ''/jobs/'' @ Itoa i @ ''/'' @ act"
    and "act \<in> {''retry'', ''remove'', ''pause'', ''resume''}"
  shows "rs_code (result (handleJob sr rq) w) = 404 \<and> tables_same w (final (handleJob sr rq) w)"
proof -
  have "CHR ''/'' \<notin> set act" using assms(6) by auto
  note handler = handleJob_action [OF assms(5,3) this, of sr]
  have quiet: "quiet (tick_step w)" "lookup_job i (tick_step w) = None"
    using assms(1,2) by (auto simp: quiet_def tick_step_def lookup_job_def)
  note runs = action_unknown [OF assms(1,2)] action_unknown [OF quiet]
  have get: "run_state (GetJob i) w = (Inl ErrNoRows, tick_step w)"
    using assms(1,2) by (simp add: GetJob_def run_GetJob_quiet run_state_bind_beta del: run_state_bind)
  have "statusForQueueErr ErrNoRows = 404" by (simp add: statusForQueueErr_def)
  then show ?thesis
    using assms(4,6) unfolding handler
    by (auto simp: job_action_def run_state_bind_beta runs get writeQueueErr_def writeErr_def writeJSON_def tables_same_def
        simp del: run_state_bind)
qed

theorem unknown_job_not_found_witness:
  "rs_code (result (handleJob sample_server (sample_request ''POST'' ''/jobs/7/pause'' JNull)) (api_world [])) = 404"
proof -
  let ?rq = "sample_request ''POST'' ''/jobs/7/pause'' JNull"
  have "Itoa 7 = ''7''" by code_simp
  then have "Path (rq_URL ?rq) = ''/jobs/'' @ Itoa 7 @ ''/'' @ ''pause''" "rq_Method ?rq = ''POST''"
    by (simp_all add: sample_request_def empty_url_def)
  moreover have "quiet (api_world [])" "lookup_job 7 (api_world []) = None" "in_int64 7"
    by (simp_all add: quiet_def api_world_def lookup_job_def in_int64_def)
  ultimately show ?thesis using unknown_job_not_found [of "api_world []" 7 ?rq "''pause''" sample_server] by simp
qed

end
