(* ===== verification/Mega_Crypto.thy ===== *)
theory Mega_Crypto
  imports Go_Os "HOL-Library.Monad_Syntax"
begin

text \<open>
  The cryptographic part of internal/queue/mega_decryptor.go: the decoding of a key, counter mode,
  and the running computation of the message authentication code (MAC). Bytes are \<^typ>\<open>8 word\<close>.
  The block cipher (AES of the Go library) is a parameter \<open>E\<close>, a function from blocks to blocks; no
  property of it is assumed anywhere.

  The MAC is computed while the file is read, in pieces of any size, with a block and a chunk that
  may be cut at any byte. The main lemma is that the result is that of the reference
  \<open>mega_mac\<close>, which cuts the whole content into chunks and the chunks into blocks; so it does not
  depend on how the reads cut the content. The loops of the running computation are
  \<open>partial_function\<close>s: that they return is part of the lemma.
\<close>

unbundle bit_operations_syntax

section \<open>Base 64\<close>

text \<open>\<open>base64.RawURLEncoding.DecodeString\<close>: the URL alphabet, no padding, line ends skipped; an error
  names the offset of the first bad byte.\<close>

definition b64_val :: "char \<Rightarrow> nat option" where
  "b64_val c =
     (if is_upper c then Some (of_char c - 65)
      else if is_lower c then Some (of_char c - 97 + 26)
      else if is_digit c then Some (of_char c - 48 + 52)
      else if c = CHR ''-'' then Some 62
      else if c = CHR ''_'' then Some 63
      else None)"

definition corrupt_input :: "nat \<Rightarrow> string" where
  "corrupt_input n = ''illegal base64 data at input byte '' @ Itoa (int n)"

fun b64_bytes :: "nat list \<Rightarrow> byte list" where
  "b64_bytes [a, b] = [of_nat (a * 4 + b div 16)]"
| "b64_bytes [a, b, c] = [of_nat (a * 4 + b div 16), of_nat (b mod 16 * 16 + c div 4)]"
| "b64_bytes [a, b, c, d] =
     [of_nat (a * 4 + b div 16), of_nat (b mod 16 * 16 + c div 4), of_nat (c mod 4 * 64 + d)]"
| "b64_bytes _ = []"

fun b64_decode :: "nat \<Rightarrow> nat list \<Rightarrow> string \<Rightarrow> string + byte list" where
  "b64_decode si buf [] =
     (if length buf = 1 then Inl (corrupt_input (si - 1)) else Inr (b64_bytes buf))"
| "b64_decode si buf (c # cs) =
     (case b64_val c of
        Some v \<Rightarrow>
          if length buf = 3 then
            (case b64_decode (Suc si) [] cs of
               Inl e \<Rightarrow> Inl e
             | Inr bs \<Rightarrow> Inr (b64_bytes (buf @ [v]) @ bs))
          else b64_decode (Suc si) (buf @ [v]) cs
      | None \<Rightarrow>
          if c = CHR 0x0A \<or> c = CHR 0x0D then b64_decode (Suc si) buf cs
          else Inl (corrupt_input si))"

definition RawURL_DecodeString :: "string \<Rightarrow> string + byte list" where
  "RawURL_DecodeString s = b64_decode 0 [] s"

section \<open>The content key\<close>

record megaContentKey =
  aesKey :: "byte list"
  nonce :: "byte list"
  expectMAC :: "byte list"
  verifyMAC :: bool

definition xor_bytes :: "byte list \<Rightarrow> byte list \<Rightarrow> byte list" where
  "xor_bytes xs ys = map2 (XOR) xs ys"

definition parseMegaContentKey :: "string \<Rightarrow> error + megaContentKey" where
  "parseMegaContentKey token =
     (case RawURL_DecodeString (TrimSpace token) of
        Inl e \<Rightarrow> Inl (ErrNew (''mega key decode failed: '' @ e))
      | Inr raw \<Rightarrow>
          if length raw = 32 then
            Inr \<lparr>aesKey = xor_bytes (take 16 raw) (drop 16 raw), nonce = take 8 (drop 16 raw),
                 expectMAC = take 8 (drop 24 raw), verifyMAC = True\<rparr>
          else if length raw = 16 then
            Inr \<lparr>aesKey = raw, nonce = replicate 8 0, expectMAC = replicate 8 0, verifyMAC = False\<rparr>
          else Inl (ErrNew (''mega invalid key length: '' @ Itoa (int (length raw)))))"

section \<open>Counter mode\<close>

definition be_nat :: "byte list \<Rightarrow> nat" where
  "be_nat bs = foldl (\<lambda>n b. 256 * n + unat b) 0 bs"

fun nat_be :: "nat \<Rightarrow> nat \<Rightarrow> byte list" where
  "nat_be 0 n = []"
| "nat_be (Suc k) n = nat_be k (n div 256) @ [of_nat (n mod 256)]"

text \<open>The counter block number \<open>i\<close>: the initial block as a big-endian number plus \<open>i\<close>, with
  wrap-around at 128 bits.\<close>

definition ctr_block :: "byte list \<Rightarrow> nat \<Rightarrow> byte list" where
  "ctr_block iv i = nat_be 16 (be_nat iv + i)"

definition key_byte :: "(byte list \<Rightarrow> byte list) \<Rightarrow> byte list \<Rightarrow> nat \<Rightarrow> byte" where
  "key_byte E iv pos = E (ctr_block iv (pos div 16)) ! (pos mod 16)"

text \<open>\<open>XORKeyStream\<close> on the bytes at offset \<open>pos\<close> of the stream.\<close>

fun XORKeyStream :: "(byte list \<Rightarrow> byte list) \<Rightarrow> byte list \<Rightarrow> nat \<Rightarrow> byte list \<Rightarrow> byte list" where
  "XORKeyStream E iv pos [] = []"
| "XORKeyStream E iv pos (b # bs) = (b XOR key_byte E iv pos) # XORKeyStream E iv (Suc pos) bs"

lemma length_XORKeyStream [simp]: "length (XORKeyStream E iv pos bs) = length bs"
  by (induction bs arbitrary: pos) auto

lemma XORKeyStream_append:
  "XORKeyStream E iv pos (as @ bs) = XORKeyStream E iv pos as @ XORKeyStream E iv (pos + length as) bs"
  by (induction as arbitrary: pos) auto

lemma XORKeyStream_twice [simp]: "XORKeyStream E iv pos (XORKeyStream E iv pos bs) = bs"
  by (induction bs arbitrary: pos) (simp_all add: xor.assoc)

section \<open>The running MAC\<close>

record megaMACCalculator =
  mac_base :: "byte list"
  fileMAC :: "byte list"
  chunkMAC :: "byte list"
  pendingBlock :: "byte list"
  pendingLen :: nat
  chunkIndex :: nat
  chunkRemaining :: nat
  chunkHasData :: bool

definition megaChunkSize :: "nat \<Rightarrow> nat" where
  "megaChunkSize index = (if index < 8 then (index + 1) * 0x20000 else 0x100000)"

definition newMegaMACCalculator :: "byte list \<Rightarrow> megaMACCalculator" where
  "newMegaMACCalculator n =
     \<lparr>mac_base = n @ n, fileMAC = replicate 16 0, chunkMAC = n @ n, pendingBlock = replicate 16 0,
      pendingLen = 0, chunkIndex = 0, chunkRemaining = megaChunkSize 0, chunkHasData = False\<rparr>"

definition mixBlock :: "(byte list \<Rightarrow> byte list) \<Rightarrow> byte list \<Rightarrow> megaMACCalculator \<Rightarrow> megaMACCalculator" where
  "mixBlock E block m = m\<lparr>chunkMAC := E (xor_bytes (chunkMAC m) block)\<rparr>"

definition finalizeChunk :: "(byte list \<Rightarrow> byte list) \<Rightarrow> megaMACCalculator \<Rightarrow> megaMACCalculator" where
  "finalizeChunk E m =
     (if \<not> chunkHasData m then m
      else
        let m1 = (if pendingLen m > 0 then
              (mixBlock E (take (pendingLen m) (pendingBlock m) @ replicate (16 - pendingLen m) 0) m)\<lparr>pendingLen := 0\<rparr>
            else m)
        in m1\<lparr>fileMAC := E (xor_bytes (fileMAC m1) (chunkMAC m1)), chunkHasData := False\<rparr>)"

text \<open>The loop of \<open>writeChunkBytes\<close>: \<open>copy\<close> moves as many bytes as fit.\<close>

partial_function (option) write_blocks :: "(byte list \<Rightarrow> byte list) \<Rightarrow> byte list \<Rightarrow> megaMACCalculator
    \<Rightarrow> megaMACCalculator option" where
  "write_blocks E p m =
     (if p = [] then Some m
      else
        let n = min (16 - pendingLen m) (length p);
            m1 = m\<lparr>pendingBlock := take (pendingLen m) (pendingBlock m) @ take n p @
                     drop (pendingLen m + n) (pendingBlock m),
                   pendingLen := pendingLen m + n\<rparr>;
            m2 = (if pendingLen m1 = 16 then (mixBlock E (pendingBlock m1) m1)\<lparr>pendingLen := 0\<rparr> else m1)
        in write_blocks E (drop n p) m2)"

definition writeChunkBytes :: "(byte list \<Rightarrow> byte list) \<Rightarrow> byte list \<Rightarrow> megaMACCalculator
    \<Rightarrow> megaMACCalculator option" where
  "writeChunkBytes E p m =
     (if p = [] then Some m else write_blocks E p (m\<lparr>chunkHasData := True\<rparr>))"

text \<open>What \<open>Write\<close> does at the end of a chunk.\<close>

definition end_chunk :: "(byte list \<Rightarrow> byte list) \<Rightarrow> megaMACCalculator \<Rightarrow> megaMACCalculator" where
  "end_chunk E m =
     (if chunkRemaining m = 0 then
        (let m1 = finalizeChunk E m;
             m2 = m1\<lparr>chunkIndex := chunkIndex m1 + 1\<rparr>
         in m2\<lparr>chunkMAC := mac_base m2, chunkRemaining := megaChunkSize (chunkIndex m2)\<rparr>)
      else m)"

partial_function (option) mac_Write :: "(byte list \<Rightarrow> byte list) \<Rightarrow> byte list \<Rightarrow> megaMACCalculator
    \<Rightarrow> megaMACCalculator option" where
  "mac_Write E p m =
     (if p = [] then Some m
      else
        let n = min (length p) (chunkRemaining m) in
        do {
          m1 \<leftarrow> writeChunkBytes E (take n p) m;
          mac_Write E (drop n p) (end_chunk E (m1\<lparr>chunkRemaining := chunkRemaining m1 - n\<rparr>))
        })"

definition be_Uint32 :: "byte list \<Rightarrow> 32 word" where
  "be_Uint32 b = push_bit 24 (ucast (b ! 0)) OR push_bit 16 (ucast (b ! 1)) OR
     push_bit 8 (ucast (b ! 2)) OR ucast (b ! 3)"

definition be_PutUint32 :: "32 word \<Rightarrow> byte list" where
  "be_PutUint32 w = [ucast (drop_bit 24 w), ucast (drop_bit 16 w), ucast (drop_bit 8 w), ucast w]"

definition condense :: "byte list \<Rightarrow> byte list" where
  "condense mac =
     be_PutUint32 (be_Uint32 (take 4 mac) XOR be_Uint32 (take 4 (drop 4 mac))) @
     be_PutUint32 (be_Uint32 (take 4 (drop 8 mac)) XOR be_Uint32 (take 4 (drop 12 mac)))"

definition mac_Sum :: "(byte list \<Rightarrow> byte list) \<Rightarrow> megaMACCalculator \<Rightarrow> byte list" where
  "mac_Sum E m = condense (fileMAC (finalizeChunk E m))"

section \<open>The reference MAC\<close>

text \<open>CBC over the blocks of a chunk, the last block padded with zeros.\<close>

function cbc_mac :: "(byte list \<Rightarrow> byte list) \<Rightarrow> byte list \<Rightarrow> byte list \<Rightarrow> byte list" where
  "cbc_mac E mac bs =
     (if bs = [] then mac
      else cbc_mac E (E (xor_bytes mac (take 16 bs @ replicate (16 - length bs) 0))) (drop 16 bs))"
  by pat_completeness auto
termination cbc_mac
  by (relation "measure (\<lambda>(E, mac, bs). length bs)") (auto simp: length_greater_0_conv [symmetric]
      simp del: length_greater_0_conv)

lemma megaChunkSize_pos [simp]: "0 < megaChunkSize k"
  by (simp add: megaChunkSize_def)

text \<open>The chunks of the content, folded into the MAC of the file.\<close>

function chunk_macs :: "(byte list \<Rightarrow> byte list) \<Rightarrow> byte list \<Rightarrow> nat \<Rightarrow> byte list \<Rightarrow> byte list \<Rightarrow> byte list" where
  "chunk_macs E base k f bs =
     (if bs = [] then f
      else chunk_macs E base (Suc k) (E (xor_bytes f (cbc_mac E base (take (megaChunkSize k) bs))))
        (drop (megaChunkSize k) bs))"
  by pat_completeness auto
termination chunk_macs
  by (relation "measure (\<lambda>(E, base, k, f, bs). length bs)") (auto simp: length_greater_0_conv [symmetric]
      simp del: length_greater_0_conv)

declare cbc_mac.simps [simp del] chunk_macs.simps [simp del]

definition mega_mac :: "(byte list \<Rightarrow> byte list) \<Rightarrow> byte list \<Rightarrow> byte list \<Rightarrow> byte list" where
  "mega_mac E n bs = condense (chunk_macs E (n @ n) 0 (replicate 16 0) bs)"

lemma cbc_mac_Nil [simp]: "cbc_mac E mac [] = mac"
  by (simp add: cbc_mac.simps)

lemma cbc_mac_append:
  "16 dvd length xs \<Longrightarrow> cbc_mac E mac (xs @ ys) = cbc_mac E (cbc_mac E mac xs) ys"
proof (induction "length xs" arbitrary: xs mac rule: less_induct)
  case less
  show ?case
  proof (cases "xs = []")
    case False
    then have len: "16 \<le> length xs" using less.prems by (metis dvd_imp_le length_greater_0_conv)
    let ?mac = "E (xor_bytes mac (take 16 xs))"
    have "cbc_mac E mac (xs @ ys) = cbc_mac E ?mac (drop 16 xs @ ys)"
      using False len by (subst cbc_mac.simps) simp
    also have "\<dots> = cbc_mac E (cbc_mac E ?mac (drop 16 xs)) ys"
      using less.prems len False by (intro less.hyps) (auto intro: dvd_diff_nat)
    also have "cbc_mac E ?mac (drop 16 xs) = cbc_mac E mac xs"
      using False len by (subst (2) cbc_mac.simps) simp
    finally show ?thesis .
  qed simp
qed

lemma cbc_mac_last:
  "bs \<noteq> [] \<Longrightarrow> length bs \<le> 16 \<Longrightarrow>
   cbc_mac E mac bs = E (xor_bytes mac (bs @ replicate (16 - length bs) 0))"
  by (subst cbc_mac.simps) simp

section \<open>The running MAC is the reference MAC\<close>

text \<open>The state inside a chunk of which the bytes \<open>c\<close> were seen: the full blocks are mixed in, the rest
  is pending.\<close>

definition full_blocks :: "byte list \<Rightarrow> byte list" where
  "full_blocks c = take (16 * (length c div 16)) c"

definition rest_block :: "byte list \<Rightarrow> byte list" where
  "rest_block c = drop (16 * (length c div 16)) c"

definition in_chunk :: "(byte list \<Rightarrow> byte list) \<Rightarrow> byte list \<Rightarrow> byte list \<Rightarrow> megaMACCalculator \<Rightarrow> bool" where
  "in_chunk E base c m \<longleftrightarrow> length (pendingBlock m) = 16 \<and> pendingLen m = length (rest_block c) \<and>
     take (length (rest_block c)) (pendingBlock m) = rest_block c \<and> chunkMAC m = cbc_mac E base (full_blocks c)"

lemma full_rest: "full_blocks c @ rest_block c = c" "length (rest_block c) = length c mod 16" "16 dvd length (full_blocks c)"
proof -
  have "16 * (length c div 16) \<le> length c" by simp
  then show "16 dvd length (full_blocks c)" by (simp add: full_blocks_def)
qed (simp_all add: full_blocks_def rest_block_def minus_mult_div_eq_mod)

lemma div_add_below:
  fixes a b :: nat
  assumes "a mod 16 + b < 16"
  shows "(a + b) div 16 = a div 16"
proof (rule div_nat_eqI)
  have "a = 16 * (a div 16) + a mod 16" by simp
  with assms show "16 * (a div 16) \<le> a + b" "a + b < 16 * Suc (a div 16)"
    unfolding mult_Suc_right by linarith+
qed

text \<open>Adding bytes that stay below or just reach a block boundary.\<close>

lemma full_rest_add:
  assumes "length (rest_block c) + length q < 16"
  shows "full_blocks (c @ q) = full_blocks c" and "rest_block (c @ q) = rest_block c @ q"
proof -
  have div: "length (c @ q) div 16 = length c div 16"
    using assms by (simp add: full_rest(2) div_add_below)
  have "16 * (length c div 16) \<le> length c" by simp
  with div show "full_blocks (c @ q) = full_blocks c" "rest_block (c @ q) = rest_block c @ q"
    by (simp_all add: full_blocks_def rest_block_def)
qed

lemma full_rest_fill:
  assumes "length (rest_block c) + length q = 16"
  shows "full_blocks (c @ q) = c @ q" and "rest_block (c @ q) = []"
proof -
  have "16 dvd length (full_blocks c @ rest_block c @ q)"
    using full_rest(3) [of c] assms by simp
  moreover have "full_blocks c @ rest_block c @ q = c @ q" by (metis append_assoc full_rest(1))
  ultimately have "16 dvd length (c @ q)" by simp
  then show "full_blocks (c @ q) = c @ q" "rest_block (c @ q) = []" by (simp_all add: full_blocks_def rest_block_def)
qed

definition same_but_chunk :: "megaMACCalculator \<Rightarrow> megaMACCalculator \<Rightarrow> bool" where
  "same_but_chunk m m' \<longleftrightarrow> mac_base m' = mac_base m \<and> fileMAC m' = fileMAC m \<and>
     chunkIndex m' = chunkIndex m \<and> chunkRemaining m' = chunkRemaining m \<and>
     chunkHasData m' = chunkHasData m"

lemma write_blocks_ok:
  assumes "in_chunk E base c m"
  shows "\<exists>m'. write_blocks E p m = Some m' \<and> in_chunk E base (c @ p) m' \<and> same_but_chunk m m'"
  using assms
proof (induction "length p" arbitrary: p c m rule: less_induct)
  case less
  note m = less.prems [unfolded in_chunk_def]
  have pl: "pendingLen m < 16" using m by (simp add: full_rest(2))
  show ?case
  proof (cases "p = []")
    case True
    with less.prems show ?thesis by (simp add: write_blocks.simps same_but_chunk_def)
  next
    case False
    define n where "n = min (16 - pendingLen m) (length p)"
    define q where "q = take n p"
    define m1 where "m1 = m\<lparr>pendingBlock := take (pendingLen m) (pendingBlock m) @ take n p @
                     drop (pendingLen m + n) (pendingBlock m), pendingLen := pendingLen m + n\<rparr>"
    define m2 where "m2 = (if pendingLen m1 = 16 then (mixBlock E (pendingBlock m1) m1)\<lparr>pendingLen := 0\<rparr> else m1)"
    have n: "0 < n" "length q = n" "pendingLen m + n \<le> 16"
      using False pl by (auto simp: n_def q_def)
    then have "q \<noteq> []" by auto
    have block: "take (pendingLen m + n) (pendingBlock m1) = rest_block c @ q" "length (pendingBlock m1) = 16"
      using m n by (simp_all add: m1_def q_def [symmetric])
    have "in_chunk E base (c @ q) m2"
    proof (cases "pendingLen m + n = 16")
      case True
      then have "pendingBlock m1 = rest_block c @ q" using block by simp
      moreover have "cbc_mac E base (c @ q) = E (xor_bytes (chunkMAC m) (rest_block c @ q))"
        using cbc_mac_append [OF full_rest(3), of E base c "rest_block c @ q"] True m n
          cbc_mac_last [of "rest_block c @ q" E "chunkMAC m"] \<open>q \<noteq> []\<close>
        by (simp add: full_rest(1) append_assoc [symmetric] del: append_assoc)
      ultimately show ?thesis
        using True m n block full_rest_fill [of c q]
        by (simp add: in_chunk_def m2_def m1_def mixBlock_def)
    next
      case False
      then show ?thesis
        using m n block full_rest_add [of c q] by (simp add: in_chunk_def m2_def m1_def)
    qed
    moreover have "length (drop n p) < length p" using n(1) False by simp
    ultimately obtain m' where "write_blocks E (drop n p) m2 = Some m'"
        "in_chunk E base ((c @ q) @ drop n p) m'" "same_but_chunk m2 m'"
      using less.hyps by blast
    moreover have "write_blocks E p m = write_blocks E (drop n p) m2"
      using False by (subst write_blocks.simps) (simp add: Let_def n_def m1_def m2_def)
    moreover have "same_but_chunk m m2" by (simp add: same_but_chunk_def m2_def m1_def mixBlock_def)
    ultimately show ?thesis by (auto simp: q_def same_but_chunk_def)
  qed
qed

text \<open>The state between calls: \<open>k\<close> chunks are folded into \<open>f\<close>, the bytes \<open>c\<close> of the next were seen.\<close>

definition mac_state :: "(byte list \<Rightarrow> byte list) \<Rightarrow> byte list \<Rightarrow> nat \<Rightarrow> byte list \<Rightarrow> byte list
    \<Rightarrow> megaMACCalculator \<Rightarrow> bool" where
  "mac_state E base k f c m \<longleftrightarrow> mac_base m = base \<and> chunkIndex m = k \<and> fileMAC m = f \<and>
     in_chunk E base c m \<and> length c < megaChunkSize k \<and>
     chunkRemaining m = megaChunkSize k - length c \<and> chunkHasData m = (c \<noteq> [])"

lemma finalizeChunk_ok:
  assumes "in_chunk E base c m" and "chunkHasData m" and "c \<noteq> []"
  shows "fileMAC (finalizeChunk E m) = E (xor_bytes (fileMAC m) (cbc_mac E base c)) \<and>
    pendingLen (finalizeChunk E m) = 0 \<and> length (pendingBlock (finalizeChunk E m)) = 16 \<and>
    mac_base (finalizeChunk E m) = mac_base m \<and> chunkIndex (finalizeChunk E m) = chunkIndex m \<and>
    \<not> chunkHasData (finalizeChunk E m)"
proof -
  note m = assms(1) [unfolded in_chunk_def]
  have "cbc_mac E base c = cbc_mac E (chunkMAC m) (rest_block c)"
    using cbc_mac_append [OF full_rest(3), of E base c "rest_block c"] m by (simp add: full_rest(1))
  moreover have "length (rest_block c) < 16" by (simp add: full_rest(2))
  ultimately show ?thesis
    using m assms(2) cbc_mac_last [of "rest_block c" E "chunkMAC m"]
    by (cases "rest_block c = []") (simp_all add: finalizeChunk_def mixBlock_def Let_def)
qed

lemma chunk_macs_full:
  assumes "length d = megaChunkSize k" and "d \<noteq> []"
  shows "chunk_macs E base k f (d @ q) = chunk_macs E base (Suc k) (E (xor_bytes f (cbc_mac E base d))) q"
  using assms by (subst chunk_macs.simps) (simp flip: assms(1))

lemma end_chunk_full:
  assumes "in_chunk E base d m" and "chunkHasData m" and "d \<noteq> []" and "fileMAC m = f" and "mac_base m = base"
    and "chunkIndex m = k" and "chunkRemaining m = 0"
  shows "mac_state E base (Suc k) (E (xor_bytes f (cbc_mac E base d))) [] (end_chunk E m)"
  using finalizeChunk_ok [OF assms(1-3)] assms(4-7)
  by (simp add: end_chunk_def mac_state_def in_chunk_def Let_def full_blocks_def rest_block_def)

text \<open>One turn of \<open>Write\<close>: the bytes up to the end of the piece or of the chunk.\<close>

lemma mac_Write_turn:
  assumes "mac_state E base k f c m" and "p \<noteq> []" and "n = min (length p) (chunkRemaining m)"
  obtains m2 k' f' c' where "0 < n" and "mac_Write E p m = mac_Write E (drop n p) m2" and "mac_state E base k' f' c' m2"
    and "\<And>q. chunk_macs E base k f (c @ take n p @ q) = chunk_macs E base k' f' (c' @ q)"
proof -
  note m = assms(1) [unfolded mac_state_def]
  let ?d = "c @ take n p"
  have n: "0 < n" "n \<le> length p" "n \<le> megaChunkSize k - length c" using assms(2,3) m by auto
  have "in_chunk E base c (m\<lparr>chunkHasData := True\<rparr>)" using m by (simp add: in_chunk_def)
  from write_blocks_ok [OF this, of "take n p"] obtain m1 where
    m1: "writeChunkBytes E (take n p) m = Some m1" "in_chunk E base ?d m1" "same_but_chunk (m\<lparr>chunkHasData := True\<rparr>) m1"
    using n(1) assms(2) by (auto simp: writeChunkBytes_def)
  define m' where "m' = m1\<lparr>chunkRemaining := chunkRemaining m1 - n\<rparr>"
  have step: "mac_Write E p m = mac_Write E (drop n p) (end_chunk E m')"
    using assms(2) m1(1) by (subst mac_Write.simps) (simp add: Let_def assms(3) [symmetric] m'_def)
  have m': "in_chunk E base ?d m'" "chunkHasData m'" "fileMAC m' = f" "mac_base m' = base" "chunkIndex m' = k"
      "chunkRemaining m' = megaChunkSize k - length ?d"
    using m m1(2,3) n by (simp_all add: m'_def in_chunk_def same_but_chunk_def)
  have d: "?d \<noteq> []" using n assms(2) by auto
  show thesis
  proof (cases "length ?d = megaChunkSize k")
    case True
    then have "mac_state E base (Suc k) (E (xor_bytes f (cbc_mac E base ?d))) [] (end_chunk E m')"
      using end_chunk_full [OF m'(1,2) d m'(3-5)] m'(6) by simp
    then show thesis using that n(1) step chunk_macs_full [OF True d, of E base f] by fastforce
  next
    case False
    then have "mac_state E base k f ?d (end_chunk E m')"
      using m m' n d by (simp add: end_chunk_def mac_state_def)
    then show thesis using that n(1) step by fastforce
  qed
qed

lemma mac_Write_ok:
  assumes "mac_state E base k f c m"
  shows "\<exists>m' k' f' c'. mac_Write E p m = Some m' \<and> mac_state E base k' f' c' m' \<and>
    (\<forall>q. chunk_macs E base k f (c @ p @ q) = chunk_macs E base k' f' (c' @ q))"
  using assms
proof (induction "length p" arbitrary: p k f c m rule: less_induct)
  case less
  show ?case
  proof (cases "p = []")
    case True
    with less.prems show ?thesis by (auto simp: mac_Write.simps)
  next
    case False
    obtain m2 k' f' c' and n :: nat where turn: "0 < n" "mac_Write E p m = mac_Write E (drop n p) m2" "mac_state E base k' f' c' m2"
        "\<And>q. chunk_macs E base k f (c @ take n p @ q) = chunk_macs E base k' f' (c' @ q)"
      by (rule mac_Write_turn [OF less.prems False refl]) (rule that)
    have all: "chunk_macs E base k f (c @ p @ q) = chunk_macs E base k' f' (c' @ drop n p @ q)" for q
    proof -
      have "take n p @ drop n p @ q = p @ q" by (metis append.assoc append_take_drop_id)
      with turn(4) [of "drop n p @ q"] show ?thesis by simp
    qed
    have "length (drop n p) < length p" using turn(1) False by simp
    from less.hyps [OF this turn(3)] show ?thesis unfolding turn(2) all by blast
  qed
qed

lemma mac_state_new: "length n = 8 \<Longrightarrow> mac_state E (n @ n) 0 (replicate 16 0) [] (newMegaMACCalculator n)"
  by (simp add: mac_state_def newMegaMACCalculator_def in_chunk_def full_blocks_def rest_block_def)

lemma mac_Sum_ok:
  assumes "mac_state E base k f c m"
  shows "mac_Sum E m = condense (chunk_macs E base k f c)"
proof (cases "c = []")
  case True
  with assms show ?thesis by (simp add: mac_Sum_def mac_state_def finalizeChunk_def chunk_macs.simps)
next
  case False
  then have "chunk_macs E base k f c = E (xor_bytes f (cbc_mac E base c))"
    using assms by (subst chunk_macs.simps) (simp add: mac_state_def chunk_macs.simps)
  with False assms finalizeChunk_ok [of E base c m] show ?thesis
    by (simp add: mac_Sum_def mac_state_def)
qed

text \<open>The interface to the decryption: a calculator that has seen the data \<open>d\<close>.\<close>

definition mac_of :: "(byte list \<Rightarrow> byte list) \<Rightarrow> byte list \<Rightarrow> byte list \<Rightarrow> megaMACCalculator \<Rightarrow> bool" where
  "mac_of E n d m \<longleftrightarrow> (\<exists>k f c. mac_state E (n @ n) k f c m \<and>
     (\<forall>q. chunk_macs E (n @ n) 0 (replicate 16 0) (d @ q) = chunk_macs E (n @ n) k f (c @ q)))"

lemma mac_of_new: "length n = 8 \<Longrightarrow> mac_of E n [] (newMegaMACCalculator n)"
  using mac_state_new unfolding mac_of_def by fastforce

lemma mac_of_Write:
  assumes "mac_of E n d m"
  obtains m' where "mac_Write E p m = Some m'" and "mac_of E n (d @ p) m'"
proof -
  obtain k f c where m: "mac_state E (n @ n) k f c m"
      "\<forall>q. chunk_macs E (n @ n) 0 (replicate 16 0) (d @ q) = chunk_macs E (n @ n) k f (c @ q)"
    using assms by (auto simp: mac_of_def)
  obtain m' k' f' c' where "mac_Write E p m = Some m'" "mac_state E (n @ n) k' f' c' m'"
      "\<forall>q. chunk_macs E (n @ n) k f (c @ p @ q) = chunk_macs E (n @ n) k' f' (c' @ q)"
    using mac_Write_ok [OF m(1)] by blast
  with m(2) show thesis by (intro that) (auto simp: mac_of_def)
qed

lemma mac_of_Sum: "mac_of E n d m \<Longrightarrow> mac_Sum E m = mega_mac E n d"
proof -
  assume "mac_of E n d m"
  then obtain k f c where "mac_state E (n @ n) k f c m"
      "\<forall>q. chunk_macs E (n @ n) 0 (replicate 16 0) (d @ q) = chunk_macs E (n @ n) k f (c @ q)"
    by (auto simp: mac_of_def)
  then show ?thesis
    using mac_Sum_ok [of E "n @ n" k f c m] by (metis append_Nil2 mega_mac_def)
qed

text \<open>Writing the pieces of a content one after the other.\<close>

fun write_all :: "(byte list \<Rightarrow> byte list) \<Rightarrow> byte list list \<Rightarrow> megaMACCalculator \<Rightarrow> megaMACCalculator option" where
  "write_all E [] m = Some m"
| "write_all E (p # ps) m = do { m1 \<leftarrow> mac_Write E p m; write_all E ps m1 }"

lemma write_all_ok:
  "mac_of E n d m \<Longrightarrow> \<exists>m'. write_all E ps m = Some m' \<and> mac_of E n (d @ concat ps) m'"
proof (induction ps arbitrary: d m)
  case (Cons p ps)
  obtain m1 where "mac_Write E p m = Some m1" "mac_of E n (d @ p) m1"
    using mac_of_Write [OF Cons.prems] by blast
  with Cons.IH [of "d @ p" m1] show ?case by auto
qed simp

text \<open>
  C7. The MAC does not depend on how the file is read. However the content is cut into pieces, the
  running computation returns, and it returns the MAC of the reference: chunks of 128 KiB, 256 KiB
  and so on up to 1 MiB, each a CBC over its 16-byte blocks with a zero-padded last block. This
  holds for every block cipher.
\<close>

theorem running_mac_is_reference:
  assumes "length n = 8"
  shows "\<exists>m. write_all E pieces (newMegaMACCalculator n) = Some m \<and>
    mac_Sum E m = mega_mac E n (concat pieces)"
  using write_all_ok [OF mac_of_new [OF assms], of E pieces] mac_of_Sum by fastforce

theorem running_mac_is_reference_witness:
  "\<exists>m. write_all rev [[1, 2, 3], [], [4]] (newMegaMACCalculator (replicate 8 7)) = Some m \<and>
    mac_Sum rev m = mega_mac rev (replicate 8 7) [1, 2, 3, 4]"
  using running_mac_is_reference [of "replicate 8 7" rev "[[1, 2, 3], [], [4]]"] by simp

end
