(* ===== verification/Resolver.thy ===== *)
theory Resolver
  imports Runner Mega_Crypto Go_Json
begin

text \<open>
  internal/resolver: the registry of resolvers, and the three resolvers that turn the URL of a job
  into a target for the engine (resolver.go, mega.go, webshare.go).

  The servers are outside: the HTTP client is the parameter \<open>net_Do\<close>, a program on the state
  \<open>Wire\<close> of the network, which gives a response or an error. The state of the MEGA resolver, its
  request counter, is the field \<open>requestID\<close>, 64 bits wide. AES is a parameter (decryption of one
  block under a key), as is encoding/xml (the text of an element of a document). The texts of the
  errors of encoding/json are a parameter too.
\<close>

section \<open>The registry\<close>

record 'e resolver =
  rs_CanHandle :: "string \<Rightarrow> bool"
  rs_Resolve :: "string \<Rightarrow> ('e, error + ResolvedTarget) state"

record 'e Registry =
  resolvers :: "'e resolver list"
  siteResolvers :: "string \<rightharpoonup> 'e resolver"

definition NewRegistry :: "'e resolver list \<Rightarrow> 'e Registry" where
  "NewRegistry rs = \<lparr>resolvers = rs, siteResolvers = Map.empty\<rparr>"

fun resolve_first :: "'e resolver list \<Rightarrow> string \<Rightarrow> ('e, error + ResolvedTarget) state" where
  "resolve_first [] rawURL = return (Inl (ErrNew ''no_resolver''))"
| "resolve_first (res # rs) rawURL =
     (if rs_CanHandle res rawURL then rs_Resolve res rawURL else resolve_first rs rawURL)"

definition registry_Resolve :: "'e Registry \<Rightarrow> string \<Rightarrow> ('e, error + ResolvedTarget) state" where
  "registry_Resolve r rawURL = resolve_first (resolvers r) rawURL"

definition RegisterSite :: "string \<Rightarrow> 'e resolver option \<Rightarrow> 'e Registry \<Rightarrow> 'e Registry" where
  "RegisterSite name res r =
     (case res of
        None \<Rightarrow> r
      | Some rs \<Rightarrow>
          (let key = ToLower (TrimSpace name) in
           if key = '''' then r else r\<lparr>siteResolvers := (siteResolvers r)(key \<mapsto> rs)\<rparr>))"

definition ResolveWithSite :: "'e Registry \<Rightarrow> string \<Rightarrow> string \<Rightarrow> ('e, error + ResolvedTarget) state" where
  "ResolveWithSite r site0 rawURL =
     (let site = TrimSpace site0 in
      if site \<noteq> '''' then
        (case siteResolvers r (ToLower site) of
           Some res \<Rightarrow> rs_Resolve res rawURL
         | None \<Rightarrow> return (Inl ErrUnknownSite))
      else registry_Resolve r rawURL)"

definition plain_target :: "string \<Rightarrow> ResolvedTarget" where
  "plain_target url = \<lparr>Kind = ''aria2'', TargetURL = url, Headers = [], Options = Map.empty,
     TargetFilename = '''', Size = 0\<rparr>"

definition http_CanHandle :: "string \<Rightarrow> bool" where
  "http_CanHandle rawURL \<longleftrightarrow> HasPrefix rawURL ''http://'' \<or> HasPrefix rawURL ''https://''"

definition http_Resolve :: "string \<Rightarrow> ('e, error + ResolvedTarget) state" where
  "http_Resolve rawURL = return (Inr (plain_target rawURL))"

definition NewHTTPResolver :: "'e resolver" where
  "NewHTTPResolver = \<lparr>rs_CanHandle = http_CanHandle, rs_Resolve = http_Resolve\<rparr>"

section \<open>The network\<close>

record http_request =
  hq_Method :: string
  hq_URL :: string
  hq_ContentType :: string
  hq_Body :: string

record http_response =
  StatusCode :: int
  Body :: string

record 'w net =
  net_Do :: "http_request \<Rightarrow> ('w, error + http_response) state"
  net_json_error :: "string \<Rightarrow> error"
  net_xml :: "string \<Rightarrow> error + (string \<Rightarrow> string)"

record 'w outside =
  requestID :: "64 word"
  Wire :: 'w

definition on_wire :: "('w, 'a) state \<Rightarrow> ('w outside, 'a) state" where
  "on_wire m = State (\<lambda>s. case run_state m (Wire s) of (x, w) \<Rightarrow> (x, s\<lparr>Wire := w\<rparr>))"

text \<open>\<open>http.NewRequestWithContext\<close> and \<open>Client.Do\<close>: a URL that does not parse is an error.\<close>

definition http_Post :: "'w net \<Rightarrow> string \<Rightarrow> string \<Rightarrow> string \<Rightarrow> ('w outside, error + http_response) state" where
  "http_Post net url ctype body =
     (case url_Parse url of
        Inl e \<Rightarrow> return (Inl e)
      | Inr _ \<Rightarrow> on_wire (net_Do net \<lparr>hq_Method = ''POST'', hq_URL = url, hq_ContentType = ctype, hq_Body = body\<rparr>))"

section \<open>MEGA\<close>

definition megaAPI :: string where
  "megaAPI = ''https://g.api.mega.co.nz/cs''"

definition mega_CanHandle :: "string \<Rightarrow> bool" where
  "mega_CanHandle rawURL =
     (case url_Parse rawURL of
        Inl _ \<Rightarrow> False
      | Inr u \<Rightarrow> (let host = ToLower (Host u) in Contains host ''mega.nz'' \<or> Contains host ''mega.co.nz''))"

definition mapMegaAPIError :: "int \<Rightarrow> error" where
  "mapMegaAPIError code =
     (if code = -17 then ErrQuotaExceeded
      else if code = -18 \<or> code = -4 then ErrTemporarilyOff
      else if code = -11 \<or> code = -14 \<or> code = -16 then ErrLoginRequired
      else ErrNew (''mega_api_error:'' @ Itoa code))"

record megaFileInfoResponse =
  DownloadURL :: string
  mf_Size :: int
  Attributes :: string
  mf_ErrorCode :: int

definition mega_info_fields :: "(string \<times> megaFileInfoResponse field) list" where
  "mega_info_fields =
     [(''g'', string_field (\<lambda>v. DownloadURL_update (\<lambda>_. v))), (''s'', int_field (\<lambda>v. mf_Size_update (\<lambda>_. v))),
      (''at'', string_field (\<lambda>v. Attributes_update (\<lambda>_. v))), (''e'', int_field (\<lambda>v. mf_ErrorCode_update (\<lambda>_. v)))]"

definition empty_info :: megaFileInfoResponse where
  "empty_info = \<lparr>DownloadURL = '''', mf_Size = 0, Attributes = '''', mf_ErrorCode = 0\<rparr>"

text \<open>What is made of the body of a response: the first element of the array is an error code or an
  object; \<open>null\<close> decodes into every Go value and leaves it as it is.\<close>

definition mega_info_body :: "'w net \<Rightarrow> string \<Rightarrow> error + megaFileInfoResponse" where
  "mega_info_body net body =
     (case json_Decode body of
        None \<Rightarrow> Inl (net_json_error net body)
      | Some JNull \<Rightarrow> Inl (ErrNew ''mega_api_empty_response'')
      | Some (JArr []) \<Rightarrow> Inl (ErrNew ''mega_api_empty_response'')
      | Some (JArr (v # _)) \<Rightarrow>
          (case int_field (\<lambda>c _. c) v 0 of
             Some apiErrorCode \<Rightarrow> Inl (mapMegaAPIError apiErrorCode)
           | None \<Rightarrow>
               (case decode_struct mega_info_fields v empty_info of
                  None \<Rightarrow> Inl (net_json_error net body)
                | Some out \<Rightarrow>
                    if mf_ErrorCode out \<noteq> 0 then Inl (mapMegaAPIError (mf_ErrorCode out))
                    else if DownloadURL out = '''' then Inl (ErrNew ''mega_download_url_missing'')
                    else if Attributes out = '''' then Inl (ErrNew ''mega_attributes_missing'')
                    else Inr out))
      | Some _ \<Rightarrow> Inl (net_json_error net body))"

definition mega_payload :: "string \<Rightarrow> string" where
  "mega_payload fileID =
     ''[{'' @ json_quote ''a'' @ '':'' @ json_quote ''g'' @ '','' @ json_quote ''g'' @ '':1,'' @
     json_quote ''p'' @ '':'' @ json_quote fileID @ ''}]''"

definition request_url :: "string \<Rightarrow> 64 word \<Rightarrow> string" where
  "request_url apiURL n =
     (if Contains apiURL ''?'' then apiURL @ ''&id='' else apiURL @ ''?id='') @ itoa_nat (unat n)"

definition mega_fileInfo :: "'w net \<Rightarrow> string \<Rightarrow> string \<Rightarrow> ('w outside, error + megaFileInfoResponse) state" where
  "mega_fileInfo net apiURL0 fileID =
     (let apiURL1 = TrimSpace apiURL0; apiURL = (if apiURL1 = '''' then megaAPI else apiURL1) in do {
        req_id \<leftarrow> State (\<lambda>s. (requestID s + 1, s\<lparr>requestID := requestID s + 1\<rparr>));
        r \<leftarrow> http_Post net (request_url apiURL req_id) ''application/json'' (mega_payload fileID);
        return (case r of
          Inl e \<Rightarrow> Inl e
        | Inr resp \<Rightarrow>
            if StatusCode resp < 200 \<or> StatusCode resp \<ge> 300
            then Inl (ErrNew (''mega_api_http_status:'' @ Itoa (StatusCode resp)))
            else mega_info_body net (Body resp))
      })"

text \<open>The links.\<close>

definition res_isValidMegaToken :: "string \<Rightarrow> bool" where
  "res_isValidMegaToken v \<longleftrightarrow> v \<noteq> '''' \<and>
     list_all (\<lambda>c. is_lower c \<or> is_upper c \<or> is_digit c \<or> c = CHR ''-'' \<or> c = CHR ''_'') v"

definition res_parseMegaFileLink :: "string \<Rightarrow> error + string \<times> string" where
  "res_parseMegaFileLink rawURL =
     (case url_Parse rawURL of
        Inl e \<Rightarrow> Inl e
      | Inr u \<Rightarrow>
          (let path = TrimFunc (\<lambda>c. c = CHR ''/'') (Path u); fragment = TrimSpace (Fragment u);
               (fileID, fileKey) =
                 (if HasPrefix path ''file/'' then
                    (let parts = split_on CHR ''/'' path in
                     (if length parts \<ge> 2 then TrimSpace (parts ! 1) else '''', TrimSpace fragment))
                  else if HasPrefix fragment ''!'' then
                    (let parts = split_on CHR ''!'' (TrimPrefix fragment ''!'') in
                     if length parts \<ge> 2 then (TrimSpace (parts ! 0), TrimSpace (parts ! 1)) else ('''', ''''))
                  else ('''', '''')) in
           if fileID = '''' \<or> fileKey = '''' then Inl (ErrNew ''mega_public_file_link_required'')
           else if \<not> res_isValidMegaToken fileID \<or> \<not> res_isValidMegaToken fileKey
             then Inl (ErrNew ''mega_link_invalid_tokens'')
           else Inr (fileID, fileKey)))"

text \<open>Keys and file names.\<close>

definition decodeMegaBase64 :: "string \<Rightarrow> error + byte list" where
  "decodeMegaBase64 raw =
     (case RawURL_DecodeString raw of
        Inl e \<Rightarrow> Inl (ErrNew (''mega_base64_decode_failed:'' @ e))
      | Inr b \<Rightarrow> Inr b)"

definition deriveMegaAESKey :: "string \<Rightarrow> error + byte list" where
  "deriveMegaAESKey fileKey =
     (case decodeMegaBase64 fileKey of
        Inl e \<Rightarrow> Inl e
      | Inr rawKey \<Rightarrow>
          if length rawKey = 16 then Inr rawKey
          else if length rawKey = 32 then Inr (xor_bytes (take 16 rawKey) (drop 16 rawKey))
          else Inl (ErrNew (''mega_invalid_key_length:'' @ Itoa (int (length rawKey)))))"

text \<open>\<open>CryptBlocks\<close> of \<open>cipher.NewCBCDecrypter\<close>, on a whole number of blocks.\<close>

function cbc_decrypt :: "(byte list \<Rightarrow> byte list) \<Rightarrow> byte list \<Rightarrow> byte list \<Rightarrow> byte list" where
  "cbc_decrypt D prev bs =
     (if bs = [] then []
      else xor_bytes (D (take 16 bs)) prev @ cbc_decrypt D (take 16 bs) (drop 16 bs))"
  by pat_completeness auto
termination cbc_decrypt
  by (relation "measure (\<lambda>(D, prev, bs). length bs)")
    (auto simp: length_greater_0_conv [symmetric] simp del: length_greater_0_conv)

declare cbc_decrypt.simps [simp del]

definition attr_name :: "string \<Rightarrow> string option" where
  "attr_name txt =
     (case json_Unmarshal txt of
        None \<Rightarrow> None
      | Some j \<Rightarrow> decode_struct [(''n'', string_field (\<lambda>v _. v))] j '''')"

definition decryptMegaFilename :: "(byte list \<Rightarrow> byte list \<Rightarrow> byte list) \<Rightarrow> (string \<Rightarrow> error) \<Rightarrow> string \<Rightarrow> string
    \<Rightarrow> error + string" where
  "decryptMegaFilename aesD json_error attributes fileKey =
     (case deriveMegaAESKey fileKey of
        Inl e \<Rightarrow> Inl e
      | Inr key \<Rightarrow>
          (case decodeMegaBase64 attributes of
             Inl e \<Rightarrow> Inl e
           | Inr encAttrs \<Rightarrow>
               if length encAttrs = 0 \<or> length encAttrs mod 16 \<noteq> 0
               then Inl (ErrNew ''mega_attributes_invalid_length'')
               else
                 (let plain = rev (dropWhile (\<lambda>b. b = 0) (rev (cbc_decrypt (aesD key) (replicate 16 0) encAttrs)));
                      txt = map char_of_byte plain in
                  if length txt = 0 \<or> \<not> HasPrefix txt ''MEGA'' then Inl (ErrNew ''mega_attributes_invalid_prefix'')
                  else (case attr_name (drop 4 txt) of
                      None \<Rightarrow> Inl (json_error (drop 4 txt))
                    | Some name \<Rightarrow>
                        if TrimSpace name = '''' then Inl (ErrNew ''mega_filename_missing'')
                        else Inr name))))"

definition mega_Resolve :: "'w net \<Rightarrow> (byte list \<Rightarrow> byte list \<Rightarrow> byte list) \<Rightarrow> string \<Rightarrow> string
    \<Rightarrow> ('w outside, error + ResolvedTarget) state" where
  "mega_Resolve net aesD apiURL rawURL =
     (case res_parseMegaFileLink rawURL of
        Inl e \<Rightarrow> return (Inl e)
      | Inr (fileID, fileKey) \<Rightarrow> do {
          r \<leftarrow> mega_fileInfo net apiURL fileID;
          return (case r of
            Inl e \<Rightarrow> Inl e
          | Inr resp \<Rightarrow>
              (case decryptMegaFilename aesD (net_json_error net) (Attributes resp) fileKey of
                 Inl e \<Rightarrow> Inl e
               | Inr filename \<Rightarrow>
                   Inr ((plain_target (DownloadURL resp))\<lparr>TargetFilename := filename, Size := mf_Size resp\<rparr>)))
        })"

definition NewMegaResolver :: "'w net \<Rightarrow> (byte list \<Rightarrow> byte list \<Rightarrow> byte list) \<Rightarrow> 'w outside resolver" where
  "NewMegaResolver net aesD = \<lparr>rs_CanHandle = mega_CanHandle, rs_Resolve = mega_Resolve net aesD megaAPI\<rparr>"

section \<open>webshare\<close>

definition webshareAPI :: string where
  "webshareAPI = ''https://webshare.cz/api''"

definition webshare_CanHandle :: "string \<Rightarrow> bool" where
  "webshare_CanHandle rawURL =
     (case url_Parse rawURL of Inl _ \<Rightarrow> False | Inr u \<Rightarrow> Contains (ToLower (Host u)) ''webshare.cz'')"

definition wsIdentRe :: "string \<Rightarrow> bool" where
  "wsIdentRe s \<longleftrightarrow> length s \<ge> 5 \<and> list_all is_alnum s"

definition last_ident :: "string list \<Rightarrow> string option" where
  "last_ident segs = find wsIdentRe (rev segs)"

definition extractWebshareIdent :: "url \<Rightarrow> string" where
  "extractWebshareIdent u =
     (if Query_Get u ''ident'' \<noteq> '''' then Query_Get u ''ident''
      else if Query_Get u ''id'' \<noteq> '''' then Query_Get u ''id''
      else (case last_ident (split_on CHR ''/'' (TrimFunc (\<lambda>c. c = CHR ''/'') (Path u))) of
          Some seg \<Rightarrow> seg
        | None \<Rightarrow>
            if Fragment u \<noteq> '''' then
              (case last_ident (split_on CHR ''/'' (Fragment u)) of Some seg \<Rightarrow> seg | None \<Rightarrow> '''')
            else ''''))"

record wsInfoResponse =
  wi_Status :: string
  wi_Name :: string
  wi_Size :: string
  wi_Message :: string
  wi_Code :: string
  wi_Removed :: string
  wi_Password :: string
  wi_Available :: string

record wsLinkResponse =
  wl_Status :: string
  wl_Link :: string
  wl_Message :: string
  wl_Code :: string

definition ws_form :: "string \<Rightarrow> string" where
  "ws_form ident = ''ident='' @ escape encodeQueryComponent ident"

definition ws_post :: "'w net \<Rightarrow> string \<Rightarrow> string \<Rightarrow> ('w outside, error + (string \<Rightarrow> string)) state" where
  "ws_post net path ident = do {
     r \<leftarrow> http_Post net (webshareAPI @ path) ''application/x-www-form-urlencoded'' (ws_form ident);
     return (case r of Inl e \<Rightarrow> Inl e | Inr resp \<Rightarrow> net_xml net (Body resp))
   }"

definition ws_info :: "(string \<Rightarrow> string) \<Rightarrow> wsInfoResponse" where
  "ws_info d = \<lparr>wi_Status = d ''status'', wi_Name = d ''name'', wi_Size = d ''size'', wi_Message = d ''message'',
     wi_Code = d ''code'', wi_Removed = d ''removed'', wi_Password = d ''password'', wi_Available = d ''available''\<rparr>"

definition ws_link :: "(string \<Rightarrow> string) \<Rightarrow> wsLinkResponse" where
  "ws_link d = \<lparr>wl_Status = d ''status'', wl_Link = d ''link'', wl_Message = d ''message'', wl_Code = d ''code''\<rparr>"

definition ws_fileInfo :: "'w net \<Rightarrow> string \<Rightarrow> ('w outside, error + string \<times> int) state" where
  "ws_fileInfo net ident = do {
     r \<leftarrow> ws_post net ''/file_info/'' ident;
     return (case r of
       Inl e \<Rightarrow> Inl e
     | Inr d \<Rightarrow>
         (let out = ws_info d in
          if ToUpper (wi_Status out) \<noteq> ''OK''
          then Inl (ErrNew (''webshare_info_error:'' @ wi_Code out @ '':'' @ wi_Message out))
          else Inr (wi_Name out, fst (ParseInt (TrimSpace (wi_Size out))))))
   }"

definition ws_link_error :: "wsLinkResponse \<Rightarrow> error" where
  "ws_link_error out =
     (if wl_Code out = ''FILE_LINK_FATAL_1'' then ErrLoginRequired
      else if wl_Code out = ''FILE_LINK_FATAL_2'' then ErrCaptchaNeeded
      else if wl_Code out = ''FILE_LINK_FATAL_3'' then ErrQuotaExceeded
      else if wl_Code out = ''FILE_LINK_FATAL_4'' then ErrTemporarilyOff
      else ErrNew (''webshare_link_error:'' @ wl_Code out @ '':'' @ wl_Message out))"

definition ws_fileLink :: "'w net \<Rightarrow> string \<Rightarrow> ('w outside, error + string) state" where
  "ws_fileLink net ident = do {
     r \<leftarrow> ws_post net ''/file_link/'' ident;
     return (case r of
       Inl e \<Rightarrow> Inl e
     | Inr d \<Rightarrow>
         (let out = ws_link d in
          if ToUpper (wl_Status out) \<noteq> ''OK'' then Inl (ws_link_error out) else Inr (wl_Link out)))
   }"

definition webshare_options :: "string \<rightharpoonup> string" where
  "webshare_options = [''max-connection-per-server'' \<mapsto> ''1'', ''split'' \<mapsto> ''1'', ''continue'' \<mapsto> ''false'',
     ''always-resume'' \<mapsto> ''false'', ''allow-overwrite'' \<mapsto> ''true'', ''auto-file-renaming'' \<mapsto> ''false'']"

definition webshare_headers :: "(string \<times> string) list" where
  "webshare_headers = [(''Referer'', ''https://webshare.cz/''),
     (''User-Agent'', ''Mozilla/5.0 (X11; Linux x86_64) AppleWebKit/537.36 (KHTML, like Gecko) Chrome/120.0.0.0 Safari/537.36'')]"

definition webshare_Resolve :: "'w net \<Rightarrow> string \<Rightarrow> ('w outside, error + ResolvedTarget) state" where
  "webshare_Resolve net rawURL =
     (case url_Parse rawURL of
        Inl e \<Rightarrow> return (Inl e)
      | Inr u \<Rightarrow>
          (let ident = extractWebshareIdent u in
           if ident = '''' then return (Inl (ErrNew ''webshare_ident_not_found''))
           else do {
             i \<leftarrow> ws_fileInfo net ident;
             case i of
               Inl e \<Rightarrow> return (Inl e)
             | Inr (name, sz) \<Rightarrow> do {
                 l \<leftarrow> ws_fileLink net ident;
                 return (case l of
                   Inl e \<Rightarrow> Inl e
                 | Inr link \<Rightarrow>
                     Inr \<lparr>Kind = ''aria2'', TargetURL = link, Headers = webshare_headers,
                          Options = webshare_options, TargetFilename = name, Size = sz\<rparr>)
               }
           }))"

definition NewWebshareResolver :: "'w net \<Rightarrow> 'w outside resolver" where
  "NewWebshareResolver net = \<lparr>rs_CanHandle = webshare_CanHandle, rs_Resolve = webshare_Resolve net\<rparr>"

section \<open>The registry of the daemon\<close>

text \<open>As \<open>main\<close> of cmd/dlqd makes it.\<close>

definition daemon_registry :: "'w net \<Rightarrow> (byte list \<Rightarrow> byte list \<Rightarrow> byte list) \<Rightarrow> 'w outside Registry" where
  "daemon_registry net aesD =
     (let webshareResolver = NewWebshareResolver net;
          megaResolver = NewMegaResolver net aesD;
          httpResolver = NewHTTPResolver;
          r0 = NewRegistry [webshareResolver, megaResolver, httpResolver];
          r1 = RegisterSite ''webshare'' (Some webshareResolver) r0;
          r2 = RegisterSite ''mega'' (Some megaResolver) r1;
          r3 = RegisterSite ''http'' (Some httpResolver) r2
      in RegisterSite ''https'' (Some httpResolver) r3)"

end
