(* ===== verification/Mega_Decryptor.thy ===== *)
theory Mega_Decryptor
  imports Mega_Crypto Go_Url Go_Filepath Status
begin

text \<open>
  internal/queue/mega_decryptor.go: the link of a MEGA file and the decryption of a downloaded
  file in place, on the file system of theory Go_Os. A result \<open>None\<close> would be a computation that
  does not return.

  The lemmas show that the decryption is atomic: the file is either replaced by its whole decrypted
  content, with the MAC checked, or left as it was.
\<close>

section \<open>Links\<close>

definition isValidMegaToken :: "string \<Rightarrow> bool" where
  "isValidMegaToken v \<longleftrightarrow> v \<noteq> '''' \<and>
     list_all (\<lambda>c. is_lower c \<or> is_upper c \<or> is_digit c \<or> c = CHR ''-'' \<or> c = CHR ''_'') v"

definition Trim_slash :: "string \<Rightarrow> string" where
  "Trim_slash s = TrimFunc (\<lambda>c. c = CHR ''/'') s"

text \<open>The two tokens of a link, from the parsed URL: file id and key.\<close>

definition mega_link_tokens :: "url \<Rightarrow> string \<times> string" where
  "mega_link_tokens u =
     (let path = Trim_slash (Path u); fragment = TrimSpace (Fragment u) in
      if HasPrefix path ''file/'' then
        (let parts = split_on CHR ''/'' path in
         (if length parts \<ge> 2 then TrimSpace (parts ! 1) else '''', TrimSpace fragment))
      else if HasPrefix fragment ''!'' then
        (let parts = split_on CHR ''!'' (TrimPrefix fragment ''!'') in
         if length parts \<ge> 2 then (TrimSpace (parts ! 0), TrimSpace (parts ! 1)) else ('''', ''''))
      else ('''', ''''))"

definition parseMegaFileLink :: "string \<Rightarrow> error + string \<times> string" where
  "parseMegaFileLink raw =
     (case url_Parse (TrimSpace raw) of
        Inl e \<Rightarrow> Inl e
      | Inr u \<Rightarrow>
          (case mega_link_tokens u of (fileID, fileKey) \<Rightarrow>
             if fileID = '''' \<or> fileKey = '''' then Inl (ErrNew ''mega public file link required'')
             else if \<not> isValidMegaToken fileID \<or> \<not> isValidMegaToken fileKey
               then Inl (ErrNew ''mega link invalid tokens'')
             else Inr (fileID, fileKey)))"

section \<open>Decrypting in place\<close>

definition temp_path :: "string \<Rightarrow> nat \<Rightarrow> 'z fs_scheme \<Rightarrow> string" where
  "temp_path path n s =
     (let dir = Dir path; name = ''.'' @ Base path @ ''.dlq-mega-'' @ TempSuffix s n in
      if HasSuffix dir ''/'' then dir @ name else dir @ ''/'' @ name)"

text \<open>\<open>os.CreateTemp\<close> makes a file that did not exist, or fails.\<close>

definition CreateTemp :: "string \<Rightarrow> 'z fs_scheme \<Rightarrow> (error + string) \<times> 'z fs_scheme" where
  "CreateTemp path s =
     (let tmp = temp_path path (FsStep s) s in
      case FsFault s (FsStep s) of
        Some e \<Rightarrow> (Inl e, fs_next s)
      | None \<Rightarrow>
          if FileOf s tmp \<noteq> None then (Inl (ErrNew (''createtemp '' @ tmp @ '': file exists'')), fs_next s)
          else (Inr tmp, (fs_next s)\<lparr>FileOf := (FileOf s)(tmp \<mapsto> [])\<rparr>))"

text \<open>A read of a buffer of 1 MiB with \<open>avail\<close> bytes to come returns at least one of them.\<close>

definition read_len :: "nat \<Rightarrow> nat \<Rightarrow> nat" where
  "read_len wanted avail = max 1 (min wanted (min (1024 * 1024) avail))"

text \<open>The loop over the input, of which \<open>inp\<close> is left at offset \<open>pos\<close>; it ends with an error or with
  the state of the MAC.\<close>

function decrypt_loop :: "(byte list \<Rightarrow> byte list) \<Rightarrow> byte list \<Rightarrow> string \<Rightarrow> nat \<Rightarrow> byte list
    \<Rightarrow> megaMACCalculator option \<Rightarrow> 'z fs_scheme
    \<Rightarrow> ((error + megaMACCalculator option) \<times> 'z fs_scheme) option" where
  "decrypt_loop E iv tmp pos inp mac s =
     (case CtxErr s (FsStep s) of
        Some e \<Rightarrow> Some (Inl e, s)
      | None \<Rightarrow>
          (case FsFault s (FsStep s) of
             Some e \<Rightarrow> Some (Inl e, fs_next s)
           | None \<Rightarrow>
               if inp = [] then Some (Inr mac, fs_next s)
               else
                 (let n = read_len (ReadLen s (FsStep s)) (length inp);
                      out = XORKeyStream E iv pos (take n inp) in
                  case (case mac of None \<Rightarrow> Some None | Some m \<Rightarrow> map_option Some (mac_Write E out m)) of
                    None \<Rightarrow> None
                  | Some mac' \<Rightarrow>
                      (case fs_append tmp out (fs_next s) of
                         (Some e, s2) \<Rightarrow> Some (Inl e, s2)
                       | (None, s2) \<Rightarrow> decrypt_loop E iv tmp (pos + n) (drop n inp) mac' s2))))"
  by pat_completeness auto
termination decrypt_loop
  by (relation "measure (\<lambda>(E, iv, tmp, pos, inp, mac, s). length inp)")
    (auto simp: read_len_def length_greater_0_conv [symmetric] simp del: length_greater_0_conv)

declare decrypt_loop.simps [simp del]

definition mac_mismatch :: error where
  "mac_mismatch = ErrNew ''mega content mac mismatch''"

text \<open>What follows the loop: the check of the MAC, then \<open>Sync\<close>, the two \<open>Close\<close> and \<open>Rename\<close>.\<close>

definition commit_temp :: "string \<Rightarrow> string \<Rightarrow> 'z fs_scheme \<Rightarrow> error option \<times> 'z fs_scheme" where
  "commit_temp tmp path s =
     (case fs_op id s of
        (Some e, s1) \<Rightarrow> (Some e, snd (fs_op id s1))
      | (None, s1) \<Rightarrow> (case fs_op id s1 of
          (Some e, s2) \<Rightarrow> (Some e, s2)
        | (None, s2) \<Rightarrow> (case fs_op id s2 of
            (Some e, s3) \<Rightarrow> (Some e, s3)
          | (None, s3) \<Rightarrow> fs_op (fs_rename tmp path) s3)))"

definition decrypt_to_temp :: "(byte list \<Rightarrow> byte list) \<Rightarrow> string \<Rightarrow> string \<Rightarrow> byte list \<Rightarrow> megaContentKey
    \<Rightarrow> 'z fs_scheme \<Rightarrow> (error option \<times> 'z fs_scheme) option" where
  "decrypt_to_temp E path tmp content key s =
     (case fs_op id s of
        (Some e, s1) \<Rightarrow> Some (Some e, s1)
      | (None, s1) \<Rightarrow>
          (let mac = (if verifyMAC key then Some (newMegaMACCalculator (nonce key)) else None);
               iv = nonce key @ replicate 8 0 in
           case decrypt_loop E iv tmp 0 content mac s1 of
             None \<Rightarrow> None
           | Some (Inl e, s2) \<Rightarrow> Some (Some e, s2)
           | Some (Inr None, s2) \<Rightarrow> Some (commit_temp tmp path s2)
           | Some (Inr (Some m), s2) \<Rightarrow>
               if mac_Sum E m \<noteq> expectMAC key then Some (Some mac_mismatch, s2)
               else Some (commit_temp tmp path s2)))"

definition decryptMegaFileInPlace :: "(byte list \<Rightarrow> byte list \<Rightarrow> byte list) \<Rightarrow> string \<Rightarrow> megaContentKey
    \<Rightarrow> 'z fs_scheme \<Rightarrow> (error option \<times> 'z fs_scheme) option" where
  "decryptMegaFileInPlace aes path key s =
     (case FileOf s path of
        None \<Rightarrow> Some (Some (errOpen path), fs_next s)
      | Some content \<Rightarrow>
          (case fs_op id s of
             (Some e, s1) \<Rightarrow> Some (Some e, s1)
           | (None, s1) \<Rightarrow> (case fs_op id s1 of
               (Some e, s2) \<Rightarrow> Some (Some e, s2)
             | (None, s2) \<Rightarrow> (case CreateTemp path s2 of
                 (Inl e, s3) \<Rightarrow> Some (Some e, s3)
               | (Inr tmp, s3) \<Rightarrow>
                   (case decrypt_to_temp (aes (aesKey key)) path tmp content key s3 of
                      None \<Rightarrow> None
                    | Some (None, s4) \<Rightarrow> Some (None, s4)
                    | Some (Some e, s4) \<Rightarrow> Some (Some e, snd (fs_op (fs_remove tmp) s4)))))))"

definition mega_MaybeDecrypt :: "(byte list \<Rightarrow> byte list \<Rightarrow> byte list) \<Rightarrow> string \<Rightarrow> string \<Rightarrow> string
    \<Rightarrow> 'z fs_scheme \<Rightarrow> ((bool \<times> error option) \<times> 'z fs_scheme) option" where
  "mega_MaybeDecrypt aes site rawURL filePath0 s =
     (if \<not> IsMegaJob site rawURL then Some ((False, None), s)
      else let filePath = TrimSpace filePath0 in
        if filePath = '''' then Some ((True, Some (ErrNew ''missing file path'')), s)
        else (case parseMegaFileLink rawURL of
            Inl e \<Rightarrow> Some ((True, Some e), s)
          | Inr (_, keyToken) \<Rightarrow> (case parseMegaContentKey keyToken of
              Inl e \<Rightarrow> Some ((True, Some e), s)
            | Inr contentKey \<Rightarrow>
                map_option (\<lambda>(e, s'). ((True, e), s')) (decryptMegaFileInPlace aes filePath contentKey s))))"

section \<open>The loop\<close>

lemma read_len_pos: "0 < read_len w n"
  by (simp add: read_len_def)

text \<open>What the MAC has seen, when there is one.\<close>

definition mac_seen :: "(byte list \<Rightarrow> byte list) \<Rightarrow> byte list \<Rightarrow> byte list \<Rightarrow> megaMACCalculator option \<Rightarrow> bool" where
  "mac_seen E n d mac \<longleftrightarrow> (case mac of None \<Rightarrow> True | Some m \<Rightarrow> mac_of E n d m)"

lemma mac_seen_write:
  assumes "mac_seen E n d mac"
  obtains mac1 where "(case mac of None \<Rightarrow> Some None | Some m \<Rightarrow> map_option Some (mac_Write E out m)) = Some mac1"
    and "mac_seen E n (d @ out) mac1" and "(mac1 = None) = (mac = None)"
proof (cases mac)
  case (Some m)
  then obtain m1 where "mac_Write E out m = Some m1" "mac_of E n (d @ out) m1"
    using mac_of_Write assms by (metis mac_seen_def option.simps(5))
  with Some that show thesis by (simp add: mac_seen_def)
qed (use that in \<open>simp add: mac_seen_def\<close>)

text \<open>What a run of the loop gives: it touches the temporary file only; when it comes to the end of
  the input, that file holds the decrypted bytes and the MAC has seen them; it does so when nothing
  fails.\<close>

definition loop_result :: "(byte list \<Rightarrow> byte list) \<Rightarrow> byte list \<Rightarrow> string \<Rightarrow> byte list \<Rightarrow> byte list
    \<Rightarrow> megaMACCalculator option \<Rightarrow> 'z fs_scheme \<Rightarrow> (error + megaMACCalculator option) \<times> 'z fs_scheme \<Rightarrow> bool" where
  "loop_result E n tmp acc d mac s res \<longleftrightarrow>
     (\<exists>acc'. FileOf (snd res) = (FileOf s)(tmp \<mapsto> acc')) \<and>
     (no_faults s \<longrightarrow> no_faults (snd res) \<and> \<not> isl (fst res)) \<and>
     (\<forall>mac'. fst res = Inr mac' \<longrightarrow> FileOf (snd res) = (FileOf s)(tmp \<mapsto> acc) \<and>
        mac_seen E n d mac' \<and> (mac' = None) = (mac = None))"

lemma decrypt_loop_ok:
  assumes "FileOf s tmp = Some acc" and "mac_seen E n d mac"
  shows "\<exists>res. decrypt_loop E iv tmp pos inp mac s = Some res \<and>
    loop_result E n tmp (acc @ XORKeyStream E iv pos inp) (d @ XORKeyStream E iv pos inp) mac s res"
  using assms
proof (induction "length inp" arbitrary: inp pos acc mac d s rule: less_induct)
  case less
  have same: "(FileOf s)(tmp \<mapsto> acc) = FileOf s" using less.prems(1) by (simp add: fun_upd_idem)
  then have keeps: "\<exists>acc'. FileOf s = (FileOf s)(tmp \<mapsto> acc')" by metis
  consider (cancelled) e where "CtxErr s (FsStep s) = Some e"
    | (unreadable) e where "CtxErr s (FsStep s) = None" "FsFault s (FsStep s) = Some e"
    | (eof) "CtxErr s (FsStep s) = None" "FsFault s (FsStep s) = None" "inp = []"
    | (more) "CtxErr s (FsStep s) = None" "FsFault s (FsStep s) = None" "inp \<noteq> []" by blast
  then show ?case
  proof cases
    case cancelled
    with keeps show ?thesis by (subst decrypt_loop.simps) (auto simp: loop_result_def no_faults_def)
  next
    case unreadable
    with keeps show ?thesis by (subst decrypt_loop.simps) (auto simp: loop_result_def no_faults_def)
  next
    case eof
    with keeps same less.prems(2) show ?thesis by (subst decrypt_loop.simps) (simp add: loop_result_def)
  next
    case more
    define k where "k = read_len (ReadLen s (FsStep s)) (length inp)"
    define out where "out = XORKeyStream E iv pos (take k inp)"
    obtain mac1 where mac1: "(case mac of None \<Rightarrow> Some None | Some m \<Rightarrow> map_option Some (mac_Write E out m)) = Some mac1"
        "mac_seen E n (d @ out) mac1" "(mac1 = None) = (mac = None)"
      using mac_seen_write [OF less.prems(2)] by blast
    have loop: "decrypt_loop E iv tmp pos inp mac s =
        (case fs_append tmp out (fs_next s) of
           (Some e, s2) \<Rightarrow> Some (Inl e, s2)
         | (None, s2) \<Rightarrow> decrypt_loop E iv tmp (pos + k) (drop k inp) mac1 s2)"
      using more mac1(1) unfolding k_def out_def by (subst decrypt_loop.simps) (simp add: Let_def)
    show ?thesis
    proof (cases rule: fs_append_cases [of "fs_next s" tmp acc out, case_names tmp failed ok])
      case (failed e s' b)
      then show ?thesis using loop by (auto simp: loop_result_def no_faults_def)
    next
      case (ok s2)
      then have s2: "FileOf s2 = (FileOf s)(tmp \<mapsto> acc @ out)" "no_faults s2 = no_faults s" by simp_all
      have "length (drop k inp) < length inp" using more(3) read_len_pos by (simp add: k_def)
      from less.hyps [OF this, of s2 "acc @ out" "d @ out" mac1 "pos + k"] s2(1) mac1(2)
      obtain res where rec: "decrypt_loop E iv tmp (pos + k) (drop k inp) mac1 s2 = Some res"
          "loop_result E n tmp ((acc @ out) @ XORKeyStream E iv (pos + k) (drop k inp))
             ((d @ out) @ XORKeyStream E iv (pos + k) (drop k inp)) mac1 s2 res" by auto
      have whole: "out @ XORKeyStream E iv (pos + k) (drop k inp) = XORKeyStream E iv pos inp"
      proof (cases "k \<le> length inp")
        case True
        then show ?thesis using XORKeyStream_append [of E iv pos "take k inp" "drop k inp"] by (simp add: out_def)
      qed (simp add: out_def)
      have "loop_result E n tmp (acc @ XORKeyStream E iv pos inp) (d @ XORKeyStream E iv pos inp) mac s res"
        using rec(2) s2 mac1(3) by (simp add: loop_result_def whole)
      with loop ok(1) rec(1) show ?thesis by simp
    qed (use less.prems(1) in simp)
  qed
qed

section \<open>The whole decryption\<close>

lemma commit_temp_cases:
  obtains (failed) e s' where "commit_temp tmp path s = (Some e, s')" and "FileOf s' = FileOf s" and "\<not> no_faults s"
  | (ok) s' where "commit_temp tmp path s = (None, s')" and "FileOf s' = (FileOf s)(tmp := None, path := FileOf s tmp)"
proof (cases "fst (commit_temp tmp path s)")
  case None
  then show thesis
    by (intro ok [of "snd (commit_temp tmp path s)"])
      (auto simp: commit_temp_def fs_op_def fs_rename_def prod_eq_iff split: option.splits)
next
  case (Some e)
  then show thesis
    by (intro failed [of e "snd (commit_temp tmp path s)"])
      (auto simp: commit_temp_def fs_op_def no_faults_def prod_eq_iff split: option.splits)
qed

text \<open>The decrypted content under a key, and whether the key's MAC admits it.\<close>

definition mega_plain :: "(byte list \<Rightarrow> byte list \<Rightarrow> byte list) \<Rightarrow> megaContentKey \<Rightarrow> byte list \<Rightarrow> byte list" where
  "mega_plain aes key content = XORKeyStream (aes (aesKey key)) (nonce key @ replicate 8 0) 0 content"

definition mega_admits :: "(byte list \<Rightarrow> byte list \<Rightarrow> byte list) \<Rightarrow> megaContentKey \<Rightarrow> byte list \<Rightarrow> bool" where
  "mega_admits aes key plain \<longleftrightarrow>
     (verifyMAC key \<longrightarrow> mega_mac (aes (aesKey key)) (nonce key) plain = expectMAC key)"

text \<open>The three things a run does: it returns; without error the admitted plain text is in place;
  with an error a file the run has made itself is all that can be new.\<close>

definition in_place_result :: "(byte list \<Rightarrow> byte list \<Rightarrow> byte list) \<Rightarrow> string \<Rightarrow> megaContentKey \<Rightarrow> byte list
    \<Rightarrow> 'z fs_scheme \<Rightarrow> error option \<times> 'z fs_scheme \<Rightarrow> bool" where
  "in_place_result aes path key content s res \<longleftrightarrow>
     (case fst res of
        None \<Rightarrow> mega_admits aes key (mega_plain aes key content) \<and>
          FileOf (snd res) = (FileOf s)(path \<mapsto> mega_plain aes key content)
      | Some _ \<Rightarrow> \<not> (no_faults s \<and> mega_admits aes key (mega_plain aes key content) \<and>
            FileOf s (temp_path path (FsStep s + 2) s) = None) \<and>
          (\<exists>tmp. \<forall>q. FileOf (snd res) q = FileOf s q \<or> FileOf s q = None \<and> q = tmp))"

lemma decrypt_to_temp_ok:
  assumes "FileOf s tmp = Some []" and "length (nonce key) = 8"
  shows "\<exists>e s'. decrypt_to_temp (aes (aesKey key)) path tmp content key s = Some (e, s') \<and>
    (e = None \<longrightarrow> mega_admits aes key (mega_plain aes key content) \<and>
       FileOf s' = (FileOf s)(tmp := None, path \<mapsto> mega_plain aes key content)) \<and>
    (e \<noteq> None \<longrightarrow> \<not> (no_faults s \<and> mega_admits aes key (mega_plain aes key content)) \<and>
       (\<exists>acc. FileOf s' = (FileOf s)(tmp \<mapsto> acc)))"
proof (cases rule: fs_op_cases [of id s])
  case (failed e s')
  moreover have "(FileOf s)(tmp \<mapsto> []) = FileOf s" using assms(1) by (simp add: fun_upd_idem)
  moreover have "\<not> no_faults s" using failed(1) fs_op_no_faults [of s id] by auto
  ultimately show ?thesis by (auto simp: decrypt_to_temp_def intro: exI [of _ "[]"])
next
  case (ok s1)
  let ?E = "aes (aesKey key)"
  let ?P = "mega_plain aes key content"
  define mac where "mac = (if verifyMAC key then Some (newMegaMACCalculator (nonce key)) else None)"
  have "mac_seen ?E (nonce key) [] mac"
    using mac_of_new [OF assms(2)] by (simp add: mac_def mac_seen_def)
  from decrypt_loop_ok [OF _ this, of s1 tmp "[]" "nonce key @ replicate 8 0" 0 content] assms(1) ok(2)
  obtain res where loop: "decrypt_loop ?E (nonce key @ replicate 8 0) tmp 0 content mac s1 = Some res"
      "loop_result ?E (nonce key) tmp ?P ?P mac s1 res" by (auto simp: mega_plain_def)
  obtain r s2 where res: "res = (r, s2)" by fastforce
  note loop_res = loop(2) [unfolded loop_result_def res fst_conv snd_conv]
  have run: "decrypt_to_temp ?E path tmp content key s =
      (case res of (Inl e, s2) \<Rightarrow> Some (Some e, s2)
       | (Inr None, s2) \<Rightarrow> Some (commit_temp tmp path s2)
       | (Inr (Some m), s2) \<Rightarrow>
           if mac_Sum ?E m \<noteq> expectMAC key then Some (Some mac_mismatch, s2)
           else Some (commit_temp tmp path s2))"
    using ok(1) loop(1) by (simp add: decrypt_to_temp_def Let_def mac_def [symmetric] split: sum.split option.split)
  show ?thesis
  proof (cases r)
    case (Inl e)
    then show ?thesis using run res loop_res ok(2) by auto
  next
    case (Inr mac')
    have admits: "mega_admits aes key ?P = (case mac' of None \<Rightarrow> True | Some m \<Rightarrow> mac_Sum ?E m = expectMAC key)"
      using loop_res Inr mac_of_Sum by (auto simp: mega_admits_def mac_def mac_seen_def split: option.splits if_splits)
    have s2: "FileOf s2 = (FileOf s)(tmp \<mapsto> ?P)" using loop_res Inr ok(2) by simp
    have step: "decrypt_to_temp ?E path tmp content key s =
        Some (if mega_admits aes key ?P then commit_temp tmp path s2 else (Some mac_mismatch, s2))"
      using run res Inr admits by (simp split: option.split)
    show ?thesis
    proof (cases "mega_admits aes key ?P")
      case True
      then show ?thesis
        using step s2 loop_res ok(2) by (cases rule: commit_temp_cases [of tmp path s2]) auto
    qed (use step s2 in auto)
  qed
qed

text \<open>Up to the creation of the temporary file.\<close>

lemma decrypt_starts:
  assumes "FileOf s path = Some content"
  shows "(\<exists>e s'. decryptMegaFileInPlace aes path key s = Some (Some e, s') \<and> FileOf s' = FileOf s \<and>
      \<not> (no_faults s \<and> FileOf s (temp_path path (FsStep s + 2) s) = None)) \<or>
    (\<exists>tmp s3. FileOf s tmp = None \<and> FileOf s3 = (FileOf s)(tmp \<mapsto> []) \<and> no_faults s3 = no_faults s \<and>
      decryptMegaFileInPlace aes path key s =
         (case decrypt_to_temp (aes (aesKey key)) path tmp content key s3 of
            None \<Rightarrow> None | Some (None, s4) \<Rightarrow> Some (None, s4)
          | Some (Some e, s4) \<Rightarrow> Some (Some e, snd (fs_op (fs_remove tmp) s4))))"
proof -
  let ?f = "FsFault s" let ?n = "FsStep s"
  define s2 where "s2 = fs_next (fs_next s)"
  define tmp where "tmp = temp_path path (FsStep s2) s2"
  have s2: "FileOf s2 = FileOf s" "FsFault s2 = ?f" "FsStep s2 = ?n + 2" "no_faults s2 = no_faults s"
      "tmp = temp_path path (?n + 2) s" "temp_path path k s2 = temp_path path k s" for k
    by (simp_all add: s2_def tmp_def temp_path_def fs_next_def)
  consider (failed) "\<not> no_faults s" "(?f ?n, ?f (Suc ?n), ?f (?n + 2)) \<noteq> (None, None, None)"
    | (exists) "?f ?n = None" "?f (Suc ?n) = None" "?f (?n + 2) = None" "FileOf s tmp \<noteq> None"
    | (fresh) "?f ?n = None" "?f (Suc ?n) = None" "?f (?n + 2) = None" "FileOf s tmp = None"
    by (auto simp: no_faults_def)
  then show ?thesis
  proof cases
    case failed
    then show ?thesis
      using assms by (auto simp: decryptMegaFileInPlace_def fs_op_def CreateTemp_def split: option.splits)
  next
    case exists
    then have "CreateTemp path s2 = (Inl (ErrNew (''createtemp '' @ tmp @ '': file exists'')), fs_next s2)"
      by (simp add: CreateTemp_def Let_def s2)
    with exists show ?thesis
      using assms s2 by (simp add: decryptMegaFileInPlace_def fs_op_def s2_def [symmetric])
  next
    case fresh
    then have "CreateTemp path s2 = (Inr tmp, (fs_next s2)\<lparr>FileOf := (FileOf s)(tmp \<mapsto> [])\<rparr>)"
      by (simp add: CreateTemp_def Let_def s2)
    then have "decryptMegaFileInPlace aes path key s =
         (case decrypt_to_temp (aes (aesKey key)) path tmp content key ((fs_next s2)\<lparr>FileOf := (FileOf s)(tmp \<mapsto> [])\<rparr>) of
            None \<Rightarrow> None | Some (None, s4) \<Rightarrow> Some (None, s4)
          | Some (Some e, s4) \<Rightarrow> Some (Some e, snd (fs_op (fs_remove tmp) s4)))"
      using fresh assms by (simp add: decryptMegaFileInPlace_def fs_op_def s2_def [symmetric] cong: option.case_cong)
    then show ?thesis
      using fresh s2 by (intro disjI2 exI [of _ tmp] exI [of _ "(fs_next s2)\<lparr>FileOf := (FileOf s)(tmp \<mapsto> [])\<rparr>"]) simp
  qed
qed

lemma decryptMegaFileInPlace_ok:
  assumes "FileOf s path = Some content" and "length (nonce key) = 8"
  shows "\<exists>res. decryptMegaFileInPlace aes path key s = Some res \<and> in_place_result aes path key content s res"
proof (rule disjE [OF decrypt_starts [OF assms(1), of aes key]], goal_cases)
  case 1
  then show ?case by (auto simp: in_place_result_def)
next
  case 2
  then obtain tmp s3 where temp: "FileOf s tmp = None" "FileOf s3 = (FileOf s)(tmp \<mapsto> [])" "no_faults s3 = no_faults s"
      "decryptMegaFileInPlace aes path key s =
         (case decrypt_to_temp (aes (aesKey key)) path tmp content key s3 of
            None \<Rightarrow> None | Some (None, s4) \<Rightarrow> Some (None, s4)
          | Some (Some e, s4) \<Rightarrow> Some (Some e, snd (fs_op (fs_remove tmp) s4)))" by blast
  have "tmp \<noteq> path" using temp(1) assms(1) by auto
  obtain e s4 where to: "decrypt_to_temp (aes (aesKey key)) path tmp content key s3 = Some (e, s4)"
      "e = None \<longrightarrow> mega_admits aes key (mega_plain aes key content) \<and>
         FileOf s4 = (FileOf s3)(tmp := None, path \<mapsto> mega_plain aes key content)"
      "e \<noteq> None \<longrightarrow> \<not> (no_faults s3 \<and> mega_admits aes key (mega_plain aes key content)) \<and>
         (\<exists>acc. FileOf s4 = (FileOf s3)(tmp \<mapsto> acc))"
    using decrypt_to_temp_ok [of s3 tmp key aes path content] temp(2) assms(2) by auto
  show ?case
  proof (cases e)
    case None
    then show ?thesis using to temp \<open>tmp \<noteq> path\<close> by (auto simp: in_place_result_def fun_eq_iff)
  next
    case (Some er)
    have "FileOf (snd (fs_op (fs_remove tmp) s4)) q = FileOf s q \<or> FileOf s q = None \<and> q = tmp" for q
      using to(3) Some temp(1,2) by (auto simp: FileOf_fs_op fs_remove_def split: option.split)
    then show ?thesis using Some to temp by (auto simp: in_place_result_def)
  qed
qed

lemma parseMegaContentKey_nonce: "parseMegaContentKey token = Inr key \<Longrightarrow> length (nonce key) = 8"
  by (auto simp: parseMegaContentKey_def split: sum.splits if_splits)

lemma mega_MaybeDecrypt_runs:
  assumes "IsMegaJob site rawURL" and "parseMegaFileLink rawURL = Inr (fileID, token)"
    and "parseMegaContentKey token = Inr key" and "TrimSpace filePath \<noteq> ''''"
    and "FileOf s (TrimSpace filePath) = Some content"
  shows "\<exists>e s'. mega_MaybeDecrypt aes site rawURL filePath s = Some ((True, e), s') \<and>
    in_place_result aes (TrimSpace filePath) key content s (e, s')"
  using decryptMegaFileInPlace_ok [OF assms(5) parseMegaContentKey_nonce [OF assms(3)], of aes] assms(1-4)
  by (auto simp: mega_MaybeDecrypt_def Let_def)

text \<open>A file system in which nothing fails, and which reads five bytes at a time.\<close>

definition sample_fs :: "string \<Rightarrow> byte list \<Rightarrow> fs" where
  "sample_fs path content =
     \<lparr>FileOf = [path \<mapsto> content], FsStep = 0, FsFault = \<lambda>_. None, ReadLen = \<lambda>_. 5,
      TempSuffix = \<lambda>_. ''123'', CtxErr = \<lambda>_. None\<rparr>"

text \<open>A link with a key of 32 bytes: the second half is the nonce 7, 7, ... and a MAC of zeros.
  The sample cipher maps every block to 9, 9, ...\<close>

definition sample_token :: string where
  "sample_token = ''AAAAAAAAAAAAAAAAAAAAAAcHBwcHBwcHAAAAAAAAAAA''"

definition sample_link :: string where
  "sample_link = ''https://mega.nz/file/abc#'' @ sample_token"

definition sample_key :: megaContentKey where
  "sample_key = \<lparr>aesKey = replicate 8 7 @ replicate 8 0, nonce = replicate 8 7,
     expectMAC = replicate 8 0, verifyMAC = True\<rparr>"

definition sample_aes :: "byte list \<Rightarrow> byte list \<Rightarrow> byte list" where
  "sample_aes k b = replicate 16 9"

definition sample_cipher :: "byte list" where
  "sample_cipher = [8, 11, 10]"

lemma sample_link_ok:
  "IsMegaJob ''mega'' sample_link"
  "parseMegaFileLink sample_link = Inr (''abc'', sample_token)"
  "parseMegaContentKey sample_token = Inr sample_key"
  "TrimSpace ''/d/f'' = ''/d/f''"
  by code_simp+

lemma sample_cipher_ok:
  "XORKeyStream (sample_aes k) (nonce sample_key @ replicate 8 0) 0 [1, 2, 3] = sample_cipher"
  by (simp add: sample_aes_def sample_cipher_def key_byte_def)

lemma sample_mac_ok:
  "mega_mac (sample_aes k) (nonce sample_key) [1, 2, 3] = expectMAC sample_key"
proof -
  have "chunk_macs (sample_aes k) b 0 f [1, 2, 3] = replicate 16 9" for b f
    by (subst chunk_macs.simps, subst chunk_macs.simps) (simp add: megaChunkSize_def sample_aes_def)
  moreover have "replicate 8 0 = [0, 0, 0, 0, 0, 0, 0, 0 :: byte]" by (simp add: numeral_eq_Suc)
  ultimately show ?thesis
    by (simp add: mega_mac_def sample_key_def condense_def be_Uint32_def be_PutUint32_def)
qed

lemma sample_temp_ok:
  "temp_path ''/d/f'' (FsStep (sample_fs ''/d/f'' sample_cipher) + 2) (sample_fs ''/d/f'' sample_cipher) \<noteq> ''/d/f''"
  by code_simp

text \<open>
  C4. Decryption in place is atomic. Whatever fails (a read, a write, a rename, the context, the
  MAC), the call returns. Without an error the file holds the whole plain text, the MAC of the
  plain text is the one of the key, and nothing else has changed; with an error every file that
  existed is as it was, and at most one file, which did not exist before, may be left behind.
\<close>

theorem mega_MaybeDecrypt_atomic:
  assumes "IsMegaJob site rawURL" and "parseMegaFileLink rawURL = Inr (fileID, token)"
    and "parseMegaContentKey token = Inr key" and "TrimSpace filePath \<noteq> ''''"
    and "FileOf s (TrimSpace filePath) = Some content"
  shows "\<exists>e s'. mega_MaybeDecrypt aes site rawURL filePath s = Some ((True, e), s') \<and>
    (case e of
       None \<Rightarrow> mega_admits aes key (mega_plain aes key content) \<and>
         FileOf s' = (FileOf s)(TrimSpace filePath \<mapsto> mega_plain aes key content)
     | Some _ \<Rightarrow> \<exists>tmp. \<forall>q. FileOf s' q = FileOf s q \<or> FileOf s q = None \<and> q = tmp)"
proof -
  obtain e s' where "mega_MaybeDecrypt aes site rawURL filePath s = Some ((True, e), s')"
      "in_place_result aes (TrimSpace filePath) key content s (e, s')"
    using mega_MaybeDecrypt_runs [OF assms] by blast
  then show ?thesis by (cases e) (auto simp: in_place_result_def)
qed

theorem mega_MaybeDecrypt_atomic_witness:
  "\<exists>e s'. mega_MaybeDecrypt sample_aes ''mega'' sample_link ''/d/f'' (sample_fs ''/d/f'' sample_cipher) = Some ((True, e), s') \<and>
    (case e of
       None \<Rightarrow> mega_admits sample_aes sample_key (mega_plain sample_aes sample_key sample_cipher) \<and>
         FileOf s' = (FileOf (sample_fs ''/d/f'' sample_cipher))(''/d/f'' \<mapsto> mega_plain sample_aes sample_key sample_cipher)
     | Some _ \<Rightarrow> \<exists>tmp. \<forall>q. FileOf s' q = FileOf (sample_fs ''/d/f'' sample_cipher) q \<or>
         FileOf (sample_fs ''/d/f'' sample_cipher) q = None \<and> q = tmp)"
  using mega_MaybeDecrypt_atomic [OF sample_link_ok(1-3), of "''/d/f''" "sample_fs ''/d/f'' sample_cipher" sample_cipher sample_aes]
  unfolding sample_link_ok(4) by (simp add: sample_fs_def)

text \<open>
  C5. Encrypted files come back: when nothing fails and the name of the temporary file is free, a
  file that holds the counter-mode encryption of a plain text, under a key whose MAC is that of the
  plain text (or which has none), is replaced by the plain text.
\<close>

theorem mega_decrypt_roundtrip:
  assumes "IsMegaJob site rawURL" and "parseMegaFileLink rawURL = Inr (fileID, token)"
    and "parseMegaContentKey token = Inr key" and "TrimSpace filePath \<noteq> ''''"
    and "FileOf s (TrimSpace filePath) =
      Some (XORKeyStream (aes (aesKey key)) (nonce key @ replicate 8 0) 0 plain)"
    and "mega_admits aes key plain"
    and "no_faults s" and "FileOf s (temp_path (TrimSpace filePath) (FsStep s + 2) s) = None"
  shows "\<exists>s'. mega_MaybeDecrypt aes site rawURL filePath s = Some ((True, None), s') \<and>
    FileOf s' = (FileOf s)(TrimSpace filePath \<mapsto> plain)"
proof -
  have plain: "mega_plain aes key (XORKeyStream (aes (aesKey key)) (nonce key @ replicate 8 0) 0 plain) = plain"
    by (simp add: mega_plain_def)
  obtain e s' where "mega_MaybeDecrypt aes site rawURL filePath s = Some ((True, e), s')"
      "in_place_result aes (TrimSpace filePath) key (XORKeyStream (aes (aesKey key)) (nonce key @ replicate 8 0) 0 plain) s (e, s')"
    using mega_MaybeDecrypt_runs [OF assms(1-5), of aes] by blast
  with plain assms(6-8) show ?thesis by (cases e) (auto simp: in_place_result_def)
qed

theorem mega_decrypt_roundtrip_witness:
  "\<exists>s'. mega_MaybeDecrypt sample_aes ''mega'' sample_link ''/d/f'' (sample_fs ''/d/f'' sample_cipher) = Some ((True, None), s') \<and>
    FileOf s' = [''/d/f'' \<mapsto> [1, 2, 3]]"
proof -
  have "mega_admits sample_aes sample_key [1, 2, 3]"
    using sample_mac_ok by (simp add: mega_admits_def)
  moreover have "no_faults (sample_fs ''/d/f'' sample_cipher)" by (simp add: no_faults_def sample_fs_def)
  moreover have "FileOf (sample_fs ''/d/f'' sample_cipher) ''/d/f'' = Some sample_cipher"
      "FileOf (sample_fs ''/d/f'' sample_cipher) q = None \<longleftrightarrow> q \<noteq> ''/d/f''"
      "(FileOf (sample_fs ''/d/f'' sample_cipher))(''/d/f'' \<mapsto> [1, 2, 3]) = [''/d/f'' \<mapsto> [1, 2, 3]]" for q
    by (simp_all add: sample_fs_def)
  ultimately show ?thesis
    using mega_decrypt_roundtrip [of "''mega''" sample_link _ _ sample_key "''/d/f''" "sample_fs ''/d/f'' sample_cipher" sample_aes "[1, 2, 3]",
        OF sample_link_ok(1-3)] sample_link_ok(4) sample_cipher_ok sample_temp_ok by simp
qed

end
