(* ===== verification/Resolver_Laws.thy ===== *)
theory Resolver_Laws
  imports Resolver Mega_Decryptor Runner_Laws
begin

text \<open>
  Properties of the resolvers, most of them across components: the two packages that read MEGA
  links (internal/resolver and internal/queue) agree, a job that is sent to the MEGA resolver is
  recognised as a MEGA job by the queue, file names survive the encryption of attributes, and the
  errors of the servers reach the job as the codes of the queue.
\<close>

section \<open>The two readers of MEGA links\<close>

lemma valid_token_same: "res_isValidMegaToken = isValidMegaToken"
  by (simp add: fun_eq_iff res_isValidMegaToken_def isValidMegaToken_def)

text \<open>A reader of links, up to the texts of its errors.\<close>

definition read_link :: "error + string \<times> string \<Rightarrow> (string \<times> string) option" where
  "read_link r = (case r of Inl _ \<Rightarrow> None | Inr t \<Rightarrow> Some t)"

lemma res_parse_tokens:
  "read_link (res_parseMegaFileLink raw) =
     (case url_Parse raw of
        Inl _ \<Rightarrow> None
      | Inr u \<Rightarrow> (case mega_link_tokens u of (i, k) \<Rightarrow>
          if isValidMegaToken i \<and> isValidMegaToken k then Some (i, k) else None))"
  by (auto simp: read_link_def res_parseMegaFileLink_def mega_link_tokens_def Trim_slash_def valid_token_same
      isValidMegaToken_def [of "[]"] Let_def split: sum.splits prod.splits)

lemma queue_parse_tokens:
  "read_link (parseMegaFileLink raw) =
     (case url_Parse (TrimSpace raw) of
        Inl _ \<Rightarrow> None
      | Inr u \<Rightarrow> (case mega_link_tokens u of (i, k) \<Rightarrow>
          if isValidMegaToken i \<and> isValidMegaToken k then Some (i, k) else None))"
  by (auto simp: read_link_def parseMegaFileLink_def isValidMegaToken_def [of "[]"] split: sum.splits prod.splits)

lemma valid_token_space: "isValidMegaToken v \<Longrightarrow> TrimSpace v = v"
proof -
  assume v: "isValidMegaToken v"
  have "\<not> is_space c" if "c \<in> set v" for c
    using v that by (auto simp: isValidMegaToken_def list_all_iff is_space_def is_lower_def is_upper_def is_digit_def)
  moreover have "v \<noteq> []" using v by (simp add: isValidMegaToken_def)
  ultimately show ?thesis by (simp add: TrimSpace_def TrimFunc_id)
qed

lemma key_agrees:
  assumes "TrimSpace token = token"
  shows "(case deriveMegaAESKey token of Inl _ \<Rightarrow> None | Inr k \<Rightarrow> Some k) =
    (case parseMegaContentKey token of Inl _ \<Rightarrow> None | Inr key \<Rightarrow> Some (aesKey key))"
  using assms by (auto simp: deriveMegaAESKey_def decodeMegaBase64_def parseMegaContentKey_def split: sum.splits)

text \<open>
  C33. The two packages read the same links: on a URL without surrounding blanks, the resolver and
  the post-processing accept the same links and find the same file identifier and key in them, and
  they derive the same AES key from the key, or both reject it. So a file whose name could be
  deciphered when it was resolved is deciphered with that very key when it has been downloaded.
\<close>

theorem mega_link_readers_agree:
  assumes "TrimSpace raw = raw"
  shows "read_link (res_parseMegaFileLink raw) = read_link (parseMegaFileLink raw) \<and>
    (case res_parseMegaFileLink raw of
       Inl _ \<Rightarrow> True
     | Inr (_, token) \<Rightarrow>
         (case deriveMegaAESKey token of Inl _ \<Rightarrow> None | Inr k \<Rightarrow> Some k) =
         (case parseMegaContentKey token of Inl _ \<Rightarrow> None | Inr key \<Rightarrow> Some (aesKey key)))"
proof -
  have "isValidMegaToken token" if "res_parseMegaFileLink raw = Inr (i, token)" for i token
    using that by (auto simp: res_parseMegaFileLink_def valid_token_same Let_def split: sum.splits prod.splits if_splits)
  with assms valid_token_space show ?thesis
    by (auto simp: res_parse_tokens queue_parse_tokens key_agrees split: sum.splits)
qed

theorem mega_link_readers_agree_witness:
  "TrimSpace sample_link = sample_link \<and>
   read_link (res_parseMegaFileLink sample_link) = read_link (parseMegaFileLink sample_link) \<and>
   read_link (parseMegaFileLink sample_link) = Some (''abc'', sample_token)"
proof -
  have "TrimSpace sample_link = sample_link" by code_simp
  with mega_link_readers_agree [OF this] sample_link_ok(2) show ?thesis by (simp add: read_link_def)
qed

section \<open>Routing\<close>

text \<open>The daemon's registry, written out.\<close>

lemma daemon_routes:
  "ResolveWithSite (daemon_registry net aesD) site raw =
     (let s = ToLower (TrimSpace site) in
      if s = '''' then
        (if webshare_CanHandle raw then webshare_Resolve net raw
         else if mega_CanHandle raw then mega_Resolve net aesD megaAPI raw
         else if http_CanHandle raw then http_Resolve raw
         else return (Inl (ErrNew ''no_resolver'')))
      else if s = ''webshare'' then webshare_Resolve net raw
      else if s = ''mega'' then mega_Resolve net aesD megaAPI raw
      else if s = ''http'' \<or> s = ''https'' then http_Resolve raw
      else return (Inl ErrUnknownSite))"
proof -
  have keys: "ToLower (TrimSpace ''webshare'') = ''webshare''" "ToLower (TrimSpace ''mega'') = ''mega''"
      "ToLower (TrimSpace ''http'') = ''http''" "ToLower (TrimSpace ''https'') = ''https''"
    by code_simp+
  have empty: "ToLower s = '''' \<longleftrightarrow> s = ''''" for s by (simp add: ToLower_def)
  show ?thesis
    by (simp add: daemon_registry_def RegisterSite_def NewRegistry_def keys ResolveWithSite_def registry_Resolve_def
        NewWebshareResolver_def NewMegaResolver_def NewHTTPResolver_def Let_def empty)
qed

lemma sublist_append_sep: "x \<notin> set p \<Longrightarrow> sublist p (a @ x # b) \<longleftrightarrow> sublist p a \<or> sublist p b"
  by (auto simp: sublist_append sublist_Cons_right prefix_Cons)

lemma Contains_ToLower_append_sep:
  "lower_char x \<notin> set p \<Longrightarrow> Contains (ToLower (a @ x # b)) p \<longleftrightarrow> Contains (ToLower a) p \<or> Contains (ToLower b) p"
  by (simp add: Contains_def ToLower_def sublist_append_sep)

lemma sublist_dropWhile: "sublist p s \<Longrightarrow> \<forall>c\<in>set p. \<not> q c \<Longrightarrow> sublist p (dropWhile q s)"
proof (induction s)
  case (Cons x s)
  show ?case
  proof (cases "q x")
    case True
    then have "x \<notin> set p" using Cons.prems(2) by blast
    with Cons True show ?thesis using sublist_append_sep [of x p "[]" s] by (cases p) auto
  qed (use Cons.prems in simp)
qed simp

lemma sublist_TrimFunc: "sublist p s \<Longrightarrow> \<forall>c\<in>set p. \<not> q c \<Longrightarrow> sublist p (TrimFunc q s)"
  using sublist_dropWhile [of p s q] sublist_dropWhile [of "rev p" "rev (dropWhile q s)" q]
  by (simp add: TrimFunc_def TrimLeftFunc_def TrimRightFunc_def sublist_rev_right)

text \<open>A pattern of which no byte is a separator, a bracket or a blank, in lower case, and not all digits.\<close>

definition host_pattern :: "string \<Rightarrow> bool" where
  "host_pattern p \<longleftrightarrow> list_all (\<lambda>c. c \<noteq> CHR '':'' \<and> c \<noteq> CHR ''['' \<and> c \<noteq> CHR '']'' \<and> \<not> is_space c) p \<and> \<not> list_all is_digit p"

lemma lower_char_fix:
  "lower_char CHR '':'' = CHR '':''" "lower_char CHR ''['' = CHR ''[''" "lower_char CHR '']'' = CHR '']''"
  by code_simp+

lemma lower_char_digits: "is_digit c \<Longrightarrow> lower_char c = c"
  by (auto simp: lower_char_def is_digit_iff is_upper_def less_eq_char_def)

lemma lower_char_space: "is_space (lower_char c) = is_space c"
proof (cases "is_upper c")
  case True
  then have c: "65 \<le> (of_char c :: nat)" "(of_char c :: nat) \<le> 90" by (simp_all add: is_upper_def less_eq_char_def)
  then have "(of_char (lower_char c) :: nat) = of_char c + 32" using True by (simp add: lower_char_def)
  then have "\<not> is_space (lower_char c)" using c by (auto simp: is_space_def)
  moreover have "\<not> is_space c" using c by (auto simp: is_space_def)
  ultimately show ?thesis by simp
qed (simp add: lower_char_def)

lemma ToLower_TrimSpace: "ToLower (TrimSpace s) = TrimSpace (ToLower s)"
proof -
  have "dropWhile is_space (map lower_char t) = map lower_char (dropWhile is_space t)" for t
    by (simp add: dropWhile_map comp_def lower_char_space)
  then show ?thesis by (simp add: TrimSpace_def TrimFunc_def TrimLeftFunc_def TrimRightFunc_def ToLower_def rev_map)
qed

lemma cut_last_Some: "cut_last c s = Some (h, t) \<Longrightarrow> s = h @ c # t"
proof -
  assume "cut_last c s = Some (h, t)"
  then have c: "c \<in> set s" and h: "h = rev (tl (dropWhile (\<lambda>x. x \<noteq> c) (rev s)))" and t: "t = rev (takeWhile (\<lambda>x. x \<noteq> c) (rev s))"
    by (auto simp: cut_last_def List.member_iff split: if_splits)
  have "dropWhile (\<lambda>x. x \<noteq> c) (rev s) \<noteq> []" using c by (simp add: dropWhile_eq_Nil_conv)
  then obtain d where d: "dropWhile (\<lambda>x. x \<noteq> c) (rev s) = c # d"
    by (metis (mono_tags, lifting) hd_dropWhile list.collapse)
  then have "rev s = rev t @ c # d" using t takeWhile_dropWhile_id [of "\<lambda>x. x \<noteq> c" "rev s"] by simp
  then have "s = rev d @ c # t" by (metis append.assoc append_Cons append_Nil rev.simps(2) rev_append rev_rev_ident)
  with h d show ?thesis by simp
qed

lemma host_has_pattern:
  assumes "host_pattern p" and "Contains (ToLower (Host u)) p"
  shows "Contains (ToLower (TrimSpace (Hostname u))) p"
proof -
  have sep: "lower_char CHR '':'' \<notin> set p" "lower_char CHR ''['' \<notin> set p" "lower_char CHR '']'' \<notin> set p"
    and blank: "\<forall>c\<in>set p. \<not> is_space c" and digits: "\<not> list_all is_digit p"
    using assms(1) by (auto simp: host_pattern_def list_all_iff lower_char_fix)
  define host where "host = (case cut_last CHR '':'' (Host u) of
            Some (h, port) \<Rightarrow> if validOptionalPort (CHR '':'' # port) then h else Host u
          | None \<Rightarrow> Host u)"
  have "Contains (ToLower host) p"
  proof (cases "cut_last CHR '':'' (Host u)")
    case (Some hp)
    obtain h port where hp: "hp = (h, port)" by (cases hp)
    show ?thesis
    proof (cases "validOptionalPort (CHR '':'' # port)")
      case True
      then have dp: "list_all is_digit port" by (simp add: validOptionalPort_def)
      have "\<not> Contains (ToLower port) p"
      proof
        assume "Contains (ToLower port) p"
        then have "set p \<subseteq> lower_char ` set port" by (auto simp: Contains_def ToLower_def sublist_def dest: arg_cong [of _ _ set])
        moreover have "lower_char ` set port \<subseteq> Collect is_digit" using dp lower_char_digits by (auto simp: list_all_iff)
        ultimately show False using digits by (auto simp: list_all_iff)
      qed
      moreover have "Host u = h @ CHR '':'' # port" using Some hp cut_last_Some by blast
      ultimately have "Contains (ToLower h) p"
        using assms(2) unfolding \<open>Host u = _\<close> Contains_ToLower_append_sep [OF sep(1)] by blast
      with True Some hp show ?thesis by (simp add: host_def)
    qed (use Some hp assms(2) in \<open>simp add: host_def\<close>)
  qed (use assms(2) in \<open>simp add: host_def\<close>)
  moreover have "Hostname u = (if HasPrefix host ''['' \<and> HasSuffix host '']'' then butlast (tl host) else host)"
    by (simp add: Hostname_def host_def Let_def)
  moreover have "Contains (ToLower (butlast (tl host))) p"
    if "Contains (ToLower host) p" "HasPrefix host ''[''" "HasSuffix host '']''"
  proof -
    note br = that
    obtain t where t: "host = CHR ''['' # t" using br(2) by (auto simp: HasPrefix_def prefix_def)
    then obtain m where "t = m @ '']''" using br(3) by (auto simp: HasSuffix_def suffix_def Cons_eq_append_conv)
    with t br(1) have "Contains (ToLower m) p \<or> p = ''''"
      using Contains_ToLower_append_sep [OF sep(2), of "[]" t] Contains_ToLower_append_sep [OF sep(3), of m "[]"]
      by (auto simp: Contains_def ToLower_def)
    with t \<open>t = m @ '']''\<close> show ?thesis by (auto simp: Contains_def)
  qed
  ultimately have "Contains (ToLower (Hostname u)) p" by simp
  then show ?thesis
    unfolding ToLower_TrimSpace using sublist_TrimFunc [of p _ is_space] blank by (simp add: Contains_def TrimSpace_def)
qed

text \<open>Whether a job goes to the MEGA resolver.\<close>

definition goes_to_mega :: "string \<Rightarrow> string \<Rightarrow> bool" where
  "goes_to_mega site raw \<longleftrightarrow> (let s = ToLower (TrimSpace site) in
     s = ''mega'' \<or> s = '''' \<and> \<not> webshare_CanHandle raw \<and> mega_CanHandle raw)"

lemma goes_to_mega_Resolve:
  "goes_to_mega site raw \<Longrightarrow> ResolveWithSite (daemon_registry net aesD) site raw = mega_Resolve net aesD megaAPI raw"
  by (auto simp: daemon_routes goes_to_mega_def Let_def)

text \<open>A network that answers every request with the same body, and counts the requests.\<close>

definition sample_net :: "string \<Rightarrow> nat net" where
  "sample_net body = \<lparr>net_Do = \<lambda>_. State (\<lambda>n. (Inr \<lparr>StatusCode = 200, Body = body\<rparr>, Suc n)),
     net_json_error = \<lambda>_. ErrNew ''json'', net_xml = \<lambda>_. Inl (ErrNew ''xml'')\<rparr>"

lemma mega_patterns: "host_pattern ''mega.nz''" "host_pattern ''mega.co.nz''"
  by code_simp+

text \<open>
  A job that goes to the MEGA resolver is a MEGA job for the queue: whatever the daemon's
  registry sends to the MEGA resolver, because of the site or because of the host of the URL, is
  recognised by \<open>IsMegaJob\<close>. So an encrypted download is never left encrypted because the two
  components disagree on what it is.
\<close>

theorem mega_jobs_recognised:
  assumes "TrimSpace raw = raw" and "goes_to_mega site raw"
  shows "ResolveWithSite (daemon_registry net aesD) site raw = mega_Resolve net aesD megaAPI raw \<and> IsMegaJob site raw"
proof (intro conjI)
  show "IsMegaJob site raw"
  proof (cases "ToLower (TrimSpace site) = ''mega''")
    case True
    moreover have "ToLower ''mega'' = ''mega''" by code_simp
    ultimately show ?thesis by (simp add: IsMegaJob_def EqualFold_def)
  next
    case False
    with assms(2) have "mega_CanHandle raw" by (simp add: goes_to_mega_def Let_def)
    then obtain u where u: "url_Parse raw = Inr u"
        "Contains (ToLower (Host u)) ''mega.nz'' \<or> Contains (ToLower (Host u)) ''mega.co.nz''"
      by (auto simp: mega_CanHandle_def Let_def split: sum.splits)
    then have "Contains (ToLower (TrimSpace (Hostname u))) ''mega.nz'' \<or> Contains (ToLower (TrimSpace (Hostname u))) ''mega.co.nz''"
      using host_has_pattern mega_patterns by blast
    moreover have "\<not> mega_CanHandle ''''" by code_simp
    then have "raw \<noteq> ''''" using \<open>mega_CanHandle raw\<close> by auto
    ultimately show ?thesis using u(1) assms(1) by (simp add: IsMegaJob_def Let_def)
  qed
qed (rule goes_to_mega_Resolve [OF assms(2)])

theorem mega_jobs_recognised_witness:
  "goes_to_mega '''' sample_link \<and>
   ResolveWithSite (daemon_registry (sample_net ''[-17]'') sample_aes) '''' sample_link =
     mega_Resolve (sample_net ''[-17]'') sample_aes megaAPI sample_link \<and> IsMegaJob '''' sample_link"
proof -
  have "TrimSpace sample_link = sample_link" "goes_to_mega '''' sample_link" by code_simp+
  with mega_jobs_recognised [OF this] show ?thesis by simp
qed

text \<open>
  The converse does not hold: \<open>IsMegaJob\<close> looks for the name of the host anywhere in the URL. A
  plain download whose URL mentions it goes to the HTTP resolver, is not encrypted, and its
  post-processing fails because the URL is not a MEGA link.
\<close>

theorem http_job_taken_for_mega:
  "ResolveWithSite (daemon_registry net aesD) '''' ''https://example.com/a.bin?from=mega.nz'' =
     http_Resolve ''https://example.com/a.bin?from=mega.nz'' \<and>
   mega_MaybeDecrypt aes '''' ''https://example.com/a.bin?from=mega.nz'' ''/data/a.bin'' fs =
     Some ((True, Some (ErrNew ''mega public file link required'')), fs)"
proof -
  let ?u = "''https://example.com/a.bin?from=mega.nz''"
  have "ToLower (TrimSpace '''') = ''''" "\<not> webshare_CanHandle ?u" "\<not> mega_CanHandle ?u" "http_CanHandle ?u" by code_simp+
  then have "ResolveWithSite (daemon_registry net aesD) '''' ?u = http_Resolve ?u" by (simp add: daemon_routes Let_def)
  moreover have "IsMegaJob '''' ?u" "TrimSpace ''/data/a.bin'' = ''/data/a.bin''"
      "parseMegaFileLink ?u = Inl (ErrNew ''mega public file link required'')" by code_simp+
  ultimately show ?thesis by (simp add: mega_MaybeDecrypt_def Let_def)
qed

section \<open>Base 64 round trip\<close>

definition b64_char :: "nat \<Rightarrow> char" where
  "b64_char v = (''ABCDEFGHIJKLMNOPQRSTUVWXYZabcdefghijklmnopqrstuvwxyz0123456789-_'') ! v"

fun RawURL_EncodeToString :: "byte list \<Rightarrow> string" where
  "RawURL_EncodeToString [] = []"
| "RawURL_EncodeToString [a] = map b64_char [unat a div 4, unat a mod 4 * 16]"
| "RawURL_EncodeToString [a, b] =
     map b64_char [unat a div 4, unat a mod 4 * 16 + unat b div 16, unat b mod 16 * 4]"
| "RawURL_EncodeToString (a # b # c # r) =
     map b64_char [unat a div 4, unat a mod 4 * 16 + unat b div 16, unat b mod 16 * 4 + unat c div 64, unat c mod 64] @
     RawURL_EncodeToString r"

lemma b64_val_char: "v < 64 \<Longrightarrow> b64_val (b64_char v) = Some v"
proof -
  have "list_all (\<lambda>v. b64_val (b64_char v) = Some v) [0..<64]" by code_simp
  then show "v < 64 \<Longrightarrow> ?thesis" by (simp add: list_all_iff)
qed

lemma byte_bound: "unat (a :: byte) < 256"
  by (rule order_less_le_trans [OF unsigned_less]) simp

lemma digit_pair:
  fixes x y k :: nat
  assumes "y < k"
  shows "(x * k + y) div k = x" "(x * k + y) mod k = y"
  using assms by simp_all

lemma sextet_bounds:
  fixes a b c :: byte
  shows "unat a div 4 < 64" "unat a mod 4 * 16 + unat b div 16 < 64" "unat b mod 16 * 4 + unat c div 64 < 64"
    "unat c mod 64 < 64" "unat a mod 4 * 16 < 64" "unat b mod 16 * 4 < 64" "unat b div 16 < 16" "unat c div 64 < 4"
proof -
  show "unat a div 4 < 64" and b: "unat b div 16 < 16" and c: "unat c div 64 < 4"
    using byte_bound [of a] byte_bound [of b] byte_bound [of c] by (simp_all add: less_mult_imp_div_less)
  have "unat a mod 4 < 4" "unat b mod 16 < 16" by simp_all
  then show "unat a mod 4 * 16 + unat b div 16 < 64" "unat b mod 16 * 4 + unat c div 64 < 64"
      "unat a mod 4 * 16 < 64" "unat b mod 16 * 4 < 64"
    using b c by linarith+
qed simp

lemma b64_bytes_sextets:
  fixes a b c :: byte
  shows "b64_bytes [unat a div 4, unat a mod 4 * 16] = [a]"
    "b64_bytes [unat a div 4, unat a mod 4 * 16 + unat b div 16, unat b mod 16 * 4] = [a, b]"
    "b64_bytes [unat a div 4, unat a mod 4 * 16 + unat b div 16, unat b mod 16 * 4 + unat c div 64, unat c mod 64] = [a, b, c]"
proof -
  have "(of_nat (unat w) :: byte) = w" for w by simp
  moreover have "x * k div k = x" if "0 < k" for x k :: nat using that by simp
  moreover have "unat c mod 64 + 0 = unat c mod 64" by simp
  ultimately show "b64_bytes [unat a div 4, unat a mod 4 * 16] = [a]"
    "b64_bytes [unat a div 4, unat a mod 4 * 16 + unat b div 16, unat b mod 16 * 4] = [a, b]"
    "b64_bytes [unat a div 4, unat a mod 4 * 16 + unat b div 16, unat b mod 16 * 4 + unat c div 64, unat c mod 64] = [a, b, c]"
    using digit_pair [OF sextet_bounds(7) [of b], of "unat a mod 4"] digit_pair [OF sextet_bounds(8) [of c], of "unat b mod 16"]
    by (simp_all only: b64_bytes.simps div_mult_mod_eq zero_less_numeral)
qed

lemma b64_decode_encode: "b64_decode si [] (RawURL_EncodeToString bs) = Inr bs"
proof (induction bs arbitrary: si rule: RawURL_EncodeToString.induct)
  case (2 a)
  show ?case by (simp add: b64_val_char sextet_bounds b64_bytes_sextets del: b64_bytes.simps)
next
  case (3 a b)
  show ?case by (simp add: b64_val_char sextet_bounds b64_bytes_sextets del: b64_bytes.simps)
next
  case (4 a b c r)
  then show ?case by (simp add: b64_val_char sextet_bounds b64_bytes_sextets del: b64_bytes.simps)
qed simp

lemma decodeMegaBase64_encode: "decodeMegaBase64 (RawURL_EncodeToString bs) = Inr bs"
  by (simp add: decodeMegaBase64_def RawURL_DecodeString_def b64_decode_encode)

section \<open>Attributes round trip\<close>

text \<open>The other direction, as MEGA clients do it: the JSON text with the file name behind the word
  MEGA, padded with zeros to whole blocks, encrypted in CBC mode with a zero initial vector.\<close>

function cbc_encrypt :: "(byte list \<Rightarrow> byte list) \<Rightarrow> byte list \<Rightarrow> byte list \<Rightarrow> byte list" where
  "cbc_encrypt E prev bs =
     (if bs = [] then []
      else let c = E (xor_bytes (take 16 bs) prev) in c @ cbc_encrypt E c (drop 16 bs))"
  by pat_completeness auto
termination cbc_encrypt
  by (relation "measure (\<lambda>(E, prev, bs). length bs)")
    (auto simp: length_greater_0_conv [symmetric] simp del: length_greater_0_conv)

declare cbc_encrypt.simps [simp del]

definition attr_text :: "string \<Rightarrow> string" where
  "attr_text name = ''{'' @ json_quote ''n'' @ '':'' @ json_quote name @ ''}''"

definition pad16 :: "byte list \<Rightarrow> byte list" where
  "pad16 bs = bs @ replicate ((16 - length bs mod 16) mod 16) 0"

definition mega_attributes :: "(byte list \<Rightarrow> byte list) \<Rightarrow> string \<Rightarrow> string" where
  "mega_attributes E name =
     RawURL_EncodeToString (cbc_encrypt E (replicate 16 0) (pad16 (map byte_of (''MEGA'' @ attr_text name))))"

lemma length_pad16: "length (pad16 bs) mod 16 = 0"
proof (cases "length bs mod 16 = 0")
  case False
  have "length bs = length bs div 16 * 16 + length bs mod 16" by simp
  moreover have "length bs mod 16 < 16" by simp
  ultimately have "length bs + (16 - length bs mod 16) = length bs div 16 * 16 + 16" by linarith
  with False show ?thesis by (simp add: pad16_def)
qed (simp add: pad16_def)

lemma length_xor_bytes [simp]: "length (xor_bytes xs ys) = min (length xs) (length ys)"
  by (simp add: xor_bytes_def)

lemma xor_bytes_cancel: "length xs = length ys \<Longrightarrow> xor_bytes (xor_bytes xs ys) ys = xs"
  by (induction xs ys rule: list_induct2) (simp_all add: xor_bytes_def xor.assoc)

lemma cbc_round_trip:
  assumes block: "\<And>b. length b = 16 \<Longrightarrow> length (E b) = 16 \<and> D (E b) = b"
    and "length prev = 16" and "length bs mod 16 = 0"
  shows "cbc_decrypt D prev (cbc_encrypt E prev bs) = bs \<and> length (cbc_encrypt E prev bs) = length bs"
  using assms(2,3)
proof (induction "length bs" arbitrary: bs prev rule: less_induct)
  case less
  show ?case
  proof (cases "bs = []")
    case True
    then show ?thesis by (simp add: cbc_encrypt.simps cbc_decrypt.simps)
  next
    case False
    then have len: "16 \<le> length bs" using less.prems(2) by (metis dvd_imp_le length_greater_0_conv mod_0_imp_dvd)
    define c where "c = E (xor_bytes (take 16 bs) prev)"
    have c: "length c = 16" "D c = xor_bytes (take 16 bs) prev"
      using block [of "xor_bytes (take 16 bs) prev"] len less.prems(1) by (simp_all add: c_def)
    have enc: "cbc_encrypt E prev bs = c @ cbc_encrypt E c (drop 16 bs)"
      using False by (subst cbc_encrypt.simps) (simp add: c_def Let_def)
    have "length (drop 16 bs) mod 16 = 0" using less.prems(2) len by (simp add: mod_if le_mod_geq)
    moreover have "length (drop 16 bs) < length bs" using len by simp
    ultimately have IH: "cbc_decrypt D c (cbc_encrypt E c (drop 16 bs)) = drop 16 bs"
        "length (cbc_encrypt E c (drop 16 bs)) = length (drop 16 bs)"
      using less.hyps [of "drop 16 bs" c] c(1) by simp_all
    have "cbc_decrypt D prev (cbc_encrypt E prev bs) = xor_bytes (D c) prev @ cbc_decrypt D c (cbc_encrypt E c (drop 16 bs))"
      unfolding enc using c(1) by (subst cbc_decrypt.simps) auto
    also have "\<dots> = bs" using IH(1) c(2) len less.prems(1) by (simp add: xor_bytes_cancel)
    finally show ?thesis using enc IH(2) c(1) len by simp
  qed
qed

text \<open>The JSON text of a name of plain characters is read back.\<close>

lemma attr_name_text:
  assumes "list_all plain_char name"
  shows "attr_name (attr_text name) = Some name"
proof -
  let ?v = "json_quote name @ ''}''"
  let ?t = "CHR 0x22 # CHR ''n'' # CHR 0x22 # CHR '':'' # ?v"
  have n: "list_all plain_char ''n''" by code_simp
  have key: "json_string (CHR ''n'' # CHR 0x22 # t) = Some (''n'', t)" for t using json_string_plain [OF n, of t] by simp
  have val: "p_value (Suc k) d ?v = Some (JStr name, ''}'')" for k d
    using p_value_flat [of "JStr name" "''}''" "[]" k d] assms by (auto simp: flat_value_def ends_number_def is_digit_def simp del: p_value.simps)
  have stop: "skip_ws (c # t) = c # t" if "c \<in> {CHR ''{'', CHR ''}'', CHR '':'', CHR 0x22}" for c t
    using that by (auto simp: skip_ws_def is_ws_def)
  have members: "p_members (Suc (Suc k)) d ?t = Some ([(''n'', JStr name)], [])" for k d
    by (subst p_members.simps) (simp add: stop key HasPrefix_def val del: p_value.simps p_members.simps)
  have "attr_text name = CHR ''{'' # ?t" using n by (simp add: attr_text_def json_quote_def quote_text_plain)
  moreover have "p_value (Suc (Suc (Suc k))) 10000 (CHR ''{'' # ?t) = Some (JObj [(''n'', JStr name)], [])" for k
    by (subst p_value.simps) (simp add: stop HasPrefix_def members del: p_value.simps p_members.simps)
  moreover have "2 * length (attr_text name) + 2 = Suc (Suc (Suc (2 * length (attr_text name) - 1)))" by (simp add: attr_text_def)
  ultimately have "json_value (attr_text name) = Some (JObj [(''n'', JStr name)], [])"
    unfolding json_value_def by metis
  then show ?thesis
    by (simp add: attr_name_def json_Unmarshal_def skip_ws_def decode_struct_def field_of_def string_field_def)
qed

lemma trim_pad16:
  assumes "bs \<noteq> []" and "last bs \<noteq> 0"
  shows "rev (dropWhile (\<lambda>b. b = 0) (rev (pad16 bs))) = bs"
proof -
  have "dropWhile (\<lambda>b. b = 0) (replicate n (0 :: byte) @ rev bs) = rev bs" for n
    using assms by (induction n) (auto simp: dropWhile_id hd_rev)
  then show ?thesis by (simp add: pad16_def)
qed

text \<open>
  C34. File names survive. For every block cipher (encryption \<open>E\<close> and its inverse \<open>D\<close>), every key the
  resolver accepts and every file name of plain characters that is not blank, the attributes that a
  MEGA client makes of the name are deciphered to the name: base 64, CBC, zero padding, the MEGA
  prefix and the JSON text are undone in this order.
\<close>

theorem decryptMegaFilename_round_trip:
  assumes "\<And>k b. length b = 16 \<Longrightarrow> length (aesE k b) = 16 \<and> aesD k (aesE k b) = b"
    and "deriveMegaAESKey fileKey = Inr key"
    and "list_all plain_char name" and "TrimSpace name \<noteq> ''''"
  shows "decryptMegaFilename aesD json_error (mega_attributes (aesE key) name) fileKey = Inr name"
proof -
  let ?p = "map byte_of (''MEGA'' @ attr_text name)"
  have "byte_of CHR ''}'' \<noteq> 0" by code_simp
  then have last: "?p \<noteq> []" "last ?p \<noteq> 0" by (simp_all add: attr_text_def last_map)
  have "length (pad16 ?p) \<noteq> 0" by (simp add: pad16_def)
  moreover have "cbc_decrypt (aesD key) (replicate 16 0) (cbc_encrypt (aesE key) (replicate 16 0) (pad16 ?p)) = pad16 ?p"
      "length (cbc_encrypt (aesE key) (replicate 16 0) (pad16 ?p)) = length (pad16 ?p)"
    using cbc_round_trip [of "aesE key" "aesD key" "replicate 16 0" "pad16 ?p"] assms(1) length_pad16 by simp_all
  moreover have "map char_of_byte ?p = ''MEGA'' @ attr_text name"
    unfolding map_map comp_def char_of_byte_of by simp
  moreover have "HasPrefix (''MEGA'' @ t) ''MEGA''" for t by (simp add: HasPrefix_def)
  ultimately show ?thesis
    using assms(2,4) attr_name_text [OF assms(3)] trim_pad16 [OF last] length_pad16 [of ?p]
    by (simp only: decryptMegaFilename_def mega_attributes_def decodeMegaBase64_encode sum.case Let_def)
       (simp del: map_append)
qed

theorem decryptMegaFilename_round_trip_witness:
  "decryptMegaFilename (\<lambda>k. rev) ErrNew (mega_attributes rev ''a.zip'') sample_token = Inr ''a.zip''"
proof -
  have "deriveMegaAESKey sample_token = Inr (replicate 8 7 @ replicate 8 0)" "list_all plain_char ''a.zip''"
      "TrimSpace ''a.zip'' \<noteq> ''''" by code_simp+
  then show ?thesis using decryptMegaFilename_round_trip [of "\<lambda>k. rev" "\<lambda>k. rev"] by simp
qed

section \<open>Errors of the servers\<close>

text \<open>What MEGA answers when it refuses: a bare code in an array.\<close>

definition refusal :: "int \<Rightarrow> string" where
  "refusal c = ''['' @ Itoa c @ '']''"

lemma json_Decode_refusal: "json_Decode (refusal c) = Some (JArr [JNum (Itoa c)])"
proof -
  let ?v = "Itoa c @ '']''"
  have stop: "skip_ws (x # t) = x # t" if "x \<in> {CHR ''['', CHR '']''}" for x t
    using that by (auto simp: skip_ws_def is_ws_def)
  have val: "p_value (Suc k) d ?v = Some (JNum (Itoa c), '']'')" for k d
    using p_value_flat [of "JNum (Itoa c)" "'']''" "[]" k d] by (auto simp: flat_value_def ends_number_def is_digit_def simp del: p_value.simps)
  obtain h t where h: "Itoa c = h # t" "is_digit h \<or> h = CHR ''-''" using Itoa_hd by blast
  then have "\<not> is_ws h" "h \<noteq> CHR '']''" by (auto simp: is_digit_def is_ws_def)
  with h have "\<not> HasPrefix (skip_ws ?v) '']''" by (simp add: skip_ws_stop HasPrefix_def)
  then have "p_value (Suc (Suc (Suc k))) 10000 (refusal c) = Some (JArr [JNum (Itoa c)], [])" for k
    by (subst p_value.simps) (simp add: refusal_def stop val del: p_value.simps)
  moreover have "2 * length (refusal c) + 2 = Suc (Suc (Suc (2 * length (refusal c) - 1)))" by (simp add: refusal_def)
  ultimately have "json_value (refusal c) = Some (JArr [JNum (Itoa c)], [])" unfolding json_value_def by metis
  then show ?thesis by (simp add: json_Decode_def)
qed

lemma mega_request_parses:
  assumes "list_all is_digit ds" and "ds \<noteq> []"
  shows "\<exists>u. url_Parse (megaAPI @ ''?id='' @ ds) = Inr u"
proof -
  let ?raw = "megaAPI @ ''?id='' @ ds"
  have digit: "c \<noteq> CHR ''#''" "c \<noteq> CHR ''?''" "\<not> is_ctl c" if "c \<in> set ds" for c
    using assms(1) that by (auto simp: list_all_iff is_digit_iff is_ctl_def less_char_def)
  then have "CHR ''#'' \<notin> set ?raw" by (auto simp: megaAPI_def)
  then have cut: "Cut ?raw CHR ''#'' = (?raw, [], False)" by (rule Cut_no_sep)
  have ctl: "\<not> list_ex is_ctl ?raw" "?raw \<noteq> ''*''"
    using digit(3) by (auto simp: megaAPI_def list_ex_iff is_ctl_def)
  have scheme: "getScheme ?raw = Inr (''https'', ''//g.api.mega.co.nz/cs?id='' @ ds)"
    by (simp add: megaAPI_def getScheme_def scheme_char_def is_alnum_def is_lower_def is_upper_def is_digit_def List.member_iff)
  have "last ds \<noteq> CHR ''?''" using digit(2) assms(2) by (metis last_in_set)
  then have unforced: "\<not> HasSuffix (''//g.api.mega.co.nz/cs?id='' @ ds) ''?''"
    unfolding HasSuffix_def suffix_def using assms(2) by (metis last_appendR last_snoc)
  have query: "Cut (''//g.api.mega.co.nz/cs?id='' @ ds) CHR ''?'' = (''//g.api.mega.co.nz/cs'', ''id='' @ ds, True)"
    using Cut_append_sep [of "CHR ''?''" "''//g.api.mega.co.nz/cs''" "''id='' @ ds"] by simp
  have lower: "ToLower ''https'' = ''https''" by code_simp
  have rest: "\<exists>u. parse_authority_path (empty_url\<lparr>Scheme := ''https'', ForceQuery := False, RawQuery := q\<rparr>) ''//g.api.mega.co.nz/cs'' = Inr u" for q
  proof -
    have "parseAuthority ''g.api.mega.co.nz'' = Inr (None, ''g.api.mega.co.nz'')" "unescape encodePath ''/cs'' = Inr ''/cs''"
      by code_simp+
    then show ?thesis
      by (simp add: parse_authority_path_def HasPrefix_def setPath_def)
  qed
  have "\<exists>u. parse ?raw = Inr u"
    using ctl scheme unforced query lower rest [of "''id='' @ ds"]
    by (simp add: parse_def Let_def HasPrefix_def)
  with cut show ?thesis by (auto simp: url_Parse_def)
qed

lemma mega_fileInfo_refused:
  assumes "in_int64 c" and "\<And>req n. result (net_Do net req) n = Inr \<lparr>StatusCode = 200, Body = refusal c\<rparr>"
  shows "result (mega_fileInfo net megaAPI fileID) s = Inl (mapMegaAPIError c)"
proof -
  have api: "TrimSpace megaAPI = megaAPI" "megaAPI \<noteq> ''''" "\<not> Contains megaAPI ''?''" by code_simp+
  have post: "result (http_Post net (request_url megaAPI k) ct b) t = Inr \<lparr>StatusCode = 200, Body = refusal c\<rparr>" for k ct b t
    using mega_request_parses [of "itoa_nat (unat k)"] itoa_nat_digits assms(2) api(3)
    by (auto simp: http_Post_def request_url_def on_wire_def case_prod_beta)
  have "ParseInt (Itoa c) = (c, None)" using ParseInt_Itoa assms(1) .
  then have "mega_info_body net (refusal c) = Inl (mapMegaAPIError c)"
    by (simp add: mega_info_body_def json_Decode_refusal int_field_def)
  with post api show ?thesis
    by (simp add: mega_fileInfo_def Let_def result_bind del: run_state_bind)
qed

lemma ends_on_ext_result: "(\<And>e. result m e = x) \<Longrightarrow> Q x j \<Longrightarrow> ends i j (on_ext m) Q"
  by (auto simp: ends_def job_at_def run_on_ext)

lemma ends_resolver_fails:
  assumes "\<And>e. result (r_ResolveWithSite r (Site job) (URL job)) e = Inl err" and "DeletedAt j = None"
  shows "ends (ID job) j (resolveAndStart r job)
    (\<lambda>e k. e = None \<and> Status k = StatusFailed \<and> ErrorCode k = Some (fst (mapResolverError err 0)) \<and>
       Attempts k = Attempts j + 1 \<and> NextRetryAt k \<noteq> None)"
proof -
  have code: "mapResolverError err t = (code, m, rt) \<Longrightarrow> fst (mapResolverError err 0) = code" for t code m rt
    by (auto simp: mapResolverError_def split: if_splits)
  show ?thesis
    unfolding resolveAndStart_def
    by (intro ends_bind ends_if ends_GetJob, use assms(2) in simp)
       (intro ends_bind ends_on_ext_result [OF assms(1)], simp,
        intro ends_control ends_store, auto simp: row_ops code)
qed

text \<open>
  A refusal of MEGA reaches the job. When the runner works with the daemon's registry and MEGA
  answers the request for a claimed job with an error code, in the usual form of a number in an
  array, the job ends failed, with one more attempt counted, a retry time, and the error code of
  the queue that stands for that number.
\<close>

theorem mega_refusal_fails_job:
  fixes w :: "('w outside, 'z) daemon_scheme"
  assumes "quiet w" and "lookup_job (ID job) w = Some j" and "DeletedAt j = None"
    and "r_ResolveWithSite r = ResolveWithSite (daemon_registry net aesD)"
    and "goes_to_mega (Site job) (URL job)" and "res_parseMegaFileLink (URL job) = Inr (fileID, fileKey)"
    and "in_int64 c" and "\<And>req n. result (net_Do net req) n = Inr \<lparr>StatusCode = 200, Body = refusal c\<rparr>"
  shows "\<exists>k. lookup_job (ID job) (final (resolveAndStart r job) w) = Some k \<and> Status k = StatusFailed \<and>
    Attempts k = Attempts j + 1 \<and> NextRetryAt k \<noteq> None \<and>
    ErrorCode k = Some (if c = -17 then ''quota_exceeded''
      else if c \<in> {-18, -4} then ''temporarily_unavailable''
      else if c \<in> {-11, -14, -16} then ''login_required'' else ''resolve_failed'')"
proof -
  have "result (mega_Resolve net aesD megaAPI (URL job)) e = Inl (mapMegaAPIError c)" for e
    using mega_fileInfo_refused [OF assms(7,8)] assms(6) by (simp add: mega_Resolve_def result_bind del: run_state_bind)
  then have "result (r_ResolveWithSite r (Site job) (URL job)) e = Inl (mapMegaAPIError c)" for e
    unfolding assms(4) goes_to_mega_Resolve [OF assms(5)] .
  from endsD [OF ends_resolver_fails [OF this assms(3)] assms(1,2)]
  obtain k where k: "lookup_job (ID job) (final (resolveAndStart r job) w) = Some k" "Status k = StatusFailed"
      "ErrorCode k = Some (fst (mapResolverError (mapMegaAPIError c) 0))" "Attempts k = Attempts j + 1" "NextRetryAt k \<noteq> None"
    by blast
  moreover have "fst (mapResolverError (mapMegaAPIError c) 0) = (if c = -17 then ''quota_exceeded''
      else if c \<in> {-18, -4} then ''temporarily_unavailable''
      else if c \<in> {-11, -14, -16} then ''login_required'' else ''resolve_failed'')"
    by (simp add: mapMegaAPIError_def mapResolverError_def)
  ultimately show ?thesis by auto
qed

text \<open>A job for the sample link in a daemon whose network refuses everything.\<close>

definition mega_job :: job where
  "mega_job = (row_Claim 5 (sample_job 1))\<lparr>Site := '''', URL := sample_link\<rparr>"

definition mega_runner :: "int \<Rightarrow> nat outside runner" where
  "mega_runner c = \<lparr>r_ResolveWithSite = ResolveWithSite (daemon_registry (sample_net (refusal c)) sample_aes),
     r_Downloader = \<lparr>dl_AddURI = (\<lambda>_ _. return (Inr ''g'')), dl_TellStatus = (\<lambda>_. return (Inr sample_status)),
       dl_Pause = (\<lambda>_. return None), dl_Unpause = (\<lambda>_. return None), dl_Remove = (\<lambda>_. return None)\<rparr>,
     r_MegaDecryptor = None, r_ArchiveDecryptor = None, r_Concurrency = 2, r_GetConcurrency = None,
     r_GetAutoDecrypt = None, r_DecryptConcurrency = 1,
     r_host = \<lparr>os_Stat = (\<lambda>_. return None), os_Remove = (\<lambda>_. return (Some OsErrNotExist)),
       exec_LookPath = (\<lambda>_. return None), exec_CombinedOutput = (\<lambda>_ _. return ('''', None))\<rparr>\<rparr>"

definition mega_daemon :: "nat outside daemon" where
  "mega_daemon = \<lparr>Jobs = [mega_job], Events = [], JobSeq = 1, EventSeq = 0, Step = 0,
     ClockAt = (\<lambda>_. 100), FaultAt = (\<lambda>_. None), Ext = \<lparr>requestID = 7, Wire = 0\<rparr>, DecryptPending = {},
     DecryptSem = None, Goroutines = []\<rparr>"

theorem mega_refusal_fails_job_witness:
  "\<exists>k. lookup_job 1 (final (resolveAndStart (mega_runner (-17)) mega_job) mega_daemon) = Some k \<and>
    Status k = StatusFailed \<and> ErrorCode k = Some ''quota_exceeded''"
proof -
  have "goes_to_mega (Site mega_job) (URL mega_job)" "res_parseMegaFileLink (URL mega_job) = Inr (''abc'', sample_token)"
      "DeletedAt mega_job = None" "ID mega_job = 1" by code_simp+
  moreover have "quiet mega_daemon" "lookup_job (ID mega_job) mega_daemon = Some mega_job"
    by (simp_all add: quiet_def mega_daemon_def lookup_job_def)
  moreover have "result (net_Do (sample_net (refusal (-17))) req) n = Inr \<lparr>StatusCode = 200, Body = refusal (-17)\<rparr>" for req n
    by (simp add: sample_net_def)
  moreover have "r_ResolveWithSite (mega_runner (-17)) = ResolveWithSite (daemon_registry (sample_net (refusal (-17))) sample_aes)"
    by (simp add: mega_runner_def)
  moreover have "in_int64 (-17)" by (simp add: in_int64_def)
  ultimately show ?thesis
    using mega_refusal_fails_job [of mega_daemon mega_job mega_job "mega_runner (-17)" "sample_net (refusal (-17))" sample_aes _ _ "-17"]
    by auto
qed

end
