(* ===== verification/Db_Open.thy ===== *)
theory Db_Open
  imports Go_Prelude
begin

text \<open>
  internal/db/db.go: opening the database and bringing the schema of an older version up to date. Of
  a table only its columns matter here; statement \<open>n\<close> on the connection fails when \<open>DbFault n\<close> says
  so. The lemmas show that a successful \<open>Open\<close> leaves every column the store uses, and keeps those
  that were there.
\<close>

record dbfile =
  JobCols :: "string list option"
  EventCols :: "string list option"
  DbStep :: nat
  DbFault :: "nat \<Rightarrow> error option"

definition schema_jobs :: "string list" where
  "schema_jobs = [''id'', ''url'', ''site'', ''out_dir'', ''name'', ''archive_password'', ''resolved_url'',
     ''filename'', ''size_bytes'', ''bytes_done'', ''download_speed'', ''eta_seconds'', ''status'', ''error'',
     ''error_code'', ''engine'', ''engine_gid'', ''attempts'', ''max_attempts'', ''next_retry_at'',
     ''created_at'', ''updated_at'', ''started_at'', ''completed_at'', ''deleted_at'']"

definition schema_events :: "string list" where
  "schema_events = [''id'', ''job_id'', ''level'', ''message'', ''created_at'']"

definition db_stmt :: "(dbfile \<Rightarrow> dbfile) \<Rightarrow> dbfile \<Rightarrow> error option \<times> dbfile" where
  "db_stmt f s = (let s' = s\<lparr>DbStep := Suc (DbStep s)\<rparr> in
     case DbFault s (DbStep s) of Some e \<Rightarrow> (Some e, s') | None \<Rightarrow> (None, f s'))"

text \<open>\<open>CREATE TABLE IF NOT EXISTS\<close>: a table that exists stays as it is.\<close>

definition create_tables :: "dbfile \<Rightarrow> dbfile" where
  "create_tables s = s\<lparr>JobCols := (case JobCols s of None \<Rightarrow> Some schema_jobs | Some c \<Rightarrow> Some c),
     EventCols := (case EventCols s of None \<Rightarrow> Some schema_events | Some c \<Rightarrow> Some c)\<rparr>"

definition add_column :: "string \<Rightarrow> dbfile \<Rightarrow> dbfile" where
  "add_column name s = s\<lparr>JobCols := map_option (\<lambda>c. c @ [name]) (JobCols s)\<rparr>"

text \<open>\<open>PRAGMA table_info(jobs)\<close> and, when the column is missing, \<open>ALTER TABLE\<close>; reading the rows is
  a statement of its own.\<close>

definition ensureColumn :: "string \<Rightarrow> dbfile \<Rightarrow> error option \<times> dbfile" where
  "ensureColumn name s =
     (case db_stmt id s of
        (Some e, s1) \<Rightarrow> (Some e, s1)
      | (None, s1) \<Rightarrow>
          (case db_stmt id s1 of
             (Some e, s2) \<Rightarrow> (Some e, s2)
           | (None, s2) \<Rightarrow>
               (let hasCol = (case JobCols s2 of None \<Rightarrow> False | Some c \<Rightarrow> List.member c name) in
                if \<not> hasCol then db_stmt (add_column name) s2 else (None, s2))))"

definition db_Open :: "dbfile \<Rightarrow> error option \<times> dbfile" where
  "db_Open s =
     (case db_stmt create_tables s of
        (Some e, s1) \<Rightarrow> (Some e, s1)
      | (None, s1) \<Rightarrow> (case ensureColumn ''deleted_at'' s1 of
          (Some e, s2) \<Rightarrow> (Some e, s2)
        | (None, s2) \<Rightarrow> (case ensureColumn ''download_speed'' s2 of
            (Some e, s3) \<Rightarrow> (Some e, s3)
          | (None, s3) \<Rightarrow> (case ensureColumn ''eta_seconds'' s3 of
              (Some e, s4) \<Rightarrow> (Some e, s4)
            | (None, s4) \<Rightarrow> ensureColumn ''archive_password'' s4))))"

section \<open>Migration\<close>

text \<open>The columns of the job table, if it exists, and what a step does to them.\<close>

definition cols :: "dbfile \<Rightarrow> string list" where
  "cols s = (case JobCols s of None \<Rightarrow> [] | Some c \<Rightarrow> c)"

lemma db_stmt_cases:
  obtains (failed) e s' where "db_stmt f s = (Some e, s')" and "JobCols s' = JobCols s"
  | (ok) s0 where "db_stmt f s = (None, f s0)" and "JobCols s0 = JobCols s"
  by (cases "DbFault s (DbStep s)") (auto simp: db_stmt_def)

lemma ensureColumn_cases:
  assumes "JobCols s = Some c"
  shows "(\<exists>e s'. ensureColumn name s = (Some e, s') \<and> JobCols s' = Some c) \<or>
    (\<exists>s'. ensureColumn name s = (None, s') \<and> JobCols s' = Some (if name \<in> set c then c else c @ [name]))"
proof (cases rule: db_stmt_cases [of id s])
  case (failed e s')
  then show ?thesis using assms by (simp add: ensureColumn_def)
next
  case (ok s1)
  show ?thesis
  proof (cases rule: db_stmt_cases [of id s1])
    case (failed e s')
    then show ?thesis using assms ok by (simp add: ensureColumn_def)
  next
    case two: (ok s2)
    show ?thesis
    proof (cases "name \<in> set c")
      case True
      then show ?thesis using assms ok two by (simp add: ensureColumn_def List.member_iff)
    next
      case False
      then show ?thesis
        using assms ok two by (cases rule: db_stmt_cases [of "add_column name" s2])
          (auto simp: ensureColumn_def List.member_iff add_column_def)
    qed
  qed
qed

definition grown :: "string list \<Rightarrow> string list \<Rightarrow> dbfile \<Rightarrow> bool" where
  "grown c names s \<longleftrightarrow> (\<exists>c'. JobCols s = Some c' \<and> prefix c c' \<and> set names \<subseteq> set c')"

text \<open>One more column, and whatever follows.\<close>

lemma ensureColumn_grown:
  assumes "grown c names s"
  obtains (failed) e s' where "ensureColumn name s = (Some e, s')" and "grown c names s'"
  | (ok) s' where "ensureColumn name s = (None, s')" and "grown c (names @ [name]) s'"
proof -
  obtain c' where c': "JobCols s = Some c'" "prefix c c'" "set names \<subseteq> set c'" using assms by (auto simp: grown_def)
  have grow: "grown c (names @ [name]) s'" if "JobCols s' = Some (if name \<in> set c' then c' else c' @ [name])" for s'
    using that c' by (auto simp: grown_def)
  show thesis
    using ensureColumn_cases [OF c'(1), of name] grow c' failed ok by (auto simp: grown_def)
qed

lemma ensureColumn_then:
  assumes "grown c names s"
    and "\<And>e s'. grown c names s' \<Longrightarrow> Q (Some e, s')"
    and "\<And>s'. grown c (names @ [name]) s' \<Longrightarrow> Q (k s')"
  shows "Q (case ensureColumn name s of (Some e, s') \<Rightarrow> (Some e, s') | (None, s') \<Rightarrow> k s')"
  by (rule ensureColumn_grown [OF assms(1), of name]) (simp_all add: assms)

lemma ensureColumn_last:
  assumes "grown c names s"
    and "\<And>e s'. grown c names s' \<Longrightarrow> Q (Some e, s')"
    and "\<And>s'. grown c (names @ [name]) s' \<Longrightarrow> Q (None, s')"
  shows "Q (ensureColumn name s)"
  by (rule ensureColumn_grown [OF assms(1), of name]) (simp_all add: assms)

definition late_columns :: "string list" where
  "late_columns = [''deleted_at'', ''download_speed'', ''eta_seconds'', ''archive_password'']"

text \<open>
  C36. Opening brings a database up to date: whatever columns the job table has (none for a new file),
  after a successful \<open>Open\<close> it has them still, in the same order, and every column that was added since
  the first version; a new file has the whole schema. So a table of any earlier version has all the
  columns that the statements of the store name.
\<close>

theorem db_Open_migrates:
  "case db_Open s of
     (None, s') \<Rightarrow> prefix (case JobCols s of None \<Rightarrow> schema_jobs | Some c \<Rightarrow> c) (cols s') \<and>
       set late_columns \<subseteq> set (cols s')
   | (Some _, s') \<Rightarrow> prefix (cols s) (cols s')" (is "?Q (db_Open s)")
proof (cases rule: db_stmt_cases [of create_tables s])
  case (failed e s')
  then show ?thesis by (simp add: db_Open_def cols_def)
next
  case (ok s0)
  define c where "c = (case JobCols s of None \<Rightarrow> schema_jobs | Some c \<Rightarrow> c)"
  define Q where "Q = (\<lambda>r. ?Q r)"
  have start: "grown c [] (create_tables s0)"
    using ok(2) by (simp add: grown_def create_tables_def cols_def c_def split: option.split)
  have stop: "Q (Some e, s')" if "grown c names s'" for e names s'
    using that by (auto simp: Q_def grown_def cols_def c_def split: option.splits)
  have finish: "Q (None, s')" if "grown c late_columns s'" for s'
    using that by (auto simp: Q_def grown_def c_def cols_def)
  note step = ensureColumn_then [where c = c and Q = Q, OF _ stop]
  have "Q (db_Open s)"
    unfolding db_Open_def ok(1) prod.case option.case
    by (rule step [OF start], assumption, erule step, assumption, erule step, assumption,
        erule ensureColumn_last [where Q = Q, OF _ stop], assumption, rule finish, simp add: late_columns_def)
  then show ?thesis by (simp add: Q_def)
qed

text \<open>The columns of the schema are those of the first version and the late ones.\<close>

lemma schema_complete: "set late_columns \<subseteq> set schema_jobs"
  by code_simp

end
