(* ===== verification/Go_Flag.thy ===== *)
theory Go_Flag
  imports Settings "HOL-Library.AList" "HOL-Library.List_Lexorder"
begin

text \<open>
  What the command line client uses of the packages os, flag, strconv, bufio and fmt: the
  environment, command line flags with \<open>flag.ExitOnError\<close>, integers with a base prefix, booleans,
  lines of a text, and the printing of numbers and untyped values. The usage text that package flag
  writes to the error output is left out; what counts is the exit code.
\<close>

section \<open>Environment\<close>

text \<open>The environment is the list of \<open>key=value\<close> texts; the first entry of a key counts.\<close>

definition LookupEnv :: "string list \<Rightarrow> string \<Rightarrow> string option" where
  "LookupEnv env key =
     map_option (\<lambda>e. drop (length key + 1) e) (find (\<lambda>e. HasPrefix e (key @ ''='')) env)"

definition Getenv :: "string list \<Rightarrow> string \<Rightarrow> string" where
  "Getenv env key = (case LookupEnv env key of None \<Rightarrow> '''' | Some v \<Rightarrow> v)"

section \<open>Numbers and booleans\<close>

definition digit_in_base :: "nat \<Rightarrow> char \<Rightarrow> nat option" where
  "digit_in_base base c =
     (let d = (if is_digit c then Some (of_char c - 48)
        else if is_lower (lower_char c) then Some (of_char (lower_char c) - 87) else None) in
      case d of None \<Rightarrow> None | Some v \<Rightarrow> if v < base then Some v else None)"

text \<open>The base a literal asks for, and its digits.\<close>

definition base_prefix :: "string \<Rightarrow> nat \<times> string" where
  "base_prefix s =
     (if \<not> HasPrefix s ''0'' then (10, s)
      else if length s \<ge> 3 \<and> lower_char (s ! 1) = CHR ''b'' then (2, drop 2 s)
      else if length s \<ge> 3 \<and> lower_char (s ! 1) = CHR ''o'' then (8, drop 2 s)
      else if length s \<ge> 3 \<and> lower_char (s ! 1) = CHR ''x'' then (16, drop 2 s)
      else (8, drop 1 s))"

text \<open>Underscores separate digits, also from a base prefix.\<close>

fun underscores_ok :: "bool \<Rightarrow> string \<Rightarrow> bool" where
  "underscores_ok digit_before [] = True"
| "underscores_ok digit_before (c # cs) =
     (if c = CHR ''_'' then digit_before \<and> cs \<noteq> [] \<and> hd cs \<noteq> CHR ''_'' \<and> underscores_ok False cs
      else underscores_ok True cs)"

definition ParseUint0 :: "string \<Rightarrow> nat option" where
  "ParseUint0 s =
     (if s = '''' then None
      else (case base_prefix s of (base, body) \<Rightarrow>
        if \<not> underscores_ok (HasPrefix s ''0'') body then None
        else map_option (foldl (\<lambda>n d. base * n + d) 0)
          (those (map (digit_in_base base) (filter (\<lambda>c. c \<noteq> CHR ''_'') body)))))"

text \<open>\<open>strconv.ParseInt(s, 0, 64)\<close>; an error is \<open>None\<close>.\<close>

definition ParseInt0 :: "string \<Rightarrow> int option" where
  "ParseInt0 s =
     (let neg = HasPrefix s ''-''; body = (if neg \<or> HasPrefix s ''+'' then drop 1 s else s) in
      case ParseUint0 body of
        None \<Rightarrow> None
      | Some n \<Rightarrow> (let v = (if neg then - int n else int n) in if in_int64 v then Some v else None))"

definition ParseBool :: "string \<Rightarrow> bool option" where
  "ParseBool s =
     (if List.member [''1'', ''t'', ''T'', ''true'', ''TRUE'', ''True''] s then Some True
      else if List.member [''0'', ''f'', ''F'', ''false'', ''FALSE'', ''False''] s then Some False
      else None)"

section \<open>Flags\<close>

datatype flagval = FStr string | FInt int | FBool bool

fun flag_Set :: "flagval \<Rightarrow> string \<Rightarrow> flagval option" where
  "flag_Set (FStr _) s = Some (FStr s)"
| "flag_Set (FInt _) s = map_option FInt (ParseInt0 s)"
| "flag_Set (FBool _) s = map_option FBool (ParseBool s)"

definition is_bool_flag :: "flagval \<Rightarrow> bool" where
  "is_bool_flag v = (case v of FBool _ \<Rightarrow> True | _ \<Rightarrow> False)"

type_synonym flags = "(string \<times> flagval) list"

text \<open>\<open>FlagSet.Parse\<close>: the flags with their values and the remaining arguments, or the code with
  which the process exits (0 after \<open>-h\<close>, 2 after an error).\<close>

fun flag_Parse :: "flags \<Rightarrow> string list \<Rightarrow> int + flags \<times> string list" where
  "flag_Parse fl [] = Inr (fl, [])"
| "flag_Parse fl (s # args) =
     (if length s < 2 \<or> hd s \<noteq> CHR ''-'' then Inr (fl, s # args)
      else if s = ''--'' then Inr (fl, args)
      else let name0 = (if s ! 1 = CHR ''-'' then drop 2 s else drop 1 s) in
        if name0 = '''' \<or> hd name0 = CHR ''-'' \<or> hd name0 = CHR ''='' then Inl 2
        else case Cut name0 CHR ''='' of (name, val, hasValue) \<Rightarrow>
          (case map_of fl name of
             None \<Rightarrow> Inl (if name = ''help'' \<or> name = ''h'' then 0 else 2)
           | Some v \<Rightarrow>
               if hasValue then
                 (case flag_Set v val of None \<Rightarrow> Inl 2 | Some v' \<Rightarrow> flag_Parse (AList.update name v' fl) args)
               else if is_bool_flag v then flag_Parse (AList.update name (FBool True) fl) args
               else (case args of
                   [] \<Rightarrow> Inl 2
                 | a # args' \<Rightarrow>
                     (case flag_Set v a of None \<Rightarrow> Inl 2 | Some v' \<Rightarrow> flag_Parse (AList.update name v' fl) args'))))"

definition str_flag :: "flags \<Rightarrow> string \<Rightarrow> string" where
  "str_flag fl name = (case map_of fl name of Some (FStr s) \<Rightarrow> s | _ \<Rightarrow> '''')"

definition int_flag :: "flags \<Rightarrow> string \<Rightarrow> int" where
  "int_flag fl name = (case map_of fl name of Some (FInt n) \<Rightarrow> n | _ \<Rightarrow> 0)"

definition bool_flag :: "flags \<Rightarrow> string \<Rightarrow> bool" where
  "bool_flag fl name = (case map_of fl name of Some (FBool b) \<Rightarrow> b | _ \<Rightarrow> False)"

section \<open>Lines\<close>

text \<open>\<open>bufio.ScanLines\<close>: a last line without a newline counts, a carriage return at the end of a
  line is dropped. A line that does not fit into the buffer, with its newline, ends the scan.\<close>

definition raw_lines :: "string \<Rightarrow> string list" where
  "raw_lines txt = (let ls = split_on CHR 0x0A txt in if last ls = '''' then butlast ls else ls)"

definition drop_cr :: "string \<Rightarrow> string" where
  "drop_cr l = (if l \<noteq> '''' \<and> last l = CHR 0x0D then butlast l else l)"

definition scan_lines :: "nat \<Rightarrow> string \<Rightarrow> string list \<times> bool" where
  "scan_lines limit txt =
     (let ls = raw_lines txt; fit = takeWhile (\<lambda>l. length l < limit) ls in
      (map drop_cr fit, length fit < length ls))"

section \<open>Printing\<close>

text \<open>The verb \<open>%.1f\<close>: one decimal, exact ties to even.\<close>

definition fmt_f1 :: "rat \<Rightarrow> string" where
  "fmt_f1 x = (let t = round_even (10 * \<bar>x\<bar>) in
     (if x < 0 then ''-'' else '''') @ Itoa (t div 10) @ ''.'' @ Itoa (t mod 10))"

text \<open>The verb \<open>%02d\<close>.\<close>

definition fmt_02d :: "int \<Rightarrow> string" where
  "fmt_02d n =
     (if n < 0 then (if - n < 10 then ''-'' @ Itoa (- n) else Itoa n)
      else if n < 10 then ''0'' @ Itoa n else Itoa n)"

text \<open>The verb \<open>%v\<close> on a float64: the shortest decimal that reads back as the number, as the format
  \<open>%g\<close> shows it, with an exponent below -4 and from 21 on. \<open>k\<close> is the decimal exponent of the first
  digit, \<open>n\<close> the number of digits tried; 17 digits always suffice.\<close>

definition ilog10 :: "rat \<Rightarrow> int" where
  "ilog10 a = (case quotient_of a of (n, d) \<Rightarrow>
     let k = int (length (itoa_nat (nat n))) - int (length (itoa_nat (nat d))) in
     if (if k \<ge> 0 then 10 ^ nat k else 1 / 10 ^ nat (- k)) \<le> a then k else k - 1)"

definition pow10 :: "int \<Rightarrow> rat" where
  "pow10 k = (if k \<ge> 0 then 10 ^ nat k else 1 / 10 ^ nat (- k))"

definition short_digits :: "rat \<Rightarrow> int \<times> int" where
  "short_digits a =
     (let k = ilog10 a;
          cands = map (\<lambda>n. let e = k - int n in (round_even (a / pow10 e), e)) [0..<17] in
      case find (\<lambda>(m, e). round64 (of_int m * pow10 e) = Some a) cands of
        Some r \<Rightarrow> r | None \<Rightarrow> last cands)"

definition strip_zeros :: "string \<Rightarrow> string" where
  "strip_zeros s = rev (dropWhile (\<lambda>c. c = CHR ''0'') (rev s))"

definition fmt_exponent :: "int \<Rightarrow> string" where
  "fmt_exponent x = (if x < 0 then ''e-'' else ''e+'') @ (if \<bar>x\<bar> < 10 then ''0'' else '''') @ Itoa \<bar>x\<bar>"

definition fmt_float :: "rat \<Rightarrow> string" where
  "fmt_float x =
     (if x = 0 then ''0''
      else case short_digits \<bar>x\<bar> of (m, e) \<Rightarrow>
        let ds0 = Itoa m; x10 = e + int (length ds0) - 1; ds = strip_zeros ds0; len = int (length ds);
            body = (if x10 < -4 \<or> x10 \<ge> 21 then
                      take 1 ds @ (if len > 1 then ''.'' @ drop 1 ds else '''') @ fmt_exponent x10
                    else if x10 < 0 then ''0.'' @ replicate (nat (- x10 - 1)) CHR ''0'' @ ds
                    else if len \<le> x10 + 1 then ds @ replicate (nat (x10 + 1 - len)) CHR ''0''
                    else take (nat (x10 + 1)) ds @ ''.'' @ drop (nat (x10 + 1)) ds)
        in (if x < 0 then ''-'' else '''') @ body)"

fun join_blank :: "string list \<Rightarrow> string" where
  "join_blank [] = ''''"
| "join_blank [s] = s"
| "join_blank (s # ss) = s @ '' '' @ join_blank ss"

text \<open>The verb \<open>%v\<close> on an untyped value. In an object the last member of a name counts, and a map is
  printed in the order of its keys.\<close>

definition map_entries :: "(string \<times> 'v) list \<Rightarrow> (string \<times> 'v) list" where
  "map_entries ms = (let m = map_of (rev ms) in map (\<lambda>k. (k, the (m k))) (remdups (map fst ms)))"

fun fmt_v :: "iface \<Rightarrow> string" where
  "fmt_v INil = ''<nil>''"
| "fmt_v (IBool b) = (if b then ''true'' else ''false'')"
| "fmt_v (IFloat x) = fmt_float x"
| "fmt_v (IStr s) = s"
| "fmt_v (IArr vs) = ''['' @ join_blank (map fmt_v vs) @ '']''"
| "fmt_v (IObj ms) =
     (let ts = map_entries (map (\<lambda>(k, v). (k, fmt_v v)) ms) in
      ''map['' @ join_blank (map (\<lambda>(k, t). k @ '':'' @ t) (sort_key fst ts)) @ '']'')"

end
