(* ===== verification/Go_Float.thy ===== *)
theory Go_Float
  imports Go_Flag Go_Url
begin

text \<open>
  float64 values that stand for integers: rounding, reading and printing are exact below \<open>2 ^ 53\<close>. The
  client decodes numbers of JSON into float64 and prints them; these lemmas show that the identifiers
  and settings it shows are the ones the daemon sent.
\<close>

section \<open>Rounding\<close>
lemma bitlen_bound: "n < 2 ^ k \<Longrightarrow> bitlen n \<le> k"
proof (induction n arbitrary: k rule: bitlen.induct)
  case (1 n)
  show ?case
  proof (cases "n = 0")
    case True
    then show ?thesis by (simp add: bitlen.simps)
  next
    case False
    then obtain k' where k: "k = Suc k'" using 1(2) by (cases k) auto
    then have "n div 2 < 2 ^ k'" using 1(2) by simp
    then show ?thesis using 1(1) False k by (simp add: bitlen.simps [of n])
  qed
qed

lemma ilog2_int: "0 < n \<Longrightarrow> n < 2 ^ k \<Longrightarrow> ilog2 (of_int n) \<le> int k - 1"
proof -
  assume n: "0 < n" "n < 2 ^ k"
  then have "nat n < 2 ^ k" by (simp add: nat_less_iff)
  then have "bitlen (nat n) \<le> k" by (rule bitlen_bound)
  moreover have "bitlen 1 = 1" by (simp add: bitlen.simps)
  ultimately show ?thesis by (simp add: ilog2_def Let_def quotient_of_int)
qed

lemma round_even_int: "round_even (of_int m) = m"
  by (simp add: round_even_def)

lemma round64_int:
  assumes "0 < n" and "n < 2 ^ 53"
  shows "round64 (of_int n) = Some (of_int n)"
proof -
  define e where "e = max (ilog2 (of_int n) - 52) (- 1074)"
  have "e \<le> 0" using ilog2_int [OF assms] by (simp add: e_def)
  then have ulp: "pow2 e = 1 / of_int (2 ^ nat (- e))" by (cases "e = 0") (simp_all add: pow2_def)
  then have "of_int n / pow2 e = (of_int (n * 2 ^ nat (- e)) :: rat)" by simp
  then have "of_int (round_even (of_int n / pow2 e)) * pow2 e = (of_int n :: rat)"
    unfolding ulp by (simp only: round_even_int) simp
  moreover have "(of_int n :: rat) < pow2 1024"
  proof -
    have "(of_int n :: rat) < of_int (2 ^ 53)" using assms(2) by (simp only: of_int_less_iff)
    also have "\<dots> \<le> 2 ^ 1024" by (simp only: of_int_power of_int_numeral) (rule power_increasing, simp_all)
    finally show ?thesis by (simp add: pow2_def)
  qed
  ultimately show ?thesis using assms(1) by (simp add: round64_def Let_def e_def [symmetric])
qed

section \<open>Reading and printing\<close>

lemma itoa_nat_no: "\<not> is_digit c \<Longrightarrow> c \<notin> set (itoa_nat n)"
  using itoa_nat_digits [of n] by (auto simp: list_all_iff)

lemma ParseFloat_Itoa:
  assumes "0 < n" and "n < 2 ^ 53"
  shows "ParseFloat (Itoa n) = Some (of_int n)"
proof -
  have no: "CHR ''e'' \<notin> set (itoa_nat (nat n))" "CHR ''E'' \<notin> set (itoa_nat (nat n))" "CHR ''.'' \<notin> set (itoa_nat (nat n))"
    "CHR ''-'' \<notin> set (itoa_nat (nat n))"
    by (rule itoa_nat_no, simp add: is_digit_def)+
  then have "map (\<lambda>c. if c = CHR ''E'' then CHR ''e'' else c) (itoa_nat (nat n)) = itoa_nat (nat n)"
    by (auto intro!: map_idI)
  moreover have "\<not> HasPrefix (itoa_nat (nat n)) ''-''" using no(4) by (cases "itoa_nat (nat n)") (auto simp: HasPrefix_def)
  moreover have "Cut (itoa_nat (nat n)) CHR ''e'' = (itoa_nat (nat n), [], False)" "Cut (itoa_nat (nat n)) CHR ''.'' = (itoa_nat (nat n), [], False)"
    using no by (simp_all add: Cut_no_sep)
  moreover have "atoi_nat '''' = 0" "\<not> HasPrefix '''' ''-''" "\<not> HasPrefix '''' ''+''" by (simp_all add: atoi_nat_def HasPrefix_def)
  ultimately have "decimal_value (Itoa n) = of_int n"
    using assms(1) by (simp add: decimal_value_def Itoa_def Let_def)
  then show ?thesis using round64_int [OF assms] by (simp add: ParseFloat_def)
qed

text \<open>Integers are shown with all their digits, never with an exponent.\<close>

lemma bitlen_exact: "0 < n \<Longrightarrow> 2 ^ (bitlen n - 1) \<le> n \<and> n < 2 ^ bitlen n \<and> 0 < bitlen n"
proof (induction n rule: bitlen.induct)
  case (1 n)
  show ?case
  proof (cases "n = 1")
    case True
    then show ?thesis by (simp add: bitlen.simps)
  next
    case False
    then have half: "0 < n div 2" using 1(2) by auto
    with 1 have ih: "2 ^ (bitlen (n div 2) - 1) \<le> n div 2" "n div 2 < 2 ^ bitlen (n div 2)" "0 < bitlen (n div 2)" by auto
    have len: "bitlen n = Suc (bitlen (n div 2))" using 1(2) by (simp add: bitlen.simps [of n])
    have "(2 :: nat) ^ bitlen (n div 2) = 2 * 2 ^ (bitlen (n div 2) - 1)" using ih(3) by (metis Suc_pred' power_Suc)
    moreover define b :: nat where "b = 2 ^ (bitlen (n div 2) - 1)"
    ultimately have "b \<le> n div 2" "n div 2 < 2 * b" "2 ^ bitlen (n div 2) = 2 * b" using ih by simp_all
    moreover from this have "2 * b \<le> n" "n < 2 * (2 * b)" by linarith+
    ultimately show ?thesis using len by simp
  qed
qed

lemma round_even_ge: "of_int m \<le> x \<Longrightarrow> m \<le> round_even x"
proof -
  assume "of_int m \<le> x"
  then have "m \<le> \<lfloor>x\<rfloor>" by (simp add: le_floor_iff)
  then show ?thesis by (simp add: round_even_def Let_def)
qed

lemma round64_large:
  assumes "2 ^ 53 \<le> N" and "round64 (of_int N) = Some r"
  shows "2 ^ 53 \<le> r"
proof -
  have N: "0 < nat N" using assms(1) by simp
  define L where "L = bitlen (nat N) - 1"
  have L: "2 ^ L \<le> nat N" "bitlen (nat N) = Suc L" "nat N < 2 ^ Suc L" using bitlen_exact [OF N] by (auto simp: L_def)
  have "(2 :: nat) ^ 53 \<le> nat N" using assms(1) by (simp add: le_nat_iff)
  with L(3) have "(2 :: nat) ^ 53 < 2 ^ Suc L" by linarith
  then have "53 < Suc L" by (rule power_less_imp_less_exp [rotated]) simp
  then have L53: "53 \<le> L" by simp
  have NL: "2 ^ L \<le> N" using L(1) assms(1) by (simp add: le_nat_iff)
  have il: "ilog2 (of_int N) = int L"
  proof -
    have "(2 :: rat) ^ L \<le> of_int N" using NL by (metis of_int_le_iff of_int_numeral of_int_power)
    moreover have "bitlen (Suc 0) = 1" by (simp add: bitlen.simps)
    ultimately show ?thesis using L(2) by (simp add: ilog2_def quotient_of_int pow2_def)
  qed
  define u :: rat where "u = 2 ^ (L - 52)"
  have ulp: "pow2 (int L - 52) = u" using L53 by (simp add: pow2_def u_def nat_diff_distrib')
  have "L - 52 + 52 = L" using L53 by simp
  then have u: "0 < u" "u * 2 ^ 52 = 2 ^ L" unfolding u_def by (simp, metis power_add)
  have "(2 :: rat) ^ L \<le> of_int N" using NL by (metis of_int_le_iff of_int_numeral of_int_power)
  then have "of_int (2 ^ 52) \<le> of_int N / u" using u by (simp add: le_divide_eq mult.commute)
  then have "2 ^ 52 \<le> round_even (of_int N / u)" by (rule round_even_ge)
  then have "(2 :: rat) ^ 52 \<le> of_int (round_even (of_int N / u))" by (metis of_int_le_iff of_int_numeral of_int_power)
  then have "2 ^ L \<le> of_int (round_even (of_int N / u)) * u" using u by (metis mult.commute mult_left_mono less_imp_le)
  moreover have "r = of_int (round_even (of_int N / u)) * u"
    using assms N by (auto simp: round64_def Let_def il ulp split: if_splits)
  moreover have "(2 :: rat) ^ 53 \<le> 2 ^ L" using L53 by (rule power_increasing) simp
  ultimately show ?thesis by linarith
qed

lemma itoa_nat_bounds: "0 < n \<Longrightarrow> 10 ^ (length (itoa_nat n) - 1) \<le> n \<and> 0 < length (itoa_nat n)"
proof (induction n rule: itoa_nat.induct)
  case (1 n)
  show ?case
  proof (cases "n < 10")
    case True
    then show ?thesis using 1(2) by (simp add: itoa_nat.simps [of n])
  next
    case False
    then have "10 ^ (length (itoa_nat (n div 10)) - 1) \<le> n div 10" "0 < length (itoa_nat (n div 10))" using 1 by auto
    moreover from this have "(10 :: nat) ^ length (itoa_nat (n div 10)) = 10 * 10 ^ (length (itoa_nat (n div 10)) - 1)"
      by (metis Suc_pred' power_Suc)
    ultimately have "10 ^ length (itoa_nat (n div 10)) \<le> n" by linarith
    then show ?thesis using False by (simp add: itoa_nat.simps [of n])
  qed
qed

lemma itoa_nat_times10: "0 < m \<Longrightarrow> itoa_nat (m * 10 ^ e) = itoa_nat m @ replicate e CHR ''0''"
proof (induction e)
  case (Suc e)
  have "itoa_nat (m * 10 ^ Suc e) = itoa_nat (m * 10 ^ e) @ [digit_char 0]"
    using Suc(2) by (subst itoa_nat.simps) (simp add: mult.left_commute [of m])
  moreover have "digit_char 0 = CHR ''0''" by code_simp
  ultimately show ?case using Suc by (simp add: replicate_append_same)
qed simp

lemma ilog10_int:
  assumes "0 < n"
  shows "ilog10 (of_int n) = int (length (itoa_nat (nat n))) - 1"
proof -
  obtain l where l: "length (itoa_nat (nat n)) = Suc l" by (cases "itoa_nat (nat n)") auto
  then have "10 ^ l \<le> nat n" using itoa_nat_bounds [of "nat n"] assms by auto
  then have "(10 :: int) ^ l \<le> n" by (simp add: le_nat_iff)
  then have "(10 :: rat) ^ l \<le> of_int n" by (metis of_int_le_iff of_int_numeral of_int_power)
  moreover have "length (itoa_nat (Suc 0)) = 1" by (simp add: itoa_nat.simps)
  ultimately show ?thesis using l by (simp add: ilog10_def quotient_of_int)
qed

lemma short_digits_int:
  assumes "0 < n" and "n < 2 ^ 53"
  obtains m e where "short_digits (of_int n) = (m, int e)" and "n = m * 10 ^ e" and "0 < m"
proof -
  define k where "k = length (itoa_nat (nat n)) - 1"
  define f where "f = (\<lambda>i. let e = int k - int i in (round_even (of_int n / pow10 e), e))"
  define P where "P = (\<lambda>(m, e). round64 (of_int m * pow10 e) = Some (of_int n :: rat))"
  have b: "10 ^ k \<le> nat n" "ilog10 (of_int n) = int k"
    using itoa_nat_bounds [of "nat n"] ilog10_int [OF assms(1)] assms(1) by (auto simp: k_def of_nat_diff Suc_leI)
  have "(10 :: nat) ^ k < 10 ^ 16"
  proof -
    have "nat n < 10 ^ 16" using assms by (simp add: nat_less_iff)
    with b(1) show ?thesis by linarith
  qed
  then have k16: "k < 16" by (rule power_less_imp_less_exp [rotated]) simp
  have sd: "short_digits (of_int n) = (case find P (map f [0..<17]) of Some r \<Rightarrow> r | None \<Rightarrow> last (map f [0..<17]))"
    unfolding short_digits_def b(2) f_def P_def Let_def by (rule refl)
  have Pk: "P (f k)" using round64_int [OF assms] by (simp add: P_def f_def pow10_def round_even_int)
  then obtain i where i: "find P (map f [0..<17]) = Some (f i)" "P (f i)" "i \<le> k"
  proof -
    have "find P (map f [0..<17]) \<noteq> None" using Pk k16 by (auto simp: find_None_iff)
    then obtain x where x: "find P (map f [0..<17]) = Some x" by blast
    then obtain i where "i < 17" "P (map f [0..<17] ! i)" "x = map f [0..<17] ! i" "\<forall>j<i. \<not> P (map f [0..<17] ! j)"
      by (auto simp: find_Some_iff)
    moreover from this have "i \<le> k" using Pk k16 by (metis (no_types, lifting) add_0 length_map length_upt linorder_not_less nth_map nth_upt diff_zero less_trans)
    ultimately show thesis using that x by simp
  qed
  define e where "e = k - i"
  define m where "m = round_even (of_int n / pow10 (int e) :: rat)"
  have fi: "f i = (m, int e)" using i(3) by (simp add: f_def Let_def m_def e_def of_nat_diff)
  define N where "N = m * 10 ^ e"
  have p10: "pow10 (int e) = of_int (10 ^ e)" by (simp add: pow10_def)
  have r: "round64 (of_int N) = Some (of_int n)" using i(2) by (simp add: fi P_def N_def p10)
  have "0 \<le> (of_int n :: rat) / pow10 (int e)" using assms(1) by (simp add: p10)
  then have "0 \<le> m" using round_even_ge [of 0] by (simp add: m_def)
  moreover have "m \<noteq> 0" using r assms(1) by (auto simp: N_def round64_def)
  ultimately have m: "0 < m" by simp
  then have "0 < N" by (simp add: N_def)
  have "N < 2 ^ 53"
  proof (rule ccontr)
    assume "\<not> N < 2 ^ 53"
    then have "(2 :: rat) ^ 53 \<le> of_int n" using round64_large [OF _ r] by simp
    then have "(2 :: int) ^ 53 \<le> n" by (metis of_int_le_iff of_int_numeral of_int_power)
    with assms(2) show False by simp
  qed
  with r \<open>0 < N\<close> have "n = N" using round64_int [of N] by simp
  then show thesis using that m sd i(1) fi by (simp add: N_def)
qed

lemma strip_zeros_split: "\<exists>z. s = strip_zeros s @ replicate z CHR ''0''"
proof -
  have "rev s = takeWhile (\<lambda>c. c = CHR ''0'') (rev s) @ dropWhile (\<lambda>c. c = CHR ''0'') (rev s)" by simp
  moreover have "takeWhile (\<lambda>c. c = CHR ''0'') (rev s) = replicate (length (takeWhile (\<lambda>c. c = CHR ''0'') (rev s))) CHR ''0''"
    by (rule replicate_eqI) (auto dest: set_takeWhileD)
  ultimately show ?thesis unfolding strip_zeros_def by (metis rev_append rev_replicate rev_rev_ident)
qed

lemma fmt_float_int:
  assumes "0 < n" and "n < 2 ^ 53"
  shows "fmt_float (of_int n) = Itoa n"
proof -
  obtain m e where sd: "short_digits (of_int n) = (m, int e)" and n: "n = m * 10 ^ e" "0 < m"
    using short_digits_int [OF assms] .
  have "nat n = nat m * 10 ^ e" using n by (simp add: nat_mult_distrib nat_power_eq)
  then have digits: "Itoa n = Itoa m @ replicate e CHR ''0''"
    using assms(1) n(2) itoa_nat_times10 [of "nat m" e] by (simp add: Itoa_def)
  obtain z where z: "Itoa m = strip_zeros (Itoa m) @ replicate z CHR ''0''" using strip_zeros_split by blast
  have len: "length (Itoa n) \<le> 16"
  proof -
    have "10 ^ (length (itoa_nat (nat n)) - 1) \<le> nat n" using itoa_nat_bounds [of "nat n"] assms(1) by simp
    moreover have "nat n < 10 ^ 16" using assms by (simp add: nat_less_iff)
    ultimately have "(10 :: nat) ^ (length (itoa_nat (nat n)) - 1) < 10 ^ 16" by linarith
    then have "length (itoa_nat (nat n)) - 1 < 16" by (rule power_less_imp_less_exp [rotated]) simp
    then show ?thesis using assms(1) by (simp add: Itoa_def)
  qed
  have lens: "length (Itoa m) = length (strip_zeros (Itoa m)) + z" "0 < length (Itoa m)" "e + length (Itoa m) \<le> 16"
    using arg_cong [OF z, of length] digits len n(2) itoa_nat_bounds [of "nat m"] by (simp_all add: Itoa_def)
  define ds where "ds = strip_zeros (Itoa m)"
  define x10 where "x10 = int e + int (length (Itoa m)) - 1"
  have x: "0 \<le> x10" "x10 < 21" "int (length ds) \<le> x10 + 1" "nat (x10 + 1 - int (length ds)) = z + e"
    using lens unfolding x10_def ds_def by linarith+
  have "fmt_float (of_int n) = ds @ replicate (z + e) CHR ''0''"
    using assms(1) x lens(3) by (simp add: fmt_float_def sd Let_def ds_def [symmetric] x10_def [symmetric])
  then show ?thesis using digits z by (simp add: ds_def replicate_add)
qed

end
