(* ===== verification/Daemon_Main.thy ===== *)
theory Daemon_Main
  imports Api_Laws Resolver_Laws Db_Open Go_Float
begin

text \<open>
  cmd/dlqd/main.go: the configuration of the daemon from its environment and how its parts are put
  together. The outside of the daemon (\<open>Ext\<close>) is the record \<open>api_ext\<close> of the API, whose rest is the
  network with the state of the MEGA resolver; the MEGA decryptor works on the files of the same
  record. The network, the archive tools and the directories stay parameters. \<open>log.Fatalf\<close> ends the
  process; here \<open>daemon_start\<close> gives an error instead.
\<close>

section \<open>Configuration\<close>

definition getenv :: "string list \<Rightarrow> string \<Rightarrow> string \<Rightarrow> string" where
  "getenv env key def = (let v = Getenv env key in if v \<noteq> '''' then v else def)"

definition versionString :: "string \<Rightarrow> string" where
  "versionString version = (if version = '''' then ''dev'' else version)"

definition httpListenAddr :: "string list \<Rightarrow> string" where
  "httpListenAddr env =
     (let v = Getenv env ''DLQ_HTTP_ADDR'' in
      if v \<noteq> '''' then v
      else let host = (let h = Getenv env ''DLQ_HTTP_HOST'' in if h = '''' then ''0.0.0.0'' else h);
               port = (let p = Getenv env ''DLQ_HTTP_PORT'' in if p = '''' then ''8099'' else p)
           in host @ '':'' @ port)"

definition containerPathFromMount :: "string \<Rightarrow> string" where
  "containerPathFromMount mount =
     (if mount = '''' then ''''
      else if \<not> Contains mount '':'' then mount
      else let parts = split_on CHR '':'' mount in
        if length parts < 2 then ''''
        else if length parts = 2 then TrimSpace (parts ! 1)
        else let lastp = TrimSpace (parts ! (length parts - 1)) in
          if Contains lastp ''/'' then lastp
          else TrimSpace (parts ! (length parts - 2)))"

text \<open>One entry of the environment: the volume it names, if it names one.\<close>

definition volume_of :: "string \<Rightarrow> string option" where
  "volume_of env =
     (if \<not> HasPrefix env ''DATA_'' then None
      else (case Cut env CHR ''='' of (_, val, found) \<Rightarrow>
        if \<not> found then None
        else let mount = TrimSpace val in
          if mount = '''' then None
          else let p = containerPathFromMount mount in if p = '''' then None else Some p))"

fun collect_volumes :: "string list \<Rightarrow> string list \<Rightarrow> string list" where
  "collect_volumes seen [] = []"
| "collect_volumes seen (e # es) =
     (case volume_of e of
        None \<Rightarrow> collect_volumes seen es
      | Some p \<Rightarrow> if List.member seen p then collect_volumes seen es else p # collect_volumes (p # seen) es)"

definition outDirPresetsFromEnv :: "string list \<Rightarrow> string list" where
  "outDirPresetsFromEnv environ = sort (collect_volumes [] environ)"

section \<open>Wiring\<close>

type_synonym 'w ext = "'w outside api_ext"

definition on_rest :: "('e, 'a) state \<Rightarrow> ('e api_ext, 'a) state" where
  "on_rest m = State (\<lambda>e. case run_state m (ae_Rest e) of (x, r) \<Rightarrow> (x, e\<lparr>ae_Rest := r\<rparr>))"

text \<open>\<open>NewMegaDecryptor\<close> on the files. A decryption always returns (lemma \<open>mega_MaybeDecrypt_total\<close>
  below), so that the last case does not arise.\<close>

definition mega_decryptor :: "(byte list \<Rightarrow> byte list \<Rightarrow> byte list) \<Rightarrow> string \<Rightarrow> string \<Rightarrow> string
    \<Rightarrow> ('e api_ext, bool \<times> error option) state" where
  "mega_decryptor aesE site rawURL path = State (\<lambda>e.
     case mega_MaybeDecrypt aesE site rawURL path (ae_Files e) of
       Some (r, f) \<Rightarrow> (r, e\<lparr>ae_Files := f\<rparr>)
     | None \<Rightarrow> ((True, None), e))"

text \<open>What \<open>main\<close> takes from the outside: the environment, the version, AES, the network (the engine
  is reached over it too), the host with its archive tools, the directories.\<close>

record 'w platform =
  pf_Environ :: "string list"
  pf_version :: string
  pf_aesE :: "byte list \<Rightarrow> byte list \<Rightarrow> byte list"
  pf_aesD :: "byte list \<Rightarrow> byte list \<Rightarrow> byte list"
  pf_net :: "'w net"
  pf_host :: "'w ext host"
  pf_dirs :: "'w ext directories"
  pf_type_error :: "json \<Rightarrow> error"
  pf_json_error :: "string \<Rightarrow> error"

text \<open>The HTTP client of \<open>NewAria2Client\<close>: a POST to the endpoint, of which only the body is looked at.\<close>

definition aria2_transport :: "'w net \<Rightarrow> string \<Rightarrow> 'w ext transport" where
  "aria2_transport net endpoint =
     \<lparr>tr_Post = (\<lambda>body. do {
        r \<leftarrow> on_rest (http_Post net endpoint ''application/json'' body);
        return (case r of Inl e \<Rightarrow> Inl e | Inr resp \<Rightarrow> Inr (Body resp))
      }),
      tr_json_error = net_json_error net\<rparr>"

definition daemon_downloader :: "'w platform \<Rightarrow> 'w ext downloader" where
  "daemon_downloader pf =
     aria2_client (aria2_transport (pf_net pf) (getenv (pf_Environ pf) ''ARIA2_RPC'' ''http://127.0.0.1:6800/jsonrpc''))
       (getenv (pf_Environ pf) ''ARIA2_SECRET'' '''')"

definition daemon_service :: "'w platform \<Rightarrow> 'w ext service" where
  "daemon_service pf = \<lparr>sv_downloader = Some (daemon_downloader pf),
     sv_allowedRoots = outDirPresetsFromEnv (pf_Environ pf)\<rparr>"

definition setting :: "(settings \<Rightarrow> 'a) \<Rightarrow> 'a \<Rightarrow> 'w ext \<Rightarrow> 'a" where
  "setting f d e = (case ae_Settings e of None \<Rightarrow> d | Some s \<Rightarrow> f s)"

definition daemon_runner :: "'w platform \<Rightarrow> 'w ext runner" where
  "daemon_runner pf =
     \<lparr>r_ResolveWithSite = (\<lambda>site url. on_rest (ResolveWithSite (daemon_registry (pf_net pf) (pf_aesD pf)) site url)),
      r_Downloader = daemon_downloader pf,
      r_MegaDecryptor = Some (mega_decryptor (pf_aesE pf)),
      r_ArchiveDecryptor = Some (archive_MaybeDecrypt (pf_host pf) (Some NewArchiveDecryptor)),
      r_Concurrency = 0, r_GetConcurrency = Some (setting st_Concurrency 0),
      r_GetAutoDecrypt = Some (setting st_AutoDecrypt False), r_DecryptConcurrency = 0,
      r_host = pf_host pf\<rparr>"

definition daemon_server :: "'w platform \<Rightarrow> 'w outside server" where
  "daemon_server pf =
     \<lparr>sr_Queue = daemon_service pf,
      sr_Meta = Some \<lparr>OutDirPresets = outDirPresetsFromEnv (pf_Environ pf), Version = versionString (pf_version pf)\<rparr>,
      sr_dirs = pf_dirs pf, sr_type_error = pf_type_error pf\<rparr>"

text \<open>The start: open the database, then read the settings.\<close>

definition daemon_start :: "'w platform \<Rightarrow> dbfile \<Rightarrow> 'w ext \<Rightarrow> (error + 'w ext) \<times> dbfile" where
  "daemon_start pf db e =
     (case db_Open db of
        (Some err, db') \<Rightarrow> (Inl (ErrNew (''db open: '' @ Error err)), db')
      | (None, db') \<Rightarrow>
          (case NewSettings (pf_json_error pf) (getenv (pf_Environ pf) ''DLQ_STATE_DIR'' ''/state'') (ae_Files e) of
             (Inl err, _) \<Rightarrow> (Inl (ErrNew (''settings init: '' @ Error err)), db')
           | (Inr s, f) \<Rightarrow> (Inr (e\<lparr>ae_Settings := Some s, ae_Files := f\<rparr>), db')))"

section \<open>The decryption returns\<close>

text \<open>
  C10. The MEGA decryption always returns: for every file, link, key and pattern of failures. The loops
  of the MAC and of the file, which Go runs without a bound, end.
\<close>

theorem mega_MaybeDecrypt_total: "\<exists>r. mega_MaybeDecrypt aes site rawURL filePath s = Some r"
proof -
  have "\<exists>r. decryptMegaFileInPlace aes p key s = Some r" if "length (nonce key) = 8" for p key
  proof (cases "FileOf s p")
    case (Some content)
    then show ?thesis using decryptMegaFileInPlace_ok [OF Some that, of aes] by blast
  qed (simp add: decryptMegaFileInPlace_def)
  then show ?thesis
    by (auto simp: mega_MaybeDecrypt_def Let_def split: sum.splits prod.splits dest: parseMegaContentKey_nonce)
qed

section \<open>Volumes\<close>

lemma collect_volumes_set: "set (collect_volumes seen es) = {p. \<exists>e\<in>set es. volume_of e = Some p} - set seen"
proof (induction seen es rule: collect_volumes.induct)
  case (2 seen e es)
  show ?case
  proof (cases "volume_of e")
    case (Some p)
    then show ?thesis using 2 by (cases "p \<in> set seen") (auto simp: List.member_iff)
  qed (use 2 in auto)
qed simp

lemma collect_volumes_distinct: "distinct (collect_volumes seen es)"
  by (induction seen es rule: collect_volumes.induct) (auto simp: collect_volumes_set split: option.split)

text \<open>
  The volumes of the daemon are the container paths of the variables \<open>DATA_...\<close>, each once and in
  order: for a mount \<open>host:container\<close> or \<open>host:container:mode\<close> the container path, for one without
  a colon the whole text.
\<close>

theorem outDirPresetsFromEnv_volumes:
  "set (outDirPresetsFromEnv env) = {p. \<exists>e\<in>set env. volume_of e = Some p} \<and>
   distinct (outDirPresetsFromEnv env) \<and> sorted (outDirPresetsFromEnv env)"
  by (simp add: outDirPresetsFromEnv_def collect_volumes_set collect_volumes_distinct)

lemma containerPathFromMount_parts:
  assumes "CHR '':'' \<notin> set host" and "CHR '':'' \<notin> set path" and "CHR '':'' \<notin> set mode"
    and "CHR ''/'' \<notin> set mode" and "TrimSpace path = path"
  shows "containerPathFromMount (host @ '':'' @ path) = path" "containerPathFromMount (host @ '':'' @ path @ '':'' @ mode) = path"
proof -
  have parts: "split_on CHR '':'' (host @ CHR '':'' # path) = [host, path]"
      "split_on CHR '':'' (host @ CHR '':'' # path @ CHR '':'' # mode) = [host, path, mode]"
    using assms(1-3) by (simp_all add: split_on_append_sep split_on_id)
  have colon: "Contains (host @ CHR '':'' # r) '':''" for r by (auto simp: Contains_def sublist_def)
  have "\<not> Contains (TrimSpace mode) ''/''"
    using assms(4) set_TrimSpace [of mode] by (auto simp: Contains_def sublist_def)
  then show "containerPathFromMount (host @ '':'' @ path) = path" "containerPathFromMount (host @ '':'' @ path @ '':'' @ mode) = path"
    using parts colon assms(5) by (simp_all add: containerPathFromMount_def Let_def)
qed

section \<open>Settings reach the runner\<close>

lemma settings_Update_accepted:
  assumes "settings_Update u s = (None, s')"
  shows "asked (integral 10) (u ''concurrency'') (st_Concurrency s) = Some (st_Concurrency s') \<and>
    asked boolean (u ''auto_decrypt'') (st_AutoDecrypt s) = Some (st_AutoDecrypt s')"
proof -
  obtain y where y: "asked (integral 10) (u ''concurrency'') (st_Concurrency s) = Some y"
      "update_max_attempts u (s\<lparr>st_Concurrency := y\<rparr>) = (None, s')"
    using assms settings_Update_spec [of u s] by (auto split: option.splits)
  then obtain n where "update_auto_decrypt u (s\<lparr>st_Concurrency := y, st_MaxAttempts := n\<rparr>) = (None, s')"
    using update_max_attempts_spec [of u "s\<lparr>st_Concurrency := y\<rparr>"] by (auto split: option.splits)
  then show ?thesis using y(1) by (auto simp: update_auto_decrypt_spec split: option.splits)
qed

text \<open>
  C28. Settings reach the runner: when a POST to \<open>/api/settings\<close> is answered with 200, the limit of
  downloads and the automatic extraction that the runner works with from then on are the values
  asked for, and those that were not named are as before. The runner reads them anew in every tick.
\<close>

theorem settings_reach_runner:
  fixes pf :: "'w platform" and w :: "('w ext, 'z) world_scheme"
  assumes "ae_Settings (Ext w) = Some st" and "settings_ok st"
    and "Path (rq_URL rq) = ''/api/settings''" and "rq_Method rq = ''POST''"
    and "rq_Body rq = Value j" and "decode_updates j = Some u"
    and "rs_code (result (Handler (daemon_server pf) rq) w) = 200"
  shows "asked (integral 10) (u ''concurrency'') (concurrency (daemon_runner pf) (Ext w)) =
      Some (concurrency (daemon_runner pf) (Ext (final (Handler (daemon_server pf) rq) w))) \<and>
    asked boolean (u ''auto_decrypt'') (autoDecryptEnabled (daemon_runner pf) (Ext w)) =
      Some (autoDecryptEnabled (daemon_runner pf) (Ext (final (Handler (daemon_server pf) rq) w)))"
proof -
  have clean: "mux_cleanPath ''/api/settings'' = ''/api/settings''" and other: "\<not> HasPrefix ''/api/settings'' ''/jobs/''" by code_simp+
  obtain e st' where upd: "settings_Update u st = (e, st')" by (cases "settings_Update u st")
  have run: "run_state (Handler (daemon_server pf) rq) w = run_state (update_settings st u) w"
    using assms(1,3-6) clean other
    by (simp add: Handler_def handleSettings_def with_body_def get_settings_def run_state_bind_beta del: run_state_bind)
  have "e = None" using assms(7)
    by (cases e) (simp_all add: run update_settings_def upd writeErr_def writeJSON_def run_state_bind_beta del: run_state_bind)
  then have st': "ae_Settings (Ext (final (Handler (daemon_server pf) rq) w)) = Some st'"
    by (simp add: run update_settings_def upd run_state_bind_beta run_on_ext put_settings_def save_settings_def split: prod.split del: run_state_bind)
  have acc: "asked (integral 10) (u ''concurrency'') (st_Concurrency st) = Some (st_Concurrency st')"
      "asked boolean (u ''auto_decrypt'') (st_AutoDecrypt st) = Some (st_AutoDecrypt st')"
    using settings_Update_accepted upd \<open>e = None\<close> by auto
  moreover have "1 \<le> st_Concurrency st" "1 \<le> st_Concurrency st'"
    using assms(2) asked_range [OF acc(1)] by (auto simp: settings_ok_def)
  ultimately show ?thesis
    using assms(1) st' by (simp add: concurrency_def autoDecryptEnabled_def daemon_runner_def setting_def)
qed

text \<open>A daemon for trying it, with nothing but its settings.\<close>

definition sample_platform :: "nat platform" where
  "sample_platform = \<lparr>pf_Environ = [''DATA_1=/srv:/data''], pf_version = '''', pf_aesE = sample_aes, pf_aesD = sample_aes,
     pf_net = sample_net '''',
     pf_host = \<lparr>os_Stat = (\<lambda>_. return None), os_Remove = (\<lambda>_. return None), exec_LookPath = (\<lambda>_. return None),
       exec_CombinedOutput = (\<lambda>_ _. return ('''', None))\<rparr>,
     pf_dirs = \<lparr>d_Stat = \<lambda>_. return (Inr True), d_ReadDir = \<lambda>_. return (Inr []), d_MkdirAll = \<lambda>_. return None\<rparr>,
     pf_type_error = (\<lambda>_. ErrNew ''type''), pf_json_error = ErrNew\<rparr>"

definition settings_world :: "nat ext world" where
  "settings_world = \<lparr>Jobs = [], Events = [], JobSeq = 0, EventSeq = 0, Step = 0, ClockAt = (\<lambda>_. 100), FaultAt = (\<lambda>_. None),
     Ext = \<lparr>ae_Settings = Some (default_settings ''/state/settings.json''), ae_Files = settings_fs '''' (\<lambda>_. None),
       ae_Rest = \<lparr>requestID = 0, Wire = 0\<rparr>\<rparr>\<rparr>"

theorem settings_reach_runner_witness:
  "concurrency (daemon_runner sample_platform) (Ext (final (Handler (daemon_server sample_platform)
     (sample_request ''POST'' ''/api/settings'' (JObj [(''concurrency'', JNum ''4'')]))) settings_world)) = 4"
proof -
  let ?j = "JObj [(''concurrency'', JNum ''4'')]" and ?st = "default_settings ''/state/settings.json''"
  let ?rq = "sample_request ''POST'' ''/api/settings'' ?j" and ?u = "[''concurrency'' \<mapsto> IFloat 4]"
  have "Itoa 4 = ''4''" by code_simp
  then have "ParseFloat ''4'' = Some 4" using ParseFloat_Itoa [of 4] by simp
  then have dec: "decode_updates ?j = Some ?u" by (simp add: decode_updates_def)
  have ok: "settings_ok ?st" by (simp add: settings_ok_def default_settings_def)
  have upd: "settings_Update ?u ?st = (None, ?st\<lparr>st_Concurrency := 4\<rparr>)"
    by (simp add: settings_Update_def check_number_def update_max_attempts_def update_auto_decrypt_def default_settings_def)
  have rq: "rq_Method ?rq = ''POST''" "rq_Body ?rq = Value ?j" "Path (rq_URL ?rq) = ''/api/settings''"
    by (simp_all add: sample_request_def empty_url_def)
  have clean: "mux_cleanPath ''/api/settings'' = ''/api/settings''" and other: "\<not> HasPrefix ''/api/settings'' ''/jobs/''" by code_simp+
  have set: "ae_Settings (Ext settings_world) = Some ?st" by (simp add: settings_world_def)
  have save: "fst (settings_Save s (ae_Files (Ext settings_world))) = None" for s
    by (simp add: settings_world_def settings_Save_def fs_op_def WriteFile_def settings_fs_def fs_append_def fs_next_def fs_truncate_def split: prod.split)
  have "rs_code (result (Handler (daemon_server sample_platform) ?rq) settings_world) = 200"
    using rq dec upd clean other set save [of "?st\<lparr>st_Concurrency := 4\<rparr>"]
    by (simp add: Handler_def handleSettings_def with_body_def get_settings_def update_settings_def run_on_ext put_settings_def
        save_settings_def writeJSON_def run_state_bind_beta case_prod_beta del: run_state_bind)
  from settings_reach_runner [OF set ok rq(3,1,2) dec this]
  show ?thesis by (simp add: asked_def integral_def)
qed

end
