(* ===== verification/Api_Wire.thy ===== *)
theory Api_Wire
  imports Api_Laws Go_Json_Print Resolver
begin

text \<open>
  The HTTP API as its clients see it: the JSON text of the responses (\<open>writeJSON\<close> with the tags of
  the Go structs), request bodies read through the limit of \<open>withRequestLimit\<close>, and the daemon as
  an HTTP server (\<open>serve\<close>). The first property types the responses: what a route may answer.
\<close>

section \<open>Responses as text\<close>

text \<open>A field with \<open>omitempty\<close> is left out when it is empty.\<close>

definition str_member :: "string \<Rightarrow> string \<Rightarrow> (string \<times> json) list" where
  "str_member k v = [(k, JStr v)]"

definition int_member :: "string \<Rightarrow> int \<Rightarrow> (string \<times> json) list" where
  "int_member k v = [(k, JNum (Itoa v))]"

definition opt_str :: "string \<Rightarrow> string \<Rightarrow> (string \<times> json) list" where
  "opt_str k v = (if v = '''' then [] else str_member k v)"

definition opt_int :: "string \<Rightarrow> int \<Rightarrow> (string \<times> json) list" where
  "opt_int k v = (if v = 0 then [] else int_member k v)"

definition view_json :: "JobView \<Rightarrow> json" where
  "view_json v = JObj (
     int_member ''id'' (v_ID v) @ str_member ''url'' (v_URL v) @ str_member ''site'' (v_Site v) @
     str_member ''out_dir'' (v_OutDir v) @ str_member ''name'' (v_Name v) @ str_member ''status'' (v_Status v) @
     opt_str ''filename'' (v_Filename v) @ opt_int ''size_bytes'' (v_SizeBytes v) @ int_member ''bytes_done'' (v_BytesDone v) @
     int_member ''download_speed'' (v_DownloadSpeed v) @ int_member ''eta_seconds'' (v_EtaSeconds v) @
     opt_str ''error'' (v_Error v) @ opt_str ''error_code'' (v_ErrorCode v) @
     str_member ''created_at'' (rfc3339 (v_CreatedAt v)) @ str_member ''updated_at'' (rfc3339 (v_UpdatedAt v)))"

definition strings_json :: "string list \<Rightarrow> json" where
  "strings_json ls = JArr (map JStr ls)"

text \<open>The list of events is a nil slice, written as \<open>null\<close>, when there are none; the other lists are
  never nil in the daemon. Keys of a map are written in their order.\<close>

fun payload_json :: "payload \<Rightarrow> json" where
  "payload_json PNone = JNull"
| "payload_json (PError msg) = JObj (str_member ''error'' msg)"
| "payload_json (PMeta m) = JObj ([(''out_dir_presets'', strings_json (OutDirPresets m))] @ opt_str ''version'' (Version m))"
| "payload_json (PJobs vs) = JArr (map view_json vs)"
| "payload_json (PJob v) = view_json v"
| "payload_json (PId i) = JObj (int_member ''id'' i)"
| "payload_json (PLines ls) = (if ls = [] then JNull else strings_json ls)"
| "payload_json PStatusOk = JObj (str_member ''status'' ''ok'')"
| "payload_json (PSettings st) = (case st of (c, m, b) \<Rightarrow>
     JObj ([(''auto_decrypt'', JBool b)] @ int_member ''concurrency'' c @ int_member ''max_attempts'' m))"
| "payload_json (PBrowse b) = JObj (str_member ''path'' (br_Path b) @ str_member ''parent'' (br_Parent b) @
     [(''dirs'', strings_json (br_Dirs b)), (''is_root'', JBool (br_IsRoot b))])"
| "payload_json (PMkdir path) = JObj ([(''ok'', JBool True)] @ str_member ''path'' path)"

definition response_text :: "response \<Rightarrow> string" where
  "response_text r = (case rs_body r of PNone \<Rightarrow> '''' | p \<Rightarrow> json_text (payload_json p) @ [CHR 0x0A])"

section \<open>Requests as text\<close>

definition maxRequestBodyBytes :: nat where
  "maxRequestBodyBytes = 1048576"

text \<open>The reader fails beyond the limit; what follows a complete value is not read. A body beyond the
  limit is taken to be well formed as far as it was read.\<close>

definition withRequestLimit :: "(string \<Rightarrow> error) \<Rightarrow> string \<Rightarrow> req_body" where
  "withRequestLimit json_error body =
     (case json_Decode (take maxRequestBodyBytes body) of
        Some j \<Rightarrow> Value j
      | None \<Rightarrow> if length body > maxRequestBodyBytes then TooLarge else Malformed (json_error body))"

text \<open>A client's request at the daemon. A URL that does not parse fails in the client. Redirects are
  not followed here: the requests of the command line client have clean paths.\<close>

definition serve :: "'e server \<Rightarrow> (string \<Rightarrow> error) \<Rightarrow> http_request \<Rightarrow> (('e api_ext, 'z) world_scheme, error + http_response) state" where
  "serve sr json_error rq =
     (case url_Parse (hq_URL rq) of
        Inl e \<Rightarrow> return (Inl e)
      | Inr u \<Rightarrow> do {
          r \<leftarrow> Handler sr \<lparr>rq_Method = hq_Method rq, rq_URL = u, rq_Body = withRequestLimit json_error (hq_Body rq)\<rparr>;
          return (Inr \<lparr>StatusCode = rs_code r, Body = response_text r\<rparr>)
        })"

section \<open>Types of responses\<close>

text \<open>What a good response to a request holds, by its route.\<close>

definition job_payload :: "string list \<Rightarrow> payload \<Rightarrow> bool" where
  "job_payload parts p =
     (if length parts = 1 then (\<exists>v. p = PJob v)
      else if parts ! 1 = ''events'' then (\<exists>ls. p = PLines ls)
      else p = PStatusOk)"

definition route_payload :: "request \<Rightarrow> payload \<Rightarrow> bool" where
  "route_payload rq p =
     (let path = Path (rq_URL rq) in
      if path = ''/meta'' then \<exists>m. p = PMeta m
      else if path = ''/jobs'' then (if rq_Method rq = ''GET'' then \<exists>vs. p = PJobs vs else \<exists>i. p = PId i)
      else if path = ''/jobs/clear'' \<or> path = ''/jobs/purge'' then p = PStatusOk
      else if HasPrefix path ''/jobs/'' then job_payload (split_on CHR ''/'' (TrimPrefix path ''/jobs/'')) p
      else if path = ''/api/settings'' then \<exists>s. p = PSettings s
      else if path = ''/api/browse/mkdir'' then \<exists>d. p = PMkdir d
      else path = ''/api/browse'' \<and> (\<exists>b. p = PBrowse b))"

definition response_ok :: "(payload \<Rightarrow> bool) \<Rightarrow> response \<Rightarrow> bool" where
  "response_ok good r \<longleftrightarrow>
     rs_code r = 200 \<and> good (rs_body r) \<or>
     rs_code r \<in> {301, 404, 405} \<and> rs_body r = PNone \<or>
     rs_code r \<in> {400, 403, 404, 409, 413, 500, 503} \<and> (\<exists>msg. rs_body r = PError msg)"

lemma response_ok_simps [simp]:
  "response_ok good (writeErr c e) \<longleftrightarrow> c \<in> {400, 403, 404, 409, 413, 500, 503} \<or> c = 200 \<and> good (PError (Error e))"
  "response_ok good (status_only c) \<longleftrightarrow> c \<in> {301, 404, 405} \<or> c = 200 \<and> good PNone"
  "response_ok good (writeQueueErr e)"
  by (auto simp: response_ok_def writeJSON_def writeErr_def status_only_def writeQueueErr_def statusForQueueErr_def)

lemma response_ok_200 [simp]: "good p \<Longrightarrow> response_ok good (writeJSON 200 p)"
  by (simp add: response_ok_def writeJSON_def)

lemma with_body_ok:
  "(\<And>x. response_ok good (result (k x) w)) \<Longrightarrow> response_ok good (result (with_body sr rq decode k) w)"
  by (auto simp: with_body_def split: req_body.split option.split)

lemmas handler_runs = result_bind final_bind

lemma jobs_ok:
  "response_ok (\<lambda>p. \<exists>m. p = PMeta m) (result (handleMeta sr rq) w)"
  "response_ok (\<lambda>p. if rq_Method rq = ''GET'' then \<exists>vs. p = PJobs vs else \<exists>i. p = PId i) (result (handleJobs sr rq) w)"
  "response_ok (\<lambda>p. p = PStatusOk) (result (handleJobsClear rq) w)"
  "response_ok (\<lambda>p. p = PStatusOk) (result (handleJobsPurge rq) w)"
  by (auto simp: handleMeta_def handleJobs_def add_job_def handleJobsClear_def handleJobsPurge_def clear_action_def handler_runs
      simp del: run_state_bind intro!: with_body_ok split: sum.split option.split)

lemma job_action_ok: "response_ok (\<lambda>p. p = PStatusOk) (result (job_action rq act) w)"
  by (auto simp: job_action_def handler_runs simp del: run_state_bind split: option.split)

lemma job_ok: "response_ok (job_payload (split_on CHR ''/'' (TrimPrefix (Path (rq_URL rq)) ''/jobs/''))) (result (handleJob sr rq) w)"
proof -
  let ?parts = "split_on CHR ''/'' (TrimPrefix (Path (rq_URL rq)) ''/jobs/'')"
  have action: "job_payload ?parts = (\<lambda>p. p = PStatusOk)" if "length ?parts \<noteq> 1" "?parts ! 1 \<noteq> ''events''"
    using that by (auto simp: job_payload_def)
  show ?thesis
  proof (cases "length ?parts \<noteq> 1 \<and> ?parts ! 1 \<noteq> ''events''")
    case True
    then show ?thesis
      unfolding handleJob_def Let_def using action
      by (auto simp: job_action_ok split: prod.split option.split)
  next
    case False
    then show ?thesis
      unfolding handleJob_def Let_def
      by (auto simp: job_payload_def job_events_def Let_def handler_runs simp del: run_state_bind split: prod.split option.split sum.split)
  qed
qed

lemma settings_ok_response: "response_ok (\<lambda>p. \<exists>s. p = PSettings s) (result (handleSettings sr rq) w)"
  by (auto simp: handleSettings_def update_settings_def settings_Get_def handler_runs simp del: run_state_bind
      intro!: with_body_ok split: option.split prod.split)

lemma directories_ok:
  "response_ok (\<lambda>p. \<exists>b. p = PBrowse b) (result (handleBrowse sr rq) w)"
  "response_ok (\<lambda>p. \<exists>d. p = PMkdir d) (result (handleBrowseMkdir sr rq) w)"
  by (auto simp: handleBrowse_def handleBrowseMkdir_def mkdir_def Let_def handler_runs simp del: run_state_bind
      intro!: with_body_ok split: sum.split option.split)

text \<open>
  C18. Responses are typed. Every request is answered, with one of three kinds of response: code 200 with
  the payload that belongs to the route and method; 301, 404 or 405 without a body; or one of the
  error codes 400, 403, 404, 409, 413, 500, 503 with an error message. So a client that has seen a
  code below 300 can rely on the type of the body.
\<close>

theorem Handler_typed: "response_ok (route_payload rq) (result (Handler sr rq) w)"
proof -
  have same: "route_payload rq = good \<Longrightarrow> response_ok good r \<Longrightarrow> response_ok (route_payload rq) r" for good r by simp
  show ?thesis
    unfolding Handler_def Let_def
    by (auto intro!: same [OF _ jobs_ok(1)] same [OF _ jobs_ok(2)] same [OF _ jobs_ok(3)] same [OF _ jobs_ok(4)] same [OF _ job_ok]
        same [OF _ settings_ok_response] same [OF _ directories_ok(1)] same [OF _ directories_ok(2)]
        simp: route_payload_def HasPrefix_def)
qed

end
