(* ===== verification/Cli.thy ===== *)
theory Cli
  imports Go_Flag Go_Json_Print Resolver
begin

text \<open>
  cmd/dlq: the command line client. A command works on a state of what has been printed and of the
  network behind the HTTP client; it returns the exit code of the process. Parameters are the
  environment, the transport of HTTP requests, the standard input and the files, the passing of
  time, the order in which Go enumerates a map, and the errors of package json. What is printed is
  a list of texts and of tables; of a table it is the text with tabs that goes into the
  \<open>tabwriter\<close>, the alignment of its columns is left out.
\<close>

section \<open>State\<close>

datatype chunk = Text string | Table "string list"

record 'n cli =
  cl_Out :: "chunk list"
  cl_Net :: 'n

text \<open>An input: what can be read of it and the error reading ends with, if any.\<close>

type_synonym input = "string \<times> error option"

record 'n cli_env =
  ce_Environ :: "string list"
  ce_version :: string
  ce_Do :: "http_request \<Rightarrow> ('n, error + http_response) state"
  ce_Stdin :: input
  ce_Open :: "string \<Rightarrow> error + input"
  ce_Sleep :: "int \<Rightarrow> 'n \<Rightarrow> 'n"
  ce_range :: "string list \<Rightarrow> string list"
  ce_json_error :: "string \<Rightarrow> error"

type_synonym 'n command = "('n cli, int) state"

definition emit :: "chunk \<Rightarrow> ('n cli, unit) state" where
  "emit c = State (\<lambda>s. ((), s\<lparr>cl_Out := cl_Out s @ [c]\<rparr>))"

definition Println :: "string \<Rightarrow> ('n cli, unit) state" where
  "Println s = emit (Text (s @ [CHR 0x0A]))"

definition on_net :: "('n, 'a) state \<Rightarrow> ('n cli, 'a) state" where
  "on_net m = State (\<lambda>s. case run_state m (cl_Net s) of (x, w) \<Rightarrow> (x, s\<lparr>cl_Net := w\<rparr>))"

definition print_error :: "error \<Rightarrow> 'n command" where
  "print_error e = do { Println (''error: '' @ Error e); return 0 }"

section \<open>HTTP client\<close>

text \<open>Decoding a response: into untyped values, into text values, into lists.\<close>

definition decode_map :: "json \<Rightarrow> (string \<times> iface) list option" where
  "decode_map j =
     (case j of
        JNull \<Rightarrow> Some []
      | JObj _ \<Rightarrow> (case to_iface j of Some (IObj ms) \<Rightarrow> Some (map_entries ms) | _ \<Rightarrow> None)
      | _ \<Rightarrow> None)"

definition decode_string_map :: "json \<Rightarrow> (string \<times> string) list option" where
  "decode_string_map j =
     (case j of
        JNull \<Rightarrow> Some []
      | JObj ms \<Rightarrow> map_option map_entries
          (those (map (\<lambda>(k, v). map_option (Pair k) (string_field (\<lambda>t _. t) v '''')) ms))
      | _ \<Rightarrow> None)"

definition decode_list :: "(json \<Rightarrow> 'a option) \<Rightarrow> json \<Rightarrow> 'a list option" where
  "decode_list f j = (case j of JNull \<Rightarrow> Some [] | JArr vs \<Rightarrow> those (map f vs) | _ \<Rightarrow> None)"

definition readHTTPError :: "http_response \<Rightarrow> error" where
  "readHTTPError resp =
     (let code = ''http '' @ Itoa (StatusCode resp) in
      case Option.bind (json_Decode (Body resp)) decode_string_map of
        Some m \<Rightarrow> (case map_of m ''error'' of
            Some msg \<Rightarrow> if msg \<noteq> '''' then ErrNew (code @ '': '' @ msg) else ErrNew code
          | None \<Rightarrow> ErrNew code)
      | None \<Rightarrow> ErrNew code)"

definition decode_response :: "'n cli_env \<Rightarrow> (json \<Rightarrow> 'a option) \<Rightarrow> http_response \<Rightarrow> error + 'a" where
  "decode_response ce decode resp =
     (case Option.bind (json_Decode (Body resp)) decode of
        Some x \<Rightarrow> Inr x
      | None \<Rightarrow> Inl (ce_json_error ce (Body resp)))"

definition getJSON :: "'n cli_env \<Rightarrow> string \<Rightarrow> (json \<Rightarrow> 'a option) \<Rightarrow> ('n cli, error + 'a) state" where
  "getJSON ce url decode = do {
     r \<leftarrow> on_net (ce_Do ce \<lparr>hq_Method = ''GET'', hq_URL = url, hq_ContentType = '''', hq_Body = ''''\<rparr>);
     return (case r of
         Inl e \<Rightarrow> Inl e
       | Inr resp \<Rightarrow>
           if StatusCode resp \<ge> 300 then Inl (readHTTPError resp) else decode_response ce decode resp)
   }"

text \<open>With \<open>decode = None\<close> (a nil \<open>out\<close>) the body of a good response is not read.\<close>

definition postJSON :: "'n cli_env \<Rightarrow> string \<Rightarrow> json \<Rightarrow> (json \<Rightarrow> 'a option) option \<Rightarrow> ('n cli, error + 'a option) state" where
  "postJSON ce url payload out = do {
     r \<leftarrow> on_net (ce_Do ce \<lparr>hq_Method = ''POST'', hq_URL = url, hq_ContentType = ''application/json'', hq_Body = json_text payload\<rparr>);
     return (case r of
         Inl e \<Rightarrow> Inl e
       | Inr resp \<Rightarrow>
           if StatusCode resp \<ge> 300 then Inl (readHTTPError resp)
           else (case out of
               None \<Rightarrow> Inr None
             | Some decode \<Rightarrow> (case decode_response ce decode resp of Inl e \<Rightarrow> Inl e | Inr x \<Rightarrow> Inr (Some x))))
   }"

section \<open>Views\<close>

record jobView =
  jv_ID :: int
  jv_URL :: string
  jv_Site :: string
  jv_OutDir :: string
  jv_Name :: string
  jv_Status :: string
  jv_Filename :: string
  jv_SizeBytes :: int
  jv_BytesDone :: int
  jv_DownloadSpeed :: int
  jv_EtaSeconds :: int
  jv_Error :: string
  jv_ErrorCode :: string
  jv_CreatedAt :: string
  jv_UpdatedAt :: string

definition zero_jobView :: jobView where
  "zero_jobView = \<lparr>jv_ID = 0, jv_URL = '''', jv_Site = '''', jv_OutDir = '''', jv_Name = '''', jv_Status = '''',
     jv_Filename = '''', jv_SizeBytes = 0, jv_BytesDone = 0, jv_DownloadSpeed = 0, jv_EtaSeconds = 0, jv_Error = '''',
     jv_ErrorCode = '''', jv_CreatedAt = '''', jv_UpdatedAt = ''''\<rparr>"

definition jobView_fields :: "(string \<times> jobView field) list" where
  "jobView_fields =
     [(''id'', int_field (\<lambda>v. jv_ID_update (\<lambda>_. v))), (''url'', string_field (\<lambda>v. jv_URL_update (\<lambda>_. v))),
      (''site'', string_field (\<lambda>v. jv_Site_update (\<lambda>_. v))), (''out_dir'', string_field (\<lambda>v. jv_OutDir_update (\<lambda>_. v))),
      (''name'', string_field (\<lambda>v. jv_Name_update (\<lambda>_. v))), (''status'', string_field (\<lambda>v. jv_Status_update (\<lambda>_. v))),
      (''filename'', string_field (\<lambda>v. jv_Filename_update (\<lambda>_. v))), (''size_bytes'', int_field (\<lambda>v. jv_SizeBytes_update (\<lambda>_. v))),
      (''bytes_done'', int_field (\<lambda>v. jv_BytesDone_update (\<lambda>_. v))),
      (''download_speed'', int_field (\<lambda>v. jv_DownloadSpeed_update (\<lambda>_. v))),
      (''eta_seconds'', int_field (\<lambda>v. jv_EtaSeconds_update (\<lambda>_. v))), (''error'', string_field (\<lambda>v. jv_Error_update (\<lambda>_. v))),
      (''error_code'', string_field (\<lambda>v. jv_ErrorCode_update (\<lambda>_. v))),
      (''created_at'', string_field (\<lambda>v. jv_CreatedAt_update (\<lambda>_. v))),
      (''updated_at'', string_field (\<lambda>v. jv_UpdatedAt_update (\<lambda>_. v)))]"

definition decode_jobs :: "json \<Rightarrow> jobView list option" where
  "decode_jobs = decode_list (\<lambda>j. decode_struct jobView_fields j zero_jobView)"

record metaView =
  mv_OutDirPresets :: "string list"
  mv_Version :: string

definition decode_lines :: "json \<Rightarrow> string list option" where
  "decode_lines = decode_list (\<lambda>j. string_field (\<lambda>t _. t) j '''')"

definition decode_meta :: "json \<Rightarrow> metaView option" where
  "decode_meta j = decode_struct
     [(''out_dir_presets'', \<lambda>v m. map_option (\<lambda>ls. m\<lparr>mv_OutDirPresets := ls\<rparr>) (decode_lines v)),
      (''version'', string_field (\<lambda>v. mv_Version_update (\<lambda>_. v)))] j \<lparr>mv_OutDirPresets = [], mv_Version = ''''\<rparr>"

section \<open>Formatting\<close>

definition displayStatus :: "jobView \<Rightarrow> string" where
  "displayStatus j = DisplayStatus (jv_Status j) (jv_Site j) (jv_URL j)"

definition shortURL :: "string \<Rightarrow> string" where
  "shortURL u = (if length u > 64 then take 61 u @ ''...'' else u)"

definition displayName :: "jobView \<Rightarrow> string" where
  "displayName j =
     (if jv_Filename j \<noteq> '''' then jv_Filename j
      else if jv_Name j \<noteq> '''' then jv_Name j else shortURL (jv_URL j))"

definition filePath :: "jobView \<Rightarrow> string" where
  "filePath j =
     (let name = (if jv_Filename j \<noteq> '''' then jv_Filename j else jv_Name j) in
      if name = '''' then shortURL (jv_URL j)
      else TrimRightFunc (\<lambda>c. c = CHR ''/'') (jv_OutDir j) @ ''/'' @ name)"

text \<open>Arithmetic on float64: a conversion or an operation rounds; these values do not overflow.\<close>

definition f64 :: "rat \<Rightarrow> rat" where
  "f64 x = (case round64 x of Some r \<Rightarrow> r | None \<Rightarrow> 0)"

definition units :: "string list" where
  "units = [''B'', ''KiB'', ''MiB'', ''GiB'', ''TiB'', ''PiB'']"

fun human_scale :: "nat \<Rightarrow> rat \<Rightarrow> nat \<Rightarrow> rat \<times> nat" where
  "human_scale 0 val idx = (val, idx)"
| "human_scale (Suc left) val idx = (if val \<ge> 1024 then human_scale left (val / 1024) (Suc idx) else (val, idx))"

definition humanBytes :: "int \<Rightarrow> string" where
  "humanBytes n =
     (case human_scale (length units - 1) (f64 (of_int n)) 0 of (val, idx) \<Rightarrow> fmt_f1 val @ units ! idx)"

definition formatProgress :: "int \<Rightarrow> int \<Rightarrow> string" where
  "formatProgress done totl =
     (if totl \<le> 0 then humanBytes done
      else let pct = f64 (f64 (f64 (of_int done) / f64 (of_int totl)) * 100) in
        humanBytes done @ '' / '' @ humanBytes totl @ '' ('' @ fmt_f1 pct @ ''%)'')"

definition hasActiveJobs :: "jobView list \<Rightarrow> bool" where
  "hasActiveJobs = list_ex (\<lambda>j. List.member [''queued'', ''resolving'', ''downloading'', ''paused'', ''decrypting''] (jv_Status j))"

definition formatSpeed :: "jobView \<Rightarrow> string" where
  "formatSpeed j =
     (if jv_Status j \<noteq> ''downloading'' \<or> jv_DownloadSpeed j \<le> 0 then ''-''
      else humanBytes (jv_DownloadSpeed j) @ ''/s'')"

text \<open>A \<open>time.Duration\<close> counts nanoseconds in an int64; \<open>Seconds\<close> is a float64.\<close>

definition second :: int where
  "second = 10 ^ 9"

definition duration_Seconds :: "int \<Rightarrow> rat" where
  "duration_Seconds d =
     f64 (of_int (d sdiv second) + f64 (of_int (d smod second) / of_int second))"

definition humanDuration :: "int \<Rightarrow> string" where
  "humanDuration d =
     (if d \<le> 0 then ''-''
      else let seconds = \<lfloor>duration_Seconds d\<rfloor>;
               h = seconds sdiv 3600; m = (seconds smod 3600) sdiv 60; s = seconds smod 60 in
        if h > 0 then Itoa h @ ''h'' @ fmt_02d m @ ''m''
        else if m > 0 then Itoa m @ ''m'' @ fmt_02d s @ ''s''
        else Itoa s @ ''s'')"

definition formatETA :: "jobView \<Rightarrow> string" where
  "formatETA j =
     (if jv_Status j \<noteq> ''downloading'' \<or> jv_EtaSeconds j \<le> 0 then ''-''
      else humanDuration (wrap64 (jv_EtaSeconds j * second)))"

definition tab :: string where
  "tab = [CHR 0x09]"

definition job_lines :: "jobView \<Rightarrow> string list" where
  "job_lines j =
     (let done = (if jv_BytesDone j = 0 \<and> List.member [''completed'', ''decrypting'', ''decrypt_failed''] (jv_Status j) \<and>
            jv_SizeBytes j > 0 then jv_SizeBytes j else jv_BytesDone j) in
      [Itoa (jv_ID j) @ tab @ displayStatus j @ tab @ formatProgress done (jv_SizeBytes j) @ tab @ formatSpeed j @ tab @
         formatETA j @ tab @ jv_OutDir j @ tab @ displayName j] @
      (if jv_ErrorCode j \<noteq> ''''
       then ['' '' @ tab @ '' '' @ tab @ '' '' @ tab @ '' '' @ tab @ '' '' @ tab @ '' '' @ tab @ ''  error: '' @ jv_ErrorCode j @
               '' ('' @ jv_Error j @ '')'']
       else []))"

definition printJobs :: "jobView list \<Rightarrow> ('n cli, unit) state" where
  "printJobs jobs =
     (if jobs = [] then Println ''No jobs.''
      else emit (Table ((''ID'' @ tab @ ''STATUS'' @ tab @ ''PROGRESS'' @ tab @ ''SPEED'' @ tab @ ''ETA'' @ tab @ ''OUT'' @ tab @ ''NAME/URL'') #
        concat (map job_lines jobs))))"

section \<open>Reading URLs\<close>

definition ErrTooLong :: error where
  "ErrTooLong = ErrNew ''bufio.Scanner: token too long''"

definition readURLs :: "input \<Rightarrow> error + string list" where
  "readURLs inp =
     (case scan_lines (1024 * 1024) (fst inp) of (ls, too_long) \<Rightarrow>
        if too_long then Inl ErrTooLong
        else (case snd inp of
            Some e \<Rightarrow> Inl e
          | None \<Rightarrow> Inr (filter (\<lambda>l. \<not> (l = '''' \<or> HasPrefix l ''#'')) (map TrimSpace ls))))"

fun read_files :: "(string \<Rightarrow> error + input) \<Rightarrow> string list \<Rightarrow> error + string list" where
  "read_files op [] = Inr []"
| "read_files op (f # fs) =
     (case op f of
        Inl e \<Rightarrow> Inl e
      | Inr inp \<Rightarrow> (case readURLs inp of
          Inl e \<Rightarrow> Inl e
        | Inr us \<Rightarrow> (case read_files op fs of Inl e \<Rightarrow> Inl e | Inr vs \<Rightarrow> Inr (us @ vs))))"

section \<open>dlq add\<close>

definition defaultAPI :: string where
  "defaultAPI = ''http://127.0.0.1:8099''"

definition apiBase :: "string list \<Rightarrow> string" where
  "apiBase env = (let v = Getenv env ''DLQ_API'' in if v \<noteq> '''' then v else defaultAPI)"

record addArgs =
  aa_urls :: "string list"
  aa_outDir :: string
  aa_name :: string
  aa_site :: string
  aa_archivePassword :: string
  aa_api :: string
  aa_files :: "string list"
  aa_useStdin :: bool

definition set_flag :: "string \<Rightarrow> string \<Rightarrow> addArgs \<Rightarrow> error + addArgs" where
  "set_flag key val a =
     (if key = ''--out'' then Inr (a\<lparr>aa_outDir := val\<rparr>)
      else if key = ''--name'' then Inr (a\<lparr>aa_name := val\<rparr>)
      else if key = ''--site'' then Inr (a\<lparr>aa_site := val\<rparr>)
      else if key = ''--archive-password'' then Inr (a\<lparr>aa_archivePassword := val\<rparr>)
      else if key = ''--password'' then Inr (a\<lparr>aa_archivePassword := val\<rparr>)
      else if key = ''--api'' then Inr (a\<lparr>aa_api := val\<rparr>)
      else if key = ''--file'' then Inr (a\<lparr>aa_files := aa_files a @ [val]\<rparr>)
      else Inl (ErrNew (''unknown flag '' @ key)))"

fun scan_args :: "string list \<Rightarrow> addArgs \<Rightarrow> error + addArgs" where
  "scan_args [] a = Inr a"
| "scan_args (arg # args) a =
     (if HasPrefix arg ''--'' then
        (if Contains arg ''='' then
           (case Cut arg CHR ''='' of (key, val, _) \<Rightarrow>
              (case set_flag key val a of Inl e \<Rightarrow> Inl e | Inr a' \<Rightarrow> scan_args args a'))
         else if arg = ''--stdin'' then scan_args args (a\<lparr>aa_useStdin := True\<rparr>)
         else (case args of
             [] \<Rightarrow> Inl (ErrNew (''missing value for '' @ arg))
           | val # args' \<Rightarrow> (case set_flag arg val a of Inl e \<Rightarrow> Inl e | Inr a' \<Rightarrow> scan_args args' a')))
      else scan_args args (a\<lparr>aa_urls := aa_urls a @ [arg]\<rparr>))"

definition no_args :: "string \<Rightarrow> addArgs" where
  "no_args api = \<lparr>aa_urls = [], aa_outDir = '''', aa_name = '''', aa_site = '''', aa_archivePassword = '''',
     aa_api = api, aa_files = [], aa_useStdin = False\<rparr>"

definition parseAddArgs :: "'n cli_env \<Rightarrow> string list \<Rightarrow> error + addArgs" where
  "parseAddArgs ce args =
     (case scan_args args (no_args (apiBase (ce_Environ ce))) of
        Inl e \<Rightarrow> Inl e
      | Inr a \<Rightarrow>
          (case (if aa_useStdin a then readURLs (ce_Stdin ce) else Inr []) of
             Inl e \<Rightarrow> Inl e
           | Inr us \<Rightarrow>
               (case read_files (ce_Open ce) (aa_files a) of
                  Inl e \<Rightarrow> Inl e
                | Inr vs \<Rightarrow> Inr (a\<lparr>aa_urls := aa_urls a @ us @ vs\<rparr>))))"

definition add_usage :: string where
  "add_usage = ''usage: dlq add <url> [<url2> ...] --out /data/downloads [--name optional] [--archive-password batch-pass]''"

definition add_payload :: "addArgs \<Rightarrow> string \<Rightarrow> json" where
  "add_payload a url = JObj [(''archive_password'', JStr (aa_archivePassword a)), (''name'', JStr (aa_name a)),
     (''out_dir'', JStr (aa_outDir a)), (''site'', JStr (aa_site a)), (''url'', JStr url)]"

definition entry :: "(string \<times> iface) list option \<Rightarrow> string \<Rightarrow> iface" where
  "entry resp k = (case Option.bind resp (\<lambda>m. map_of m k) of None \<Rightarrow> INil | Some v \<Rightarrow> v)"

definition add_url :: "'n cli_env \<Rightarrow> addArgs \<Rightarrow> string \<Rightarrow> ('n cli, bool) state" where
  "add_url ce a url = do {
     r \<leftarrow> postJSON ce (aa_api a @ ''/jobs'') (add_payload a url) (Some decode_map);
     case r of
       Inl e \<Rightarrow> do { Println (''error for '' @ url @ '': '' @ Error e); return True }
     | Inr resp \<Rightarrow> do {
         Println (''queued job id '' @ fmt_v (entry resp ''id'') @ '' ('' @ url @ '')'');
         return False
       }
   }"

fun add_urls :: "'n cli_env \<Rightarrow> addArgs \<Rightarrow> string list \<Rightarrow> bool \<Rightarrow> ('n cli, bool) state" where
  "add_urls ce a [] hadErr = return hadErr"
| "add_urls ce a (url # urls) hadErr = do { failed \<leftarrow> add_url ce a url; add_urls ce a urls (hadErr \<or> failed) }"

definition usage :: "('n cli, unit) state" where
  "usage = for_each Println [''DLQ - headless download queue CLI'', '''', ''Usage:'', ''  dlq <command> [options]'', '''', ''Core:'',
     ''  dlq add <url> [<url2> ...] --out /data/downloads [--name optional] [--site mega|webshare|http|https] [--archive-password batch-pass]'',
     ''  dlq add --file urls.txt --out /data/downloads'', ''  dlq add --stdin --out /data/downloads'',
     ''  dlq status [--watch] [--interval 1] [--status queued|resolving|downloading|paused|decrypting|completed|failed|decrypt_failed|deleted]  (paused shows as stopped for webshare)'',
     ''  dlq files'', ''  dlq logs <job_id> [--tail 50]'', ''  dlq info [--api http://127.0.0.1:8099]'', ''  dlq help'',
     ''  dlq version | dlq --version'', '''', ''Job Control:'', ''  dlq pause <job_id>'', ''  dlq resume <job_id>'',
     ''  dlq retry <job_id>'', ''  dlq remove <job_id>'', '''', ''Maintenance:'', ''  dlq clear      (clear completed jobs)'',
     ''  dlq purge      (delete all jobs and events)'', '''', ''Configuration:'',
     ''  dlq settings [--concurrency <1-10>] [--auto-decrypt <true|false>]'']"

definition cmdAdd :: "'n cli_env \<Rightarrow> string list \<Rightarrow> 'n command" where
  "cmdAdd ce args =
     (if List.member args ''-h'' \<or> List.member args ''--help'' then do { usage; return 0 }
      else case parseAddArgs ce args of
        Inl e \<Rightarrow> do { Println (''error: '' @ Error e); Println add_usage; return 0 }
      | Inr a \<Rightarrow>
          if aa_urls a = [] \<or> aa_outDir a = '''' then do { Println add_usage; return 0 }
          else if length (aa_urls a) > 1 \<and> aa_name a \<noteq> '''' then
            do { Println ''error: --name can only be used with a single URL''; return 0 }
          else do {
            hadErr \<leftarrow> add_urls ce a (aa_urls a) False;
            return (if hadErr then 1 else 0)
          })"

section \<open>Commands on jobs\<close>

definition with_flags :: "flags \<Rightarrow> string list \<Rightarrow> (flags \<Rightarrow> string list \<Rightarrow> 'n command) \<Rightarrow> 'n command" where
  "with_flags fl args k = (case flag_Parse fl args of Inl code \<Rightarrow> return code | Inr (fl', rest) \<Rightarrow> k fl' rest)"

definition api_flag :: "'n cli_env \<Rightarrow> string \<times> flagval" where
  "api_flag ce = (''api'', FStr (apiBase (ce_Environ ce)))"

definition count_status :: "jobView list \<Rightarrow> string \<Rightarrow> int" where
  "count_status jobs st = int (length (filter (\<lambda>j. jv_Status j = st) jobs))"

definition status_summary :: "jobView list \<Rightarrow> string" where
  "status_summary jobs =
     (let n = count_status jobs;
          active = n ''queued'' + n ''resolving'' + n ''downloading'' + n ''paused'' + n ''decrypting'';
          finished = n ''completed'' + n ''failed'' + n ''decrypt_failed'' in
      ''Jobs: '' @ Itoa (int (length jobs)) @ '' total | active: '' @ Itoa active @ '' (queued '' @ Itoa (n ''queued'') @
      '', resolving '' @ Itoa (n ''resolving'') @ '', downloading '' @ Itoa (n ''downloading'') @ '', paused/stopped '' @
      Itoa (n ''paused'') @ '', decrypting '' @ Itoa (n ''decrypting'') @ '') | done: '' @ Itoa finished @ '' (completed '' @
      Itoa (n ''completed'') @ '', failed '' @ Itoa (n ''failed'') @ '', decrypt_failed '' @ Itoa (n ''decrypt_failed'') @ '')'')"

definition status_url :: "flags \<Rightarrow> string" where
  "status_url fl =
     (let st = str_flag fl ''status'' in
      str_flag fl ''api'' @ ''/jobs'' @
      (if st \<noteq> '''' then ''?status='' @ st @ (if st = ''deleted'' then ''&include_deleted=1'' else '''') else ''''))"

definition clear_screen :: "flags \<Rightarrow> ('n cli, unit) state" where
  "clear_screen fl =
     (if bool_flag fl ''watch'' then emit (Text [CHR 0x1B, CHR ''['', CHR ''H'', CHR 0x1B, CHR ''['', CHR ''2'', CHR ''J''])
      else return ())"

text \<open>One round of the loop of \<open>cmdStatus\<close>; whether there is to be another.\<close>

definition status_round :: "'n cli_env \<Rightarrow> flags \<Rightarrow> ('n cli, bool) state" where
  "status_round ce fl = do {
     clear_screen fl;
     r \<leftarrow> getJSON ce (status_url fl) decode_jobs;
     case r of
       Inl e \<Rightarrow> do { _ \<leftarrow> print_error e; return False }
     | Inr jobs \<Rightarrow> do {
         Println (status_summary jobs);
         printJobs jobs;
         return (bool_flag fl ''watch'' \<and> hasActiveJobs jobs)
       }
   }"

definition interval :: "flags \<Rightarrow> int" where
  "interval fl = (if int_flag fl ''interval'' \<le> 0 then 1 else int_flag fl ''interval'')"

definition sleep :: "'n cli_env \<Rightarrow> flags \<Rightarrow> 'n cli \<Rightarrow> 'n cli" where
  "sleep ce fl s = s\<lparr>cl_Net := ce_Sleep ce (wrap64 (interval fl * second)) (cl_Net s)\<rparr>"

partial_function (option) status_loop :: "'n cli_env \<Rightarrow> flags \<Rightarrow> 'n cli \<Rightarrow> 'n cli option" where
  "status_loop ce fl s =
     (case run_state (status_round ce fl) s of (again, s') \<Rightarrow>
        if \<not> again then Some s' else status_loop ce fl (sleep ce fl s'))"

definition status_flags :: "'n cli_env \<Rightarrow> flags" where
  "status_flags ce = [(''status'', FStr ''''), api_flag ce, (''watch'', FBool False), (''interval'', FInt 1)]"

definition cmdStatus :: "'n cli_env \<Rightarrow> string list \<Rightarrow> 'n cli \<Rightarrow> (int \<times> 'n cli) option" where
  "cmdStatus ce args s =
     (case flag_Parse (status_flags ce) args of
        Inl code \<Rightarrow> Some (code, s)
      | Inr (fl, _) \<Rightarrow> map_option (Pair 0) (status_loop ce fl s))"

definition cmdFiles :: "'n cli_env \<Rightarrow> string list \<Rightarrow> 'n command" where
  "cmdFiles ce args = with_flags [api_flag ce] args (\<lambda>fl _. do {
     r \<leftarrow> getJSON ce (str_flag fl ''api'' @ ''/jobs?include_deleted=1'') decode_jobs;
     case r of
       Inl e \<Rightarrow> print_error e
     | Inr jobs \<Rightarrow>
         if jobs = [] then do { Println ''No jobs.''; return 0 }
         else do {
           emit (Table ((''ID'' @ tab @ ''STATUS'' @ tab @ ''PATH'' @ tab @ ''URL'') #
             map (\<lambda>j. Itoa (jv_ID j) @ tab @ displayStatus j @ tab @ filePath j @ tab @ jv_URL j) jobs));
           return 0
         }
   })"

definition cmdLogs :: "'n cli_env \<Rightarrow> string list \<Rightarrow> 'n command" where
  "cmdLogs ce args = with_flags [(''tail'', FInt 50), api_flag ce] args (\<lambda>fl rest.
     case rest of
       [] \<Rightarrow> do { Println ''usage: dlq logs <job_id>''; return 0 }
     | jid # _ \<Rightarrow> do {
         r \<leftarrow> getJSON ce (str_flag fl ''api'' @ ''/jobs/'' @ jid @ ''/events?limit='' @ Itoa (int_flag fl ''tail'')) decode_lines;
         case r of
           Inl e \<Rightarrow> print_error e
         | Inr ls \<Rightarrow> do { for_each Println ls; return 0 }
       })"

definition post_ok :: "'n cli_env \<Rightarrow> string \<Rightarrow> 'n command" where
  "post_ok ce url = do {
     r \<leftarrow> postJSON ce url (JObj []) (None :: (json \<Rightarrow> unit option) option);
     case r of Inl e \<Rightarrow> print_error e | Inr _ \<Rightarrow> do { Println ''ok''; return 0 }
   }"

definition runJobAction :: "'n cli_env \<Rightarrow> string list \<Rightarrow> string \<Rightarrow> 'n command" where
  "runJobAction ce args action = with_flags [api_flag ce] args (\<lambda>fl rest.
     case rest of
       [] \<Rightarrow> do { Println (''usage: dlq '' @ action @ '' <job_id>''); return 0 }
     | jid # _ \<Rightarrow> post_ok ce (str_flag fl ''api'' @ ''/jobs/'' @ jid @ ''/'' @ action))"

definition cmdRetry :: "'n cli_env \<Rightarrow> string list \<Rightarrow> 'n command" where
  "cmdRetry ce args = runJobAction ce args ''retry''"

definition cmdRemove :: "'n cli_env \<Rightarrow> string list \<Rightarrow> 'n command" where
  "cmdRemove ce args = runJobAction ce args ''remove''"

definition cmdPause :: "'n cli_env \<Rightarrow> string list \<Rightarrow> 'n command" where
  "cmdPause ce args = runJobAction ce args ''pause''"

definition cmdResume :: "'n cli_env \<Rightarrow> string list \<Rightarrow> 'n command" where
  "cmdResume ce args = runJobAction ce args ''resume''"

definition cmdClear :: "'n cli_env \<Rightarrow> string list \<Rightarrow> 'n command" where
  "cmdClear ce args = with_flags [api_flag ce] args (\<lambda>fl _. post_ok ce (str_flag fl ''api'' @ ''/jobs/clear''))"

definition cmdPurge :: "'n cli_env \<Rightarrow> string list \<Rightarrow> 'n command" where
  "cmdPurge ce args = with_flags [api_flag ce] args (\<lambda>fl _. post_ok ce (str_flag fl ''api'' @ ''/jobs/purge''))"

section \<open>Settings and information\<close>

text \<open>The entries of a map in the order in which Go happens to enumerate them.\<close>

definition print_entries :: "string \<Rightarrow> (string list \<Rightarrow> string list) \<Rightarrow> (string \<times> iface) list \<Rightarrow> ('n cli, unit) state" where
  "print_entries indent order m =
     for_each (\<lambda>k. Println (indent @ k @ '': '' @ fmt_v (entry (Some m) k))) (order (map fst m))"

definition settings_updates :: "flags \<Rightarrow> error + (string \<times> json) list" where
  "settings_updates fl =
     (let c = int_flag fl ''concurrency'';
          cs = (if c > 0 then [(''concurrency'', JNum (Itoa c))] else []);
          ad = str_flag fl ''auto-decrypt'' in
      if ad \<noteq> '''' then
        (case ParseBool ad of
           None \<Rightarrow> Inl (ErrNew ''--auto-decrypt must be true or false'')
         | Some b \<Rightarrow> Inr ((''auto_decrypt'', JBool b) # cs))
      else Inr cs)"

definition cmdSettings :: "'n cli_env \<Rightarrow> string list \<Rightarrow> 'n command" where
  "cmdSettings ce args = with_flags [api_flag ce, (''concurrency'', FInt 0), (''auto-decrypt'', FStr '''')] args (\<lambda>fl _.
     let url = str_flag fl ''api'' @ ''/api/settings'' in
     if int_flag fl ''concurrency'' = 0 \<and> str_flag fl ''auto-decrypt'' = '''' then do {
       r \<leftarrow> getJSON ce url decode_map;
       case r of
         Inl e \<Rightarrow> print_error e
       | Inr m \<Rightarrow> do { Println ''Current settings:''; print_entries ''  '' (ce_range ce) m; return 0 }
     }
     else case settings_updates fl of
       Inl e \<Rightarrow> print_error e
     | Inr [] \<Rightarrow> print_error (ErrNew ''no updates provided'')
     | Inr us \<Rightarrow> do {
         r \<leftarrow> postJSON ce url (JObj us) (Some decode_map);
         case r of
           Inl e \<Rightarrow> print_error e
         | Inr m \<Rightarrow> do {
             Println ''Settings updated:'';
             print_entries ''  '' (ce_range ce) (case m of None \<Rightarrow> [] | Some m \<Rightarrow> m);
             return 0
           }
       })"

definition cli_versionString :: "'n cli_env \<Rightarrow> string" where
  "cli_versionString ce = (if ce_version ce = '''' then ''dlq (dev)'' else ''dlq '' @ ce_version ce)"

definition print_meta :: "metaView \<Rightarrow> ('n cli, unit) state" where
  "print_meta m = do {
     Println '''';
     Println ''Server:'';
     Println ''  status: ok'';
     (if mv_Version m \<noteq> '''' then Println (''  version: '' @ mv_Version m) else return ());
     Println (''  out_dir_presets: '' @ Itoa (int (length (mv_OutDirPresets m))));
     for_each (\<lambda>p. Println (''    - '' @ p)) (mv_OutDirPresets m)
   }"

definition cmdInfo :: "'n cli_env \<Rightarrow> string list \<Rightarrow> 'n command" where
  "cmdInfo ce args = with_flags [api_flag ce] args (\<lambda>fl _. do {
     Println ''CLI:'';
     Println (''  version: '' @ cli_versionString ce);
     Println (''  api: '' @ str_flag fl ''api'');
     Println (case LookupEnv (ce_Environ ce) ''DLQ_API'' of
         Some v \<Rightarrow> ''  env.DLQ_API: '' @ v | None \<Rightarrow> ''  env.DLQ_API: (unset)'');
     r \<leftarrow> getJSON ce (str_flag fl ''api'' @ ''/meta'') decode_meta;
     case r of
       Inl e \<Rightarrow> do {
         Println '''';
         Println ''Server:'';
         Println (''  status: error ('' @ Error e @ '')'');
         return 0
       }
     | Inr m \<Rightarrow> do {
         print_meta m;
         st \<leftarrow> getJSON ce (str_flag fl ''api'' @ ''/api/settings'') decode_map;
         (case st of
            Inr (x # xs) \<Rightarrow> do { Println ''  settings:''; print_entries ''    '' sort (x # xs) }
          | _ \<Rightarrow> return ());
         return 0
       }
   })"

definition returns :: "'n command \<Rightarrow> 'n cli \<Rightarrow> (int \<times> 'n cli) option" where
  "returns c s = Some (run_state c s)"

definition cli_main :: "'n cli_env \<Rightarrow> string list \<Rightarrow> 'n cli \<Rightarrow> (int \<times> 'n cli) option" where
  "cli_main ce args =
     (case args of
        cmd # rest \<Rightarrow>
          if cmd = ''--version'' \<or> cmd = ''version'' then returns (do { Println (cli_versionString ce); return 0 })
          else if cmd = ''info'' then returns (cmdInfo ce rest)
          else if cmd = ''add'' then returns (cmdAdd ce rest)
          else if cmd = ''status'' then cmdStatus ce rest
          else if cmd = ''files'' then returns (cmdFiles ce rest)
          else if cmd = ''logs'' then returns (cmdLogs ce rest)
          else if cmd = ''retry'' then returns (cmdRetry ce rest)
          else if cmd = ''remove'' then returns (cmdRemove ce rest)
          else if cmd = ''clear'' then returns (cmdClear ce rest)
          else if cmd = ''purge'' then returns (cmdPurge ce rest)
          else if cmd = ''pause'' then returns (cmdPause ce rest)
          else if cmd = ''resume'' then returns (cmdResume ce rest)
          else if cmd = ''settings'' then returns (cmdSettings ce rest)
          else returns (do { usage; return 0 })
      | [] \<Rightarrow> returns (do { usage; return 0 }))"

end
