(* ===== verification/Cli_Laws.thy ===== *)
theory Cli_Laws
  imports Cli Go_Float
begin

text \<open>
  Properties of the command line client by itself: the arguments of \<open>dlq add\<close> are read as their
  grammar says, \<open>dlq status\<close> returns exactly when a round without active jobs comes, and durations
  are shown right up to the range of \<open>time.Duration\<close>.
\<close>

section \<open>The arguments of dlq add\<close>

text \<open>The grammar: URLs, options in one argument or in two, and \<open>--stdin\<close>.\<close>

datatype item = Url string | Option1 string string | Option2 string string | Stdin

fun render :: "item \<Rightarrow> string list" where
  "render (Url u) = [u]"
| "render (Option1 k v) = [k @ ''='' @ v]"
| "render (Option2 k v) = [k, v]"
| "render Stdin = [''--stdin'']"

fun item_ok :: "item \<Rightarrow> bool" where
  "item_ok (Url u) = (\<not> HasPrefix u ''--'')"
| "item_ok (Option1 k v) = (HasPrefix k ''--'' \<and> CHR ''='' \<notin> set k)"
| "item_ok (Option2 k v) = (HasPrefix k ''--'' \<and> CHR ''='' \<notin> set k \<and> k \<noteq> ''--stdin'')"
| "item_ok Stdin = True"

fun apply_item :: "item \<Rightarrow> addArgs \<Rightarrow> error + addArgs" where
  "apply_item (Url u) a = Inr (a\<lparr>aa_urls := aa_urls a @ [u]\<rparr>)"
| "apply_item (Option1 k v) a = set_flag k v a"
| "apply_item (Option2 k v) a = set_flag k v a"
| "apply_item Stdin a = Inr (a\<lparr>aa_useStdin := True\<rparr>)"

fun apply_items :: "item list \<Rightarrow> addArgs \<Rightarrow> error + addArgs" where
  "apply_items [] a = Inr a"
| "apply_items (i # is) a = (case apply_item i a of Inl e \<Rightarrow> Inl e | Inr a' \<Rightarrow> apply_items is a')"

lemma Contains_char: "Contains s [c] \<longleftrightarrow> c \<in> set s"
  by (auto simp: Contains_def sublist_def in_set_conv_decomp)

lemma HasPrefix_append: "HasPrefix k p \<Longrightarrow> HasPrefix (k @ v) p"
  by (simp add: HasPrefix_def)

lemma scan_args_item:
  assumes "item_ok i"
  shows "scan_args (render i @ args) a = (case apply_item i a of Inl e \<Rightarrow> Inl e | Inr a' \<Rightarrow> scan_args args a')"
  using assms by (cases i) (auto simp: Contains_char Cut_append_sep HasPrefix_append split: sum.split, auto simp: HasPrefix_def)

lemma scan_args_render:
  "list_all item_ok is \<Longrightarrow> scan_args (concat (map render is)) a = apply_items is a"
  by (induction "is" arbitrary: a) (simp_all add: scan_args_item split: sum.split)

text \<open>Whatever is accepted has been written by the grammar.\<close>

lemma set_flag_urls: "set_flag k v a = Inr a' \<Longrightarrow> aa_urls a' = aa_urls a"
  by (auto simp: set_flag_def split: if_splits)

lemma split_key:
  assumes "CHR ''='' \<in> set arg" and "HasPrefix arg ''--''"
  obtains k v where "arg = k @ ''='' @ v" and "CHR ''='' \<notin> set k" and "HasPrefix k ''--''"
proof -
  obtain k v where kv: "arg = k @ CHR ''='' # v" "CHR ''='' \<notin> set k" using assms(1) by (meson split_list_first)
  then have "HasPrefix k ''--''"
    using assms(2) by (cases k; cases "tl k") (auto simp: HasPrefix_def)
  then show thesis using that kv by simp
qed

lemma scan_args_accepts:
  "scan_args args a = Inr a' \<Longrightarrow> \<exists>is. list_all item_ok is \<and> concat (map render is) = args"
proof (induction args a rule: scan_args.induct)
  case (1 a)
  show ?case by (rule exI [of _ "[]"]) simp
next
  case (2 arg args a)
  have more: "\<exists>is. list_all item_ok is \<and> concat (map render is) = render i @ as"
    if "item_ok i" and "\<exists>is. list_all item_ok is \<and> concat (map render is) = as" for i as
  proof -
    from that(2) obtain "is" where "list_all item_ok is" "concat (map render is) = as" by blast
    with that(1) show ?thesis by (intro exI [of _ "i # is"]) simp
  qed
  show ?case
  proof (cases "HasPrefix arg ''--''")
    case False
    then show ?thesis using more [of "Url arg" args] 2 by simp
  next
    case dashes: True
    show ?thesis
    proof (cases "CHR ''='' \<in> set arg")
      case True
      then obtain k v where kv: "arg = k @ ''='' @ v" "CHR ''='' \<notin> set k" "HasPrefix k ''--''"
        using dashes by (rule split_key)
      then have cut: "Cut arg CHR ''='' = (k, v, True)" by (simp add: Cut_append_sep)
      from 2(5) dashes True obtain b where "set_flag k v a = Inr b" "scan_args args b = Inr a'"
        by (auto simp: Contains_char cut split: sum.splits)
      then have "\<exists>is. list_all item_ok is \<and> concat (map render is) = args"
        using 2(1) dashes True cut by (simp add: Contains_char)
      then show ?thesis using more [of "Option1 k v" args] kv by simp
    next
      case False
      note plain = this
      show ?thesis
      proof (cases "arg = ''--stdin''")
        case True
        then show ?thesis using more [of Stdin args] 2(2,5) by (simp add: Contains_char HasPrefix_def)
      next
        case False
        with 2(5) dashes plain obtain val args' b where args: "args = val # args'" and b: "set_flag arg val a = Inr b" "scan_args args' b = Inr a'"
          by (auto simp: Contains_char split: list.splits sum.splits)
        then have "\<exists>is. list_all item_ok is \<and> concat (map render is) = args'"
          using 2(3) dashes plain False by (simp add: Contains_char)
        then show ?thesis using more [of "Option2 arg val" args'] args dashes plain False by simp
      qed
    qed
  qed
qed

fun item_urls :: "item list \<Rightarrow> string list" where
  "item_urls [] = []"
| "item_urls (Url u # is) = u # item_urls is"
| "item_urls (_ # is) = item_urls is"

lemma apply_items_urls: "apply_items is a = Inr a' \<Longrightarrow> aa_urls a' = aa_urls a @ item_urls is"
  by (induction "is" arbitrary: a rule: item_urls.induct) (auto split: sum.splits dest: set_flag_urls)


section \<open>dlq status\<close>

definition again :: "'n cli_env \<Rightarrow> flags \<Rightarrow> 'n cli \<Rightarrow> bool" where
  "again ce fl s = fst (run_state (status_round ce fl) s)"

definition next_round :: "'n cli_env \<Rightarrow> flags \<Rightarrow> 'n cli \<Rightarrow> 'n cli" where
  "next_round ce fl s = sleep ce fl (snd (run_state (status_round ce fl) s))"

lemma status_loop_step:
  "status_loop ce fl s = (if again ce fl s then status_loop ce fl (next_round ce fl s) else Some (snd (run_state (status_round ce fl) s)))"
  by (subst status_loop.simps) (simp add: again_def next_round_def split: prod.split)

lemma status_loop_returns:
  "\<not> again ce fl ((next_round ce fl ^^ k) s) \<Longrightarrow> \<exists>s'. status_loop ce fl s = Some s'"
proof (induction k arbitrary: s)
  case (Suc k)
  then show ?case using Suc.IH [of "next_round ce fl s"] by (subst status_loop_step) (simp add: funpow_swap1)
qed (subst status_loop_step, simp)

lemma status_loop_stops:
  assumes ret: "status_loop ce fl s = Some s'"
  shows "\<exists>k. \<not> again ce fl ((next_round ce fl ^^ k) s)"
proof (rule status_loop.raw_induct [where P = "\<lambda>ce fl s s'. \<exists>k. \<not> again ce fl ((next_round ce fl ^^ k) s)", OF _ ret])
  fix loop ce fl s s'
  assume IH: "\<And>ce fl s s'. loop ce fl s = Some s' \<Longrightarrow> \<exists>k. \<not> again ce fl ((next_round ce fl ^^ k) s)"
    and eq: "(case run_state (status_round ce fl) s of (b, s') \<Rightarrow> if \<not> b then Some s' else loop ce fl (sleep ce fl s')) = Some s'"
  show "\<exists>k. \<not> again ce fl ((next_round ce fl ^^ k) s)"
  proof (cases "again ce fl s")
    case True
    with eq have "loop ce fl (next_round ce fl s) = Some s'" by (auto simp: again_def next_round_def split: prod.splits)
    then obtain k where "\<not> again ce fl ((next_round ce fl ^^ k) (next_round ce fl s))" using IH by blast
    then show ?thesis by (intro exI [of _ "Suc k"]) (simp add: funpow_swap1)
  qed (rule exI [of _ 0], simp)
qed


section \<open>Durations\<close>

text \<open>What is shown of a number of seconds: hours and minutes, minutes and seconds, or seconds.\<close>

definition duration_text :: "int \<Rightarrow> string" where
  "duration_text s =
     (if s < 60 then Itoa s @ ''s''
      else if s < 3600 then Itoa (s div 60) @ ''m'' @ fmt_02d (s mod 60) @ ''s''
      else Itoa (s div 3600) @ ''h'' @ fmt_02d (s mod 3600 div 60) @ ''m'')"

lemma duration_Seconds_int:
  assumes "0 < s" and "s < 2 ^ 53"
  shows "duration_Seconds (s * second) = of_int s"
proof -
  have "s * second sdiv second = s" "s * second smod second = 0"
    using assms(1) by (simp_all add: second_def signed_divide_int_def signed_modulo_int_def sgn_if)
  moreover have "f64 0 = 0" by (simp add: f64_def round64_def)
  ultimately show ?thesis using round64_int [OF assms] by (simp add: duration_Seconds_def f64_def)
qed

lemma duration_parts:
  assumes "0 < (s :: int)"
  shows "s sdiv 3600 = s div 3600" "s smod 3600 = s mod 3600" "s smod 60 = s mod 60" "(s mod 3600) sdiv 60 = (s mod 3600) div 60"
  using assms by (simp_all add: signed_divide_int_def signed_modulo_int_def sgn_if)

lemma humanDuration_seconds:
  assumes "0 < s" and "s < 2 ^ 53"
  shows "humanDuration (s * second) = duration_text s"
proof -
  have "\<not> s * second \<le> 0" using assms(1) by (simp add: second_def)
  then have shown: "humanDuration (s * second) =
      (if s div 3600 > 0 then Itoa (s div 3600) @ ''h'' @ fmt_02d (s mod 3600 div 60) @ ''m''
       else if s mod 3600 div 60 > 0 then Itoa (s mod 3600 div 60) @ ''m'' @ fmt_02d (s mod 60) @ ''s''
       else Itoa (s mod 60) @ ''s'')"
    by (simp add: humanDuration_def Let_def duration_Seconds_int [OF assms] duration_parts [OF assms(1)] del: mult_le_0_iff)
  consider "s < 60" | "60 \<le> s" "s < 3600" | "3600 \<le> s" by linarith
  then show ?thesis
  proof cases
    case 1
    then have "s div 3600 = 0" "s mod 3600 = s" "s mod 60 = s" "s div 60 = 0" using assms(1) by auto
    with 1 shown show ?thesis by (simp add: duration_text_def)
  next
    case 2
    then have "s div 3600 = 0" "s mod 3600 = s" "s div 60 > 0" by (auto simp: pos_imp_zdiv_pos_iff)
    with 2 shown show ?thesis by (simp add: duration_text_def)
  next
    case 3
    then have "s div 3600 > 0" by (simp add: pos_imp_zdiv_pos_iff)
    with 3 shown show ?thesis by (simp add: duration_text_def)
  qed
qed

theorem formatETA_in_range:
  assumes "jv_Status j = ''downloading''" and "0 < jv_EtaSeconds j" and "jv_EtaSeconds j \<le> 9223372036"
  shows "formatETA j = duration_text (jv_EtaSeconds j)"
proof -
  have "in_int64 (jv_EtaSeconds j * second)" using assms(2,3) by (simp add: in_int64_def second_def)
  then have "wrap64 (jv_EtaSeconds j * second) = jv_EtaSeconds j * second" by (rule wrap64_id)
  then show ?thesis using assms humanDuration_seconds [of "jv_EtaSeconds j"] by (simp add: formatETA_def)
qed

text \<open>Beyond that the product in nanoseconds does not fit into an int64: a download that will take 293
  years (ten gigabytes at one byte a second) is shown as if nothing were known.\<close>

lemma formatETA_overflow: "formatETA (zero_jobView\<lparr>jv_Status := ''downloading'', jv_EtaSeconds := 9223372037\<rparr>) = ''-''"
  by code_simp

end
