(* ===== verification/Cli_Api.thy ===== *)
theory Cli_Api
  imports Api_Wire Cli_Laws
begin

text \<open>
  The command line client against the daemon's HTTP API: what the daemon writes the client reads, and
  \<open>dlq add\<close> from its arguments to the row in the database. Texts are ASCII here; for these the JSON
  encoder and decoder of the library are inverse to each other (theory Go_Json_Print).
\<close>

section \<open>Reading jobs\<close>

definition view_ok :: "JobView \<Rightarrow> bool" where
  "view_ok v \<longleftrightarrow> list_all ascii [v_URL v, v_Site v, v_OutDir v, v_Name v, v_Status v, v_Filename v, v_Error v, v_ErrorCode v] \<and>
     list_all in_int64 [v_ID v, v_SizeBytes v, v_BytesDone v, v_DownloadSpeed v, v_EtaSeconds v]"

text \<open>The same job in the client; its times are texts.\<close>

definition cli_view :: "JobView \<Rightarrow> jobView" where
  "cli_view v = \<lparr>jv_ID = v_ID v, jv_URL = v_URL v, jv_Site = v_Site v, jv_OutDir = v_OutDir v, jv_Name = v_Name v,
     jv_Status = v_Status v, jv_Filename = v_Filename v, jv_SizeBytes = v_SizeBytes v, jv_BytesDone = v_BytesDone v,
     jv_DownloadSpeed = v_DownloadSpeed v, jv_EtaSeconds = v_EtaSeconds v, jv_Error = v_Error v, jv_ErrorCode = v_ErrorCode v,
     jv_CreatedAt = rfc3339 (v_CreatedAt v), jv_UpdatedAt = rfc3339 (v_UpdatedAt v)\<rparr>"

lemma ascii_digits: "ascii (digits n x)"
proof (induction n arbitrary: x)
  case (Suc n)
  have "(of_char (digit_char (x mod 10)) :: nat) = 48 + x mod 10" by (simp add: of_char_digit_char)
  moreover have "x mod 10 < 10" by simp
  ultimately have "(of_char (digit_char (x mod 10)) :: nat) < 128" by linarith
  with Suc show ?case by simp
qed simp

lemma ascii_rfc3339 [simp]: "ascii (rfc3339 t)"
  by (simp add: rfc3339_def pad_def ascii_digits split: prod.split)

lemma printable_members_append [simp]: "printable_members (xs @ ys) \<longleftrightarrow> printable_members xs \<and> printable_members ys"
  by (induction xs) auto

lemma member_depths_append [simp]: "member_depths (xs @ ys) = max (member_depths xs) (member_depths ys)"
  by (induction xs) auto

lemma printable_member [simp]:
  "ascii k \<Longrightarrow> ascii v \<Longrightarrow> printable_members (str_member k v)" "ascii k \<Longrightarrow> printable_members (int_member k n)"
  "ascii k \<Longrightarrow> ascii v \<Longrightarrow> printable_members (opt_str k v)" "ascii k \<Longrightarrow> printable_members (opt_int k n)"
  by (auto simp: str_member_def int_member_def opt_str_def opt_int_def)

lemma member_depths_member [simp]:
  "member_depths (str_member k v) = 0" "member_depths (int_member k n) = 0"
  "member_depths (opt_str k v) = 0" "member_depths (opt_int k n) = 0"
  by (auto simp: str_member_def int_member_def opt_str_def opt_int_def)

lemma view_json_printable: "view_ok v \<Longrightarrow> printable (view_json v) \<and> depth (view_json v) = 1"
  by (simp add: view_ok_def view_json_def)

lemma jobs_json_printable: "list_all view_ok vs \<Longrightarrow> printables (map view_json vs) \<and> depths (map view_json vs) \<le> 1"
  by (induction vs) (simp_all add: view_json_printable)

lemma decode_view: "view_ok v \<Longrightarrow> decode_struct jobView_fields (view_json v) zero_jobView = Some (cli_view v)"
  by (simp add: view_ok_def view_json_def decode_struct_def str_member_def int_member_def opt_str_def opt_int_def
      jobView_fields_def field_of_def string_field_def int_field_def ParseInt_Itoa zero_jobView_def cli_view_def)

text \<open>
  C31. What the daemon lists the client reads: the text that the API writes for a list of jobs, of any
  length, is decoded by the client into the same jobs, field by field, the omitted empty fields
  included. So the names of the fields in the two programs agree.
\<close>

theorem cli_reads_jobs:
  assumes "list_all view_ok vs"
  shows "decode_response ce decode_jobs \<lparr>StatusCode = 200, Body = response_text (writeJSON 200 (PJobs vs))\<rparr> = Inr (map cli_view vs)"
proof -
  have "json_Decode (json_text (payload_json (PJobs vs)) @ [CHR 0x0A]) = Some (payload_json (PJobs vs))"
    by (rule Decode_json_text) (use jobs_json_printable [OF assms] in \<open>simp_all add: ends_number_def is_digit_def\<close>)
  moreover have "those (map (\<lambda>j. decode_struct jobView_fields j zero_jobView) (map view_json vs)) = Some (map cli_view vs)"
    using assms by (induction vs) (simp_all add: decode_view)
  ultimately show ?thesis
    by (simp add: decode_response_def response_text_def writeJSON_def decode_jobs_def decode_list_def)
qed

text \<open>A client of the sample daemon of theory Api_Laws, for trying the properties.\<close>

definition sample_ce :: "unit api_ext world cli_env" where
  "sample_ce = \<lparr>ce_Environ = [], ce_version = '''', ce_Do = serve sample_server ErrNew, ce_Stdin = ('''', None),
     ce_Open = (\<lambda>path. Inl (errOpen path)), ce_Sleep = (\<lambda>_ n. n), ce_range = id, ce_json_error = ErrNew\<rparr>"

definition sample_view :: JobView where
  "sample_view = \<lparr>v_ID = 3, v_URL = ''http://x/a&b'', v_Site = '''', v_OutDir = ''/data'', v_Name = '''', v_Status = ''queued'',
     v_Filename = '''', v_SizeBytes = 0, v_BytesDone = 0, v_DownloadSpeed = 0, v_EtaSeconds = 0, v_Error = '''', v_ErrorCode = '''',
     v_CreatedAt = 0, v_UpdatedAt = 0\<rparr>"

theorem cli_reads_jobs_witness:
  "view_ok sample_view \<and> decode_response sample_ce decode_jobs
     \<lparr>StatusCode = 200, Body = response_text (writeJSON 200 (PJobs [sample_view]))\<rparr> = Inr [cli_view sample_view]"
proof -
  have "view_ok sample_view" by (simp add: view_ok_def sample_view_def in_int64_def)
  then show ?thesis using cli_reads_jobs [of "[sample_view]" sample_ce] by simp
qed

text \<open>An error of the API is shown with its code and its text.\<close>

lemma cli_shows_error:
  assumes "ascii (Error e)" and "Error e \<noteq> ''''"
  shows "readHTTPError \<lparr>StatusCode = c, Body = response_text (writeErr c e)\<rparr> = ErrNew (''http '' @ Itoa c @ '': '' @ Error e)"
proof -
  have "json_Decode (json_text (payload_json (PError (Error e))) @ [CHR 0x0A]) = Some (payload_json (PError (Error e)))"
    by (rule Decode_json_text) (use assms(1) in \<open>simp_all add: str_member_def ends_number_def is_digit_def\<close>)
  then show ?thesis using assms(2)
    by (simp add: readHTTPError_def response_text_def writeErr_def writeJSON_def decode_string_map_def string_field_def str_member_def map_entries_def)
qed

section \<open>dlq add\<close>

lemma length_quote_byte: "length (quote_byte c) \<le> 6"
  by (simp add: quote_byte_def)

lemma length_quote_text: "ascii s \<Longrightarrow> length (quote_text s) \<le> 6 * length s"
proof (induction s)
  case (Cons c s)
  then show ?case using length_quote_byte [of c] by (simp add: quote_text_ascii)
qed simp

definition one_url :: "string \<Rightarrow> string \<Rightarrow> addArgs" where
  "one_url url dir = (no_args defaultAPI)\<lparr>aa_urls := [url], aa_outDir := dir\<rparr>"

lemma parse_one_url:
  assumes "Getenv (ce_Environ ce) ''DLQ_API'' = ''''" and "\<not> HasPrefix url ''--''"
  shows "parseAddArgs ce [url, ''--out'', dir] = Inr (one_url url dir)"
proof -
  have dashes: "HasPrefix ''--out'' ''--''" "\<not> Contains ''--out'' ''=''" by code_simp+
  show ?thesis
    using assms dashes by (simp add: parseAddArgs_def apiBase_def Let_def set_flag_def one_url_def no_args_def)
qed

lemma payload_read:
  assumes "ascii url" and "ascii dir" and "length url + length dir \<le> 100000"
  shows "withRequestLimit json_error (json_text (add_payload (one_url url dir) url)) = Value (add_payload (one_url url dir) url)"
proof -
  let ?j = "add_payload (one_url url dir) url"
  have "json_Decode (json_text ?j @ []) = Some ?j"
    by (rule Decode_json_text) (use assms(1,2) in \<open>simp_all add: add_payload_def one_url_def no_args_def\<close>)
  moreover have "length (json_text ?j) \<le> 6 * (length url + length dir) + 100"
    using length_quote_text [OF assms(1)] length_quote_text [OF assms(2)]
    by (simp add: add_payload_def one_url_def no_args_def json_quote_def quote_text_ascii quote_byte_def)
  ultimately show ?thesis using assms(3) by (simp add: withRequestLimit_def maxRequestBodyBytes_def)
qed

lemma decode_payload:
  "decode_add (add_payload (one_url url dir) url) = Some (empty_add\<lparr>aj_URL := url, aj_OutDir := dir\<rparr>)"
  by (simp add: decode_add_def add_payload_def one_url_def no_args_def decode_struct_def add_fields_def field_of_def
      string_field_def empty_add_def)

lemma read_id:
  assumes "0 < n" and "n < 2 ^ 53"
  shows "decode_response ce decode_map \<lparr>StatusCode = 200, Body = response_text (writeJSON 200 (PId n))\<rparr> = Inr [(''id'', IFloat (of_int n))]"
proof -
  have "json_Decode (json_text (payload_json (PId n)) @ [CHR 0x0A]) = Some (payload_json (PId n))"
    by (rule Decode_json_text) (simp_all add: ends_number_def is_digit_def)
  then show ?thesis
    using ParseFloat_Itoa [OF assms]
    by (simp add: decode_response_def response_text_def writeJSON_def decode_map_def int_member_def map_entries_def)
qed

lemma jobs_route:
  obtains u where "url_Parse (defaultAPI @ ''/jobs'') = Inr u" and "Path u = ''/jobs''"
proof -
  have "(case url_Parse (defaultAPI @ ''/jobs'') of Inl _ \<Rightarrow> '''' | Inr u \<Rightarrow> Path u) = ''/jobs''" by code_simp
  then show thesis using that by (cases "url_Parse (defaultAPI @ ''/jobs'')") auto
qed

text \<open>One request of the client, with the daemon behind it.\<close>

lemma add_url_daemon:
  fixes w :: "('e api_ext, 'z) world_scheme"
  assumes "wf_db w" and "quiet w" and "ce_Do ce = serve sr json_error"
    and "url \<noteq> ''''" and "ascii url" and "ascii dir" and "length url + length dir \<le> 100000"
    and "cleanOutDir dir (sv_allowedRoots (sr_Queue sr)) = Inr c" and "JobSeq w + 1 < 2 ^ 53" and "cl_Net s = w"
  shows "\<exists>w' k. run_state (add_url ce (one_url url dir) url) s =
      (False, s\<lparr>cl_Out := cl_Out s @ [Text (''queued job id '' @ Itoa (JobSeq w + 1) @ '' ('' @ url @ '')'' @ [CHR 0x0A])], cl_Net := w'\<rparr>) \<and>
    lookup_job (JobSeq w + 1) w' = Some k \<and> URL k = url \<and> OutDir k = c \<and> Status k = StatusQueued"
proof -
  obtain u where u: "url_Parse (defaultAPI @ ''/jobs'') = Inr u" "Path u = ''/jobs''" using jobs_route .
  let ?j = "add_payload (one_url url dir) url" and ?req = "empty_add\<lparr>aj_URL := url, aj_OutDir := dir\<rparr>"
  let ?rq = "\<lparr>rq_Method = ''POST'', rq_URL = u, rq_Body = withRequestLimit json_error (json_text ?j)\<rparr>"
  have body: "rq_Body ?rq = Value ?j" using payload_read [OF assms(5-7)] by simp
  have clean: "mux_cleanPath ''/jobs'' = ''/jobs''" by code_simp
  have route: "(Handler sr ?rq :: ('e, 'z) handler) = handleJobs sr ?rq" using u(2) clean by (simp add: Handler_def)
  have "cleanUserFilename '''' = Inr ''''" by code_simp
  then have "result (handleJobs sr ?rq) w = writeJSON 200 (PId (JobSeq w + 1)) \<and>
      (\<exists>k. lookup_job (JobSeq w + 1) (final (handleJobs sr ?rq) w) = Some k \<and> URL k = url \<and> OutDir k = Clean dir \<and> Status k = StatusQueued)"
    using add_job_outcome [OF assms(1,2) _ body decode_payload, of sr] assms(4,8) by (auto simp: empty_add_def writeJSON_def)
  then obtain k where run: "result (handleJobs sr ?rq) w = writeJSON 200 (PId (JobSeq w + 1))"
      and k: "lookup_job (JobSeq w + 1) (final (handleJobs sr ?rq) w) = Some k" "URL k = url" "OutDir k = Clean dir" "Status k = StatusQueued"
    by blast
  have seq: "0 < JobSeq w + 1" using assms(1) by (simp add: wf_db_def)
  have dir: "Clean dir = c" using assms(8) by (simp add: cleanOutDir_Inr_iff)
  have api: "aa_api (one_url url dir) @ ''/jobs'' = defaultAPI @ ''/jobs''" by (simp add: one_url_def no_args_def)
  have served: "run_state (serve sr json_error \<lparr>hq_Method = ''POST'', hq_URL = defaultAPI @ ''/jobs'', hq_ContentType = ''application/json'',
      hq_Body = json_text ?j\<rparr>) w = (Inr \<lparr>StatusCode = 200, Body = response_text (writeJSON 200 (PId (JobSeq w + 1)))\<rparr>, final (handleJobs sr ?rq) w)"
    using u(1) route run by (simp add: serve_def run_state_bind_beta writeJSON_def del: run_state_bind)
  have printed: "fmt_v (entry (Some [(''id'', IFloat (of_int (JobSeq w + 1)))]) ''id'') = Itoa (JobSeq w + 1)"
    using fmt_float_int [OF seq assms(9)] by (simp add: entry_def)
  show ?thesis
    using served printed k dir read_id [OF seq assms(9), of ce]
    by (intro exI [of _ "final (handleJobs sr ?rq) w"] exI [of _ k]) (simp add: add_url_def postJSON_def assms(3,10) api on_net_def run_state_bind_beta Println_def emit_def del: run_state_bind)
qed

text \<open>
  C8. From the command line to the queue: \<open>dlq add <url> --out <dir>\<close>, run against a daemon whose database
  works, with a directory inside a configured volume, exits with code 0, prints one line with the
  identifier of the new job, and leaves a queued job with that identifier, URL and directory. The
  argument parser, the JSON texts on the wire, the route, the checks of the queue and the insertion
  are those of the models of the two programs.
\<close>

theorem dlq_add_queues:
  fixes w :: "('e api_ext, 'z) world_scheme"
  assumes "wf_db w" and "quiet w" and "ce_Do ce = serve sr json_error" and "Getenv (ce_Environ ce) ''DLQ_API'' = ''''"
    and "url \<noteq> ''''" and "\<not> HasPrefix url ''--''" and "url \<noteq> ''-h''"
    and "ascii url" and "ascii dir" and "length url + length dir \<le> 100000"
    and "cleanOutDir dir (sv_allowedRoots (sr_Queue sr)) = Inr c" and "JobSeq w + 1 < 2 ^ 53"
  shows "\<exists>w' k. cli_main ce [''add'', url, ''--out'', dir] \<lparr>cl_Out = [], cl_Net = w\<rparr> =
      Some (0, \<lparr>cl_Out = [Text (''queued job id '' @ Itoa (JobSeq w + 1) @ '' ('' @ url @ '')'' @ [CHR 0x0A])], cl_Net = w'\<rparr>) \<and>
    lookup_job (JobSeq w + 1) w' = Some k \<and> URL k = url \<and> OutDir k = c \<and> Status k = StatusQueued"
proof -
  have "IsAbs dir" using assms(11) by (simp add: cleanOutDir_Inr_iff)
  then have dir: "dir \<noteq> ''-h''" "dir \<noteq> ''--help''" "dir \<noteq> ''''" by (auto simp: IsAbs_def HasPrefix_def)
  have url: "url \<noteq> ''--help''" using assms(6) by (auto simp: HasPrefix_def)
  have args: "\<not> List.member [url, ''--out'', dir] ''-h''" "\<not> List.member [url, ''--out'', dir] ''--help''"
    using dir url assms(7) by auto
  have add: "run_state (cmdAdd ce [url, ''--out'', dir]) s =
      (case run_state (add_url ce (one_url url dir) url) s of (failed, s') \<Rightarrow> (if failed then 1 else 0, s'))" for s
    using args dir(3) parse_one_url [OF assms(4,6), of dir]
    by (simp add: cmdAdd_def one_url_def no_args_def run_state_bind_beta case_prod_beta del: run_state_bind)
  let ?s = "\<lparr>cl_Out = [], cl_Net = w\<rparr>"
  obtain w' k where run: "run_state (add_url ce (one_url url dir) url) ?s =
        (False, \<lparr>cl_Out = [Text (''queued job id '' @ Itoa (JobSeq w + 1) @ '' ('' @ url @ '')'' @ [CHR 0x0A])], cl_Net = w'\<rparr>)"
      and k: "lookup_job (JobSeq w + 1) w' = Some k" "URL k = url" "OutDir k = c" "Status k = StatusQueued"
    using add_url_daemon [OF assms(1-3,5,8-12), of ?s] by auto
  have "cli_main ce [''add'', url, ''--out'', dir] ?s = Some (run_state (cmdAdd ce [url, ''--out'', dir]) ?s)"
    by (simp add: cli_main_def returns_def)
  then show ?thesis using k unfolding add run by (intro exI [of _ w'] exI [of _ k]) simp
qed

theorem dlq_add_queues_witness:
  "\<exists>w' k. cli_main sample_ce [''add'', ''http://x/y'', ''--out'', ''/data/tv''] \<lparr>cl_Out = [], cl_Net = api_world []\<rparr> =
      Some (0, \<lparr>cl_Out = [Text (''queued job id 1 (http://x/y)'' @ [CHR 0x0A])], cl_Net = w'\<rparr>) \<and>
    lookup_job 1 w' = Some k \<and> URL k = ''http://x/y'' \<and> OutDir k = ''/data/tv'' \<and> Status k = StatusQueued"
proof -
  have "wf_db (api_world [])" "quiet (api_world [])" and seq: "JobSeq (api_world []) = 0"
    by (simp_all add: wf_db_def quiet_def api_world_def)
  moreover have "cleanOutDir ''/data/tv'' (sv_allowedRoots (sr_Queue sample_server)) = Inr ''/data/tv''"
      "\<not> HasPrefix ''http://x/y'' ''--''" "Getenv (ce_Environ sample_ce) ''DLQ_API'' = ''''" "Itoa 1 = ''1''"
    by code_simp+
  moreover have "ce_Do sample_ce = serve sample_server ErrNew" by (simp add: sample_ce_def)
  ultimately show ?thesis
    using dlq_add_queues [of "api_world []" sample_ce sample_server ErrNew "''http://x/y''" "''/data/tv''" "''/data/tv''"] by simp
qed

end
