(* ===== verification/Runner_Idle.thy ===== *)
theory Runner_Idle
  imports Runner_Laws
begin

text \<open>
  The jobs that the runner leaves alone. A tick works through four lists: the active downloads, the
  pending post-processings, the failed jobs to try again and the queued jobs. A job in none of them
  is not touched, however many ticks run. For a paused or removed job that is what is meant; a job
  that was left in \<open>resolving\<close>, by a stop of the daemon or by a failing statement in the middle of
  \<open>resolveAndStart\<close>, is never taken up again by itself.
\<close>

section \<open>Work on other jobs\<close>

definition same_row :: "int \<Rightarrow> 'z db_scheme \<Rightarrow> 'z db_scheme \<Rightarrow> bool" where
  "same_row i s s' \<longleftrightarrow> lookup_job i s' = lookup_job i s"

interpretation others: daemon_worker_contract "same_row i" "\<lambda>x. x \<noteq> i" for i
proof unfold_locales
  fix s :: "('a, 'b) daemon_scheme" and x and f :: "job \<Rightarrow> job"
  assume "x \<noteq> i" and "\<And>j. work_step j (f j)"
  then show "same_row i s (update_job x f s)"
    using work_step_row_step row_step_ID by (auto simp: same_row_def lookup_update_job)
qed (auto simp: same_row_def lookup_job_def)

lemma requeue_job_others:
  "x \<noteq> i \<Longrightarrow> state_io_rel (same_row i) (requeue_job x :: (('e, 'z) daemon_scheme, unit) state)"
  unfolding requeue_job_def Requeue_def update_row_def
  by (intro others.keeps_control others.keeps_time_now others.keeps_sql_exec others.keeps_own)
    (auto simp: same_row_def lookup_update_job)

section \<open>Idle jobs\<close>

definition idle_row :: "job \<Rightarrow> bool" where
  "idle_row j \<longleftrightarrow> DeletedAt j \<noteq> None \<or> Status j \<in> {StatusResolving, StatusPaused, StatusDecryptFail} \<or>
     Status j = StatusFailed \<and> MaxAttempts j \<le> Attempts j"

lemma idle_row_not_listed:
  assumes "idle_row j"
  shows "\<not> list_filter (status_text StatusDownloading) False j" "\<not> pending_filter j" "\<not> retryable now j" "\<not> claimable now j"
  using assms by (auto simp: idle_row_def list_filter_def pending_filter_def retryable_def claimable_def)

definition holds_idle :: "int \<Rightarrow> job \<Rightarrow> 'z db_scheme \<Rightarrow> bool" where
  "holds_idle i k s \<longleftrightarrow> wf_db s \<and> lookup_job i s = Some k \<and> idle_row k"

lemma holds_idle_step: "holds_idle i k s \<Longrightarrow> same_row i s s' \<Longrightarrow> wf_db s' \<Longrightarrow> holds_idle i k s'"
  by (simp add: holds_idle_def same_row_def)

lemma holds_idle_run:
  assumes "holds_idle i k s" and "same_row i s (final m s)" and "state_io_rel (\<lambda>s s'. wf_db s \<longrightarrow> wf_db s') m"
  shows "holds_idle i k (final m s)"
  using assms(1,2) state_io_relE [OF assms(3), of s] by (simp add: holds_idle_def same_row_def)

lemma holds_idle_listed:
  assumes "holds_idle i k s" and "j \<in> set (Jobs s)" and "\<not> idle_row j"
  shows "ID j \<noteq> i"
proof
  assume "ID j = i"
  moreover have "distinct (map ID (Jobs s))"
    using assms(1) by (simp add: holds_idle_def wf_db_def strict_sorted_iff)
  moreover have "k \<in> set (Jobs s)" "ID k = i" "idle_row k"
    using assms(1) by (auto simp: holds_idle_def dest: lookup_job_SomeD)
  ultimately have "j = k" using assms(2) by (auto simp: distinct_map dest: inj_onD)
  with \<open>idle_row k\<close> assms(3) show False by simp
qed

text \<open>The common form of the first three parts of a tick: list, then work through the list.\<close>

lemma listed_others:
  fixes q :: "(('e, 'z) daemon_scheme, error + 'a list) state"
  assumes "\<And>js x. result q s = Inr js \<Longrightarrow> x \<in> set js \<Longrightarrow> key x \<noteq> i" and "state_io_rel (same_row i) q"
    and "\<And>x. key x \<noteq> i \<Longrightarrow> state_io_rel (same_row i) (f x)"
  shows "same_row i s (final (do { jobs \<leftarrow> q; case jobs of Inl e \<Rightarrow> return (Some e) | Inr js \<Rightarrow> do { for_each f js; return None } }) s)"
proof -
  have first: "same_row i s (final q s)" using assms(2) by (rule state_io_relE)
  show ?thesis
  proof (cases "result q s")
    case (Inr js)
    have "state_io_rel (same_row i) (for_each f js)"
      using assms(1) [OF Inr] assms(3) by (intro others.keeps_for_each) auto
    then have "same_row i (final q s) (final (for_each f js) (final q s))" by (rule state_io_relE)
    with first Inr show ?thesis by (simp add: final_bind same_row_def del: run_state_bind)
  qed (use first in \<open>simp add: final_bind del: run_state_bind\<close>)
qed

lemma idle_not_listed:
  assumes "holds_idle i k s"
  shows "result (store_ListJobs (status_text StatusDownloading) False) s = Inr js \<Longrightarrow> x \<in> set js \<Longrightarrow> ID x \<noteq> i"
    and "result (ListPendingPostprocess n) s = Inr js \<Longrightarrow> x \<in> set js \<Longrightarrow> ID x \<noteq> i"
    and "result (ListRetryableFailed n) s = Inr is \<Longrightarrow> y \<in> set is \<Longrightarrow> y \<noteq> i"
proof -
  note row = holds_idle_listed [OF assms]
  show "ID x \<noteq> i" if "result (store_ListJobs (status_text StatusDownloading) False) s = Inr js" and "x \<in> set js"
    using that row idle_row_not_listed(1)
    by (fastforce simp: store_ListJobs_def run_sql_query order_by_id_def split: option.splits)
  show "ID x \<noteq> i" if "result (ListPendingPostprocess n) s = Inr js" and "x \<in> set js"
    using that row idle_row_not_listed(2)
    by (fastforce simp: ListPendingPostprocess_def run_sql_query order_by_id_def sql_limit_def dest!: in_set_takeD split: option.splits if_splits)
  show "y \<noteq> i" if "result (ListRetryableFailed n) s = Inr is" and "y \<in> set is"
    using that row idle_row_not_listed(3)
    by (fastforce simp: ListRetryableFailed_def run_sql_query time_now_def sql_limit_def dest!: in_set_takeD split: option.splits if_splits)
qed

lemma updateActive_idle: "holds_idle i k s \<Longrightarrow> same_row i s (final (updateActive r) s)"
  unfolding updateActive_def
  by (rule listed_others [where key = ID]) (auto dest: idle_not_listed(1) intro: others.keeps_reads others.keeps_update_active_job)

lemma dispatch_idle:
  assumes "holds_idle i k s"
  shows "same_row i s (final (dispatchCompletedDecrypt r) s)"
proof -
  have "same_row i s (final (do { jobs \<leftarrow> ListPendingPostprocess 100;
      case jobs of Inl e \<Rightarrow> return (Some e) | Inr js \<Rightarrow> do { for_each (dispatch_job r) js; return None } }) s)"
    using assms by (intro listed_others [where key = ID]) (auto dest: idle_not_listed(2) intro: others.keeps_reads others.keeps_dispatch_job)
  then show ?thesis by (simp add: dispatchCompletedDecrypt_def same_row_def)
qed

lemma requeueFailed_idle: "holds_idle i k (s :: ('e, 'z) daemon_scheme) \<Longrightarrow> same_row i s (final requeueFailed s)"
  unfolding requeueFailed_def
  by (rule listed_others [where key = id]) (auto dest: idle_not_listed(3) intro: others.keeps_reads requeue_job_others)

section \<open>Starting jobs\<close>

lemma start_turn_idle:
  fixes w :: "('e, 'z) daemon_scheme"
  assumes "holds_idle i k w"
  shows "same_row i w (final (start_turn r) w)"
proof (cases "result ClaimNextQueued w")
  case (Inl e)
  then have "Jobs (final ClaimNextQueued w) = Jobs w" using ClaimNextQueued_outcome [of w] by simp
  with Inl show ?thesis by (simp add: start_turn_def final_bind same_row_def lookup_job_def del: run_state_bind)
next
  case (Inr j)
  let ?w = "final ClaimNextQueued w"
  obtain l where l: "l \<in> set (Jobs w)" "claimable (ClockAt w (Step w)) l" "j = l\<lparr>Status := StatusResolving\<rparr>"
      and rows: "Jobs ?w = map (\<lambda>x. if ID x = ID l then row_Claim (ClockAt w (Step w)) x else x) (Jobs w)"
    using ClaimNextQueued_outcome [of w] Inr unfolding claimed_def by auto
  have own: "ID j \<noteq> i" using holds_idle_listed [OF assms l(1)] idle_row_not_listed(4) l(2,3) by auto
  have "lookup_job i ?w = lookup_job i (update_job (ID l) (row_Claim (ClockAt w (Step w))) w)"
    by (simp add: lookup_job_def rows update_job_def)
  also have "\<dots> = lookup_job i w"
    using own l(3) by (simp add: lookup_update_job row_Claim_def)
  finally have "same_row i w ?w" by (simp add: same_row_def)
  moreover have "state_io_rel (same_row i) (do { _ \<leftarrow> resolveAndStart r j; active \<leftarrow> countDownloading; return (Some active) } :: (('e, 'z) daemon_scheme, int option) state)"
    using own by (intro others.keeps_control others.keeps_resolveAndStart others.keeps_countDownloading)
  ultimately show ?thesis
    using Inr others.trans state_io_relE by (fastforce simp: start_turn_def final_bind simp del: run_state_bind)
qed

lemma start_loop_idle: "holds_idle i k w \<Longrightarrow> same_row i w (start_loop r active w)"
proof (induction r active w rule: start_loop.induct)
  case (1 r active w)
  obtain a w1 where turn: "run_state (start_turn r) w = (a, w1)" by fastforce
  have first: "same_row i w w1" using start_turn_idle [OF 1(2), of r] turn by simp
  have "wf_db w1" using state_io_relE [OF wfd.keeps_start_turn, of w r] turn 1(2) by (simp add: holds_idle_def)
  with first 1(2) have idle: "holds_idle i k w1" by (metis holds_idle_step)
  show ?case
  proof (cases "active < concurrency r (Ext w) \<and> a \<noteq> None")
    case True
    then obtain a' where a': "a = Some a'" by auto
    then have "same_row i w1 (start_loop r a' w1)" using True "1.IH" turn idle by metis
    with first show ?thesis
      using True turn a' by (simp add: start_loop.simps [of r active] same_row_def)
  next
    case False
    then show ?thesis using first turn by (auto simp: start_loop.simps [of r active] same_row_def)
  qed
qed

lemma tick_idle:
  fixes w :: "('e, 'z) daemon_scheme"
  assumes "holds_idle i k w"
  shows "holds_idle i k (final (tick r) w)"
proof -
  let ?w1 = "final (updateActive r) w"
  let ?w2 = "final (dispatchCompletedDecrypt r) ?w1"
  let ?w3 = "final requeueFailed ?w2"
  have 1: "holds_idle i k ?w1"
    by (rule holds_idle_run [OF assms updateActive_idle [OF assms] wfd.keeps_updateActive])
  have 2: "holds_idle i k ?w2"
    by (rule holds_idle_run [OF 1 dispatch_idle [OF 1] wfd.keeps_dispatchCompletedDecrypt])
  have 3: "holds_idle i k ?w3"
    by (rule holds_idle_run [OF 2 requeueFailed_idle [OF 2] wfd.keeps_requeueFailed])
  have 4: "holds_idle i k (final countDownloading ?w3)"
    by (rule holds_idle_run [OF 3 _ wfd.worker.keeps_countDownloading]) (simp add: same_row_def lookup_job_def)
  have "same_row i w (final (tick r) w)"
    using assms 4 start_loop_idle [OF 4] by (simp add: tick_def final_bind holds_idle_def same_row_def del: run_state_bind)
  then show ?thesis by (rule holds_idle_run [OF assms _ wfd.keeps_tick])
qed

text \<open>
  C17. A tick leaves the idle jobs alone: after any number of ticks, whatever the resolvers, the engine and
  the database answer, a job that is removed, paused, failed for good or failed in post-processing has
  the very row it had. The same holds of a job in \<open>resolving\<close>: when the daemon stops during
  \<open>resolveAndStart\<close>, or a statement fails there, the job is left in this status and no later tick
  resolves, fails or requeues it.
\<close>

theorem ticks_leave_idle:
  fixes w :: "('e, 'z) daemon_scheme"
  assumes "wf_db w" and "lookup_job i w = Some k" and "idle_row k"
  shows "lookup_job i (((\<lambda>w. final (tick r) w) ^^ n) w) = Some k"
proof -
  have "holds_idle i k (((\<lambda>w. final (tick r) w) ^^ n) w)"
    by (induction n) (simp_all add: holds_idle_def [of i k w] assms tick_idle)
  then show ?thesis by (simp add: holds_idle_def)
qed

theorem ticks_leave_idle_witness:
  "lookup_job 1 (((\<lambda>w. final (tick (sample_runner 2)) w) ^^ 7) (sample_daemon [row_Claim 5 (sample_job 1)])) =
     Some (row_Claim 5 (sample_job 1)) \<and> Status (row_Claim 5 (sample_job 1)) = StatusResolving"
proof -
  have job: "Status (row_Claim 5 (sample_job 1)) = StatusResolving" "ID (row_Claim 5 (sample_job 1)) = 1" by code_simp+
  have "wf_job (row_Claim 5 (sample_job 1))" by code_simp
  then have "wf_db (sample_daemon [row_Claim 5 (sample_job 1)])"
    using job by (simp add: wf_db_def sample_daemon_def)
  moreover have "lookup_job 1 (sample_daemon [row_Claim 5 (sample_job 1)]) = Some (row_Claim 5 (sample_job 1))"
    using job by (simp add: lookup_job_def)
  moreover have "idle_row (row_Claim 5 (sample_job 1))" using job by (simp add: idle_row_def)
  ultimately show ?thesis using ticks_leave_idle job by blast
qed

text \<open>How a job comes to be left there while the daemon runs: the first statement after resolving fails.\<close>

lemma start_resolved_fault:
  "FaultAt w (Step w) = Some e \<Longrightarrow> Jobs (final (start_resolved r job res) w) = Jobs w"
  by (simp add: start_resolved_def check_def UpdateResolving_def update_row_def time_now_def run_sql_exec Let_def)

end
