(* ===== verification/Spec2Isabelle.thy ===== *)
theory Spec2Isabelle
  imports Daemon_Main Cli_Api Runner_Idle
begin

text \<open>
  A verification development for DLQ, a headless download queue written in Go.

  \<^bold>\<open>The program.\<close> The daemon \<open>dlqd\<close> (src/cmd/dlqd) keeps jobs in an SQLite database (src/internal/db,
  src/internal/queue/store.go). Clients create and steer jobs through an HTTP API
  (src/internal/api/http.go), which calls the queue service (src/internal/queue/service.go). A
  background runner (src/internal/queue/runner.go) wakes every two seconds: it polls the downloads
  of the aria2 engine (src/internal/downloader/aria2.go), hands finished downloads to
  post-processing goroutines, requeues failed jobs whose time has come, and starts queued jobs up to
  a limit: a resolver (src/internal/resolver) turns the URL of the job into a target, and the engine
  is asked to fetch it. Post-processing decrypts MEGA downloads
  (src/internal/queue/mega_decryptor.go) and extracts archives
  (src/internal/queue/archive_decryptor.go). The client \<open>dlq\<close> (src/cmd/dlq) speaks to the API.

  \<^bold>\<open>Style.\<close> A method of the program is a program of the state monad with the calls of the source in
  their order; an error is a value of type \<open>error\<close>, in \<open>error option\<close> or in a sum. The database is the
  record \<open>db\<close>, with the clock and the failures of statements as functions of the number of the
  statement (\<open>ClockAt\<close>, \<open>FaultAt\<close>), so that every theorem about a reachable state holds for all clocks and
  all patterns of failures. What is outside the process is a field \<open>Ext\<close> of the state, on which the
  parameters (HTTP exchanges, archive tools, directories) act. Integers of type int64 are \<open>int\<close> with
  the ranges or the wrap-around written out where they matter; bytes are words.

  \<^bold>\<open>Language and library.\<close>
  \<^item> Go_Prelude: strings, strconv, errors with \<open>errors.Is\<close>; Go_Filepath: path/filepath; Go_Url: net/url;
    Go_Time: RFC 3339 time stamps; Go_Json and Go_Json_Print: encoding/json, with the proof that the
    decoder reads what the encoder writes; Go_Os: files with failing operations; Go_Flag: flags, the
    environment, printing; Go_Float: float64 values that are integers.
  \<^item> Effects: the state monad and the locale \<open>effect_contract\<close>, the root of all contracts.

  \<^bold>\<open>Components of the daemon.\<close>
  \<^item> Paths (paths.go): \<open>cleanOutDir\<close>, \<open>cleanUserFilename\<close>, \<open>sanitizeFilename\<close>. An accepted directory is a
    clean path inside a configured volume, and all those are accepted.
  \<^item> Store (store.go, schema of db.go): the record \<open>job\<close>, the tables, one definition per statement
    (\<open>row_MarkFailed\<close> is the change of the row, \<open>MarkFailed\<close> the method). The locales \<open>work_contract\<close>,
    \<open>store_contract\<close> and \<open>row_contract\<close> say what a relation on databases needs in order to be kept by
    every statement. Store_Laws: the invariant \<open>wf_db\<close>, claiming in order, frame conditions.
  \<^item> Db_Open (db.go): schema and migration.
  \<^item> Status (status.go): kinds of jobs and the status word shown.
  \<^item> Downloader (aria2.go, downloader.go): the JSON-RPC client down to the JSON text, with the classes of
    errors and the sequence of calls of \<open>Remove\<close>.
  \<^item> Service (service.go): \<open>CreateJob\<close>, \<open>Retry\<close>, \<open>Remove\<close>, \<open>Pause\<close>, \<open>Resume\<close> and the others; the locale
    \<open>queue_contract\<close>. Service_Laws: what is stored, what is logged, that a refused operation changes
    nothing. Event_Log: \<open>ListEvents\<close>.
  \<^item> Archive (archive_decryptor.go): multipart volumes and the extraction tools.
  \<^item> Mega_Crypto and Mega_Decryptor (mega_decryptor.go): keys, counter mode, the running MAC against the
    MAC of the whole file, and decryption through a temporary file, which is atomic and returns.
  \<^item> Runner and Runner_Loop (runner.go): all methods up to \<open>tick\<close>; the locales \<open>worker_contract\<close>,
    \<open>daemon_worker_contract\<close> and \<open>daemon_contract\<close>. Row_Logic: a calculus that follows one row through a
    method. Runner_Laws: the limit of downloads, that the capacity is used, the fate of a claimed
    job, polling. Runner_Idle: the jobs that no tick touches.
  \<^item> Decrypt_Pool (\<open>runDecrypt\<close> of runner.go): the goroutines with their semaphore as the step relation
    \<open>pool_step\<close>; they never block each other for good and finish.
  \<^item> Daemon_System: the step relation \<open>sys_step\<close> interleaves ticks, goroutines and operations of the API;
    the invariants of the tables, of the workers and of the output directories hold in all reachable
    states, and the workers finish from each of them. A tick and an operation of the API are one step
    each.
  \<^item> Resolver (resolver.go, mega.go, webshare.go): the registry and the three resolvers. Resolver_Laws:
    agreement with the decryptor on links, recovery of file names, refusals of the servers.
  \<^item> Settings (settings.go): loading, saving, updating, with the text of the file.
  \<^item> Api (http.go): all routes and handlers. Api_Laws: every request is a sequence of steps of \<open>sys_step\<close>,
    so that the invariants hold of the served daemon; the status codes of errors; the two checks of
    directories. Api_Wire: responses and request bodies as text, the types of responses.
  \<^item> Daemon_Main (cmd/dlqd/main.go): configuration from the environment and the wiring of the parts;
    settings that the API accepts are those the runner works with.

  \<^bold>\<open>The client.\<close> Cli (cmd/dlq): all commands with their flags, requests and output. Cli_Laws: the grammar of
  \<open>dlq add\<close>, when \<open>dlq status\<close> returns, durations. Cli_Api joins the client and the daemon: the client
  decodes the jobs that the API encodes, and \<open>dlq add\<close> from the arguments to the row in the database.

  \<^bold>\<open>Abstract specifications.\<close> \<open>sys_step\<close> is the specification that the HTTP handlers refine; \<open>row_step\<close> and
  \<open>work_step\<close> are that of the changes of a row; the reference MAC of Mega_Crypto is that of the running
  computation; the grammar of arguments in Cli_Laws is that of the parser.

  \<^bold>\<open>Bounds and fuel.\<close> The JSON parser has fuel \<open>2 * length + 2\<close>, two rounds for each byte, which is enough
  since of two rounds in sequence one uses up a byte; the 10000 levels of nesting are those of the
  library. The loops of the MAC are \<open>partial_function\<close>s and are proved to return, as is the whole
  decryption of a file, whose loop ends by the length that is left. The start loop of a tick terminates by the number of queued jobs. \<open>dlq status --watch\<close> may
  run forever, and its model says exactly when it does. Float64 arithmetic is rounding of exact
  rationals. ASCII is assumed of texts where encoder and decoder are composed.

  \<^bold>\<open>Not modelled.\<close> The Svelte user interface (src/ui) and the files for building and deployment are not Go
  and hold no logic of the queue. Of the Go code are left out: the process log, the listening socket
  with its timeouts, HTTP framing and redirects, the alignment of printed columns, symbolic links and
  file modes, cancellation of a context inside a database statement, and the internals of AES,
  encoding/xml, SQLite, aria2 and the archive tools, which are parameters.
\<close>

end
